(* ===== verification/Prelude.thy ===== *)
theory Prelude
  imports Main "HOL-Library.Sublist" "HOL-Library.AList"
begin

text \<open>
  Shared vocabulary of the development: Go's error values, Go's 64-bit \<open>int\<close>, and the
  shape every effectful function of the panel has. A Go function that returns \<open>(T, error)\<close>
  and changes some state \<open>'w\<close> is a value of type \<open>('w, 'a) go\<close>, that is
  \<open>'w \<Rightarrow> (go_err + 'a) \<times> 'w\<close>: the error or the result, and the state as the call
  left it. \<open>bindE\<close> is the statement pair \<open>x, err := f(); if err != nil { return err }\<close>;
  note that the state changed before an early return is kept, as it is in Go.

  The last section holds the small calculus the invariant proofs use: \<open>preserves I m\<close> says
  that the call \<open>m\<close> keeps \<open>I\<close> whatever it returns, and the collection
  \<open>preserves_intro\<close> breaks such a statement down along the code.
\<close>

section \<open>Proof collections\<close>

named_theorems preserves_intro \<open>introduction rules for invariants of effectful calls\<close>
named_theorems go_simps \<open>unfolding the plumbing of effectful calls\<close>

section \<open>Go values\<close>

text \<open>
  The error values of the program: the sentinel errors that handlers compare with
  \<open>errors.Is\<close> are constructors, \<open>fmt.Errorf\<close> and \<open>errors.New\<close> texts are
  \<open>ErrText\<close>, a device error of the RouterOS library is \<open>ErrDevice\<close> with its text,
  any other error of that library \<open>ErrTransport\<close> with its text, and the three constraint
  failures and the driver failure of the database are \<open>ErrUnique\<close>, \<open>ErrCheck\<close>,
  \<open>ErrForeignKey\<close> and \<open>ErrDriver\<close>. \<open>GoPanic\<close> is no error value: it marks the
  places where the Go code would panic (a nil dereference, a slice out of bounds).
\<close>

datatype go_err =
    ErrNotFound
  | ErrNameTaken
  | ErrUnavailable string
  | ErrProfileMissing
  | ErrNoRows
  | ErrDriver
  | ErrUnique
  | ErrCheck
  | ErrForeignKey
  | ErrRandom
  | ErrToken
  | ErrBcrypt
  | ErrNotExist
  | ErrDevice string
  | ErrTransport string
  | ErrText string
  | GoPanic
  | AppQuotaExceeded
  | AppNameTaken
  | AppNotOwner
  | AppOrphanNoOwner
  | AppOwnerDBMismatch
  | AppInvalidCertTitle

text \<open>Go's \<open>int\<close> and \<open>int64\<close>: 64 bits, two's complement, wrapping arithmetic.\<close>

definition i64 :: "int \<Rightarrow> int" where
  "i64 x = signed_take_bit 63 x"

definition in_i64 :: "int \<Rightarrow> bool" where
  "in_i64 x \<longleftrightarrow> - (2 ^ 63) \<le> x \<and> x < 2 ^ 63"

lemma i64_id [simp]: "in_i64 x \<Longrightarrow> i64 x = x"
  by (simp add: i64_def in_i64_def signed_take_bit_int_eq_self)

lemma i64_range [simp]: "in_i64 (i64 x)"
  unfolding i64_def in_i64_def
  by (intro conjI signed_take_bit_int_less_exp signed_take_bit_int_greater_eq_minus_exp)

lemma i64_small: "0 \<le> x \<Longrightarrow> x < 2 ^ 63 \<Longrightarrow> i64 x = x"
  by (rule i64_id) (simp add: in_i64_def)

lemma i64_add_left [simp]: "i64 (i64 x + y) = i64 (x + y)"
  unfolding i64_def
  using signed_take_bit_add [of 63 "signed_take_bit 63 x" y] signed_take_bit_add [of 63 x y]
  by simp

lemma i64_add_right [simp]: "i64 (x + i64 y) = i64 (x + y)"
  by (metis i64_add_left add.commute)

lemma find_SomeD: "find P xs = Some x \<Longrightarrow> x \<in> set xs \<and> P x"
  by (auto simp: find_Some_iff)

section \<open>Effectful calls\<close>

type_synonym ('w, 'a) go = "'w \<Rightarrow> (go_err + 'a) \<times> 'w"

definition returnE :: "'a \<Rightarrow> ('w, 'a) go" where
  "returnE x = (\<lambda>w. (Inr x, w))"

definition failE :: "go_err \<Rightarrow> ('w, 'a) go" where
  "failE e = (\<lambda>w. (Inl e, w))"

definition bindE :: "('w, 'a) go \<Rightarrow> ('a \<Rightarrow> ('w, 'b) go) \<Rightarrow> ('w, 'b) go" where
  "bindE m f = (\<lambda>w. case m w of (r, w') \<Rightarrow> (case r of Inl e \<Rightarrow> (Inl e, w') | Inr x \<Rightarrow> f x w'))"

text \<open>The result of a call as a value, for code that inspects the error itself or drops it.\<close>

definition tryE :: "('w, 'a) go \<Rightarrow> ('w, go_err + 'a) go" where
  "tryE m = (\<lambda>w. case m w of (r, w') \<Rightarrow> (Inr r, w'))"

definition liftE :: "go_err + 'a \<Rightarrow> ('w, 'a) go" where
  "liftE r = (\<lambda>w. (r, w))"

definition getE :: "('w \<Rightarrow> 'a) \<Rightarrow> ('w, 'a) go" where
  "getE f = (\<lambda>w. (Inr (f w), w))"

text \<open>A loop over a slice that stops at the first error.\<close>

fun forE :: "('a \<Rightarrow> 's \<Rightarrow> ('w, 's) go) \<Rightarrow> 'a list \<Rightarrow> 's \<Rightarrow> ('w, 's) go" where
  "forE body [] s = returnE s"
| "forE body (x # xs) s = bindE (body x s) (forE body xs)"

text \<open>\<open>v, _ := f()\<close>: the error dropped, the zero value of the result type in its place.\<close>

definition or_zero :: "'a \<Rightarrow> go_err + 'a \<Rightarrow> 'a" where
  "or_zero z r = (case r of Inl _ \<Rightarrow> z | Inr x \<Rightarrow> x)"

lemma bindE_apply [go_simps]:
  "bindE m f w = (case m w of (r, w') \<Rightarrow> (case r of Inl e \<Rightarrow> (Inl e, w') | Inr x \<Rightarrow> f x w'))"
  by (simp add: bindE_def)

lemma returnE_apply [go_simps]: "returnE x w = (Inr x, w)"
  by (simp add: returnE_def)

lemma failE_apply [go_simps]: "failE e w = (Inl e, w)"
  by (simp add: failE_def)

lemma tryE_apply [go_simps]: "tryE m w = (Inr (fst (m w)), snd (m w))"
  by (simp add: tryE_def split: prod.split)

lemma liftE_apply [go_simps]: "liftE r w = (r, w)"
  by (simp add: liftE_def)

lemma getE_apply [go_simps]: "getE f w = (Inr (f w), w)"
  by (simp add: getE_def)

lemma bindE_returnE [simp]: "bindE (returnE x) f = f x"
  by (simp add: fun_eq_iff bindE_def returnE_apply)

lemma bindE_failE [simp]: "bindE (failE e) f = failE e"
  by (simp add: fun_eq_iff bindE_def failE_apply)

lemma bindE_assoc: "bindE (bindE m f) g = bindE m (\<lambda>x. bindE (f x) g)"
  by (simp add: fun_eq_iff bindE_def split: prod.split sum.split)

text \<open>A call that succeeds did every step: the inversion rule of \<open>bindE\<close>.\<close>

lemma bindE_Inr_iff:
  "bindE m f w = (Inr y, w'') \<longleftrightarrow> (\<exists>x w'. m w = (Inr x, w') \<and> f x w' = (Inr y, w''))"
  by (auto simp: bindE_def split: prod.splits sum.splits)

lemma bindE_Inr: "m w = (Inr x, w') \<Longrightarrow> bindE m f w = f x w'"
  by (simp add: bindE_def)

lemma bindE_Inl: "m w = (Inl e, w') \<Longrightarrow> bindE m f w = (Inl e, w')"
  by (simp add: bindE_def)

lemma bindE_InrE:
  assumes "bindE m f w = (Inr y, w'')"
  obtains x w' where "m w = (Inr x, w')" "f x w' = (Inr y, w'')"
  using assms by (auto simp: bindE_Inr_iff)

section \<open>Invariants of calls\<close>

definition preserves :: "('w \<Rightarrow> bool) \<Rightarrow> ('w \<Rightarrow> 'r \<times> 'w) \<Rightarrow> bool" where
  "preserves I m \<longleftrightarrow> (\<forall>w. I w \<longrightarrow> I (snd (m w)))"

lemma preservesI: "(\<And>w. I w \<Longrightarrow> I (snd (m w))) \<Longrightarrow> preserves I m"
  by (simp add: preserves_def)

lemma preservesD: "preserves I m \<Longrightarrow> I w \<Longrightarrow> I (snd (m w))"
  by (simp add: preserves_def)

lemma preservesD': "preserves I m \<Longrightarrow> I w \<Longrightarrow> m w = (r, w') \<Longrightarrow> I w'"
  by (metis preservesD snd_conv)

lemma preserves_resultI:
  assumes "\<And>w e w'. I w \<Longrightarrow> m w = (Inl e, w') \<Longrightarrow> I w'" "\<And>w x w'. I w \<Longrightarrow> m w = (Inr x, w') \<Longrightarrow> I w'"
  shows "preserves I m"
proof (rule preservesI)
  fix w assume "I w"
  obtain q w' where m: "m w = (q, w')" by (cases "m w")
  show "I (snd (m w))"
  proof (cases q)
    case (Inl e)
    then show ?thesis using assms(1) [OF \<open>I w\<close>] m by simp
  next
    case (Inr x)
    then show ?thesis using assms(2) [OF \<open>I w\<close>] m by simp
  qed
qed

lemma preserves_returnE [preserves_intro]: "preserves I (returnE x)"
  by (simp add: preserves_def returnE_apply)

lemma preserves_failE [preserves_intro]: "preserves I (failE e)"
  by (simp add: preserves_def failE_apply)

lemma preserves_liftE [preserves_intro]: "preserves I (liftE r)"
  by (simp add: preserves_def liftE_apply)

lemma preserves_getE [preserves_intro]: "preserves I (getE f)"
  by (simp add: preserves_def getE_apply)

lemma preserves_bindE [preserves_intro]:
  assumes "preserves I m" and "\<And>x. preserves I (f x)"
  shows "preserves I (bindE m f)"
proof (rule preservesI)
  fix w assume "I w"
  then have "I (snd (m w))" using assms(1) by (rule preservesD [rotated])
  then show "I (snd (bindE m f w))"
    using assms(2) by (auto simp: bindE_def preserves_def split: prod.split sum.split)
qed

lemma preserves_tryE [preserves_intro]: "preserves I m \<Longrightarrow> preserves I (tryE m)"
  by (simp add: preserves_def tryE_apply)

lemma preserves_if [preserves_intro]:
  "preserves I m \<Longrightarrow> preserves I n \<Longrightarrow> preserves I (if b then m else n)"
  by simp

lemma preserves_case_sum [preserves_intro]:
  "(\<And>e. preserves I (f e)) \<Longrightarrow> (\<And>x. preserves I (g x)) \<Longrightarrow> preserves I (case_sum f g r)"
  by (cases r) auto

lemma preserves_case_option [preserves_intro]:
  "preserves I m \<Longrightarrow> (\<And>x. preserves I (f x)) \<Longrightarrow> preserves I (case_option m f r)"
  by (cases r) auto

lemma preserves_case_prod [preserves_intro]:
  "(\<And>x y. preserves I (f x y)) \<Longrightarrow> preserves I (case_prod f p)"
  by (cases p) auto

lemma preserves_Let [preserves_intro]: "preserves I (f x) \<Longrightarrow> preserves I (Let x f)"
  by simp

lemma preserves_forE:
  "(\<And>x s. preserves I (body x s)) \<Longrightarrow> preserves I (forE body xs s)"
proof (induction xs arbitrary: s)
  case Nil
  show ?case unfolding forE.simps by (rule preserves_returnE)
next
  case (Cons x xs)
  then show ?case unfolding forE.simps by (intro preserves_bindE) blast+
qed

declare preserves_forE [preserves_intro]

end
