(* ===== verification/Go_Strings.thy ===== *)
theory Go_Strings
  imports Prelude
begin

text \<open>
  The parts of Go's \<open>strings\<close>, \<open>strconv\<close> and \<open>unicode/utf8\<close> that the panel uses. A Go
  string is a sequence of bytes, here a \<open>string\<close> (a list of 8-bit characters), so \<open>length\<close> is
  Go's \<open>len\<close>. \<open>HasPrefix\<close>, \<open>HasSuffix\<close> and \<open>Contains\<close> are the library's
  \<open>prefix\<close>, \<open>suffix\<close> and \<open>sublist\<close>. \<open>toLower\<close> folds ASCII letters and leaves every
  other byte as it is (case mappings of letters outside ASCII are not modelled); \<open>trimSpace\<close> knows
  all the Unicode white space of \<open>unicode.IsSpace\<close> by its UTF-8 encodings.
\<close>

section \<open>Characters\<close>

abbreviation code :: "char \<Rightarrow> nat" where
  "code c \<equiv> of_char c"

definition is_upper :: "char \<Rightarrow> bool" where
  "is_upper c \<longleftrightarrow> 65 \<le> code c \<and> code c \<le> 90"

definition is_lower :: "char \<Rightarrow> bool" where
  "is_lower c \<longleftrightarrow> 97 \<le> code c \<and> code c \<le> 122"

definition is_digit :: "char \<Rightarrow> bool" where
  "is_digit c \<longleftrightarrow> 48 \<le> code c \<and> code c \<le> 57"

definition is_alpha :: "char \<Rightarrow> bool" where
  "is_alpha c \<longleftrightarrow> is_upper c \<or> is_lower c"

definition lower_char :: "char \<Rightarrow> char" where
  "lower_char c = (if is_upper c then char_of (code c + 32) else c)"

definition toLower :: "string \<Rightarrow> string" where
  "toLower s = map lower_char s"

definition equalFold :: "string \<Rightarrow> string \<Rightarrow> bool" where
  "equalFold s t \<longleftrightarrow> toLower s = toLower t"

lemma of_char_char_of_small [simp]: "n < 256 \<Longrightarrow> code (char_of n) = n"
  by simp

lemma lower_char_idem [simp]: "lower_char (lower_char c) = lower_char c"
  by (simp add: lower_char_def is_upper_def)

lemma toLower_idem [simp]: "toLower (toLower s) = toLower s"
  by (simp add: toLower_def)

lemma toLower_append [simp]: "toLower (s @ t) = toLower s @ toLower t"
  by (simp add: toLower_def)

lemma equalFold_refl [simp]: "equalFold s s"
  by (simp add: equalFold_def)

lemma equalFold_sym: "equalFold s t \<Longrightarrow> equalFold t s"
  by (simp add: equalFold_def)

section \<open>Trimming\<close>

text \<open>The UTF-8 encodings of the code points that \<open>unicode.IsSpace\<close> accepts.\<close>

definition space_encodings :: "string list" where
  "space_encodings =
     [[CHR 0x20], [CHR 0x09], [CHR 0x0A], [CHR 0x0B], [CHR 0x0C], [CHR 0x0D],
      [CHR 0xC2, CHR 0x85], [CHR 0xC2, CHR 0xA0], [CHR 0xE1, CHR 0x9A, CHR 0x80]]
     @ map (\<lambda>n. [CHR 0xE2, CHR 0x80, char_of n]) [0x80..<0x8B]
     @ [[CHR 0xE2, CHR 0x80, CHR 0xA8], [CHR 0xE2, CHR 0x80, CHR 0xA9],
        [CHR 0xE2, CHR 0x80, CHR 0xAF], [CHR 0xE2, CHR 0x81, CHR 0x9F],
        [CHR 0xE3, CHR 0x80, CHR 0x80]]"

function trim_by :: "string list \<Rightarrow> string \<Rightarrow> string" where
  "trim_by ps s =
     (case find (\<lambda>p. p \<noteq> [] \<and> prefix p s) ps of
        None \<Rightarrow> s
      | Some p \<Rightarrow> trim_by ps (drop (length p) s))"
  by pat_completeness auto
termination
  by (relation "measure (\<lambda>(ps, s). length s)") (auto simp: find_Some_iff prefix_def)

declare trim_by.simps [simp del]

definition trimSpace :: "string \<Rightarrow> string" where
  "trimSpace s = rev (trim_by (map rev space_encodings) (rev (trim_by space_encodings s)))"

lemma trim_by_suffix: "suffix (trim_by ps s) s"
proof (induction ps s rule: trim_by.induct)
  case (1 ps s)
  show ?case
  proof (cases "find (\<lambda>p. p \<noteq> [] \<and> prefix p s) ps")
    case None
    then show ?thesis by (simp add: trim_by.simps [of ps s])
  next
    case (Some p)
    then have "suffix (trim_by ps (drop (length p) s)) (drop (length p) s)" by (rule 1)
    then have "suffix (trim_by ps (drop (length p) s)) s"
      using suffix_drop suffix_order.trans by blast
    then show ?thesis using Some by (simp add: trim_by.simps [of ps s])
  qed
qed

lemma trim_by_done: "p \<in> set ps \<Longrightarrow> p \<noteq> [] \<Longrightarrow> \<not> prefix p (trim_by ps s)"
proof (induction ps s rule: trim_by.induct)
  case (1 ps s)
  show ?case
  proof (cases "find (\<lambda>p. p \<noteq> [] \<and> prefix p s) ps")
    case None
    then have "trim_by ps s = s" by (simp add: trim_by.simps [of ps s])
    then show ?thesis using None "1.prems" by (auto simp: find_None_iff)
  next
    case (Some q)
    then show ?thesis using "1.IH" [OF Some] "1.prems" by (simp add: trim_by.simps [of ps s])
  qed
qed

lemma trim_by_Nil [simp]: "trim_by ps [] = []"
  using trim_by_suffix [of ps "[]"] by simp

lemma trim_by_id: "(\<And>p. p \<in> set ps \<Longrightarrow> p \<noteq> [] \<Longrightarrow> \<not> prefix p s) \<Longrightarrow> trim_by ps s = s"
  by (subst trim_by.simps) (auto split: option.split simp: find_Some_iff)

text \<open>A string that begins and ends with a letter or a digit has nothing to trim: a shorter way to compute.\<close>

lemma space_encodings_ends:
  "\<forall>p \<in> set space_encodings. p \<noteq> [] \<and> \<not> (is_alpha (hd p) \<or> is_digit (hd p)) \<and> \<not> (is_alpha (last p) \<or> is_digit (last p))"
  by code_simp

lemma trimSpace_code [code]:
  "trimSpace s =
     (if s = [] \<or> (is_alpha (hd s) \<or> is_digit (hd s)) \<and> (is_alpha (last s) \<or> is_digit (last s)) then s
      else rev (trim_by (map rev space_encodings) (rev (trim_by space_encodings s))))"
proof (cases "s \<noteq> [] \<and> (is_alpha (hd s) \<or> is_digit (hd s)) \<and> (is_alpha (last s) \<or> is_digit (last s))")
  case True
  have "\<not> prefix p s" if "p \<in> set space_encodings" for p
    using space_encodings_ends that True by (fastforce simp: prefix_def)
  then have "trim_by space_encodings s = s" by (intro trim_by_id)
  moreover have "\<not> prefix p (rev s)" if mem: "p \<in> set (map rev space_encodings)" for p
  proof
    assume "prefix p (rev s)"
    moreover obtain q where q: "q \<in> set space_encodings" "p = rev q" using mem by auto
    ultimately have "suffix q s" by (simp add: suffix_to_prefix)
    then have "last s = last q" using space_encodings_ends q(1) by (auto simp: suffix_def)
    then show False using space_encodings_ends q(1) True by auto
  qed
  then have "trim_by (map rev space_encodings) (rev s) = rev s" by (intro trim_by_id)
  ultimately show ?thesis using True by (simp add: trimSpace_def)
qed (auto simp: trimSpace_def)

lemma length_trimSpace: "length (trimSpace s) \<le> length s"
proof -
  have "length (trim_by qs t) \<le> length t" for qs t
    using trim_by_suffix suffix_length_le by blast
  then show ?thesis
    unfolding trimSpace_def by (metis length_rev le_trans)
qed

lemma trimSpace_Nil [simp]: "trimSpace [] = []"
  by (simp add: trimSpace_def)

section \<open>Splitting, joining, replacing\<close>

fun splitOn :: "char \<Rightarrow> string \<Rightarrow> string list" where
  "splitOn c [] = [[]]"
| "splitOn c (x # xs) =
     (if x = c then [] # splitOn c xs
      else (case splitOn c xs of [] \<Rightarrow> [[x]] | p # ps \<Rightarrow> (x # p) # ps))"

fun joinWith :: "string \<Rightarrow> string list \<Rightarrow> string" where
  "joinWith sep [] = []"
| "joinWith sep [p] = p"
| "joinWith sep (p # q # ps) = p @ sep @ joinWith sep (q # ps)"

lemma splitOn_nonempty [simp]: "splitOn c s \<noteq> []"
  by (cases s) (auto split: list.split)

lemma splitOn_no_sep: "p \<in> set (splitOn c s) \<Longrightarrow> c \<notin> set p"
proof (induction s arbitrary: p)
  case Nil
  then show ?case by simp
next
  case (Cons x xs)
  show ?case
  proof (cases "x = c")
    case True
    then show ?thesis using Cons by auto
  next
    case False
    obtain q qs where "splitOn c xs = q # qs" by (meson neq_Nil_conv splitOn_nonempty)
    then show ?thesis using Cons False by (auto split: list.splits)
  qed
qed

lemma joinWith_Cons: "ps \<noteq> [] \<Longrightarrow> joinWith sep (p # ps) = p @ sep @ joinWith sep ps"
  by (cases ps) auto

lemma join_splitOn [simp]: "joinWith [c] (splitOn c s) = s"
proof (induction s)
  case Nil
  then show ?case by simp
next
  case (Cons x xs)
  obtain q qs where q: "splitOn c xs = q # qs" by (meson neq_Nil_conv splitOn_nonempty)
  then show ?case using Cons by (cases qs) (auto simp: joinWith_Cons)
qed

lemma splitOn_free: "c \<notin> set s \<Longrightarrow> splitOn c s = [s]"
  by (induction s) auto

lemma splitOn_append: "splitOn c (s @ c # t) = splitOn c s @ splitOn c t"
proof (induction s)
  case Nil
  then show ?case by simp
next
  case (Cons x xs)
  obtain q qs where "splitOn c xs = q # qs" by (meson neq_Nil_conv splitOn_nonempty)
  then show ?case using Cons by simp
qed

lemma splitOn_append_sep: "c \<notin> set p \<Longrightarrow> splitOn c (p @ c # s) = p # splitOn c s"
  by (induction p) auto

lemma splitOn_join:
  "ps \<noteq> [] \<Longrightarrow> (\<And>p. p \<in> set ps \<Longrightarrow> c \<notin> set p) \<Longrightarrow> splitOn c (joinWith [c] ps) = ps"
proof (induction ps)
  case Nil
  then show ?case by simp
next
  case (Cons p ps)
  then show ?case
    by (cases "ps = []") (auto simp: splitOn_free joinWith_Cons splitOn_append_sep)
qed

text \<open>\<open>strings.ReplaceAll\<close> for a non-empty \<open>old\<close>: leftmost matches, not overlapping.\<close>

function replaceAll :: "string \<Rightarrow> string \<Rightarrow> string \<Rightarrow> string" where
  "replaceAll old new [] = []"
| "replaceAll old new (c # cs) =
     (if old \<noteq> [] \<and> prefix old (c # cs)
      then new @ replaceAll old new (drop (length old) (c # cs))
      else c # replaceAll old new cs)"
  by pat_completeness auto
termination
  by (relation "measure (\<lambda>(old, new, s). length s)") (auto simp: neq_Nil_conv)

lemma replaceAll_absent: "\<not> sublist old s \<Longrightarrow> replaceAll old new s = s"
proof (induction s)
  case Nil
  then show ?case by simp
next
  case (Cons c cs)
  then have "\<not> prefix old (c # cs)" and "\<not> sublist old cs"
    by (auto simp: sublist_Cons_right)
  then show ?case using Cons by simp
qed

section \<open>Numbers\<close>

definition digit_char :: "nat \<Rightarrow> char" where
  "digit_char n = char_of (48 + n)"

definition digit_val :: "char \<Rightarrow> nat" where
  "digit_val c = code c - 48"

fun nat_str :: "nat \<Rightarrow> string" where
  "nat_str n = (if n < 10 then [digit_char n] else nat_str (n div 10) @ [digit_char (n mod 10)])"

declare nat_str.simps [simp del]

text \<open>\<open>%d\<close> of an integer.\<close>

definition int_str :: "int \<Rightarrow> string" where
  "int_str n = (if n < 0 then ''-'' @ nat_str (nat (- n)) else nat_str (nat n))"

definition digits_val :: "string \<Rightarrow> nat" where
  "digits_val s = foldl (\<lambda>n c. 10 * n + digit_val c) 0 s"

text \<open>
  \<open>strconv.ParseInt(s, 10, 64)\<close>, and \<open>strconv.Atoi\<close>, which agrees with it on a 64-bit
  machine: the value and the error. On a syntax error the value is 0; on a range error it is the
  nearest representable integer, which matters because most callers drop the error.
\<close>

definition parseInt :: "string \<Rightarrow> int \<times> go_err option" where
  "parseInt s =
     (let neg = prefix ''-'' s;
          ds = (if prefix ''-'' s \<or> prefix ''+'' s then tl s else s)
      in if ds = [] \<or> \<not> list_all is_digit ds then (0, Some (ErrText ''invalid syntax''))
         else let n = int (digits_val ds)
              in if neg then (if 2 ^ 63 < n then (- (2 ^ 63), Some (ErrText ''value out of range''))
                              else (- n, None))
                 else (if 2 ^ 63 \<le> n then (2 ^ 63 - 1, Some (ErrText ''value out of range''))
                       else (n, None)))"

lemma code_digit_char [simp]: "n < 10 \<Longrightarrow> code (digit_char n) = 48 + n"
  by (simp add: digit_char_def)

lemma is_digit_digit_char [simp]: "n < 10 \<Longrightarrow> is_digit (digit_char n)"
  by (simp add: is_digit_def)

lemma digit_val_digit_char [simp]: "n < 10 \<Longrightarrow> digit_val (digit_char n) = n"
  by (simp add: digit_val_def)

lemma nat_str_digits: "list_all is_digit (nat_str n)"
proof (induction n rule: nat_str.induct)
  case (1 n)
  then show ?case by (simp add: nat_str.simps [of n])
qed

lemma nat_str_nonempty [simp]: "nat_str n \<noteq> []"
  by (subst nat_str.simps) simp

lemma digits_val_append: "digits_val (s @ [c]) = 10 * digits_val s + digit_val c"
  by (simp add: digits_val_def)

lemma digits_val_nat_str [simp]: "digits_val (nat_str n) = n"
proof (induction n rule: nat_str.induct)
  case (1 n)
  show ?case
  proof (cases "n < 10")
    case True
    then show ?thesis by (simp add: nat_str.simps [of n] digits_val_def)
  next
    case False
    then show ?thesis using 1 by (simp add: nat_str.simps [of n] digits_val_append)
  qed
qed

lemma nat_str_inj [simp]: "nat_str m = nat_str n \<longleftrightarrow> m = n"
  by (metis digits_val_nat_str)

lemma nat_str_no_sign: "\<not> prefix ''-'' (nat_str n)" "\<not> prefix ''+'' (nat_str n)"
proof -
  have "is_digit (hd (nat_str n))"
    using nat_str_digits [of n] nat_str_nonempty [of n] by (cases "nat_str n") auto
  then show "\<not> prefix ''-'' (nat_str n)" "\<not> prefix ''+'' (nat_str n)"
    by (cases "nat_str n"; auto simp: is_digit_def)+
qed

lemma parseInt_int_str: "in_i64 n \<Longrightarrow> parseInt (int_str n) = (n, None)"
proof (cases "n < 0")
  case True
  then show "in_i64 n \<Longrightarrow> ?thesis"
    using nat_str_digits [of "nat (- n)"]
    by (simp add: parseInt_def int_str_def in_i64_def Let_def)
next
  case False
  then show "in_i64 n \<Longrightarrow> ?thesis"
    using nat_str_digits [of "nat n"] nat_str_no_sign [of "nat n"]
    by (simp add: parseInt_def int_str_def in_i64_def Let_def)
qed

lemma parseInt_range: "in_i64 (fst (parseInt s))"
  by (auto simp: parseInt_def in_i64_def Let_def)

section \<open>Runes\<close>

definition cont_byte :: "nat \<Rightarrow> nat \<Rightarrow> nat \<Rightarrow> bool" where
  "cont_byte lo hi b \<longleftrightarrow> lo \<le> b \<and> b \<le> hi"

text \<open>
  One step of \<open>for _, r := range s\<close>: the code point at the front of a non-empty byte string and
  its width; an ill-formed sequence is \<open>RuneError\<close> (65533) of width 1.
\<close>

definition decode_rune :: "nat list \<Rightarrow> nat \<times> nat" where
  "decode_rune bs =
     (case bs of
        [] \<Rightarrow> (65533, 0)
      | a # t \<Rightarrow>
        if a < 128 then (a, 1)
        else if 194 \<le> a \<and> a \<le> 223 then
          (case t of b # _ \<Rightarrow> if cont_byte 128 191 b then ((a - 192) * 64 + (b - 128), 2) else (65533, 1)
           | [] \<Rightarrow> (65533, 1))
        else if 224 \<le> a \<and> a \<le> 239 then
          (case t of b # c # _ \<Rightarrow>
             if cont_byte (if a = 224 then 160 else 128) (if a = 237 then 159 else 191) b
                \<and> cont_byte 128 191 c
             then ((a - 224) * 4096 + (b - 128) * 64 + (c - 128), 3) else (65533, 1)
           | _ \<Rightarrow> (65533, 1))
        else if 240 \<le> a \<and> a \<le> 244 then
          (case t of b # c # d # _ \<Rightarrow>
             if cont_byte (if a = 240 then 144 else 128) (if a = 244 then 143 else 191) b
                \<and> cont_byte 128 191 c \<and> cont_byte 128 191 d
             then ((a - 240) * 262144 + (b - 128) * 4096 + (c - 128) * 64 + (d - 128), 4)
             else (65533, 1)
           | _ \<Rightarrow> (65533, 1))
        else (65533, 1))"

fun runes_of :: "nat \<Rightarrow> nat list \<Rightarrow> nat list" where
  "runes_of skip [] = []"
| "runes_of 0 (b # bs) = (let (r, w) = decode_rune (b # bs) in r # runes_of (w - 1) bs)"
| "runes_of (Suc k) (b # bs) = runes_of k bs"

definition runes :: "string \<Rightarrow> nat list" where
  "runes s = runes_of 0 (map code s)"

lemma runes_of_ascii: "\<forall>b \<in> set bs. b < 128 \<Longrightarrow> runes_of 0 bs = bs"
  by (induction bs) (auto simp: decode_rune_def)

lemma runes_ascii: "\<forall>c \<in> set s. code c < 128 \<Longrightarrow> runes s = map code s"
  by (simp add: runes_def runes_of_ascii)

end
