(* ===== verification/Config.thy ===== *)
theory Config
  imports Go_Strings
begin

text \<open>
  The configuration (config/config.go). The environment, after the .env file was loaded into it, is
  a function from names to values, an unset variable reading as the empty string, as with
  \<open>os.Getenv\<close>; \<open>time.ParseDuration\<close> is an argument of the two functions that need it. Durations
  are nanoseconds.
\<close>

record config =
  HTTPAddr :: string
  CORSOrigins :: "string list"
  SQLitePath :: string
  TZ :: string
  MikrotikCacheTTL :: int
  MikrotikFake :: bool
  MikrotikHost :: string
  MikrotikPort :: int
  MikrotikUser :: string
  MikrotikPass :: string
  MikrotikAPI :: string
  MikrotikUseTLS :: bool
  MikrotikTLSInsec :: bool
  MikrotikTimeout :: int
  MikrotikCertScript :: string
  JWTSecret :: string
  JWTAccessTTL :: int
  JWTRefreshTTL :: int
  AdminUsername :: string
  AdminPassword :: string
  DefaultProfile :: string
  UsernamePrefixSep :: string
  UsernameLocalMaxLen :: int
  SharedUsersMax :: int
  OpenVPNDownloadURL :: string
  OpenVPNKeyPassword :: string
  L2TPIPsecSecret :: string
  L2TPServer :: string
  OpenVPNTemplatePath :: string

type_synonym environment = "string \<Rightarrow> string"

text \<open>
  The first of three places with a .env file is loaded: \<open>stat\<close> is \<open>os.Stat\<close> without an error,
  and \<open>dotenv\<close> is what \<open>godotenv.Load\<close> makes of the environment.
\<close>

definition godotenvLoad :: "(string \<Rightarrow> bool) \<Rightarrow> (string \<Rightarrow> environment \<Rightarrow> environment) \<Rightarrow> environment \<Rightarrow> environment" where
  "godotenvLoad stat dotenv e =
     (case find stat [''.env'', ''../.env'', ''../../.env''] of
        None \<Rightarrow> e
      | Some p \<Rightarrow> dotenv p e)"

definition seconds :: "int \<Rightarrow> int" where "seconds n = n * 1000000000"

definition env :: "environment \<Rightarrow> string \<Rightarrow> string \<Rightarrow> string" where
  "env e k d = (if e k \<noteq> [] then e k else d)"

definition envInt :: "environment \<Rightarrow> string \<Rightarrow> int \<Rightarrow> int" where
  "envInt e k d =
     (if e k \<noteq> [] then (case parseInt (e k) of (n, None) \<Rightarrow> n | _ \<Rightarrow> d) else d)"

definition envBool :: "environment \<Rightarrow> string \<Rightarrow> bool \<Rightarrow> bool" where
  "envBool e k d =
     (if e k \<noteq> [] then e k = ''1'' \<or> equalFold (e k) ''true'' \<or> equalFold (e k) ''yes'' else d)"

definition envDuration :: "(string \<Rightarrow> int option) \<Rightarrow> environment \<Rightarrow> string \<Rightarrow> int \<Rightarrow> int" where
  "envDuration parseDuration e k d =
     (if e k \<noteq> [] then (case parseDuration (e k) of None \<Rightarrow> d | Some t \<Rightarrow> t) else d)"

definition mikrotikAPIFromEnv :: "environment \<Rightarrow> string \<times> bool \<times> int" where
  "mikrotikAPIFromEnv e =
     (let raw = toLower (trimSpace (env e ''MIKROTIK_API'' []));
          portSet = e ''MIKROTIK_PORT'' \<noteq> []
      in if raw = ''api'' \<or> raw = ''plain'' then (''api'', False, 8728)
         else if raw = ''api-ssl'' \<or> raw = ''ssl'' \<or> raw = ''tls'' then (''api-ssl'', True, 8729)
         else if raw = [] then
           (if portSet then
              (let p = envInt e ''MIKROTIK_PORT'' 8729 in
               if p = 8728 then (''api'', False, 8728) else (''api-ssl'', True, 8729))
            else (''api-ssl'', True, 8729))
         else (''api-ssl'', True, 8729))"

definition Load :: "(string \<Rightarrow> int option) \<Rightarrow> environment \<Rightarrow> config" where
  "Load parseDuration e =
     (let (api, useTLS, defaultPort) = mikrotikAPIFromEnv e in
      \<lparr>HTTPAddr = env e ''HTTP_ADDR'' '':8080'',
       CORSOrigins = splitOn (CHR '','') (env e ''CORS_ORIGINS'' ''http://localhost:4200''),
       SQLitePath = env e ''SQLITE_PATH'' ''./data/panel.db'',
       TZ = env e ''TZ'' ''Asia/Tehran'',
       MikrotikCacheTTL = envDuration parseDuration e ''MIKROTIK_CACHE_TTL'' (seconds 30),
       MikrotikFake = envBool e ''MIKROTIK_FAKE'' True,
       MikrotikHost = env e ''MIKROTIK_HOST'' ''192.168.56.11'',
       MikrotikPort = envInt e ''MIKROTIK_PORT'' defaultPort,
       MikrotikUser = env e ''MIKROTIK_USERNAME'' ''admin'',
       MikrotikPass = env e ''MIKROTIK_PASSWORD'' [],
       MikrotikAPI = api,
       MikrotikUseTLS = useTLS,
       MikrotikTLSInsec = envBool e ''MIKROTIK_TLS_INSECURE'' False,
       MikrotikTimeout = envDuration parseDuration e ''MIKROTIK_TIMEOUT'' (seconds 10),
       MikrotikCertScript = env e ''MIKROTIK_CERT_SCRIPT'' ''generate-certificate'',
       JWTSecret = env e ''JWT_SECRET'' ''change-me'',
       JWTAccessTTL = envDuration parseDuration e ''JWT_ACCESS_TTL'' (seconds (15 * 60)),
       JWTRefreshTTL = envDuration parseDuration e ''JWT_REFRESH_TTL'' (seconds (168 * 3600)),
       AdminUsername = env e ''ADMIN_USERNAME'' ''admin'',
       AdminPassword = env e ''ADMIN_PASSWORD'' ''change-me'',
       DefaultProfile = env e ''DEFAULT_PROFILE'' ''profile-open-2M-30d'',
       UsernamePrefixSep = env e ''USERNAME_PREFIX_SEPARATOR'' ''_'',
       UsernameLocalMaxLen = envInt e ''USERNAME_LOCAL_MAX_LEN'' 24,
       SharedUsersMax = envInt e ''SHARED_USERS_MAX'' 20,
       OpenVPNDownloadURL = env e ''OPENVPN_DOWNLOAD_URL'' ''http://dl.nimbaha.info/dl/'',
       OpenVPNKeyPassword = env e ''OPENVPN_KEY_PASSWORD'' [],
       L2TPIPsecSecret = env e ''L2TP_IPSEC_SECRET'' [],
       L2TPServer = env e ''L2TP_SERVER'' [],
       OpenVPNTemplatePath = env e ''OPENVPN_TEMPLATE_PATH'' ''./config/client-template.ovpn''\<rparr>)"

lemma api_cases: "mikrotikAPIFromEnv e = (''api'', False, 8728) \<or> mikrotikAPIFromEnv e = (''api-ssl'', True, 8729)"
  by (simp add: mikrotikAPIFromEnv_def Let_def)

end
