(* ===== verification/Models.thy ===== *)
theory Models
  imports Go_Strings "HOL-Library.Char_ord" "HOL-Library.List_Lexorder" "HOL-Library.Word"
begin

text \<open>
  The data of the panel, field by field: the rows of the SQLite tables (store/models.go), the rows
  of the router's User Manager (mikrotik/types.go) and JSON values. \<open>sql.NullString\<close>,
  \<open>sql.NullInt64\<close> and \<open>sql.NullFloat64\<close> are options, as are Go pointers that may be nil.
  A \<open>float64\<close> is only stored and returned, so it is its 64 bits. Record fields carry a prefix
  per record, because HOL's field names are global.
\<close>

type_synonym float64 = "64 word"

text \<open>Instants of time and durations, in nanoseconds; an instant counts from the Unix epoch.\<close>

type_synonym time = int

section \<open>Rows of the panel database\<close>

record panel_admin =
  adm_ID :: int
  adm_Username :: string
  adm_PasswordHash :: string
  adm_IsActive :: bool

record manager =
  mgr_ID :: int
  mgr_Username :: string
  mgr_PasswordHash :: string
  mgr_DisplayName :: string
  mgr_Slug :: string
  mgr_Quota :: int
  mgr_IsActive :: bool
  mgr_CertTitle :: "string option"
  mgr_CertKeyPass :: "string option"
  mgr_CreatedAt :: string
  mgr_UpdatedAt :: string

record manager_slug =
  ms_ID :: int
  ms_Slug :: string

record vpn_user_meta =
  meta_ID :: int
  meta_MikrotikName :: string
  meta_ManagerID :: "int option"
  meta_ContactInfo :: "string option"
  meta_Notes :: "string option"
  meta_CertTitle :: "string option"
  meta_CertKeyPass :: "string option"
  meta_CreatedAt :: string
  meta_UpdatedAt :: string

record profile_activation =
  act_ID :: int
  act_VPNUserMetaID :: int
  act_ProfileName :: string
  act_SharedUsers :: int
  act_AmountPaid :: "float64 option"
  act_Currency :: string
  act_PaidAt :: "string option"
  act_Note :: "string option"
  act_MikrotikEndTime :: "string option"
  act_IsSettled :: bool
  act_SettledAt :: "string option"
  act_SettledByAdminID :: "int option"
  act_CreatedAt :: string

record renewal_filter =
  rf_ManagerID :: "int option"
  rf_OrphanOnly :: bool
  rf_Settled :: string
  rf_From :: string
  rf_To :: string
  rf_Query :: string
  rf_Page :: int
  rf_PageSize :: int

record renewal_summary =
  UnsettledSharedUsersSum :: int
  AllSharedUsersSum :: int

record renewal_row =
  rr_ID :: int
  rr_RenewedAt :: string
  rr_MikrotikName :: string
  rr_ManagerID :: "int option"
  rr_ManagerDisplayName :: "string option"
  rr_SharedUsers :: int
  rr_ProfileName :: string
  rr_ProfileState :: string
  rr_MikrotikEndTime :: "string option"
  rr_IsSettled :: bool
  rr_AmountPaid :: "float64 option"
  rr_Currency :: string

record renewal_through =
  rt_ActivationID :: int
  rt_ManagerID :: "int option"
  rt_OrphanOnly :: bool

record renewal_shared_users_row =
  rs_ID :: int
  rs_MikrotikName :: string
  rs_SharedUsers :: int
  rs_IsSettled :: bool

section \<open>Rows of the router\<close>

record mt_user =
  usr_ID :: string
  usr_Name :: string
  usr_Password :: string
  usr_SharedUsers :: int
  usr_Comment :: string
  usr_Disabled :: bool

record user_profile =
  prof_ID :: string
  prof_User :: string
  prof_Profile :: string
  prof_State :: string
  prof_EndTime :: string

section \<open>JSON values\<close>

text \<open>The values the handlers encode: an object is its list of members.\<close>

datatype json =
    JNull
  | JBool bool
  | JInt int
  | JFloat float64
  | JStr string
  | JArr "json list"
  | JObj "(string \<times> json) list"

definition json_get :: "json \<Rightarrow> string \<Rightarrow> json option" where
  "json_get j k = (case j of JObj ms \<Rightarrow> map_of ms k | _ \<Rightarrow> None)"

definition json_opt :: "('a \<Rightarrow> json) \<Rightarrow> 'a option \<Rightarrow> json" where
  "json_opt f x = (case x of None \<Rightarrow> JNull | Some v \<Rightarrow> f v)"

section \<open>The order of the renewal ledger\<close>

text \<open>
  A position in the ledger is a creation time stamp and a row id; positions are ordered first by
  the stamp (SQLite compares TEXT byte by byte), then by the id. This is the order in which
  \<open>SettleThrough\<close> and \<open>UpdateLatestUnsettledActivationSharedUsers\<close> compare rows.
\<close>

datatype ledger_pos = Ledger_Pos (pos_at: string) (pos_id: int)

instantiation ledger_pos :: linorder
begin

definition less_eq_ledger_pos :: "ledger_pos \<Rightarrow> ledger_pos \<Rightarrow> bool" where
  "less_eq_ledger_pos p q \<longleftrightarrow> pos_at p < pos_at q \<or> pos_at p = pos_at q \<and> pos_id p \<le> pos_id q"

definition less_ledger_pos :: "ledger_pos \<Rightarrow> ledger_pos \<Rightarrow> bool" where
  "less_ledger_pos p q \<longleftrightarrow> pos_at p < pos_at q \<or> pos_at p = pos_at q \<and> pos_id p < pos_id q"

instance
  by standard (auto simp: less_eq_ledger_pos_def less_ledger_pos_def ledger_pos.expand)

end

definition act_pos :: "profile_activation \<Rightarrow> ledger_pos" where
  "act_pos a = Ledger_Pos (act_CreatedAt a) (act_ID a)"

section \<open>A manager for the examples\<close>

definition sample_manager :: "int \<Rightarrow> string \<Rightarrow> manager" where
  "sample_manager i slug = \<lparr>mgr_ID = i, mgr_Username = slug, mgr_PasswordHash = [], mgr_DisplayName = slug,
     mgr_Slug = slug, mgr_Quota = 10, mgr_IsActive = True, mgr_CertTitle = None, mgr_CertKeyPass = None,
     mgr_CreatedAt = [], mgr_UpdatedAt = []\<rparr>"

end
