(* ===== verification/Go_Time.thy ===== *)
theory Go_Time
  imports Models "HOL-Library.Monad_Syntax"
begin

text \<open>
  The parts of Go's \<open>time\<close> that the panel uses: \<open>time.Parse\<close> for its two layouts,
  \<open>Format(time.RFC3339)\<close>, and SQLite's \<open>datetime('now')\<close>, which stamps rows. An instant is
  a number of nanoseconds since 1970-01-01T00:00:00Z; dates are proleptic Gregorian.
\<close>

section \<open>The calendar\<close>

definition days_from_civil :: "int \<Rightarrow> int \<Rightarrow> int \<Rightarrow> int" where
  "days_from_civil y m d =
     (let y' = (if m \<le> 2 then y - 1 else y);
          era = y' div 400;
          yoe = y' mod 400;
          mp = (if m > 2 then m - 3 else m + 9);
          doy = (153 * mp + 2) div 5 + d - 1;
          doe = yoe * 365 + yoe div 4 - yoe div 100 + doy
      in era * 146097 + doe - 719468)"

text \<open>
  The date of a day number, by its 400-, 100-, 4- and 1-year cycles counted from a first of March,
  so that a leap day is the last day of its year and of each cycle it belongs to.
\<close>

definition civil_from_days :: "int \<Rightarrow> int \<times> int \<times> int" where
  "civil_from_days z =
     (let era = (z + 719468) div 146097;
          d0 = (z + 719468) mod 146097;
          c = min 3 (d0 div 36524);
          d1 = d0 - 36524 * c;
          q = d1 div 1461;
          d2 = d1 - 1461 * q;
          n = min 3 (d2 div 365);
          doy = d2 - 365 * n;
          y = era * 400 + (100 * c + 4 * q + n);
          mp = (5 * doy + 2) div 153;
          d = doy - (153 * mp + 2) div 5 + 1;
          m = (if mp < 10 then mp + 3 else mp - 9)
      in (if m \<le> 2 then y + 1 else y, m, d))"

definition leap :: "int \<Rightarrow> bool" where
  "leap y \<longleftrightarrow> y mod 4 = 0 \<and> (y mod 100 \<noteq> 0 \<or> y mod 400 = 0)"

definition days_in :: "int \<Rightarrow> int \<Rightarrow> int" where
  "days_in m y =
     (if m = 2 then (if leap y then 29 else 28)
      else if m \<in> {4, 6, 9, 11} then 30 else 31)"

lemma leap_400: "leap (400 * k)"
proof -
  have "400 * k = 4 * (100 * k)" by simp
  then have "400 * k mod 4 = 0" by (metis mod_mult_self1_is_0)
  then show ?thesis by (simp add: leap_def)
qed

lemma leap_4: "y = 4 * a \<Longrightarrow> y = 100 * b + r \<Longrightarrow> 0 < r \<Longrightarrow> r < 100 \<Longrightarrow> leap y"
  by (metis leap_def mod_mult_self1_is_0 mod_mult_self4 mod_pos_pos_trivial order_less_imp_le
      order_less_irrefl)

text \<open>The cycle numbers of a day of an era: their ranges, and the day they were taken from.\<close>

lemma cycles:
  fixes d0 :: int
  assumes d0: "0 \<le> d0" "d0 < 146097"
  defines "c \<equiv> min 3 (d0 div 36524)"
  defines "d1 \<equiv> d0 - 36524 * c"
  defines "q \<equiv> d1 div 1461"
  defines "d2 \<equiv> d1 - 1461 * q"
  defines "n \<equiv> min 3 (d2 div 365)"
  defines "doy \<equiv> d2 - 365 * n"
  shows "0 \<le> c" "c \<le> 3" "0 \<le> q" "q \<le> 24" "0 \<le> n" "n \<le> 3" "0 \<le> doy" "doy \<le> 365"
    and "doy = 365 \<Longrightarrow> n = 3 \<and> (q = 24 \<longrightarrow> c = 3)"
proof -
  have c: "0 \<le> c" "c \<le> 3" "0 \<le> d1" "d1 \<le> 36524" "d1 = 36524 \<Longrightarrow> c = 3"
    unfolding d1_def c_def using d0 by linarith+
  have q: "0 \<le> q" "q \<le> 24" "0 \<le> d2" "d2 \<le> 1460" "q = 24 \<Longrightarrow> d2 = 1460 \<Longrightarrow> d1 = 36524"
    unfolding d2_def q_def using c(3,4) by linarith+
  have n: "0 \<le> n" "n \<le> 3" "0 \<le> doy" "doy \<le> 365" "doy = 365 \<Longrightarrow> n = 3 \<and> d2 = 1460"
    unfolding doy_def n_def using q(3,4) by linarith+
  show "0 \<le> c" "c \<le> 3" "0 \<le> q" "q \<le> 24" "0 \<le> n" "n \<le> 3" "0 \<le> doy" "doy \<le> 365"
    using c q n by simp_all
  show "doy = 365 \<Longrightarrow> n = 3 \<and> (q = 24 \<longrightarrow> c = 3)"
    using c(5) q(5) n(5) by blast
qed

text \<open>Every day number has its date, and the date is one of the calendar.\<close>

lemma civil_from_days_spec:
  "case civil_from_days z of (y, m, d) \<Rightarrow>
     days_from_civil y m d = z \<and> 1 \<le> m \<and> m \<le> 12 \<and> 1 \<le> d \<and> d \<le> days_in m y"
proof -
  define era where "era = (z + 719468) div 146097"
  define d0 where "d0 = (z + 719468) mod 146097"
  define c where "c = min 3 (d0 div 36524)"
  define d1 where "d1 = d0 - 36524 * c"
  define q where "q = d1 div 1461"
  define d2 where "d2 = d1 - 1461 * q"
  define n where "n = min 3 (d2 div 365)"
  define doy where "doy = d2 - 365 * n"
  define yoe where "yoe = 100 * c + 4 * q + n"
  define mp where "mp = (5 * doy + 2) div 153"
  define d where "d = doy - (153 * mp + 2) div 5 + 1"
  define m where "m = (if mp < 10 then mp + 3 else mp - 9)"
  define y where "y = (if m \<le> 2 then era * 400 + yoe + 1 else era * 400 + yoe)"
  note defs = c_def d1_def q_def d2_def n_def doy_def
  have "0 \<le> d0" "d0 < 146097" by (simp_all add: d0_def)
  note cyc = cycles [OF this, folded c_def, folded d1_def, folded q_def, folded d2_def,
      folded n_def, folded doy_def]
  have yoe: "0 \<le> yoe" "yoe < 400" "yoe div 4 = 25 * c + q" "yoe div 100 = c"
    unfolding yoe_def using cyc by linarith+
  have mp: "0 \<le> mp" "mp < 12" unfolding mp_def using cyc(7,8) by linarith+
  have civil: "civil_from_days z = (y, m, d)"
    unfolding civil_from_days_def
    by (simp only: Let_def era_def [symmetric] d0_def [symmetric] c_def [symmetric]
        d1_def [symmetric] q_def [symmetric] d2_def [symmetric] n_def [symmetric]
        doy_def [symmetric] yoe_def [symmetric] mp_def [symmetric] d_def [symmetric]
        m_def [symmetric] y_def [symmetric])
  have y': "(if m \<le> 2 then y - 1 else y) = era * 400 + yoe" by (simp add: y_def)
  have m': "(if m > 2 then m - 3 else m + 9) = mp" using mp by (auto simp: m_def)
  have era: "(era * 400 + yoe) div 400 = era" "(era * 400 + yoe) mod 400 = yoe"
    using yoe(1,2) by simp_all
  have "days_from_civil y m d =
      era * 146097 + (yoe * 365 + yoe div 4 - yoe div 100 + ((153 * mp + 2) div 5 + d - 1)) - 719468"
    unfolding days_from_civil_def Let_def y' m' era by simp
  also have "\<dots> = era * 146097 + d0 - 719468"
    using yoe(3,4) yoe_def d_def doy_def d2_def d1_def by linarith
  also have "\<dots> = z" unfolding era_def d0_def by simp
  finally have inverse: "days_from_civil y m d = z" .
  have m_range: "1 \<le> m" "m \<le> 12" using mp by (auto simp: m_def)
  have d1_range: "1 \<le> d" unfolding d_def mp_def using cyc(7) by linarith
  have leap: "leap (era * 400 + yoe + 1)" if "doy = 365"
  proof -
    have n: "n = 3" "q = 24 \<Longrightarrow> c = 3" using cyc(9) [OF that] by simp_all
    then have year: "era * 400 + yoe + 1 = 4 * (era * 100 + 25 * c + q + 1)"
        "era * 400 + yoe + 1 = 100 * (era * 4 + c) + (4 * q + 4)"
      by (simp_all add: yoe_def)
    show ?thesis
    proof (cases "q = 24")
      case True
      then have "era * 400 + yoe + 1 = 400 * (era + 1)" using n year(1) by simp
      then show ?thesis by (simp only: leap_400)
    next
      case False
      then show ?thesis using cyc(3,4) by (intro leap_4 [OF year]) auto
    qed
  qed
  have "d \<le> 31" "mp = 11 \<Longrightarrow> d \<le> 29" "mp = 11 \<Longrightarrow> doy \<noteq> 365 \<Longrightarrow> d \<le> 28"
    "mp \<in> {1, 3, 6, 8} \<Longrightarrow> d \<le> 30"
    unfolding d_def mp_def using cyc(7,8) by (auto; linarith)+
  then have "d \<le> days_in m y"
    using leap mp by (auto simp: days_in_def m_def y_def split: if_splits)
  with inverse m_range d1_range show ?thesis by (simp add: civil)
qed

section \<open>Parsing\<close>

definition lit :: "char \<Rightarrow> string \<Rightarrow> string option" where
  "lit c s = (case s of [] \<Rightarrow> None | x # xs \<Rightarrow> if x = c then Some xs else None)"

text \<open>A space of the layout stands for any number of spaces, but not for another character.\<close>

definition lit_space :: "string \<Rightarrow> string option" where
  "lit_space s =
     (if s \<noteq> [] \<and> hd s \<noteq> CHR '' '' then None else Some (dropWhile (\<lambda>c. c = CHR '' '') s))"

text \<open>\<open>getnum\<close>: two digits, or, when not \<open>fixed\<close>, one or two.\<close>

definition getnum :: "bool \<Rightarrow> string \<Rightarrow> (int \<times> string) option" where
  "getnum fixed s =
     (case s of
        [] \<Rightarrow> None
      | a # t \<Rightarrow>
        if \<not> is_digit a then None
        else (case t of
            b # u \<Rightarrow>
              if is_digit b then Some (int (10 * digit_val a + digit_val b), u)
              else if fixed then None else Some (int (digit_val a), t)
          | [] \<Rightarrow> if fixed then None else Some (int (digit_val a), t)))"

definition getyear :: "string \<Rightarrow> (int \<times> string) option" where
  "getyear s =
     (if length s < 4 \<or> \<not> list_all is_digit (take 4 s) then None
      else Some (int (digits_val (take 4 s)), drop 4 s))"

definition in_range :: "int \<Rightarrow> int \<Rightarrow> int \<Rightarrow> unit option" where
  "in_range lo hi n = (if lo \<le> n \<and> n \<le> hi then Some () else None)"

text \<open>
  After the seconds a fraction is accepted though the layouts have none: a point or a comma and
  digits, of which the first nine count.
\<close>

definition fraction :: "string \<Rightarrow> int \<times> string" where
  "fraction s =
     (case s of
        p # c # _ \<Rightarrow>
          if (p = CHR ''.'' \<or> p = CHR '','') \<and> is_digit c then
            let ds = takeWhile is_digit (tl s); k = take 9 ds
            in (int (digits_val k) * 10 ^ (9 - length k), drop (length ds) (tl s))
          else (0, s)
      | _ \<Rightarrow> (0, s))"

definition unix_nano :: "int \<Rightarrow> int \<Rightarrow> int \<Rightarrow> int \<Rightarrow> int \<Rightarrow> int \<Rightarrow> int \<Rightarrow> time" where
  "unix_nano y mo d h mi sec ns =
     (days_from_civil y mo d * 86400 + h * 3600 + mi * 60 + sec) * 1000000000 + ns"

definition clock_fields :: "string \<Rightarrow> (int \<times> int \<times> int \<times> int \<times> string) option" where
  "clock_fields s = do {
     (h, s) \<leftarrow> getnum False s; in_range 0 23 h; s \<leftarrow> lit (CHR '':'') s;
     (mi, s) \<leftarrow> getnum True s; in_range 0 59 mi; s \<leftarrow> lit (CHR '':'') s;
     (sec, s) \<leftarrow> getnum True s; in_range 0 59 sec;
     let (ns, s) = fraction s;
     Some (h, mi, sec, ns, s)
   }"

definition date_fields :: "string \<Rightarrow> (int \<times> int \<times> int \<times> string) option" where
  "date_fields s = do {
     (y, s) \<leftarrow> getyear s; s \<leftarrow> lit (CHR ''-'') s;
     (mo, s) \<leftarrow> getnum True s; in_range 1 12 mo; s \<leftarrow> lit (CHR ''-'') s;
     (d, s) \<leftarrow> getnum True s;
     Some (y, mo, d, s)
   }"

text \<open>The zone of RFC 3339: \<open>Z\<close>, or a sign, hours and minutes; the offset in seconds.\<close>

definition zone_field :: "string \<Rightarrow> (int \<times> string) option" where
  "zone_field s =
     (case s of
        [] \<Rightarrow> None
      | z # t \<Rightarrow>
        if z = CHR ''Z'' then Some (0, t)
        else do {
          (h, t) \<leftarrow> getnum True t; t \<leftarrow> lit (CHR '':'') t; (m, t) \<leftarrow> getnum True t;
          in_range 0 24 h; in_range 0 60 m;
          let off = (h * 60 + m) * 60;
          if z = CHR ''+'' then Some (off, t) else if z = CHR ''-'' then Some (- off, t) else None
        })"

definition parse_RFC3339 :: "string \<Rightarrow> time option" where
  "parse_RFC3339 s = do {
     (y, mo, d, s) \<leftarrow> date_fields s; s \<leftarrow> lit (CHR ''T'') s;
     (h, mi, sec, ns, s) \<leftarrow> clock_fields s; (off, s) \<leftarrow> zone_field s;
     if s \<noteq> [] then None
     else do { in_range 1 (days_in mo y) d;
               Some (unix_nano y mo d h mi sec ns - off * 1000000000) }
   }"

definition parse_DateTime :: "string \<Rightarrow> time option" where
  "parse_DateTime s = do {
     (y, mo, d, s) \<leftarrow> date_fields s; s \<leftarrow> lit_space s;
     (h, mi, sec, ns, s) \<leftarrow> clock_fields s;
     if s \<noteq> [] then None
     else do { in_range 1 (days_in mo y) d; Some (unix_nano y mo d h mi sec ns) }
   }"

section \<open>Formatting\<close>

definition pad2 :: "int \<Rightarrow> string" where
  "pad2 n = [digit_char (nat (n div 10 mod 10)), digit_char (nat (n mod 10))]"

definition pad4 :: "int \<Rightarrow> string" where
  "pad4 n = [digit_char (nat (n div 1000 mod 10)), digit_char (nat (n div 100 mod 10)),
             digit_char (nat (n div 10 mod 10)), digit_char (nat (n mod 10))]"

definition fmt_date :: "int \<Rightarrow> string" where
  "fmt_date days =
     (case civil_from_days days of (y, m, d) \<Rightarrow> pad4 y @ ''-'' @ pad2 m @ ''-'' @ pad2 d)"

definition fmt_clock :: "int \<Rightarrow> string" where
  "fmt_clock secs =
     pad2 (secs div 3600) @ '':'' @ pad2 (secs div 60 mod 60) @ '':'' @ pad2 (secs mod 60)"

text \<open>\<open>t.Format(time.RFC3339)\<close> in a zone \<open>off\<close> minutes east of UTC; years of four digits.\<close>

definition fmt_RFC3339 :: "int \<Rightarrow> time \<Rightarrow> string" where
  "fmt_RFC3339 off t =
     (let local = t div 1000000000 + off * 60
      in fmt_date (local div 86400) @ ''T'' @ fmt_clock (local mod 86400) @
         (if off = 0 then ''Z''
          else (if off < 0 then ''-'' else ''+'') @ pad2 (\<bar>off\<bar> div 60) @ '':'' @ pad2 (\<bar>off\<bar> mod 60)))"

text \<open>SQLite's \<open>datetime('now')\<close>: UTC, with a resolution of one second.\<close>

definition sqlite_datetime :: "time \<Rightarrow> string" where
  "sqlite_datetime t =
     (let s = t div 1000000000
      in fmt_date (s div 86400) @ '' '' @ fmt_clock (s mod 86400))"

section \<open>Reading back what was formatted\<close>

lemma digit_int:
  assumes "0 \<le> k" "k < 10"
  shows "is_digit (digit_char (nat k))" "int (digit_val (digit_char (nat k))) = k"
proof -
  have "nat k < 10" using assms by simp
  then show "is_digit (digit_char (nat k))" "int (digit_val (digit_char (nat k))) = k"
    using assms by simp_all
qed

lemma digit_mod:
  "is_digit (digit_char (nat (k mod 10)))" "int (digit_val (digit_char (nat (k mod 10)))) = k mod 10"
  by (rule digit_int; simp)+

lemma div10_mod10: "10 * (k div 10) + k mod 10 = (k::int)"
  by (rule mult_div_mod_eq)

lemma getnum_digits:
  assumes "0 \<le> a" "a < 10" "0 \<le> b" "b < 10"
  shows "getnum f ([digit_char (nat a), digit_char (nat b)] @ s) = Some (10 * a + b, s)"
  using digit_int [of a] digit_int [of b] assms by (simp add: getnum_def)

lemma getnum_pad2: "0 \<le> n \<Longrightarrow> n < 100 \<Longrightarrow> getnum f (pad2 n @ s) = Some (n, s)"
proof -
  assume n: "0 \<le> n" "n < 100"
  then have "n div 10 mod 10 = n div 10" by (intro mod_pos_pos_trivial) linarith+
  then have sum: "10 * (n div 10 mod 10) + n mod 10 = n" by (simp only: div10_mod10)
  have "getnum f (pad2 n @ s) = Some (10 * (n div 10 mod 10) + n mod 10, s)"
    unfolding pad2_def by (rule getnum_digits) simp_all
  then show ?thesis unfolding sum .
qed

lemma getyear_digits:
  assumes "0 \<le> a" "a < 10" "0 \<le> b" "b < 10" "0 \<le> c" "c < 10" "0 \<le> d" "d < 10"
  shows "getyear ([digit_char (nat a), digit_char (nat b), digit_char (nat c), digit_char (nat d)] @ s)
    = Some (10 * (10 * (10 * a + b) + c) + d, s)"
  using digit_int [of a] digit_int [of b] digit_int [of c] digit_int [of d] assms
  by (simp add: getyear_def digits_val_def)

lemma getyear_pad4: "0 \<le> n \<Longrightarrow> n < 10000 \<Longrightarrow> getyear (pad4 n @ s) = Some (n, s)"
proof -
  assume n: "0 \<le> n" "n < 10000"
  have parts: "n div 100 = n div 10 div 10" "n div 1000 = n div 10 div 10 div 10"
    by (simp_all add: zdiv_zmult2_eq [symmetric])
  have "n div 1000 mod 10 = n div 1000" using n by (intro mod_pos_pos_trivial) linarith+
  then have sum: "10 * (10 * (10 * (n div 1000 mod 10) + n div 100 mod 10) + n div 10 mod 10) + n mod 10 = n"
    unfolding parts by (simp only: div10_mod10)
  have "getyear (pad4 n @ s) =
      Some (10 * (10 * (10 * (n div 1000 mod 10) + n div 100 mod 10) + n div 10 mod 10) + n mod 10, s)"
    unfolding pad4_def by (rule getyear_digits) simp_all
  then show ?thesis unfolding sum .
qed

lemma date_fields_fmt:
  assumes "civil_from_days days = (y, m, d)" "0 \<le> y" "y < 10000"
  shows "date_fields (fmt_date days @ s) = Some (y, m, d, s)"
    and "in_range 1 (days_in m y) d = Some ()"
    and "days_from_civil y m d = days"
proof -
  have md: "1 \<le> m" "m \<le> 12" "1 \<le> d" "d \<le> days_in m y" "days_from_civil y m d = days"
    using civil_from_days_spec [of days] assms(1) by simp_all
  have "days_in m y \<le> 31" by (simp add: days_in_def)
  then show "date_fields (fmt_date days @ s) = Some (y, m, d, s)"
    using assms md by (simp add: date_fields_def fmt_date_def getyear_pad4 getnum_pad2 lit_def in_range_def)
  show "in_range 1 (days_in m y) d = Some ()" "days_from_civil y m d = days"
    using md by (simp_all add: in_range_def)
qed

lemma sixty: "0 \<le> k mod (60::int)" "k mod (60::int) \<le> 59" "k mod (60::int) < 100"
proof -
  have "k mod 60 < 60" by simp
  then show "k mod 60 \<le> 59" "k mod 60 < 100" by linarith+
qed simp

lemma clock_fields_pads:
  assumes "0 \<le> h" "h \<le> 23" "0 \<le> m" "m \<le> 59" "0 \<le> n" "n \<le> 59" "fraction s = (0, s)"
  shows "clock_fields (pad2 h @ '':'' @ pad2 m @ '':'' @ pad2 n @ s) = Some (h, m, n, 0, s)"
  using assms by (simp add: clock_fields_def getnum_pad2 lit_def in_range_def)

lemma clock_fields_fmt:
  assumes "0 \<le> secs" "secs < 86400" "fraction s = (0, s)"
  shows "clock_fields (fmt_clock secs @ s) =
    Some (secs div 3600, secs div 60 mod 60, secs mod 60, 0, s)"
proof -
  have "0 \<le> secs div 3600" "secs div 3600 \<le> 23" using assms(1,2) by linarith+
  from clock_fields_pads [OF this sixty(1,2) sixty(1,2) assms(3)]
  show ?thesis by (simp only: fmt_clock_def append_assoc)
qed

lemma clock_sum: "secs div 3600 * 3600 + secs div 60 mod 60 * 60 + secs mod 60 = (secs::int)"
proof -
  have "secs div 3600 = secs div 60 div 60" by (simp add: zdiv_zmult2_eq [symmetric])
  then show ?thesis
    using mult_div_mod_eq [of 60 "secs div 60"] mult_div_mod_eq [of 60 secs] by linarith
qed

lemma zone_field_pads:
  assumes "0 \<le> h" "h \<le> 24" "0 \<le> m" "m \<le> 60"
  shows "zone_field (''+'' @ pad2 h @ '':'' @ pad2 m) = Some ((h * 60 + m) * 60, [])"
    and "zone_field (''-'' @ pad2 h @ '':'' @ pad2 m) = Some (- ((h * 60 + m) * 60), [])"
  using assms getnum_pad2 [of m True "[]"]
  by (simp_all add: zone_field_def getnum_pad2 lit_def in_range_def)

lemma zone_field_fmt:
  assumes "\<bar>off\<bar> < 1500"
  shows "zone_field (if off = 0 then ''Z''
      else (if off < 0 then ''-'' else ''+'') @ pad2 (\<bar>off\<bar> div 60) @ '':'' @ pad2 (\<bar>off\<bar> mod 60))
    = Some (off * 60, [])"
proof -
  have "0 \<le> \<bar>off\<bar> div 60" "\<bar>off\<bar> div 60 \<le> 24" "0 \<le> \<bar>off\<bar> mod 60" "\<bar>off\<bar> mod 60 \<le> 60"
    using assms sixty [of "\<bar>off\<bar>"] by linarith+
  note pads = zone_field_pads [OF this]
  have "\<bar>off\<bar> div 60 * 60 + \<bar>off\<bar> mod 60 = \<bar>off\<bar>" by (rule div_mult_mod_eq)
  note pads = pads [unfolded this]
  consider "off = 0" | "off \<noteq> 0" "off < 0" "\<bar>off\<bar> = - off" | "off \<noteq> 0" "\<not> off < 0" "\<bar>off\<bar> = off"
    by linarith
  then show ?thesis
  proof cases
    case 1
    then show ?thesis by (simp add: zone_field_def)
  next
    case 2
    then show ?thesis using pads(2) by (simp only: if_True if_False) simp
  next
    case 3
    then show ?thesis using pads(1) by (simp only: if_True if_False)
  qed
qed

lemma fraction_none: "z \<noteq> CHR ''.'' \<Longrightarrow> z \<noteq> CHR '','' \<Longrightarrow> fraction (z # s) = (0, z # s)"
  by (simp add: fraction_def split: list.split)

lemma parse_fmt_RFC3339:
  assumes "civil_from_days ((t div 1000000000 + off * 60) div 86400) = (y, m, d)"
    and "0 \<le> y" "y < 10000" "\<bar>off\<bar> < 1500"
  shows "parse_RFC3339 (fmt_RFC3339 off t) = Some (t - t mod 1000000000)"
proof -
  define local where "local = t div 1000000000 + off * 60"
  define zone where "zone = (if off = 0 then ''Z''
      else (if off < 0 then ''-'' else ''+'') @ pad2 (\<bar>off\<bar> div 60) @ '':'' @ pad2 (\<bar>off\<bar> mod 60))"
  note date = date_fields_fmt [OF assms(1) [folded local_def] assms(2,3)]
  have "fraction zone = (0, zone)"
    by (simp add: zone_def fraction_none)
  note clock = clock_fields_fmt [OF _ _ this, of "local mod 86400"]
  have "parse_RFC3339 (fmt_RFC3339 off t) =
      Some (unix_nano y m d (local mod 86400 div 3600) (local mod 86400 div 60 mod 60)
              (local mod 86400 mod 60) 0 - off * 60 * 1000000000)"
    using date(1,2) clock zone_field_fmt [OF assms(4), folded zone_def]
    by (simp add: parse_RFC3339_def fmt_RFC3339_def Let_def local_def [symmetric]
        zone_def [symmetric] lit_def)
  moreover have "unix_nano y m d (local mod 86400 div 3600) (local mod 86400 div 60 mod 60)
      (local mod 86400 mod 60) 0 = local * 1000000000"
  proof -
    have sum: "days_from_civil y m d * 86400 + (local mod 86400 div 3600 * 3600
        + local mod 86400 div 60 mod 60 * 60 + local mod 86400 mod 60) = local"
      unfolding date(3) clock_sum by (rule div_mult_mod_eq)
    show ?thesis unfolding unix_nano_def by (simp only: add.assoc sum [unfolded add.assoc] add_0_right)
  qed
  moreover have "local * 1000000000 - off * 60 * 1000000000 = t - t mod 1000000000"
    unfolding local_def by (simp add: algebra_simps minus_mod_eq_mult_div)
  ultimately show ?thesis by (simp only:)
qed

end
