(* ===== verification/Http.thy ===== *)
theory Http
  imports Go_Time
begin

text \<open>
  Requests and responses (httpx/errors.go and what the handlers use of net/http, chi and
  encoding/json). A request carries its query, its URL parameters, its Authorization header and
  the first JSON value of its body, if that parses (\<open>rq_Trailing\<close>: more follows it). \<open>DecodeJSON\<close> is the decoder of encoding/json
  with unknown fields disallowed: struct fields are found by their JSON name, exactly or else up to
  ASCII case; null leaves a plain field alone and makes a pointer nil; a value of another type, an
  unknown member or a number outside \<open>int\<close> is an error. A number literal is given by its value as
  an integer, if it is an integer literal within 64 bits, and its value as a float64.

  A response keeps status, error code and body; the (Persian) message texts are left out. A panic
  in a handler reaches chi's Recoverer, which answers 500.
\<close>

section \<open>Requests\<close>

datatype jval =
    VNull
  | VBool bool
  | VStr string
  | VNum "int option" float64
  | VArr "jval list"
  | VObj "(string \<times> jval) list"

record request =
  rq_Authorization :: string
  rq_Query :: "string \<Rightarrow> string"
  rq_Param :: "string \<Rightarrow> string"
  rq_Body :: "jval option"
  rq_Trailing :: bool

type_synonym 's json_field = "string \<times> (jval \<Rightarrow> 's \<Rightarrow> 's option)"

definition find_field :: "'s json_field list \<Rightarrow> string \<Rightarrow> 's json_field option" where
  "find_field fds k =
     (case find (\<lambda>f. fst f = k) fds of
        Some f \<Rightarrow> Some f | None \<Rightarrow> find (\<lambda>f. equalFold (fst f) k) fds)"

fun decode_members :: "'s json_field list \<Rightarrow> (string \<times> jval) list \<Rightarrow> 's \<Rightarrow> 's option" where
  "decode_members fds [] s = Some s"
| "decode_members fds ((k, v) # ms) s =
     (case find_field fds k of
        None \<Rightarrow> None
      | Some f \<Rightarrow> (case snd f v s of None \<Rightarrow> None | Some s' \<Rightarrow> decode_members fds ms s'))"

definition DecodeJSON :: "'s json_field list \<Rightarrow> 's \<Rightarrow> request \<Rightarrow> 's option" where
  "DecodeJSON fds zero r =
     (case rq_Body r of
        Some (VObj ms) \<Rightarrow> decode_members fds ms zero
      | Some VNull \<Rightarrow> Some zero
      | _ \<Rightarrow> None)"

definition string_field :: "string \<Rightarrow> ((string \<Rightarrow> string) \<Rightarrow> 's \<Rightarrow> 's) \<Rightarrow> 's json_field" where
  "string_field k upd = (k, \<lambda>v s. case v of VStr x \<Rightarrow> Some (upd (\<lambda>_. x) s) | VNull \<Rightarrow> Some s | _ \<Rightarrow> None)"

definition int_field :: "string \<Rightarrow> ((int \<Rightarrow> int) \<Rightarrow> 's \<Rightarrow> 's) \<Rightarrow> 's json_field" where
  "int_field k upd = (k, \<lambda>v s. case v of VNum (Some n) _ \<Rightarrow> Some (upd (\<lambda>_. n) s) | VNull \<Rightarrow> Some s | _ \<Rightarrow> None)"

definition string_ptr :: "string \<Rightarrow> ((string option \<Rightarrow> string option) \<Rightarrow> 's \<Rightarrow> 's) \<Rightarrow> 's json_field" where
  "string_ptr k upd = (k, \<lambda>v s. case v of VStr x \<Rightarrow> Some (upd (\<lambda>_. Some x) s)
      | VNull \<Rightarrow> Some (upd (\<lambda>_. None) s) | _ \<Rightarrow> None)"

definition int_ptr :: "string \<Rightarrow> ((int option \<Rightarrow> int option) \<Rightarrow> 's \<Rightarrow> 's) \<Rightarrow> 's json_field" where
  "int_ptr k upd = (k, \<lambda>v s. case v of VNum (Some n) _ \<Rightarrow> Some (upd (\<lambda>_. Some n) s)
      | VNull \<Rightarrow> Some (upd (\<lambda>_. None) s) | _ \<Rightarrow> None)"

definition bool_ptr :: "string \<Rightarrow> ((bool option \<Rightarrow> bool option) \<Rightarrow> 's \<Rightarrow> 's) \<Rightarrow> 's json_field" where
  "bool_ptr k upd = (k, \<lambda>v s. case v of VBool b \<Rightarrow> Some (upd (\<lambda>_. Some b) s)
      | VNull \<Rightarrow> Some (upd (\<lambda>_. None) s) | _ \<Rightarrow> None)"

definition float_ptr :: "string \<Rightarrow> ((float64 option \<Rightarrow> float64 option) \<Rightarrow> 's \<Rightarrow> 's) \<Rightarrow> 's json_field" where
  "float_ptr k upd = (k, \<lambda>v s. case v of VNum _ x \<Rightarrow> Some (upd (\<lambda>_. Some x) s)
      | VNull \<Rightarrow> Some (upd (\<lambda>_. None) s) | _ \<Rightarrow> None)"

section \<open>Responses\<close>

datatype response =
    NoContent
  | WriteError nat string
  | WriteJSON nat json
  | WriteOvpn string string
  | Recovered

definition status :: "response \<Rightarrow> nat" where
  "status r = (case r of NoContent \<Rightarrow> 204 | WriteError s _ \<Rightarrow> s | WriteJSON s _ \<Rightarrow> s
     | WriteOvpn _ _ \<Rightarrow> 200 | Recovered \<Rightarrow> 500)"

type_synonym 'w handler = "'w \<Rightarrow> response \<times> 'w"

definition respond :: "response \<Rightarrow> 'w handler" where
  "respond r = (\<lambda>w. (r, w))"

text \<open>\<open>x, err := m(); if err != nil { onErr }; rest\<close>, a panic of \<open>m\<close> being recovered outside.\<close>

definition handle :: "('w, 'a) go \<Rightarrow> (go_err \<Rightarrow> 'w handler) \<Rightarrow> ('a \<Rightarrow> 'w handler) \<Rightarrow> 'w handler" where
  "handle m onErr onOk = (\<lambda>w. case m w of (r, w') \<Rightarrow>
     (case r of Inl e \<Rightarrow> if e = GoPanic then (Recovered, w') else onErr e w'
      | Inr x \<Rightarrow> onOk x w'))"

abbreviation INTERNAL :: response where "INTERNAL \<equiv> WriteError 500 ''INTERNAL''"
abbreviation FORBIDDEN :: response where "FORBIDDEN \<equiv> WriteError 403 ''FORBIDDEN''"
abbreviation UNAUTHORIZED :: response where "UNAUTHORIZED \<equiv> WriteError 401 ''UNAUTHORIZED''"
abbreviation VALIDATION :: response where "VALIDATION \<equiv> WriteError 400 ''VALIDATION''"
abbreviation NOT_FOUND :: response where "NOT_FOUND \<equiv> WriteError 404 ''NOT_FOUND''"
abbreviation NOT_OWNER :: response where "NOT_OWNER \<equiv> WriteError 403 ''NOT_OWNER''"
abbreviation UNAVAILABLE :: response where "UNAVAILABLE \<equiv> WriteError 503 ''MIKROTIK_UNAVAILABLE''"

lemma respond_apply [go_simps]: "respond r w = (r, w)"
  by (simp add: respond_def)

lemma preserves_respond [preserves_intro]: "preserves I (respond r)"
  by (simp add: preserves_def respond_def)

lemma preserves_handle [preserves_intro]:
  assumes "preserves I m" "\<And>e. preserves I (f e)" "\<And>x. preserves I (g x)"
  shows "preserves I (handle m f g)"
proof (rule preservesI)
  fix w assume "I w"
  then have "I (snd (m w))" using assms(1) by (rule preservesD [rotated])
  then show "I (snd (handle m f g w))"
    using assms(2,3) by (auto simp: handle_def preserves_def split: prod.split sum.split)
qed

lemma handle_inv:
  assumes "I (snd (m w))" "\<And>e. preserves I (f e)" "\<And>x. preserves I (g x)"
  shows "I (snd (handle m f g w))"
  using assms by (auto simp: handle_def preserves_def split: prod.split sum.split)

text \<open>Which way a handler went.\<close>

lemma handle_cases:
  assumes "handle m f g w = (r, w')"
  obtains (panic) w1 where "m w = (Inl GoPanic, w1)" "r = Recovered" "w' = w1"
    | (error) e w1 where "m w = (Inl e, w1)" "e \<noteq> GoPanic" "f e w1 = (r, w')"
    | (fine) x w1 where "m w = (Inr x, w1)" "g x w1 = (r, w')"
proof -
  obtain q w1 where m: "m w = (q, w1)" by (cases "m w")
  show thesis
  proof (cases q)
    case (Inl e)
    show thesis
    proof (cases "e = GoPanic")
      case True
      then have "r = Recovered" "w' = w1" using assms m Inl by (auto simp: handle_def)
      then show thesis using panic m Inl True by blast
    next
      case False
      then have "f e w1 = (r, w')" using assms m Inl by (simp add: handle_def)
      then show thesis using error m Inl False by blast
    qed
  next
    case (Inr x)
    then have "g x w1 = (r, w')" using assms m by (simp add: handle_def)
    then show thesis using fine m Inr by blast
  qed
qed

text \<open>\<open>pageWindow\<close> and the slice expression \<open>filtered[start:end]\<close>, \<open>None\<close> being the panic.\<close>

definition parsePage :: "request \<Rightarrow> int" where
  "parsePage r = (let p = fst (parseInt (rq_Query r ''page'')) in if p < 1 then 1 else p)"

definition parsePageSize :: "request \<Rightarrow> int" where
  "parsePageSize r = (let p = fst (parseInt (rq_Query r ''page_size'')) in if p < 1 then 20 else p)"

definition pageWindow :: "int \<Rightarrow> int \<Rightarrow> int \<Rightarrow> int \<times> int" where
  "pageWindow tot page pageSize =
     (let start = i64 (i64 (page - 1) * pageSize) in
      if start \<ge> tot then (tot, tot)
      else let e = i64 (start + pageSize) in
        if e > tot then (start, tot) else (start, e))"

definition go_slice :: "'a list \<Rightarrow> int \<Rightarrow> int \<Rightarrow> 'a list option" where
  "go_slice xs i j =
     (if 0 \<le> i \<and> i \<le> j \<and> j \<le> int (length xs) then Some (take (nat (j - i)) (drop (nat i) xs)) else None)"

end
