(* ===== verification/Auth.thy ===== *)
theory Auth
  imports Http
begin

text \<open>
  Tokens and the two authorisation middlewares (auth/jwt.go, auth/middleware.go). The JWT library is
  a parameter, \<open>jwt_lib\<close>: \<open>SignedString\<close> and \<open>ParseWithClaims\<close> with the secret. A handler runs
  with the claims the middleware put into the context, if any.
\<close>

record claims =
  c_Subject :: string
  c_ExpiresAt :: time
  c_IssuedAt :: time
  c_Role :: string
  c_ManagerID :: int
  c_Slug :: string
  c_Username :: string
  c_TokenType :: string

record token_pair =
  AccessToken :: string
  RefreshToken :: string

record issuer =
  is_secret :: string
  is_accessTTL :: int
  is_refreshTTL :: int

record jwt_lib =
  SignedString :: "string \<Rightarrow> claims \<Rightarrow> go_err + string"
  ParseWithClaims :: "string \<Rightarrow> time \<Rightarrow> string \<Rightarrow> go_err + claims \<times> bool"

definition RoleAdmin :: string where "RoleAdmin = ''admin''"
definition RoleManager :: string where "RoleManager = ''manager''"

definition zero_claims :: claims where
  "zero_claims = \<lparr>c_Subject = [], c_ExpiresAt = 0, c_IssuedAt = 0, c_Role = [], c_ManagerID = 0,
     c_Slug = [], c_Username = [], c_TokenType = []\<rparr>"

text \<open>\<open>jwt.NewNumericDate\<close> truncates to whole seconds.\<close>

definition NewNumericDate :: "time \<Rightarrow> time" where
  "NewNumericDate t = t div 1000000000 * 1000000000"

definition sign_claims :: "claims \<Rightarrow> time \<Rightarrow> int \<Rightarrow> string \<Rightarrow> claims" where
  "sign_claims c now ttl typ =
     c\<lparr>c_TokenType := typ, c_Subject := c_Username c, c_ExpiresAt := NewNumericDate (now + ttl),
       c_IssuedAt := NewNumericDate now\<rparr>"

definition sign :: "jwt_lib \<Rightarrow> issuer \<Rightarrow> time \<Rightarrow> claims \<Rightarrow> int \<Rightarrow> string \<Rightarrow> go_err + string" where
  "sign L i now c ttl typ = SignedString L (is_secret i) (sign_claims c now ttl typ)"

definition NewPair :: "jwt_lib \<Rightarrow> issuer \<Rightarrow> time \<Rightarrow> claims \<Rightarrow> go_err + token_pair" where
  "NewPair L i now c =
     (case sign L i now c (is_accessTTL i) ''access'' of
        Inl e \<Rightarrow> Inl e
      | Inr access \<Rightarrow>
         (case sign L i now (c\<lparr>c_TokenType := ''refresh''\<rparr>) (is_refreshTTL i) ''refresh'' of
            Inl e \<Rightarrow> Inl e
          | Inr refresh \<Rightarrow> Inr \<lparr>AccessToken = access, RefreshToken = refresh\<rparr>))"

definition Parse :: "jwt_lib \<Rightarrow> issuer \<Rightarrow> time \<Rightarrow> string \<Rightarrow> go_err + claims" where
  "Parse L i now token =
     (case ParseWithClaims L (is_secret i) now token of
        Inl e \<Rightarrow> Inl e
      | Inr (c, valid) \<Rightarrow> if valid then Inr c else Inl (ErrText ''invalid token''))"

text \<open>A handler behind the middlewares: claims from the context, then request and state.\<close>

type_synonym 'w endpoint = "claims option \<Rightarrow> request \<Rightarrow> 'w handler"

definition authenticate :: "jwt_lib \<Rightarrow> issuer \<Rightarrow> time \<Rightarrow> string \<Rightarrow> claims option" where
  "authenticate L i now h =
     (if \<not> prefix ''Bearer '' h then None
      else case Parse L i now (drop (length ''Bearer '') h) of
        Inl _ \<Rightarrow> None
      | Inr c \<Rightarrow> if c_TokenType c \<noteq> ''access'' then None else Some c)"

definition Middleware :: "jwt_lib \<Rightarrow> issuer \<Rightarrow> time \<Rightarrow> 'w endpoint \<Rightarrow> 'w endpoint" where
  "Middleware L i now next_handler ctx r =
     (case authenticate L i now (rq_Authorization r) of
        None \<Rightarrow> respond UNAUTHORIZED
      | Some c \<Rightarrow> next_handler (Some c) r)"

definition RequireAdmin :: "'w endpoint \<Rightarrow> 'w endpoint" where
  "RequireAdmin next_handler ctx r =
     (case ctx of
        None \<Rightarrow> respond FORBIDDEN
      | Some c \<Rightarrow> if c_Role c \<noteq> RoleAdmin then respond FORBIDDEN else next_handler ctx r)"

text \<open>\<open>if !ok || c.Role != auth.RoleManager { \<dots> FORBIDDEN \<dots> return }\<close>, shared by many handlers.\<close>

definition require_manager :: "claims option \<Rightarrow> (claims \<Rightarrow> 'w handler) \<Rightarrow> 'w handler" where
  "require_manager ctx h =
     (case ctx of
        None \<Rightarrow> respond FORBIDDEN
      | Some c \<Rightarrow> if c_Role c \<noteq> RoleManager then respond FORBIDDEN else h c)"

lemma preserves_require_manager [preserves_intro]:
  "(\<And>c. preserves I (h c)) \<Longrightarrow> preserves I (require_manager ctx h)"
  by (simp add: require_manager_def preserves_respond split: option.split)

lemma authenticate_Some:
  "authenticate L i now h = Some c \<longleftrightarrow>
     (\<exists>token. h = ''Bearer '' @ token \<and> ParseWithClaims L (is_secret i) now token = Inr (c, True)
        \<and> c_TokenType c = ''access'')"
proof
  assume "authenticate L i now h = Some c"
  then obtain token where h: "h = ''Bearer '' @ token"
    by (auto simp: authenticate_def prefix_def split: if_splits)
  then show "\<exists>token. h = ''Bearer '' @ token \<and> ParseWithClaims L (is_secret i) now token = Inr (c, True)
        \<and> c_TokenType c = ''access''"
    using \<open>authenticate L i now h = Some c\<close>
    by (auto simp: authenticate_def Parse_def split: sum.splits prod.splits if_splits)
qed (auto simp: authenticate_def Parse_def)

end
