(* ===== verification/Password.thy ===== *)
theory Password
  imports Models
begin

text \<open>
  Password rules and generators (password/password.go, password/cert.go). \<open>crypto/rand\<close> is a
  source of successive reads, a list of what each read of \<open>rand.Int\<close> yields: \<open>None\<close> is a
  failing reader, \<open>Some v\<close> the raw number that the call reduces below its bound. bcrypt is not
  part of the repository; \<open>Hash\<close> and \<open>Check\<close> are parameters of the application state.
\<close>

section \<open>The code\<close>

type_synonym entropy = "nat option list"

definition vpnGenChars :: string where
  "vpnGenChars = ''abcdefghijkmnpqrstuvwxyzABCDEFGHJKLMNPQRSTUVWXYZ23456789''"

definition vpnGenLen :: nat where "vpnGenLen = 8"

definition certKeyChars :: string where
  "certKeyChars = ''abcdefghijkmnpqrstuvwxyzABCDEFGHJKLMNPQRSTUVWXYZ23456789''"

definition certKeyLen :: nat where "certKeyLen = 10"

definition rand_Int :: "nat \<Rightarrow> (entropy, nat) go" where
  "rand_Int bound es =
     (case es of
        [] \<Rightarrow> (Inl ErrRandom, [])
      | None # es' \<Rightarrow> (Inl ErrRandom, es')
      | Some v # es' \<Rightarrow> (Inr (v mod bound), es'))"

fun randomFromCharset :: "string \<Rightarrow> nat \<Rightarrow> (entropy, string) go" where
  "randomFromCharset charset 0 = returnE []"
| "randomFromCharset charset (Suc n) =
     bindE (rand_Int (length charset)) (\<lambda>v.
     bindE (randomFromCharset charset n) (\<lambda>b.
     returnE (charset ! v # b)))"

definition ValidVPN :: "string \<Rightarrow> bool" where
  "ValidVPN pw =
     (if length pw < 8 then False
      else if \<not> list_ex is_alpha pw \<or> \<not> list_ex is_digit pw then False
      else True)"

definition randomVPNCandidate :: "(entropy, string) go" where
  "randomVPNCandidate = randomFromCharset vpnGenChars vpnGenLen"

fun GenerateVPN_loop :: "nat \<Rightarrow> (entropy, string) go" where
  "GenerateVPN_loop 0 = failE (ErrText ''could not generate VPN password'')"
| "GenerateVPN_loop (Suc k) =
     bindE randomVPNCandidate (\<lambda>pw. if ValidVPN pw then returnE pw else GenerateVPN_loop k)"

definition GenerateVPN :: "(entropy, string) go" where
  "GenerateVPN = GenerateVPN_loop 8"

text \<open>
  \<open>unicode.IsLetter\<close> and \<open>unicode.IsDigit\<close> for code points from 128 on are tables of the
  Go library, here the record \<open>unicode_tables\<close>; below 128 they are the ASCII classes.
\<close>

record unicode_tables =
  high_letter :: "nat \<Rightarrow> bool"
  high_digit :: "nat \<Rightarrow> bool"

definition IsLetter :: "unicode_tables \<Rightarrow> nat \<Rightarrow> bool" where
  "IsLetter ut r = (if r < 128 then is_alpha (char_of r) else high_letter ut r)"

definition IsDigit :: "unicode_tables \<Rightarrow> nat \<Rightarrow> bool" where
  "IsDigit ut r = (if r < 128 then is_digit (char_of r) else high_digit ut r)"

definition ValidPanel :: "unicode_tables \<Rightarrow> string \<Rightarrow> bool" where
  "ValidPanel ut pw =
     (if length pw < 8 then False
      else list_ex (IsLetter ut) (runes pw) \<and> list_ex (IsDigit ut) (runes pw))"

fun GenerateCertKeyPass_loop :: "nat \<Rightarrow> (entropy, string) go" where
  "GenerateCertKeyPass_loop 0 =
     failE (ErrText ''could not generate certificate key passphrase'')"
| "GenerateCertKeyPass_loop (Suc k) =
     bindE (randomFromCharset certKeyChars certKeyLen)
       (\<lambda>pw. if 8 \<le> length pw then returnE pw else GenerateCertKeyPass_loop k)"

definition GenerateCertKeyPass :: "(entropy, string) go" where
  "GenerateCertKeyPass = GenerateCertKeyPass_loop 8"

definition is_title_char :: "char \<Rightarrow> bool" where
  "is_title_char c \<longleftrightarrow> is_alpha c \<or> is_digit c \<or> c = CHR ''_'' \<or> c = CHR ''-''"

text \<open>The regular expression \<open>^[a-zA-Z0-9][a-zA-Z0-9_-]{2,31}$\<close>.\<close>

definition certTitleRe :: "string \<Rightarrow> bool" where
  "certTitleRe s =
     (case s of
        [] \<Rightarrow> False
      | c # cs \<Rightarrow> (is_alpha c \<or> is_digit c) \<and> list_all is_title_char cs
                  \<and> 2 \<le> length cs \<and> length cs \<le> 31)"

definition ValidCertTitle :: "string \<Rightarrow> bool" where
  "ValidCertTitle title = certTitleRe (trimSpace title)"

section \<open>What the generators return\<close>

lemma rand_Int_less: "rand_Int bound es = (Inr v, es') \<Longrightarrow> 0 < bound \<Longrightarrow> v < bound"
  by (auto simp: rand_Int_def split: list.splits option.splits)

lemma rand_Int_error: "rand_Int bound es = (Inl e, es') \<Longrightarrow> e = ErrRandom"
  by (auto simp: rand_Int_def split: list.splits option.splits)

lemma randomFromCharset_spec:
  "randomFromCharset cs n es = (Inr s, es') \<Longrightarrow> cs \<noteq> [] \<Longrightarrow> length s = n \<and> set s \<subseteq> set cs"
proof (induction n arbitrary: s es es')
  case 0
  then show ?case by (simp add: returnE_apply)
next
  case (Suc n)
  from Suc.prems(1) obtain v es1 b
    where v: "rand_Int (length cs) es = (Inr v, es1)"
      and b: "randomFromCharset cs n es1 = (Inr b, es')" and s: "s = cs ! v # b"
    unfolding randomFromCharset.simps bindE_Inr_iff returnE_apply by auto
  have "v < length cs" using rand_Int_less [OF v] Suc.prems(2) by simp
  then show ?case using Suc.IH [OF b Suc.prems(2)] s by simp
qed

lemma randomFromCharset_error:
  "randomFromCharset cs n es = (Inl e, es') \<Longrightarrow> e = ErrRandom"
proof (induction n arbitrary: es es')
  case 0
  then show ?case by (simp add: returnE_apply)
next
  case (Suc n)
  then show ?case
    by (auto simp: bindE_apply returnE_apply split: prod.splits sum.splits dest: rand_Int_error)
qed

lemma GenerateVPN_loop_spec:
  "GenerateVPN_loop k es = (Inr pw, es') \<Longrightarrow>
     ValidVPN pw \<and> length pw = vpnGenLen \<and> set pw \<subseteq> set vpnGenChars"
proof (induction k arbitrary: es)
  case 0
  then show ?case by (simp add: failE_apply)
next
  case (Suc k)
  then obtain c es1 where c: "randomVPNCandidate es = (Inr c, es1)"
    and rest: "(if ValidVPN c then returnE c else GenerateVPN_loop k) es1 = (Inr pw, es')"
    by (auto simp: bindE_Inr_iff)
  have "vpnGenChars \<noteq> []" by (simp add: vpnGenChars_def)
  with c have "length c = vpnGenLen \<and> set c \<subseteq> set vpnGenChars"
    unfolding randomVPNCandidate_def by (rule randomFromCharset_spec)
  then show ?case
    using rest Suc.IH by (cases "ValidVPN c") (auto simp: returnE_apply)
qed

lemma GenerateCertKeyPass_eq:
  "GenerateCertKeyPass = randomFromCharset certKeyChars certKeyLen"
proof
  fix es
  have "GenerateCertKeyPass_loop (Suc k) es = randomFromCharset certKeyChars certKeyLen es" for k
  proof (cases "randomFromCharset certKeyChars certKeyLen es")
    case (Pair r es')
    show ?thesis
    proof (cases r)
      case (Inl e)
      then show ?thesis using Pair by (simp add: bindE_apply)
    next
      case (Inr pw)
      then have "length pw = certKeyLen"
        using Pair randomFromCharset_spec [of certKeyChars] by (auto simp: certKeyChars_def)
      then show ?thesis using Pair Inr by (simp add: bindE_apply returnE_apply certKeyLen_def)
    qed
  qed
  from this [of 7] show "GenerateCertKeyPass es = randomFromCharset certKeyChars certKeyLen es"
    unfolding GenerateCertKeyPass_def by (simp only: numeral_nat)
qed

text \<open>Without non-ASCII bytes the panel's rule and the VPN rule agree.\<close>

lemma ValidPanel_ascii:
  "\<forall>c \<in> set pw. code c < 128 \<Longrightarrow> ValidPanel ut pw = ValidVPN pw"
  by (auto simp: ValidPanel_def ValidVPN_def runes_ascii list_ex_iff IsLetter_def IsDigit_def)

section \<open>How much randomness is read\<close>

lemma rand_Int_reads: "rand_Int b es = (r, es') \<Longrightarrow> \<exists>k\<le>1. es' = drop k es"
  by (cases es) (auto simp: rand_Int_def split: option.splits intro!: exI [of _ 1])

lemma randomFromCharset_reads: "randomFromCharset cs n es = (r, es') \<Longrightarrow> \<exists>k\<le>n. es' = drop k es"
proof (induction n arbitrary: r es es')
  case 0
  then show ?case by (simp add: returnE_apply)
next
  case (Suc n)
  obtain q es1 where 1: "rand_Int (length cs) es = (q, es1)" by (cases "rand_Int (length cs) es")
  obtain k1 where k1: "k1 \<le> 1" "es1 = drop k1 es" using rand_Int_reads [OF 1] by blast
  show ?case
  proof (cases q)
    case (Inl e)
    then show ?thesis using Suc.prems 1 k1 by (auto simp: bindE_def intro!: exI [of _ k1])
  next
    case (Inr v)
    obtain q2 es2 where 2: "randomFromCharset cs n es1 = (q2, es2)" by (cases "randomFromCharset cs n es1")
    obtain k2 where k2: "k2 \<le> n" "es2 = drop k2 es1" using Suc.IH [OF 2] by blast
    have "es' = es2" using Suc.prems 1 2 Inr by (cases q2) (auto simp: bindE_def returnE_apply)
    then show ?thesis using k1 k2 by (intro exI [of _ "k2 + k1"]) simp
  qed
qed

lemma GenerateVPN_loop_cases:
  "GenerateVPN_loop k es = (r, es') \<Longrightarrow> \<exists>n. n \<le> vpnGenLen * k \<and> es' = drop n es
     \<and> (\<forall>e. r = Inl e \<longrightarrow> e = ErrRandom \<or> e = ErrText ''could not generate VPN password'')"
proof (induction k arbitrary: es)
  case 0
  then show ?case by (auto simp: failE_apply)
next
  case (Suc k)
  obtain q es1 where 1: "randomVPNCandidate es = (q, es1)" by (cases "randomVPNCandidate es")
  obtain n1 where n1: "n1 \<le> vpnGenLen" "es1 = drop n1 es"
    using randomFromCharset_reads [OF 1 [unfolded randomVPNCandidate_def]] by blast
  show ?case
  proof (cases "\<exists>pw. q = Inr pw \<and> \<not> ValidVPN pw")
    case True
    then have "GenerateVPN_loop k es1 = (r, es')" using Suc.prems 1 by (auto simp: bindE_def)
    from Suc.IH [OF this] obtain n2 where "n2 \<le> vpnGenLen * k" "es' = drop n2 es1"
      "\<forall>e. r = Inl e \<longrightarrow> e = ErrRandom \<or> e = ErrText ''could not generate VPN password''" by blast
    then show ?thesis using n1 by (intro exI [of _ "n2 + n1"]) simp
  next
    case False
    then have "es' = es1 \<and> (\<forall>e. r = Inl e \<longrightarrow> q = Inl e)"
      using Suc.prems 1 by (cases q) (auto simp: bindE_def returnE_apply)
    then show ?thesis
      using n1 randomFromCharset_error 1 [unfolded randomVPNCandidate_def] by (intro exI [of _ n1]) auto
  qed
qed

text \<open>
  C36. Generating a password ends: it reads at most 64 random numbers, returns a password that
  satisfies the rule, of eight characters of the alphabet, and fails only if the random source fails
  or it gives up after eight candidates.
\<close>

theorem generate_password_ends:
  assumes "GenerateVPN es = (r, es')"
  shows "\<exists>n \<le> 64. es' = drop n es \<and>
    (case r of
       Inr pw \<Rightarrow> ValidVPN pw \<and> length pw = 8 \<and> set pw \<subseteq> set vpnGenChars
     | Inl e \<Rightarrow> e \<in> {ErrRandom, ErrText ''could not generate VPN password''})"
  using GenerateVPN_loop_cases [OF assms [unfolded GenerateVPN_def]]
    GenerateVPN_loop_spec [of 8 es _ es'] assms
  by (auto simp: GenerateVPN_def vpnGenLen_def split: sum.splits)

lemma generate_password_ends_witness:
  "ValidVPN (projr (fst (GenerateVPN (Some 0 # replicate 7 (Some 53)))))"
proof -
  let ?run = "GenerateVPN (Some 0 # replicate 7 (Some 53))"
  have "\<not> isl (fst ?run) \<or> False" by code_simp
  then obtain pw where run: "?run = (Inr pw, snd ?run)" by (cases "fst ?run") (auto simp: prod_eq_iff)
  from generate_password_ends [OF this] show ?thesis by (subst run) auto
qed

end
