(* ===== verification/Owner.thy ===== *)
theory Owner
  imports Models "HOL-Library.Multiset"
begin

text \<open>
  Ownership of VPN users (owner/owner.go): a registry of managers, the name pattern and the comment
  token of a manager, \<open>Resolve\<close>, which decides the owner of a router user from its name and its
  comment, and \<open>SlugOverlaps\<close>, the check that keeps the patterns of two managers apart.
\<close>

section \<open>The code\<close>

record manager_info =
  mi_ID :: int
  mi_Slug :: string

record registry =
  reg_Separator :: string
  reg_Managers :: "manager_info list"

definition Pattern :: "registry \<Rightarrow> manager_info \<Rightarrow> string" where
  "Pattern r m = mi_Slug m @ reg_Separator r"

definition PanelComment :: "registry \<Rightarrow> manager_info \<Rightarrow> string" where
  "PanelComment r m = ''panel='' @ mi_Slug m"

definition commentMatchesPanel :: "registry \<Rightarrow> string \<Rightarrow> manager_info \<Rightarrow> bool" where
  "commentMatchesPanel r comment m =
     (let token = PanelComment r m in
      if comment = token then True
      else if prefix (token @ ''|'') comment then True
      else if suffix (''|'' @ token) comment then True
      else sublist (''|'' @ token @ ''|'') comment)"

definition Resolve :: "registry \<Rightarrow> string \<Rightarrow> string \<Rightarrow> int" where
  "Resolve r name comment =
     (case find (\<lambda>m. prefix (Pattern r m) name) (reg_Managers r) of
        Some m \<Rightarrow> mi_ID m
      | None \<Rightarrow>
         (case find (\<lambda>m. commentMatchesPanel r comment m) (reg_Managers r) of
            Some m \<Rightarrow> mi_ID m
          | None \<Rightarrow> 0))"

definition OwnerMismatch :: "registry \<Rightarrow> string \<Rightarrow> string \<Rightarrow> int \<Rightarrow> bool" where
  "OwnerMismatch r name comment resolvedID =
     (if resolvedID = 0 then False
      else let nameID = (case find (\<lambda>m. prefix (Pattern r m) name) (reg_Managers r) of
                           Some m \<Rightarrow> mi_ID m | None \<Rightarrow> 0);
               commentID = (case find (\<lambda>m. commentMatchesPanel r comment m) (reg_Managers r) of
                           Some m \<Rightarrow> mi_ID m | None \<Rightarrow> 0)
           in if nameID = 0 \<or> commentID = 0 then False else nameID \<noteq> commentID)"

fun SlugOverlaps :: "string \<Rightarrow> manager_slug list \<Rightarrow> int \<Rightarrow> bool" where
  "SlugOverlaps slug [] excludeID = False"
| "SlugOverlaps slug (e # es) excludeID =
     (if excludeID > 0 \<and> ms_ID e = excludeID then SlugOverlaps slug es excludeID
      else if slug = ms_Slug e \<or> prefix (ms_Slug e) slug \<or> prefix slug (ms_Slug e) then True
      else SlugOverlaps slug es excludeID)"

definition BuildRegistry :: "manager list \<Rightarrow> string \<Rightarrow> registry" where
  "BuildRegistry managers separator =
     \<lparr>reg_Separator = separator,
      reg_Managers = map (\<lambda>m. \<lparr>mi_ID = mgr_ID m, mi_Slug = mgr_Slug m\<rparr>) managers\<rparr>"

section \<open>Slugs that do not overlap\<close>

text \<open>
  What the slug check promises of the whole registry: no slug is a prefix of the slug of another
  manager. Positions matter, not values, so that two managers with one slug are excluded.
\<close>

definition comparable :: "string \<Rightarrow> string \<Rightarrow> bool" where
  "comparable s t \<longleftrightarrow> prefix s t \<or> prefix t s"

definition slugs_apart :: "string list \<Rightarrow> bool" where
  "slugs_apart ss \<longleftrightarrow> sorted_wrt (\<lambda>s t. \<not> comparable s t) ss"

definition reg_apart :: "registry \<Rightarrow> bool" where
  "reg_apart r \<longleftrightarrow> slugs_apart (map mi_Slug (reg_Managers r))"

lemma comparable_sym: "comparable s t \<Longrightarrow> comparable t s"
  by (auto simp: comparable_def)

lemma comparable_refl [simp]: "comparable s s"
  by (simp add: comparable_def)

lemma SlugOverlaps_iff:
  "SlugOverlaps slug es excludeID \<longleftrightarrow>
     (\<exists>e \<in> set es. \<not> (excludeID > 0 \<and> ms_ID e = excludeID) \<and> comparable slug (ms_Slug e))"
  by (induction slug es excludeID rule: SlugOverlaps.induct) (auto simp: comparable_def)

lemma slugs_apart_snoc:
  "slugs_apart (ss @ [s]) \<longleftrightarrow> slugs_apart ss \<and> (\<forall>t \<in> set ss. \<not> comparable t s)"
  by (auto simp: slugs_apart_def sorted_wrt_append)

lemma prefixes_comparable: "prefix s u \<Longrightarrow> prefix t u \<Longrightarrow> comparable s t"
  unfolding comparable_def using prefix_same_cases by blast

lemma sorted_wrt_not_comparable_D:
  "sorted_wrt (\<lambda>s t. \<not> comparable s t) (map f xs) \<Longrightarrow> x \<in> set xs \<Longrightarrow> y \<in> set xs
    \<Longrightarrow> comparable (f x) (f y) \<Longrightarrow> x = y"
  by (induction xs) (auto dest: comparable_sym)

lemma reg_apart_unique:
  assumes "reg_apart r" "m \<in> set (reg_Managers r)" "m' \<in> set (reg_Managers r)"
    and "comparable (mi_Slug m) (mi_Slug m')"
  shows "m = m'"
  using assms sorted_wrt_not_comparable_D [of mi_Slug "reg_Managers r" m m']
  by (simp add: reg_apart_def slugs_apart_def)

text \<open>With slugs apart, a name has at most one pattern, so the first match is the only match.\<close>

lemma pattern_unique:
  assumes "reg_apart r" "m \<in> set (reg_Managers r)" "m' \<in> set (reg_Managers r)"
    and "prefix (Pattern r m) name" "prefix (Pattern r m') name"
  shows "m = m'"
proof -
  have "prefix (mi_Slug m) name" "prefix (mi_Slug m') name"
    using assms(4,5) by (auto simp: Pattern_def dest: append_prefixD)
  then have "comparable (mi_Slug m) (mi_Slug m')" by (rule prefixes_comparable)
  with assms(1,2,3) show ?thesis by (rule reg_apart_unique)
qed

lemma find_unique:
  assumes "x \<in> set xs" "P x" "\<And>y. y \<in> set xs \<Longrightarrow> P y \<Longrightarrow> y = x"
  shows "find P xs = Some x"
proof (cases "find P xs")
  case None
  then show ?thesis using assms(1,2) by (auto simp: find_None_iff)
next
  case (Some y)
  then have "y \<in> set xs" "P y" by (auto simp: find_Some_iff)
  then show ?thesis using assms(3) Some by simp
qed

lemma Resolve_by_name:
  assumes "reg_apart r" "m \<in> set (reg_Managers r)" "prefix (Pattern r m) name"
  shows "Resolve r name comment = mi_ID m"
proof -
  have "find (\<lambda>m. prefix (Pattern r m) name) (reg_Managers r) = Some m"
    using assms by (intro find_unique) (auto dest: pattern_unique)
  then show ?thesis by (simp add: Resolve_def)
qed

section \<open>The comment token\<close>

text \<open>
  The four string tests of \<open>commentMatchesPanel\<close> are membership in the list of the comment's
  parts between bars, for a token that holds no bar itself.
\<close>

lemma join_around:
  "xs \<noteq> [] \<Longrightarrow> ps \<noteq> [] \<Longrightarrow> joinWith sep (ps @ xs) = joinWith sep ps @ sep @ joinWith sep xs"
proof (induction ps)
  case Nil
  then show ?case by simp
next
  case (Cons p ps)
  then show ?case by (cases "ps = []") (simp_all add: joinWith_Cons)
qed

lemma split_token_iff:
  assumes bar: "CHR ''|'' \<notin> set t"
  shows "t \<in> set (splitOn (CHR ''|'') c) \<longleftrightarrow>
    c = t \<or> prefix (t @ ''|'') c \<or> suffix (''|'' @ t) c \<or> sublist (''|'' @ t @ ''|'') c"
    (is "?L \<longleftrightarrow> ?R")
proof
  assume ?L
  then obtain ps qs where split: "splitOn (CHR ''|'') c = ps @ t # qs"
    by (meson split_list)
  have c: "c = joinWith ''|'' (ps @ t # qs)"
    using join_splitOn [of "CHR ''|''" c] split by simp
  show ?R
    by (cases "ps = []"; cases "qs = []")
      (auto simp: c join_around joinWith_Cons suffix_def sublist_def)
next
  have t: "splitOn (CHR ''|'') t = [t]" using bar by (rule splitOn_free)
  assume ?R
  then show ?L
    using t by (auto simp: prefix_def suffix_def sublist_def splitOn_append splitOn_append_sep bar)
qed

lemma Resolve_created:
  assumes "slugs_apart (map mgr_Slug managers)" and "m \<in> set managers"
  shows "Resolve (BuildRegistry managers sep) (mgr_Slug m @ sep @ local_name) comment = mgr_ID m"
proof -
  let ?r = "BuildRegistry managers sep" and ?i = "\<lparr>mi_ID = mgr_ID m, mi_Slug = mgr_Slug m\<rparr>"
  have "reg_apart ?r" using assms(1) by (simp add: reg_apart_def BuildRegistry_def comp_def)
  moreover have "?i \<in> set (reg_Managers ?r)" using assms(2) by (auto simp: BuildRegistry_def)
  moreover have "prefix (Pattern ?r ?i) (mgr_Slug m @ sep @ local_name)"
    by (simp add: Pattern_def BuildRegistry_def)
  ultimately show ?thesis using Resolve_by_name [of ?r ?i] by simp
qed

section \<open>Properties\<close>

lemma find_mset_eq:
  assumes "mset xs = mset ys" "\<And>x y. x \<in> set xs \<Longrightarrow> y \<in> set xs \<Longrightarrow> P x \<Longrightarrow> P y \<Longrightarrow> x = y"
  shows "find P xs = find P ys"
proof (cases "find P xs")
  case None
  then have "\<not> (\<exists>y \<in> set ys. P y)" using assms(1) by (metis find_None_iff mset_eq_setD)
  then show ?thesis using None by (metis find_None_iff)
next
  case (Some x)
  then have x: "x \<in> set xs" "P x" by (auto simp: find_Some_iff)
  then have "find P ys = Some x"
    using assms by (intro find_unique) (auto dest: mset_eq_setD)
  then show ?thesis using Some by simp
qed

text \<open>
  The owner does not depend on the order in which the managers are listed: with slugs apart and
  at most one panel token in the comment, every permutation of the registry resolves a user to the
  same manager.
\<close>

lemma resolve_order_independent:
  assumes "reg_apart r" "mset (reg_Managers r') = mset (reg_Managers r)" "reg_Separator r' = reg_Separator r"
    and "\<And>m m'. m \<in> set (reg_Managers r) \<Longrightarrow> m' \<in> set (reg_Managers r) \<Longrightarrow>
      commentMatchesPanel r comment m \<Longrightarrow> commentMatchesPanel r comment m' \<Longrightarrow> m = m'"
  shows "Resolve r' name comment = Resolve r name comment"
proof -
  have same: "Pattern r' = Pattern r" "commentMatchesPanel r' = commentMatchesPanel r"
    using assms(3) by (simp_all add: Pattern_def commentMatchesPanel_def PanelComment_def fun_eq_iff)
  have "find (\<lambda>m. prefix (Pattern r m) name) (reg_Managers r') = find (\<lambda>m. prefix (Pattern r m) name) (reg_Managers r)"
    using assms(1,2) by (intro sym [OF find_mset_eq]) (auto dest: pattern_unique)
  moreover have "find (commentMatchesPanel r comment) (reg_Managers r') = find (commentMatchesPanel r comment) (reg_Managers r)"
    using assms(2,4) by (intro sym [OF find_mset_eq]) auto
  ultimately show ?thesis unfolding Resolve_def same by (simp split: option.split)
qed

text \<open>
  A comment names a panel exactly when the panel's token is one of the parts of the comment
  between bars, for a slug without a bar: no token is found inside a longer one.
\<close>

lemma comment_matches_token:
  assumes "CHR ''|'' \<notin> set (mi_Slug m)"
  shows "commentMatchesPanel r comment m \<longleftrightarrow> PanelComment r m \<in> set (splitOn (CHR ''|'') comment)"
proof -
  have "CHR ''|'' \<notin> set (PanelComment r m)" using assms by (auto simp: PanelComment_def)
  from split_token_iff [OF this, of comment] show ?thesis
    by (simp add: commentMatchesPanel_def Let_def)
qed

text \<open>
  C29. The slug check at the creation of a manager is exact: a new manager that passes it leaves the
  slugs of all managers apart, and one that fails it would make two of them overlap.
\<close>

theorem slug_check_exact:
  assumes "slugs_apart (map mgr_Slug managers)"
  shows "slugs_apart (map mgr_Slug (managers @ [m])) \<longleftrightarrow>
    \<not> SlugOverlaps (mgr_Slug m) (map (\<lambda>x. \<lparr>ms_ID = mgr_ID x, ms_Slug = mgr_Slug x\<rparr>) managers) 0"
  using assms by (auto simp: slugs_apart_snoc SlugOverlaps_iff comparable_sym)

lemma slug_check_exact_witness:
  "slugs_apart (map mgr_Slug ([sample_manager 1 ''ali''] @ [sample_manager 2 ''reza'']))
   \<and> \<not> slugs_apart (map mgr_Slug ([sample_manager 1 ''ali''] @ [sample_manager 2 ''alireza'']))"
  using slug_check_exact [of "[sample_manager 1 ''ali'']" "sample_manager 2 ''reza''"]
    slug_check_exact [of "[sample_manager 1 ''ali'']" "sample_manager 2 ''alireza''"]
  by (simp add: sample_manager_def slugs_apart_def)

text \<open>
  A mismatch is reported only for a user whose name follows one manager's pattern and whose
  comment carries another manager's token; the user then still belongs to the manager of the name.
\<close>

lemma mismatch_owner:
  assumes "OwnerMismatch r name comment (Resolve r name comment)"
  shows "\<exists>m1 \<in> set (reg_Managers r). \<exists>m2 \<in> set (reg_Managers r).
    prefix (Pattern r m1) name \<and> commentMatchesPanel r comment m2 \<and> mi_ID m1 \<noteq> mi_ID m2
    \<and> Resolve r name comment = mi_ID m1"
proof -
  let ?P = "\<lambda>m. prefix (Pattern r m) name" and ?Q = "commentMatchesPanel r comment"
  obtain m1 m2 where 1: "find ?P (reg_Managers r) = Some m1" and 2: "find ?Q (reg_Managers r) = Some m2"
    and ne: "mi_ID m1 \<noteq> mi_ID m2"
    using assms by (auto simp: OwnerMismatch_def Let_def split: option.splits if_splits)
  have "Resolve r name comment = mi_ID m1" using 1 by (simp add: Resolve_def)
  then show ?thesis using find_SomeD [OF 1] find_SomeD [OF 2] ne by blast
qed

end
