(* ===== verification/Mikrotik_Client.thy ===== *)
theory Mikrotik_Client
  imports Go_Time
begin

text \<open>
  The interface to the router's User Manager (mikrotik/types.go, interface \<open>Client\<close>): a record
  of its methods over a state \<open>'r\<close>, each a call in the sense of the prelude. The methods that
  read the clock, or may be served from a cache that does, take the instant of the call.

  Three locales state what the panel relies on: \<open>router_reads\<close> (the reading methods report the
  user table and leave it alone), its extension \<open>user_manager\<close> (what each writing method does to
  the table, and that a failed one does nothing) and \<open>router_files\<close> (the files of the router).
  The state is seen through the functions \<open>users\<close>, \<open>profiles\<close> and \<open>files\<close>.
\<close>

record 'r client =
  cl_Ping :: "('r, unit) go"
  cl_ListUsers :: "time \<Rightarrow> ('r, mt_user list) go"
  cl_GetUser :: "time \<Rightarrow> string \<Rightarrow> ('r, mt_user) go"
  cl_AddUser :: "string \<Rightarrow> string \<Rightarrow> string \<Rightarrow> int \<Rightarrow> bool \<Rightarrow> ('r, unit) go"
  cl_SetUser :: "string \<Rightarrow> string option \<Rightarrow> int option \<Rightarrow> string \<Rightarrow> bool option \<Rightarrow> ('r, unit) go"
  cl_RemoveUser :: "string \<Rightarrow> ('r, unit) go"
  cl_ListUserProfiles :: "time \<Rightarrow> string \<Rightarrow> ('r, user_profile list) go"
  cl_AddUserProfile :: "time \<Rightarrow> string \<Rightarrow> string \<Rightarrow> ('r, unit) go"
  cl_RemoveUserProfile :: "string \<Rightarrow> ('r, unit) go"
  cl_GenerateCertificate :: "string \<Rightarrow> string \<Rightarrow> string \<Rightarrow> ('r, unit) go"
  cl_ReadFileContents :: "string \<Rightarrow> ('r, string) go"
  cl_WriteFileContents :: "string \<Rightarrow> string \<Rightarrow> ('r, unit) go"
  cl_FileExists :: "string \<Rightarrow> ('r, bool) go"
  cl_InvalidateCache :: "'r \<Rightarrow> 'r"

text \<open>The user table as a map, and the loop \<open>for _, u := range users { if u.Name == name \<dots> }\<close>.\<close>

definition user_map :: "mt_user list \<Rightarrow> string \<rightharpoonup> mt_user" where
  "user_map us = map_of (map (\<lambda>u. (usr_Name u, u)) us)"

definition find_user :: "string \<Rightarrow> mt_user list \<Rightarrow> go_err + mt_user" where
  "find_user name us =
     (case find (\<lambda>u. usr_Name u = name) us of None \<Rightarrow> Inl ErrNotFound | Some u \<Rightarrow> Inr u)"

text \<open>The fields that \<open>SetUser\<close> was given, in place of the old ones.\<close>

definition set_fields :: "string option \<Rightarrow> int option \<Rightarrow> string \<Rightarrow> bool option \<Rightarrow> mt_user \<Rightarrow> mt_user" where
  "set_fields password sharedUsers comment disabled u =
     u\<lparr>usr_Password := (case password of None \<Rightarrow> usr_Password u | Some p \<Rightarrow> p),
       usr_SharedUsers := (case sharedUsers of None \<Rightarrow> usr_SharedUsers u | Some n \<Rightarrow> n),
       usr_Comment := comment,
       usr_Disabled := (case disabled of None \<Rightarrow> usr_Disabled u | Some b \<Rightarrow> b)\<rparr>"

definition templateOvpnName :: "string \<Rightarrow> string" where
  "templateOvpnName certTitle = ''open-vpns/config-'' @ certTitle @ ''.ovpn''"

lemma user_map_find: "user_map us name = find (\<lambda>u. usr_Name u = name) us"
  by (induction us) (auto simp: user_map_def)

lemma user_map_name: "user_map us n = Some u \<Longrightarrow> usr_Name u = n"
  by (auto simp: user_map_find find_Some_iff)

lemma user_map_Some: "distinct (map usr_Name us) \<Longrightarrow> user_map us n = Some u \<longleftrightarrow> u \<in> set us \<and> usr_Name u = n"
  by (auto simp: user_map_def map_of_eq_Some_iff comp_def image_iff)

lemma find_user_iff:
  "find_user name us = Inr u \<longleftrightarrow> user_map us name = Some u"
  "find_user name us = Inl e \<longleftrightarrow> user_map us name = None \<and> e = ErrNotFound"
  by (auto simp: find_user_def user_map_find split: option.split)

lemma set_fields_name [simp]: "usr_Name (set_fields p s c b u) = usr_Name u"
  by (simp add: set_fields_def)

section \<open>Contracts\<close>

locale router_reads =
  fixes C :: "'r client" and ok :: "'r \<Rightarrow> bool"
    and users :: "'r \<Rightarrow> string \<rightharpoonup> mt_user" and profiles :: "'r \<Rightarrow> string \<Rightarrow> user_profile list"
  assumes ListUsers_frame: "ok w \<Longrightarrow> cl_ListUsers C now w = (r, w') \<Longrightarrow>
      ok w' \<and> users w' = users w \<and> profiles w' = profiles w"
    and ListUsers_Inr: "ok w \<Longrightarrow> cl_ListUsers C now w = (Inr us, w') \<Longrightarrow>
      distinct (map usr_Name us) \<and> users w = user_map us"
    and ListUsers_Inl: "ok w \<Longrightarrow> cl_ListUsers C now w = (Inl e, w') \<Longrightarrow> e \<noteq> ErrNotFound"
    and GetUser_frame: "ok w \<Longrightarrow> cl_GetUser C now name w = (ru, w') \<Longrightarrow>
      ok w' \<and> users w' = users w \<and> profiles w' = profiles w"
    and GetUser_Inr: "ok w \<Longrightarrow> cl_GetUser C now name w = (Inr u, w') \<Longrightarrow> users w name = Some u"
    and GetUser_NotFound: "ok w \<Longrightarrow> cl_GetUser C now name w = (Inl ErrNotFound, w') \<Longrightarrow> users w name = None"
    and ListUserProfiles_frame: "ok w \<Longrightarrow> cl_ListUserProfiles C now name w = (rp, w') \<Longrightarrow>
      ok w' \<and> users w' = users w \<and> profiles w' = profiles w"
    and ListUserProfiles_Inr: "ok w \<Longrightarrow> cl_ListUserProfiles C now name w = (Inr ps, w') \<Longrightarrow> profiles w name = ps"

locale user_manager = router_reads +
  assumes orphan_profiles: "ok w \<Longrightarrow> users w name = None \<Longrightarrow> profiles w name = []"
    and AddUser_Inr: "ok w \<Longrightarrow> cl_AddUser C name pw comment shared dis w = (Inr (), w') \<Longrightarrow>
      ok w' \<and> users w name = None \<and> profiles w' = profiles w \<and>
      (\<exists>i. users w' = (users w)(name \<mapsto> \<lparr>usr_ID = i, usr_Name = name, usr_Password = pw,
            usr_SharedUsers = shared, usr_Comment = comment, usr_Disabled = dis\<rparr>))"
    and AddUser_Inl: "ok w \<Longrightarrow> cl_AddUser C name pw comment shared dis w = (Inl e, w') \<Longrightarrow>
      ok w' \<and> users w' = users w \<and> profiles w' = profiles w"
    and SetUser_Inr: "ok w \<Longrightarrow> cl_SetUser C name pwo so comment diso w = (Inr (), w') \<Longrightarrow>
      ok w' \<and> profiles w' = profiles w \<and>
      (\<exists>u c. users w name = Some u \<and> (comment \<noteq> [] \<longrightarrow> c = comment) \<and>
         users w' = (users w)(name \<mapsto> set_fields pwo so c diso u))"
    and SetUser_Inl: "ok w \<Longrightarrow> cl_SetUser C name pwo so comment diso w = (Inl e, w') \<Longrightarrow>
      ok w' \<and> users w' = users w \<and> profiles w' = profiles w"
    and RemoveUser_Inr: "ok w \<Longrightarrow> cl_RemoveUser C name w = (Inr (), w') \<Longrightarrow>
      ok w' \<and> users w' = (users w)(name := None) \<and> profiles w' = (profiles w)(name := [])"
    and RemoveUser_Inl: "ok w \<Longrightarrow> cl_RemoveUser C name w = (Inl e, w') \<Longrightarrow>
      ok w' \<and> users w' = users w \<and> profiles w' = profiles w"
    and AddUserProfile_Inr: "ok w \<Longrightarrow> cl_AddUserProfile C now name profile w = (Inr (), w') \<Longrightarrow>
      ok w' \<and> users w' = users w \<and> (\<forall>n. n \<noteq> name \<longrightarrow> profiles w' n = profiles w n) \<and>
      (\<exists>p \<in> set (profiles w' name). prof_User p = name \<and> prof_Profile p = profile)"
    and AddUserProfile_Inl: "ok w \<Longrightarrow> cl_AddUserProfile C now name profile w = (Inl e, w') \<Longrightarrow>
      ok w' \<and> users w' = users w \<and> profiles w' = profiles w"
    and RemoveUserProfile_Inr: "ok w \<Longrightarrow> cl_RemoveUserProfile C i w = (Inr (), w') \<Longrightarrow>
      ok w' \<and> users w' = users w \<and> (\<forall>n. set (profiles w' n) \<subseteq> set (profiles w n)
        \<and> (\<forall>p \<in> set (profiles w n). prof_ID p \<noteq> i \<longrightarrow> p \<in> set (profiles w' n)))"
    and RemoveUserProfile_Inl: "ok w \<Longrightarrow> cl_RemoveUserProfile C i w = (Inl e, w') \<Longrightarrow>
      ok w' \<and> users w' = users w \<and> profiles w' = profiles w"
    and InvalidateCache_frame: "ok w \<Longrightarrow>
      ok (cl_InvalidateCache C w) \<and> users (cl_InvalidateCache C w) = users w
        \<and> profiles (cl_InvalidateCache C w) = profiles w"
    and Ping_keeps: "ok w \<Longrightarrow> cl_Ping C w = (ru1, w') \<Longrightarrow>
      ok w' \<and> users w' = users w \<and> profiles w' = profiles w"
    and Generate_keeps: "ok w \<Longrightarrow> cl_GenerateCertificate C script title pass w = (ru1, w') \<Longrightarrow>
      ok w' \<and> users w' = users w \<and> profiles w' = profiles w"
    and Read_keeps: "ok w \<Longrightarrow> cl_ReadFileContents C file w = (ru2, w') \<Longrightarrow>
      ok w' \<and> users w' = users w \<and> profiles w' = profiles w"
    and Write_keeps: "ok w \<Longrightarrow> cl_WriteFileContents C file body w = (ru1, w') \<Longrightarrow>
      ok w' \<and> users w' = users w \<and> profiles w' = profiles w"
    and Exists_keeps: "ok w \<Longrightarrow> cl_FileExists C file w = (ru3, w') \<Longrightarrow>
      ok w' \<and> users w' = users w \<and> profiles w' = profiles w"

locale router_files =
  fixes C :: "'r client" and files :: "'r \<Rightarrow> string \<rightharpoonup> string"
  assumes Read_frame: "cl_ReadFileContents C name w = (rs, w') \<Longrightarrow> files w' = files w"
    and Read_Inr: "cl_ReadFileContents C name w = (Inr body, w') \<Longrightarrow> files w name = Some body"
    and Read_NotFound: "cl_ReadFileContents C name w = (Inl ErrNotFound, w') \<Longrightarrow> files w name = None"
    and Write_Inr: "cl_WriteFileContents C name body w = (Inr (), w') \<Longrightarrow> files w' = (files w)(name \<mapsto> body)"
    and Exists_frame: "cl_FileExists C name w = (rb, w') \<Longrightarrow> files w' = files w"
    and Exists_Inr: "cl_FileExists C name w = (Inr b, w') \<Longrightarrow> b \<longleftrightarrow> files w name \<noteq> None"
    and Generate_Inr: "cl_GenerateCertificate C script title passphrase w = (Inr (), w') \<Longrightarrow>
      files w' (templateOvpnName title) \<noteq> None"

context router_reads
begin

text \<open>A listed table answers every lookup.\<close>

lemma listed_find:
  assumes "ok w" "cl_ListUsers C now w = (Inr us, w')"
  shows "users w n = find (\<lambda>u. usr_Name u = n) us"
  using ListUsers_Inr [OF assms] by (simp add: user_map_find)

lemma listed_mem:
  assumes "ok w" "cl_ListUsers C now w = (Inr us, w')"
  shows "u \<in> set us \<longleftrightarrow> users w (usr_Name u) = Some u"
  using ListUsers_Inr [OF assms] by (simp add: user_map_Some)

end

context user_manager
begin

text \<open>Reading back what was written, through any two successful calls.\<close>

lemma get_after_add:
  assumes "ok w" "cl_AddUser C name pw comment shared dis w = (Inr (), w1)"
    "cl_GetUser C now name w1 = (Inr u, w2)"
  shows "usr_Name u = name \<and> usr_Password u = pw \<and> usr_Comment u = comment
    \<and> usr_SharedUsers u = shared \<and> usr_Disabled u = dis"
  using AddUser_Inr [OF assms(1,2)] GetUser_Inr [OF _ assms(3)] by auto

lemma get_after_remove:
  assumes "ok w" "cl_RemoveUser C name w = (Inr (), w1)" "cl_GetUser C now name w1 = (Inr u, w2)"
  shows False
  using RemoveUser_Inr [OF assms(1,2)] GetUser_Inr [OF _ assms(3)] by auto

lemma add_twice:
  assumes "ok w" "cl_AddUser C name pw comment shared dis w = (Inr (), w1)"
  shows "\<not> (\<exists>w2. cl_AddUser C name pw' comment' shared' dis' w1 = (Inr (), w2))"
  using AddUser_Inr [OF assms] AddUser_Inr [of w1 name] by fastforce

end

end
