(* ===== verification/Mikrotik_Fake.thy ===== *)
theory Mikrotik_Fake
  imports Mikrotik_Client
begin

text \<open>
  The in-memory router (mikrotik/fake.go, mikrotik/cert_fake.go). The maps are association lists
  in the order of insertion, which stands for Go's unspecified iteration order; every lemma below
  is about the maps, not about that order. The mutex serialises the methods, so each is one step.
  The zone of \<open>time.Now()\<close> (minutes east of UTC) is part of the state. At the end, the fake is
  shown to keep the contracts of the client interface.
\<close>

record fake_client =
  fk_users :: "(string \<times> mt_user) list"
  fk_profiles :: "(string \<times> user_profile list) list"
  fk_certs :: "(string \<times> string) list"
  fk_files :: "(string \<times> string) list"
  fk_nextID :: int
  fk_profilesDefined :: "string list"
  fk_zone :: int

definition NewFake :: "int \<Rightarrow> fake_client" where
  "NewFake zone = \<lparr>fk_users = [], fk_profiles = [], fk_certs = [], fk_files = [], fk_nextID = 1,
     fk_profilesDefined = [''profile-open-2M-30d''], fk_zone = zone\<rparr>"

text \<open>\<open>strings.Contains(strings.ToLower(p.State), "active")\<close>\<close>

definition state_active :: "user_profile \<Rightarrow> bool" where
  "state_active p = sublist ''active'' (toLower (prof_State p))"

text \<open>\<open>f.profiles[user]\<close>: a missing key reads as the nil slice.\<close>

definition fake_profiles :: "fake_client \<Rightarrow> string \<Rightarrow> user_profile list" where
  "fake_profiles f user = (case map_of (fk_profiles f) user of None \<Rightarrow> [] | Some ps \<Rightarrow> ps)"

definition fake_users :: "fake_client \<Rightarrow> string \<rightharpoonup> mt_user" where
  "fake_users f = map_of (fk_users f)"

section \<open>Methods\<close>

definition Fake_Ping :: "(fake_client, unit) go" where
  "Fake_Ping = returnE ()"

definition Fake_ListUsers :: "(fake_client, mt_user list) go" where
  "Fake_ListUsers f = (Inr (map snd (fk_users f)), f)"

definition Fake_GetUser :: "string \<Rightarrow> (fake_client, mt_user) go" where
  "Fake_GetUser name f =
     (case map_of (fk_users f) name of None \<Rightarrow> (Inl ErrNotFound, f) | Some u \<Rightarrow> (Inr u, f))"

definition Fake_AddUser ::
  "string \<Rightarrow> string \<Rightarrow> string \<Rightarrow> int \<Rightarrow> bool \<Rightarrow> (fake_client, unit) go" where
  "Fake_AddUser name password comment sharedUsers disabled f =
     (if map_of (fk_users f) name \<noteq> None then (Inl ErrNameTaken, f)
      else let i = CHR ''*'' # int_str (fk_nextID f) in
        (Inr (), f\<lparr>fk_nextID := i64 (fk_nextID f + 1),
          fk_users := AList.update name \<lparr>usr_ID = i, usr_Name = name, usr_Password = password,
            usr_SharedUsers = sharedUsers, usr_Comment = comment, usr_Disabled = disabled\<rparr>
            (fk_users f)\<rparr>))"

definition Fake_SetUser ::
  "string \<Rightarrow> string option \<Rightarrow> int option \<Rightarrow> string \<Rightarrow> bool option \<Rightarrow> (fake_client, unit) go" where
  "Fake_SetUser name password sharedUsers comment disabled f =
     (case map_of (fk_users f) name of
        None \<Rightarrow> (Inl ErrNotFound, f)
      | Some u \<Rightarrow> (Inr (), f\<lparr>fk_users := AList.update name
          (set_fields password sharedUsers comment disabled u) (fk_users f)\<rparr>))"

definition Fake_RemoveUser :: "string \<Rightarrow> (fake_client, unit) go" where
  "Fake_RemoveUser name f =
     (if map_of (fk_users f) name = None then (Inl ErrNotFound, f)
      else (Inr (), f\<lparr>fk_users := AList.delete name (fk_users f),
                      fk_profiles := AList.delete name (fk_profiles f)\<rparr>))"

definition Fake_ListUserProfiles :: "string \<Rightarrow> (fake_client, user_profile list) go" where
  "Fake_ListUserProfiles user f = (Inr (fake_profiles f user), f)"

definition expire :: "user_profile \<Rightarrow> user_profile" where
  "expire p = (if state_active p then p\<lparr>prof_State := ''expired''\<rparr> else p)"

definition Fake_AddUserProfile :: "time \<Rightarrow> string \<Rightarrow> string \<Rightarrow> (fake_client, unit) go" where
  "Fake_AddUserProfile now user profile f =
     (if profile \<notin> set (fk_profilesDefined f) then (Inl ErrProfileMissing, f)
      else if map_of (fk_users f) user = None then (Inl ErrNotFound, f)
      else let p = \<lparr>prof_ID = ''*p'' @ int_str (fk_nextID f), prof_User = user, prof_Profile = profile,
                    prof_State = ''active'',
                    prof_EndTime = fmt_RFC3339 (fk_zone f) (now + 30 * 24 * 3600 * 1000000000)\<rparr>
           in (Inr (), f\<lparr>fk_nextID := i64 (fk_nextID f + 1),
                 fk_profiles := AList.update user (map expire (fake_profiles f user) @ [p]) (fk_profiles f)\<rparr>))"

text \<open>The nested loops with their returns: the first profile with the id, in any user's list.\<close>

fun remove_profile ::
  "string \<Rightarrow> user_profile list \<Rightarrow> (go_err + user_profile list) option" where
  "remove_profile i [] = None"
| "remove_profile i (p # ps) =
     (if prof_ID p = i then
        Some (if state_active p then Inl (ErrText ''cannot remove active profile'') else Inr ps)
      else map_option (map_sum id (\<lambda>ps'. p # ps')) (remove_profile i ps))"

fun remove_profile_users ::
  "string \<Rightarrow> (string \<times> user_profile list) list \<Rightarrow> go_err + (string \<times> user_profile list)" where
  "remove_profile_users i [] = Inl ErrNotFound"
| "remove_profile_users i ((user, ps) # rest) =
     (case remove_profile i ps of
        Some (Inl e) \<Rightarrow> Inl e
      | Some (Inr ps') \<Rightarrow> Inr (user, ps')
      | None \<Rightarrow> remove_profile_users i rest)"

definition Fake_RemoveUserProfile :: "string \<Rightarrow> (fake_client, unit) go" where
  "Fake_RemoveUserProfile i f =
     (case remove_profile_users i (fk_profiles f) of
        Inl e \<Rightarrow> (Inl e, f)
      | Inr (user, ps) \<Rightarrow> (Inr (), f\<lparr>fk_profiles := AList.update user ps (fk_profiles f)\<rparr>))"

definition Fake_GenerateCertificate :: "string \<Rightarrow> string \<Rightarrow> string \<Rightarrow> (fake_client, unit) go" where
  "Fake_GenerateCertificate scriptName title passphrase f =
     (Inr (), f\<lparr>fk_certs := AList.update title passphrase (fk_certs f),
                fk_files := AList.update (templateOvpnName title)
                  (''client'' @ [CHR 0x0A] @ ''dev tun'' @ [CHR 0x0A] @ ''# cert cl-'' @ title @ [CHR 0x0A])
                  (fk_files f)\<rparr>)"

definition Fake_ReadFileContents :: "string \<Rightarrow> (fake_client, string) go" where
  "Fake_ReadFileContents name f =
     (case map_of (fk_files f) name of None \<Rightarrow> (Inl ErrNotFound, f) | Some b \<Rightarrow> (Inr b, f))"

definition Fake_WriteFileContents :: "string \<Rightarrow> string \<Rightarrow> (fake_client, unit) go" where
  "Fake_WriteFileContents name body f =
     (Inr (), f\<lparr>fk_files := AList.update name body (fk_files f)\<rparr>)"

definition Fake_FileExists :: "string \<Rightarrow> (fake_client, bool) go" where
  "Fake_FileExists name f = (Inr (map_of (fk_files f) name \<noteq> None), f)"

definition FakeClient :: "fake_client client" where
  "FakeClient = \<lparr>cl_Ping = Fake_Ping, cl_ListUsers = (\<lambda>_. Fake_ListUsers), cl_GetUser = (\<lambda>_. Fake_GetUser),
     cl_AddUser = Fake_AddUser, cl_SetUser = Fake_SetUser, cl_RemoveUser = Fake_RemoveUser,
     cl_ListUserProfiles = (\<lambda>_. Fake_ListUserProfiles), cl_AddUserProfile = Fake_AddUserProfile,
     cl_RemoveUserProfile = Fake_RemoveUserProfile, cl_GenerateCertificate = Fake_GenerateCertificate,
     cl_ReadFileContents = Fake_ReadFileContents, cl_WriteFileContents = Fake_WriteFileContents,
     cl_FileExists = Fake_FileExists, cl_InvalidateCache = (\<lambda>f. f)\<rparr>"

section \<open>Invariant\<close>

text \<open>
  The users are filed under their names, profiles belong to existing users, and no user has more
  than one active profile.
\<close>

definition one_active :: "user_profile list \<Rightarrow> bool" where
  "one_active ps \<longleftrightarrow> length (filter state_active ps) \<le> 1"

definition fake_ok :: "fake_client \<Rightarrow> bool" where
  "fake_ok f \<longleftrightarrow> distinct (map fst (fk_users f)) \<and> (\<forall>e \<in> set (fk_users f). usr_Name (snd e) = fst e)
     \<and> distinct (map fst (fk_profiles f))
     \<and> (\<forall>e \<in> set (fk_profiles f). fst e \<in> fst ` set (fk_users f) \<and> one_active (snd e)
          \<and> (\<forall>p \<in> set (snd e). prof_User p = fst e))"

lemma expire_inactive [simp]: "\<not> state_active (expire p)"
  by (auto simp: expire_def) (simp add: state_active_def, code_simp)

lemma expire_user [simp]: "prof_User (expire p) = prof_User p" "prof_ID (expire p) = prof_ID p"
  by (simp_all add: expire_def)

lemma one_active_add: "one_active (map expire ps @ [p])"
  by (simp add: one_active_def filter_map comp_def)

lemma remove_profile_Inr:
  "remove_profile i ps = Some (Inr ps') \<Longrightarrow>
     \<exists>xs p ys. ps = xs @ p # ys \<and> ps' = xs @ ys \<and> prof_ID p = i \<and> \<not> state_active p"
proof (induction ps arbitrary: ps')
  case (Cons q qs)
  show ?case
  proof (cases "prof_ID q = i")
    case True
    then show ?thesis using Cons.prems by (auto intro!: exI [of _ "[]"] split: if_splits)
  next
    case False
    then obtain r where "remove_profile i qs = Some r" "map_sum id (\<lambda>ps'. q # ps') r = Inr ps'"
      using Cons.prems by auto
    then obtain qs' where qs': "remove_profile i qs = Some (Inr qs')" "ps' = q # qs'"
      by (cases r) auto
    from Cons.IH [OF qs'(1)] obtain xs p ys where
      "qs = xs @ p # ys" "qs' = xs @ ys" "prof_ID p = i" "\<not> state_active p" by blast
    then show ?thesis using qs'(2) by (intro exI [of _ "q # xs"] exI [of _ p] exI [of _ ys]) simp
  qed
qed simp

lemma remove_profile_users_Inr:
  "remove_profile_users i fs = Inr (user, ps') \<Longrightarrow>
     \<exists>ps. (user, ps) \<in> set fs \<and> remove_profile i ps = Some (Inr ps')"
  by (induction i fs rule: remove_profile_users.induct) (auto split: option.splits sum.splits)

lemma one_active_removed: "one_active (xs @ p # ys) \<Longrightarrow> one_active (xs @ ys)"
  by (auto simp: one_active_def split: if_splits)

lemma set_AList_update:
  "distinct (map fst al) \<Longrightarrow> x \<in> set (AList.update k v al) \<Longrightarrow> x = (k, v) \<or> x \<in> set al \<and> fst x \<noteq> k"
  by (induction al) (auto split: if_splits)

lemma keys_AList_update: "fst ` set (AList.update k v al) = insert k (fst ` set al)"
  using AList.update_keys [of k v al] by (metis (no_types, opaque_lifting) Un_insert_right insert_absorb list.set_map list.simps(15) set_append set_empty2 sup_bot.right_neutral)

text \<open>The two ways in which the methods change the tables.\<close>

lemma fake_ok_update_user:
  assumes ok: "fake_ok f" and u: "usr_Name u = name"
  shows "fake_ok (f\<lparr>fk_users := AList.update name u (fk_users f)\<rparr>)"
proof -
  have d: "distinct (map fst (fk_users f))" using ok by (simp add: fake_ok_def)
  have "usr_Name (snd e) = fst e" if "e \<in> set (AList.update name u (fk_users f))" for e
    using set_AList_update [OF d that] ok u by (auto simp: fake_ok_def)
  then show ?thesis
    using ok by (simp add: fake_ok_def distinct_update keys_AList_update)
qed

lemma fake_ok_update_profiles:
  assumes ok: "fake_ok f" and new: "one_active ps" "name \<in> fst ` set (fk_users f)" "\<forall>p \<in> set ps. prof_User p = name"
  shows "fake_ok (f\<lparr>fk_profiles := AList.update name ps (fk_profiles f)\<rparr>)"
proof -
  have d: "distinct (map fst (fk_profiles f))" using ok by (simp add: fake_ok_def)
  have "fst e \<in> fst ` set (fk_users f) \<and> one_active (snd e) \<and> (\<forall>p \<in> set (snd e). prof_User p = fst e)"
    if "e \<in> set (AList.update name ps (fk_profiles f))" for e
    using set_AList_update [OF d that] ok new by (elim disjE) (simp_all add: fake_ok_def)
  then show ?thesis
    using ok by (simp add: fake_ok_def distinct_update)
qed

lemma fake_ok_delete:
  assumes ok: "fake_ok f"
  shows "fake_ok (f\<lparr>fk_users := AList.delete name (fk_users f), fk_profiles := AList.delete name (fk_profiles f)\<rparr>)"
  using ok unfolding fake_ok_def
  by (auto simp: distinct_delete AList.delete_eq distinct_map_filter image_iff) force

lemma fake_ok_nextID [simp]: "fake_ok (f\<lparr>fk_nextID := n\<rparr>) = fake_ok f"
  by (simp add: fake_ok_def)

lemma fake_frames [simp]:
  "fake_ok (f\<lparr>fk_files := fs\<rparr>) = fake_ok f" "fake_ok (f\<lparr>fk_certs := cs\<rparr>) = fake_ok f"
  "fake_users (f\<lparr>fk_files := fs\<rparr>) = fake_users f" "fake_users (f\<lparr>fk_certs := cs\<rparr>) = fake_users f"
  "fake_profiles (f\<lparr>fk_files := fs\<rparr>) = fake_profiles f" "fake_profiles (f\<lparr>fk_certs := cs\<rparr>) = fake_profiles f"
  by (simp_all add: fake_ok_def fake_users_def fake_profiles_def fun_eq_iff)

text \<open>What the invariant says of the lookups.\<close>

lemma fake_users_name: "fake_ok f \<Longrightarrow> fake_users f name = Some u \<Longrightarrow> usr_Name u = name"
  by (auto simp: fake_ok_def fake_users_def dest!: map_of_SomeD)

lemma fake_profiles_mem: "fake_ok f \<Longrightarrow> (n, ps) \<in> set (fk_profiles f) \<Longrightarrow> fake_profiles f n = ps"
  by (simp add: fake_ok_def fake_profiles_def)

lemma fake_profile_entry:
  "fake_ok f \<Longrightarrow> (n, ps) \<in> set (fk_profiles f) \<Longrightarrow>
     n \<in> fst ` set (fk_users f) \<and> one_active ps \<and> (\<forall>p \<in> set ps. prof_User p = n)"
  unfolding fake_ok_def by (metis fst_conv snd_conv)

lemma fake_profiles_owned:
  assumes "fake_ok f"
  shows "one_active (fake_profiles f n) \<and> (\<forall>p \<in> set (fake_profiles f n). prof_User p = n)"
proof (cases "map_of (fk_profiles f) n")
  case None
  then show ?thesis by (simp add: fake_profiles_def one_active_def)
next
  case (Some ps)
  then show ?thesis
    using fake_profile_entry [OF assms map_of_SomeD] by (simp add: fake_profiles_def)
qed

lemma fake_orphan_profiles: "fake_ok f \<Longrightarrow> fake_users f n = None \<Longrightarrow> fake_profiles f n = []"
  using fake_profile_entry [of f n]
  by (auto simp: fake_profiles_def fake_users_def map_of_eq_None_iff dest!: map_of_SomeD
      split: option.splits)

lemma fake_listed:
  assumes "fake_ok f"
  shows "distinct (map usr_Name (map snd (fk_users f)))" "user_map (map snd (fk_users f)) = fake_users f"
proof -
  have "map (\<lambda>u. (usr_Name u, u)) (map snd (fk_users f)) = fk_users f"
    using assms by (auto simp: fake_ok_def intro!: map_idI)
  then show "user_map (map snd (fk_users f)) = fake_users f"
    by (simp add: fake_users_def user_map_def)
  have "map usr_Name (map snd (fk_users f)) = map fst (fk_users f)"
    using assms by (simp add: fake_ok_def)
  then show "distinct (map usr_Name (map snd (fk_users f)))"
    using assms by (simp only: fake_ok_def)
qed

section \<open>The methods keep the invariant and the contract\<close>

lemma Fake_AddUser_cases:
  assumes "fake_ok f" "Fake_AddUser name pw comment shared dis f = (r, f')"
  shows "fake_ok f' \<and> fake_profiles f' = fake_profiles f \<and>
    (if fake_users f name = None then r = Inr () \<and>
       fake_users f' = (fake_users f)(name \<mapsto> \<lparr>usr_ID = CHR ''*'' # int_str (fk_nextID f), usr_Name = name,
         usr_Password = pw, usr_SharedUsers = shared, usr_Comment = comment, usr_Disabled = dis\<rparr>)
     else r = Inl ErrNameTaken \<and> fake_users f' = fake_users f)"
  using assms
  by (auto simp: Fake_AddUser_def fake_users_def fake_profiles_def update_conv' fun_eq_iff Let_def
      fake_ok_update_user [of "f\<lparr>fk_nextID := n\<rparr>" for n, simplified] split: if_splits)

lemma Fake_SetUser_cases:
  assumes "fake_ok f" "Fake_SetUser name pwo so comment diso f = (r, f')"
  shows "fake_ok f' \<and> fake_profiles f' = fake_profiles f \<and>
    (case fake_users f name of
       None \<Rightarrow> r = Inl ErrNotFound \<and> fake_users f' = fake_users f
     | Some u \<Rightarrow> r = Inr () \<and> fake_users f' = (fake_users f)(name \<mapsto> set_fields pwo so comment diso u))"
  using assms fake_users_name [OF assms(1), of name]
  by (auto simp: Fake_SetUser_def fake_users_def fake_profiles_def update_conv' fun_eq_iff
      fake_ok_update_user split: option.splits)

lemma Fake_RemoveUser_cases:
  assumes "fake_ok f" "Fake_RemoveUser name f = (r, f')"
  shows "fake_ok f' \<and>
    (if fake_users f name = None then r = Inl ErrNotFound \<and> f' = f
     else r = Inr () \<and> fake_users f' = (fake_users f)(name := None)
       \<and> fake_profiles f' = (fake_profiles f)(name := []))"
  using assms
  by (auto simp: Fake_RemoveUser_def fake_users_def fake_profiles_def delete_conv' fun_eq_iff
      fake_ok_delete split: if_splits option.splits)

lemma Fake_AddUserProfile_cases:
  assumes "fake_ok f" "Fake_AddUserProfile now name profile f = (r, f')"
  shows "fake_ok f' \<and> fake_users f' = fake_users f \<and>
    (if profile \<notin> set (fk_profilesDefined f) then r = Inl ErrProfileMissing \<and> f' = f
     else if fake_users f name = None then r = Inl ErrNotFound \<and> f' = f
     else r = Inr () \<and> fake_profiles f' = (fake_profiles f)(name :=
       map expire (fake_profiles f name) @
       [\<lparr>prof_ID = ''*p'' @ int_str (fk_nextID f), prof_User = name, prof_Profile = profile,
         prof_State = ''active'',
         prof_EndTime = fmt_RFC3339 (fk_zone f) (now + 30 * 24 * 3600 * 1000000000)\<rparr>]))"
proof -
  let ?p = "\<lparr>prof_ID = ''*p'' @ int_str (fk_nextID f), prof_User = name, prof_Profile = profile,
         prof_State = ''active'',
         prof_EndTime = fmt_RFC3339 (fk_zone f) (now + 30 * 24 * 3600 * 1000000000)\<rparr>"
  let ?f = "f\<lparr>fk_nextID := i64 (fk_nextID f + 1),
     fk_profiles := AList.update name (map expire (fake_profiles f name) @ [?p]) (fk_profiles f)\<rparr>"
  have "fake_ok ?f" if "map_of (fk_users f) name \<noteq> None"
    using that fake_profiles_owned [OF assms(1), of name]
    by (intro fake_ok_update_profiles [of "f\<lparr>fk_nextID := n\<rparr>" for n, simplified] assms(1) one_active_add)
      (auto simp: map_of_eq_None_iff)
  then show ?thesis
    using assms
    by (auto simp: Fake_AddUserProfile_def fake_users_def fake_profiles_def update_conv' fun_eq_iff Let_def
        split: if_splits)
qed

lemma Fake_RemoveUserProfile_cases:
  assumes ok: "fake_ok f" and run: "Fake_RemoveUserProfile i f = (r, f')"
  shows "fake_ok f' \<and> fake_users f' = fake_users f \<and>
    (case r of Inl e \<Rightarrow> f' = f
     | Inr _ \<Rightarrow> \<exists>user xs p ys. fake_profiles f user = xs @ p # ys \<and> prof_ID p = i \<and> \<not> state_active p
         \<and> fake_profiles f' = (fake_profiles f)(user := xs @ ys))"
proof (cases "remove_profile_users i (fk_profiles f)")
  case (Inl e)
  then show ?thesis using assms by (auto simp: Fake_RemoveUserProfile_def)
next
  case (Inr a)
  obtain user ps' where a: "a = (user, ps')" by (cases a)
  obtain ps where ps: "(user, ps) \<in> set (fk_profiles f)" "remove_profile i ps = Some (Inr ps')"
    using remove_profile_users_Inr [of i "fk_profiles f" user ps'] Inr a by auto
  obtain xs p ys where xs: "ps = xs @ p # ys" "ps' = xs @ ys" "prof_ID p = i" "\<not> state_active p"
    using remove_profile_Inr [OF ps(2)] by blast
  have old: "fake_profiles f user = ps" using ok ps(1) by (rule fake_profiles_mem)
  have f': "f' = f\<lparr>fk_profiles := AList.update user ps' (fk_profiles f)\<rparr>" and r: "r = Inr ()"
    using run Inr a by (simp_all add: Fake_RemoveUserProfile_def)
  have "fake_ok f'" unfolding f'
    using fake_profile_entry [OF ok ps(1)] xs(1,2)
    by (intro fake_ok_update_profiles ok) (auto intro: one_active_removed)
  moreover have "fake_profiles f' = (fake_profiles f)(user := xs @ ys)"
    using f' xs(2) by (auto simp: fake_profiles_def update_conv' fun_eq_iff)
  ultimately show ?thesis
    using r f' old xs by (auto simp: fake_users_def)
qed

lemmas fake_reads = FakeClient_def Fake_ListUsers_def Fake_GetUser_def Fake_ListUserProfiles_def

interpretation fake: router_reads FakeClient fake_ok fake_users fake_profiles
  by unfold_locales (auto simp: fake_reads fake_listed(2) fake_users_def simp del: map_map
      dest: fake_listed(1) split: option.splits)

interpretation fake: user_manager FakeClient fake_ok fake_users fake_profiles
proof unfold_locales
  fix w name assume "fake_ok w" "fake_users w name = None"
  then show "fake_profiles w name = []" by (rule fake_orphan_profiles)
next
  fix w now name profile w'
  assume "fake_ok w" "cl_AddUserProfile FakeClient now name profile w = (Inr (), w')"
  then show "fake_ok w' \<and> fake_users w' = fake_users w
      \<and> (\<forall>n. n \<noteq> name \<longrightarrow> fake_profiles w' n = fake_profiles w n)
      \<and> (\<exists>p \<in> set (fake_profiles w' name). prof_User p = name \<and> prof_Profile p = profile)"
    using Fake_AddUserProfile_cases [of w now name profile "Inr ()" w']
    by (simp add: FakeClient_def split: if_splits)
next
  fix w i w'
  assume "fake_ok w" "cl_RemoveUserProfile FakeClient i w = (Inr (), w')"
  then obtain user xs p ys where 1: "fake_ok w'" "fake_users w' = fake_users w"
    "fake_profiles w user = xs @ p # ys" "prof_ID p = i"
    "fake_profiles w' = (fake_profiles w)(user := xs @ ys)"
    using Fake_RemoveUserProfile_cases [of w i "Inr ()" w'] by (auto simp: FakeClient_def)
  then show "fake_ok w' \<and> fake_users w' = fake_users w
      \<and> (\<forall>n. set (fake_profiles w' n) \<subseteq> set (fake_profiles w n)
          \<and> (\<forall>p \<in> set (fake_profiles w n). prof_ID p \<noteq> i \<longrightarrow> p \<in> set (fake_profiles w' n)))"
    by auto
next
  fix w name pw comment shared dis w'
  assume "fake_ok w" "cl_AddUser FakeClient name pw comment shared dis w = (Inr (), w')"
  then show "fake_ok w' \<and> fake_users w name = None \<and> fake_profiles w' = fake_profiles w \<and>
      (\<exists>i. fake_users w' = (fake_users w)(name \<mapsto> \<lparr>usr_ID = i, usr_Name = name, usr_Password = pw,
            usr_SharedUsers = shared, usr_Comment = comment, usr_Disabled = dis\<rparr>))"
    using Fake_AddUser_cases [of w name pw comment shared dis "Inr ()" w']
    by (auto simp: FakeClient_def split: if_splits)
next
  fix w name pwo so comment diso w'
  assume "fake_ok w" "cl_SetUser FakeClient name pwo so comment diso w = (Inr (), w')"
  then show "fake_ok w' \<and> fake_profiles w' = fake_profiles w \<and>
      (\<exists>u c. fake_users w name = Some u \<and> (comment \<noteq> [] \<longrightarrow> c = comment) \<and>
         fake_users w' = (fake_users w)(name \<mapsto> set_fields pwo so c diso u))"
    using Fake_SetUser_cases [of w name pwo so comment diso "Inr ()" w']
    by (auto simp: FakeClient_def split: option.splits)
qed (auto simp: FakeClient_def Fake_Ping_def returnE_apply Fake_GenerateCertificate_def
      Fake_ReadFileContents_def Fake_WriteFileContents_def Fake_FileExists_def
    dest: Fake_AddUser_cases Fake_SetUser_cases Fake_RemoveUser_cases Fake_AddUserProfile_cases
      Fake_RemoveUserProfile_cases split: if_splits option.splits)

definition fake_files :: "fake_client \<Rightarrow> string \<rightharpoonup> string" where
  "fake_files f = map_of (fk_files f)"

interpretation fake_files: router_files FakeClient fake_files
  by unfold_locales (auto simp: FakeClient_def Fake_ReadFileContents_def Fake_WriteFileContents_def
      Fake_FileExists_def Fake_GenerateCertificate_def fake_files_def update_conv' fun_eq_iff
      split: option.splits)

end
