(* ===== verification/Mikrotik_Cached.thy ===== *)
theory Mikrotik_Cached
  imports Mikrotik_Fake
begin

text \<open>
  The caching client (\<open>CachedClient\<close>, mikrotik/types.go) around any client. Its state is the inner
  client's state, the user list with the instant it was read, and the profile lists with one
  instant for all of them. The nil slice and the empty slice are both \<open>[]\<close>: the clients below it
  return nil when there are no users, so an empty user list is never taken from the cache.
  \<open>time.Now()\<close> after an inner call is read as the instant at which the call began.

  The main result: while the router changes only through the client, one call at a time, a cache over
  a client that keeps the contract keeps it too, so it shows its callers the true table whatever its
  TTL is. Calls that overlap are in Interleaving: the Go code has no lock here.
\<close>

record 'r cached =
  cc_inner :: 'r
  cc_usersAt :: time
  cc_users :: "mt_user list"
  cc_profilesAt :: time
  cc_profiles :: "string \<rightharpoonup> user_profile list"

text \<open>\<open>NewCached\<close>; the zero \<open>time.Time\<close> is far before any instant, here year 1.\<close>

definition zero_time :: time where "zero_time = - 62135596800000000000"

definition NewCached :: "'r \<Rightarrow> 'r cached" where
  "NewCached r = \<lparr>cc_inner = r, cc_usersAt = zero_time, cc_users = [], cc_profilesAt = zero_time,
     cc_profiles = Map.empty\<rparr>"

text \<open>A call of the inner client.\<close>

definition inner :: "('r, 'a) go \<Rightarrow> ('r cached, 'a) go" where
  "inner m c = (case m (cc_inner c) of (r, w) \<Rightarrow> (r, c\<lparr>cc_inner := w\<rparr>))"

definition Cached_InvalidateCache :: "'r client \<Rightarrow> 'r cached \<Rightarrow> 'r cached" where
  "Cached_InvalidateCache C c =
     c\<lparr>cc_users := [], cc_profiles := Map.empty, cc_inner := cl_InvalidateCache C (cc_inner c)\<rparr>"

text \<open>\<open>if err := c.inner.\<dots>; err != nil { return err }; c.InvalidateCache(); return nil\<close>\<close>

definition write_through :: "'r client \<Rightarrow> ('r, unit) go \<Rightarrow> ('r cached, unit) go" where
  "write_through C m = bindE (inner m) (\<lambda>_ c. (Inr (), Cached_InvalidateCache C c))"

definition Cached_ListUsers :: "'r client \<Rightarrow> int \<Rightarrow> time \<Rightarrow> ('r cached, mt_user list) go" where
  "Cached_ListUsers C ttl now c =
     (if now - cc_usersAt c < ttl \<and> cc_users c \<noteq> [] then (Inr (cc_users c), c)
      else bindE (inner (cl_ListUsers C now)) (\<lambda>u c'. (Inr u, c'\<lparr>cc_users := u, cc_usersAt := now\<rparr>)) c)"

definition Cached_forceUsers :: "'r client \<Rightarrow> int \<Rightarrow> time \<Rightarrow> ('r cached, mt_user list) go" where
  "Cached_forceUsers C ttl now c = Cached_ListUsers C ttl now (c\<lparr>cc_users := []\<rparr>)"

definition Cached_RefreshListUsers :: "'r client \<Rightarrow> int \<Rightarrow> time \<Rightarrow> ('r cached, mt_user list) go" where
  "Cached_RefreshListUsers C ttl now c = Cached_forceUsers C ttl now (c\<lparr>cc_users := []\<rparr>)"

definition Cached_GetUser :: "'r client \<Rightarrow> int \<Rightarrow> time \<Rightarrow> string \<Rightarrow> ('r cached, mt_user) go" where
  "Cached_GetUser C ttl now name =
     bindE (Cached_ListUsers C ttl now) (\<lambda>users. liftE (find_user name users))"

definition Cached_AddUser ::
  "'r client \<Rightarrow> string \<Rightarrow> string \<Rightarrow> string \<Rightarrow> int \<Rightarrow> bool \<Rightarrow> ('r cached, unit) go" where
  "Cached_AddUser C name password comment sharedUsers disabled =
     write_through C (cl_AddUser C name password comment sharedUsers disabled)"

definition Cached_SetUser ::
  "'r client \<Rightarrow> string \<Rightarrow> string option \<Rightarrow> int option \<Rightarrow> string \<Rightarrow> bool option \<Rightarrow> ('r cached, unit) go" where
  "Cached_SetUser C name password sharedUsers comment disabled =
     write_through C (cl_SetUser C name password sharedUsers comment disabled)"

definition Cached_RemoveUser :: "'r client \<Rightarrow> string \<Rightarrow> ('r cached, unit) go" where
  "Cached_RemoveUser C name = write_through C (cl_RemoveUser C name)"

definition Cached_ListUserProfiles ::
  "'r client \<Rightarrow> int \<Rightarrow> time \<Rightarrow> string \<Rightarrow> ('r cached, user_profile list) go" where
  "Cached_ListUserProfiles C ttl now user c =
     (case (cc_profiles c user, now - cc_profilesAt c < ttl) of
        (Some p, True) \<Rightarrow> (Inr p, c)
      | _ \<Rightarrow> bindE (inner (cl_ListUserProfiles C now user)) (\<lambda>p c'.
               (Inr p, c'\<lparr>cc_profiles := (cc_profiles c')(user \<mapsto> p), cc_profilesAt := now\<rparr>)) c)"

definition Cached_AddUserProfile :: "'r client \<Rightarrow> time \<Rightarrow> string \<Rightarrow> string \<Rightarrow> ('r cached, unit) go" where
  "Cached_AddUserProfile C now user profile = write_through C (cl_AddUserProfile C now user profile)"

definition Cached_RemoveUserProfile :: "'r client \<Rightarrow> string \<Rightarrow> ('r cached, unit) go" where
  "Cached_RemoveUserProfile C i = write_through C (cl_RemoveUserProfile C i)"

definition CachedClient :: "'r client \<Rightarrow> int \<Rightarrow> 'r cached client" where
  "CachedClient C ttl = \<lparr>cl_Ping = inner (cl_Ping C), cl_ListUsers = Cached_ListUsers C ttl,
     cl_GetUser = Cached_GetUser C ttl, cl_AddUser = Cached_AddUser C, cl_SetUser = Cached_SetUser C,
     cl_RemoveUser = Cached_RemoveUser C, cl_ListUserProfiles = Cached_ListUserProfiles C ttl,
     cl_AddUserProfile = Cached_AddUserProfile C, cl_RemoveUserProfile = Cached_RemoveUserProfile C,
     cl_GenerateCertificate = (\<lambda>s t p. inner (cl_GenerateCertificate C s t p)),
     cl_ReadFileContents = (\<lambda>n. inner (cl_ReadFileContents C n)),
     cl_WriteFileContents = (\<lambda>n b. inner (cl_WriteFileContents C n b)),
     cl_FileExists = (\<lambda>n. inner (cl_FileExists C n)),
     cl_InvalidateCache = Cached_InvalidateCache C\<rparr>"

section \<open>Plumbing\<close>

lemma inner_eq: "inner m c = (r, c') \<longleftrightarrow> (\<exists>w. m (cc_inner c) = (r, w) \<and> c' = c\<lparr>cc_inner := w\<rparr>)"
  by (auto simp: inner_def split: prod.splits)

lemma write_through_Inr:
  "write_through C m c = (Inr (), c') \<longleftrightarrow>
     (\<exists>w. m (cc_inner c) = (Inr (), w)
        \<and> c' = c\<lparr>cc_users := [], cc_profiles := Map.empty, cc_inner := cl_InvalidateCache C w\<rparr>)"
  by (auto simp: write_through_def bindE_def inner_def Cached_InvalidateCache_def
      split: prod.splits sum.splits)

lemma write_through_Inl:
  "write_through C m c = (Inl e, c') \<longleftrightarrow> (\<exists>w. m (cc_inner c) = (Inl e, w) \<and> c' = c\<lparr>cc_inner := w\<rparr>)"
  by (auto simp: write_through_def bindE_def inner_def split: prod.splits sum.splits)

lemma Cached_ListUsers_cases:
  assumes "Cached_ListUsers C ttl now c = (r, c')"
  obtains (hit) "cc_users c \<noteq> []" "now - cc_usersAt c < ttl" "r = Inr (cc_users c)" "c' = c"
    | (miss) us w where "cl_ListUsers C now (cc_inner c) = (Inr us, w)" "r = Inr us"
        "c' = c\<lparr>cc_inner := w, cc_users := us, cc_usersAt := now\<rparr>"
    | (fail) e w where "cl_ListUsers C now (cc_inner c) = (Inl e, w)" "r = Inl e" "c' = c\<lparr>cc_inner := w\<rparr>"
proof (cases "now - cc_usersAt c < ttl \<and> cc_users c \<noteq> []")
  case True
  then have "r = Inr (cc_users c)" "c' = c" using assms by (auto simp add: Cached_ListUsers_def)
  with True show thesis by (intro hit) simp_all
next
  case False
  obtain x w where m: "cl_ListUsers C now (cc_inner c) = (x, w)" by (cases "cl_ListUsers C now (cc_inner c)")
  have run: "bindE (inner (cl_ListUsers C now)) (\<lambda>u c'. (Inr u, c'\<lparr>cc_users := u, cc_usersAt := now\<rparr>)) c = (r, c')"
    using assms False by (simp add: Cached_ListUsers_def split: if_splits)
  show thesis
  proof (cases x)
    case (Inl e)
    then have "r = Inl e" "c' = c\<lparr>cc_inner := w\<rparr>" using run m by (simp_all add: bindE_def inner_def)
    then show thesis using fail m Inl by blast
  next
    case (Inr us)
    then have "r = Inr us" "c' = c\<lparr>cc_inner := w, cc_users := us, cc_usersAt := now\<rparr>"
      using run m by (auto simp: bindE_def inner_def)
    then show thesis using miss m Inr by blast
  qed
qed

lemma Cached_ListUserProfiles_cases:
  assumes "Cached_ListUserProfiles C ttl now user c = (r, c')"
  obtains (hit) ps where "cc_profiles c user = Some ps" "now - cc_profilesAt c < ttl" "r = Inr ps" "c' = c"
    | (miss) ps w where "cl_ListUserProfiles C now user (cc_inner c) = (Inr ps, w)" "r = Inr ps"
        "c' = c\<lparr>cc_inner := w, cc_profiles := (cc_profiles c)(user \<mapsto> ps), cc_profilesAt := now\<rparr>"
    | (fail) e w where "cl_ListUserProfiles C now user (cc_inner c) = (Inl e, w)" "r = Inl e"
        "c' = c\<lparr>cc_inner := w\<rparr>"
proof -
  obtain x w where m: "cl_ListUserProfiles C now user (cc_inner c) = (x, w)"
    by (cases "cl_ListUserProfiles C now user (cc_inner c)")
  let ?rest = "bindE (inner (cl_ListUserProfiles C now user)) (\<lambda>p c'.
     (Inr p, c'\<lparr>cc_profiles := (cc_profiles c')(user \<mapsto> p), cc_profilesAt := now\<rparr>)) c"
  have rest: thesis if run: "?rest = (r, c')"
  proof (cases x)
    case (Inl e)
    then have "r = Inl e" "c' = c\<lparr>cc_inner := w\<rparr>" using run m by (simp_all add: bindE_def inner_def)
    then show thesis using fail m Inl by blast
  next
    case (Inr ps)
    then have "r = Inr ps" "c' = c\<lparr>cc_inner := w, cc_profiles := (cc_profiles c)(user \<mapsto> ps), cc_profilesAt := now\<rparr>"
      using run m by (auto simp: bindE_def inner_def)
    then show thesis using miss m Inr by blast
  qed
  show thesis
  proof (cases "cc_profiles c user")
    case None
    then show thesis using assms by (intro rest) (simp add: Cached_ListUserProfiles_def)
  next
    case (Some ps)
    show thesis
    proof (cases "now - cc_profilesAt c < ttl")
      case True
      then have "r = Inr ps" "c' = c" using assms Some by (simp_all add: Cached_ListUserProfiles_def)
      with True Some show thesis by (intro hit)
    next
      case False
      then show thesis using assms Some by (intro rest) (simp add: Cached_ListUserProfiles_def)
    qed
  qed
qed

section \<open>The cache is transparent\<close>

definition cache_ok ::
  "('r \<Rightarrow> bool) \<Rightarrow> ('r \<Rightarrow> string \<rightharpoonup> mt_user) \<Rightarrow> ('r \<Rightarrow> string \<Rightarrow> user_profile list) \<Rightarrow> 'r cached \<Rightarrow> bool" where
  "cache_ok ok users profiles c \<longleftrightarrow> ok (cc_inner c)
     \<and> (cc_users c \<noteq> [] \<longrightarrow> distinct (map usr_Name (cc_users c)) \<and> users (cc_inner c) = user_map (cc_users c))
     \<and> (\<forall>n ps. cc_profiles c n = Some ps \<longrightarrow> profiles (cc_inner c) n = ps)"

context router_reads
begin

lemma cached_ListUsers:
  assumes ok: "cache_ok ok users profiles c" and run: "Cached_ListUsers C ttl now c = (r, c')"
  shows "cache_ok ok users profiles c' \<and> users (cc_inner c') = users (cc_inner c)
    \<and> profiles (cc_inner c') = profiles (cc_inner c)"
    and "r = Inr us \<Longrightarrow> distinct (map usr_Name us) \<and> users (cc_inner c) = user_map us"
  using run
proof (atomize (full), cases rule: Cached_ListUsers_cases)
  case (miss us' w)
  have o: "ok (cc_inner c)" using ok by (simp add: cache_ok_def)
  show "(cache_ok ok users profiles c' \<and> users (cc_inner c') = users (cc_inner c)
      \<and> profiles (cc_inner c') = profiles (cc_inner c))
    \<and> (r = Inr us \<longrightarrow> distinct (map usr_Name us) \<and> users (cc_inner c) = user_map us)"
    using ok miss ListUsers_frame [OF o miss(1)] ListUsers_Inr [OF o miss(1)] by (auto simp: cache_ok_def)
next
  case (fail e w)
  have o: "ok (cc_inner c)" using ok by (simp add: cache_ok_def)
  show "(cache_ok ok users profiles c' \<and> users (cc_inner c') = users (cc_inner c)
      \<and> profiles (cc_inner c') = profiles (cc_inner c))
    \<and> (r = Inr us \<longrightarrow> distinct (map usr_Name us) \<and> users (cc_inner c) = user_map us)"
    using ok fail ListUsers_frame [OF o fail(1)] by (auto simp: cache_ok_def)
qed (use ok in \<open>auto simp: cache_ok_def\<close>)

lemma cached_ListUsers_Inl:
  "cache_ok ok users profiles c \<Longrightarrow> Cached_ListUsers C ttl now c = (Inl e, c') \<Longrightarrow> e \<noteq> ErrNotFound"
  using ListUsers_Inl by (elim Cached_ListUsers_cases) (auto simp: cache_ok_def)

lemma cached_GetUser:
  assumes "Cached_GetUser C ttl now name c = (ru, c')"
  obtains us where "Cached_ListUsers C ttl now c = (Inr us, c')" "ru = find_user name us"
    | e where "Cached_ListUsers C ttl now c = (Inl e, c')" "ru = Inl e"
  using assms by (auto simp: Cached_GetUser_def bindE_def liftE_apply split: prod.splits sum.splits)

lemma cached_ListUserProfiles:
  assumes ok: "cache_ok ok users profiles c" and run: "Cached_ListUserProfiles C ttl now n c = (r, c')"
  shows "(cache_ok ok users profiles c' \<and> users (cc_inner c') = users (cc_inner c)
      \<and> profiles (cc_inner c') = profiles (cc_inner c))
    \<and> (\<forall>ps. r = Inr ps \<longrightarrow> profiles (cc_inner c) n = ps)"
  using run
proof (cases rule: Cached_ListUserProfiles_cases)
  case (miss ps w)
  have o: "ok (cc_inner c)" using ok by (simp add: cache_ok_def)
  show ?thesis
    using ok miss ListUserProfiles_frame [OF o miss(1)] ListUserProfiles_Inr [OF o miss(1)]
    by (auto simp: cache_ok_def)
next
  case (fail e w)
  have o: "ok (cc_inner c)" using ok by (simp add: cache_ok_def)
  show ?thesis using ok fail ListUserProfiles_frame [OF o fail(1)] by (auto simp: cache_ok_def)
qed (use ok in \<open>auto simp: cache_ok_def\<close>)

end

text \<open>
  A writing method of the inner client that does to the tables what the relation \<open>P\<close> says, does
  the same through the cache, and leaves it empty.
\<close>

context user_manager
begin

lemma cached_write_Inr:
  assumes "cache_ok ok users profiles c" "write_through C m c = (Inr (), c')"
    and step: "\<And>w'. m (cc_inner c) = (Inr (), w') \<Longrightarrow> ok w' \<and> P (users w') (profiles w')"
  shows "cache_ok ok users profiles c' \<and> P (users (cc_inner c')) (profiles (cc_inner c'))"
proof -
  obtain w where w: "m (cc_inner c) = (Inr (), w)"
    and c': "c' = c\<lparr>cc_users := [], cc_profiles := Map.empty, cc_inner := cl_InvalidateCache C w\<rparr>"
    using assms(2) by (auto simp: write_through_Inr)
  show ?thesis using step [OF w] InvalidateCache_frame [of w] c' by (simp add: cache_ok_def)
qed

lemma cached_write_Inl:
  assumes "cache_ok ok users profiles c" "write_through C m c = (Inl e, c')"
    and step: "\<And>w'. m (cc_inner c) = (Inl e, w') \<Longrightarrow>
      ok w' \<and> users w' = users (cc_inner c) \<and> profiles w' = profiles (cc_inner c)"
  shows "cache_ok ok users profiles c' \<and> users (cc_inner c') = users (cc_inner c)
    \<and> profiles (cc_inner c') = profiles (cc_inner c)"
  using assms(1,2) step by (auto simp: write_through_Inl cache_ok_def)

lemma cached_inner_keeps:
  assumes "cache_ok ok users profiles c" "inner m c = (r, c')"
    and step: "\<And>w w' r. ok w \<Longrightarrow> m w = (r, w') \<Longrightarrow> ok w' \<and> users w' = users w \<and> profiles w' = profiles w"
  shows "cache_ok ok users profiles c' \<and> (users \<circ> cc_inner) c' = (users \<circ> cc_inner) c
    \<and> (profiles \<circ> cc_inner) c' = (profiles \<circ> cc_inner) c"
proof -
  obtain w where "m (cc_inner c) = (r, w)" "c' = c\<lparr>cc_inner := w\<rparr>"
    using assms(2) by (auto simp: inner_eq)
  then show ?thesis using assms(1) step [of "cc_inner c" r w] by (simp add: cache_ok_def)
qed

lemma cached_reads:
  "router_reads (CachedClient C ttl) (cache_ok ok users profiles) (users \<circ> cc_inner) (profiles \<circ> cc_inner)"
proof (unfold_locales, goal_cases)
  case (4 w now name ru w')
  then have "Cached_GetUser C ttl now name w = (ru, w')" by (simp add: CachedClient_def)
  then show ?case using 4(1) cached_ListUsers(1) by (cases rule: cached_GetUser) fastforce+
next
  case (5 w now name u w')
  then have "Cached_GetUser C ttl now name w = (Inr u, w')" by (simp add: CachedClient_def)
  then show ?case
  proof (cases rule: cached_GetUser)
    case (1 us)
    then show ?thesis using cached_ListUsers(2) [OF 5(1) 1(1) refl] 1(2) [symmetric] by (simp add: find_user_iff)
  next
    case (2 e)
    then show ?thesis by simp
  qed
next
  case (6 w now name w')
  then have "Cached_GetUser C ttl now name w = (Inl ErrNotFound, w')" by (simp add: CachedClient_def)
  then show ?case
  proof (cases rule: cached_GetUser)
    case (1 us)
    then show ?thesis using cached_ListUsers(2) [OF 6(1) 1(1) refl] 1(2) [symmetric] by (simp add: find_user_iff)
  next
    case (2 e)
    then show ?thesis using cached_ListUsers_Inl [OF 6(1)] by blast
  qed
qed (auto simp: CachedClient_def dest: cached_ListUsers cached_ListUsers_Inl cached_ListUserProfiles)

lemma cached_manager:
  "user_manager (CachedClient C ttl) (cache_ok ok users profiles) (users \<circ> cc_inner) (profiles \<circ> cc_inner)"
proof (intro user_manager.intro cached_reads user_manager_axioms.intro, goal_cases)
  case (1 w name)
  then show ?case using orphan_profiles [of "cc_inner w"] by (simp add: cache_ok_def)
next
  case (2 w name pw comment shared dis w')
  then have o: "ok (cc_inner w)" by (simp add: cache_ok_def)
  let ?u = "\<lambda>i. \<lparr>usr_ID = i, usr_Name = name, usr_Password = pw, usr_SharedUsers = shared,
                usr_Comment = comment, usr_Disabled = dis\<rparr>"
  show ?case
    using cached_write_Inr [OF 2(1), of "cl_AddUser C name pw comment shared dis" w'
        "\<lambda>us ps. users (cc_inner w) name = None \<and> ps = profiles (cc_inner w)
           \<and> (\<exists>i. us = (users (cc_inner w))(name \<mapsto> ?u i))"]
      2(2) AddUser_Inr [OF o]
    by (simp add: CachedClient_def Cached_AddUser_def)
next
  case (3 w name pw comment shared dis e w')
  then have o: "ok (cc_inner w)" by (simp add: cache_ok_def)
  show ?case
    using cached_write_Inl [OF 3(1), of "cl_AddUser C name pw comment shared dis" e w'] 3(2) AddUser_Inl [OF o]
    by (simp add: CachedClient_def Cached_AddUser_def)
next
  case (4 w name pwo so comment diso w')
  then have o: "ok (cc_inner w)" by (simp add: cache_ok_def)
  show ?case
    using cached_write_Inr [OF 4(1), of "cl_SetUser C name pwo so comment diso" w'
        "\<lambda>us ps. ps = profiles (cc_inner w) \<and> (\<exists>u c. users (cc_inner w) name = Some u
           \<and> (comment \<noteq> [] \<longrightarrow> c = comment) \<and> us = (users (cc_inner w))(name \<mapsto> set_fields pwo so c diso u))"]
      4(2) SetUser_Inr [OF o]
    by (simp add: CachedClient_def Cached_SetUser_def)
next
  case (5 w name pwo so comment diso e w')
  then have o: "ok (cc_inner w)" by (simp add: cache_ok_def)
  show ?case
    using cached_write_Inl [OF 5(1), of "cl_SetUser C name pwo so comment diso" e w'] 5(2) SetUser_Inl [OF o]
    by (simp add: CachedClient_def Cached_SetUser_def)
next
  case (6 w name w')
  then have o: "ok (cc_inner w)" by (simp add: cache_ok_def)
  show ?case
    using cached_write_Inr [OF 6(1), of "cl_RemoveUser C name" w'
        "\<lambda>us ps. us = (users (cc_inner w))(name := None) \<and> ps = (profiles (cc_inner w))(name := [])"]
      6(2) RemoveUser_Inr [OF o]
    by (simp add: CachedClient_def Cached_RemoveUser_def)
next
  case (7 w name e w')
  then have o: "ok (cc_inner w)" by (simp add: cache_ok_def)
  show ?case
    using cached_write_Inl [OF 7(1), of "cl_RemoveUser C name" e w'] 7(2) RemoveUser_Inl [OF o]
    by (simp add: CachedClient_def Cached_RemoveUser_def)
next
  case (8 w now name profile w')
  then have o: "ok (cc_inner w)" by (simp add: cache_ok_def)
  show ?case
    using cached_write_Inr [OF 8(1), of "cl_AddUserProfile C now name profile" w'
        "\<lambda>us ps. us = users (cc_inner w) \<and> (\<forall>n. n \<noteq> name \<longrightarrow> ps n = profiles (cc_inner w) n)
           \<and> (\<exists>p \<in> set (ps name). prof_User p = name \<and> prof_Profile p = profile)"]
      8(2) AddUserProfile_Inr [OF o]
    by (simp add: CachedClient_def Cached_AddUserProfile_def)
next
  case (9 w now name profile e w')
  then have o: "ok (cc_inner w)" by (simp add: cache_ok_def)
  show ?case
    using cached_write_Inl [OF 9(1), of "cl_AddUserProfile C now name profile" e w'] 9(2)
      AddUserProfile_Inl [OF o]
    by (simp add: CachedClient_def Cached_AddUserProfile_def)
next
  case (10 w i w')
  then have o: "ok (cc_inner w)" by (simp add: cache_ok_def)
  show ?case
    using cached_write_Inr [OF 10(1), of "cl_RemoveUserProfile C i" w'
        "\<lambda>us ps. us = users (cc_inner w) \<and> (\<forall>n. set (ps n) \<subseteq> set (profiles (cc_inner w) n)
           \<and> (\<forall>p \<in> set (profiles (cc_inner w) n). prof_ID p \<noteq> i \<longrightarrow> p \<in> set (ps n)))"]
      10(2) RemoveUserProfile_Inr [OF o]
    by (simp add: CachedClient_def Cached_RemoveUserProfile_def)
next
  case (11 w i e w')
  then have o: "ok (cc_inner w)" by (simp add: cache_ok_def)
  show ?case
    using cached_write_Inl [OF 11(1), of "cl_RemoveUserProfile C i" e w'] 11(2) RemoveUserProfile_Inl [OF o]
    by (simp add: CachedClient_def Cached_RemoveUserProfile_def)
next
  case (12 w)
  then show ?case
    using InvalidateCache_frame [of "cc_inner w"]
    by (simp add: CachedClient_def Cached_InvalidateCache_def cache_ok_def)
next
  case (13 w ru w')
  show ?case using cached_inner_keeps [OF 13(1), of "cl_Ping C"] 13(2) Ping_keeps by (simp add: CachedClient_def)
next
  case (14 w script title pass ru w')
  show ?case
    using cached_inner_keeps [OF 14(1), of "cl_GenerateCertificate C script title pass"] 14(2) Generate_keeps
    by (simp add: CachedClient_def)
next
  case (15 w file_name rs w')
  show ?case
    using cached_inner_keeps [OF 15(1), of "cl_ReadFileContents C file_name"] 15(2) Read_keeps
    by (simp add: CachedClient_def)
next
  case (16 w file_name body ru w')
  show ?case
    using cached_inner_keeps [OF 16(1), of "cl_WriteFileContents C file_name body"] 16(2) Write_keeps
    by (simp add: CachedClient_def)
next
  case (17 w file_name rb w')
  show ?case
    using cached_inner_keeps [OF 17(1), of "cl_FileExists C file_name"] 17(2) Exists_keeps
    by (simp add: CachedClient_def)
qed

end

text \<open>The files of the router are not cached.\<close>

context router_files
begin

lemma cached_files: "router_files (CachedClient C ttl) (files \<circ> cc_inner)"
  by unfold_locales (auto simp: CachedClient_def inner_eq
      dest: Read_frame Read_Inr Read_NotFound Write_Inr Exists_frame Exists_Inr Generate_Inr)

end

text \<open>The test configuration of the panel: the fake router behind the cache.\<close>

interpretation cached_fake: user_manager "CachedClient FakeClient ttl"
  "cache_ok fake_ok fake_users fake_profiles" "fake_users \<circ> cc_inner" "fake_profiles \<circ> cc_inner" for ttl
  by (rule fake.cached_manager)

interpretation cached_fake_files: router_files "CachedClient FakeClient ttl" "fake_files \<circ> cc_inner" for ttl
  by (rule fake_files.cached_files)

end
