(* ===== verification/Quota.thy ===== *)
theory Quota
  imports Owner Mikrotik_Cached
begin

text \<open>
  Quota accounting (quota/quota.go): which profile rows are active, the slots a manager uses, and
  the totals of the dashboard. \<open>profilesFn\<close> is a call, because behind it stands the cached router
  client. The contract it is used under is the locale \<open>profile_source\<close>: every answer is the one of
  a fixed table. The specification is \<open>slots\<close>, a sum over the user list; both loops of the code are
  shown to compute it, so the dashboard and the quota check agree and the totals add up.
\<close>

definition ProfileActive :: "user_profile \<Rightarrow> time \<Rightarrow> bool" where
  "ProfileActive p now =
     (let st = toLower (trimSpace (prof_State p)) in
      if sublist ''active'' st then True
      else if prof_EndTime p = [] then False
      else case (case parse_RFC3339 (prof_EndTime p) of
                   Some t \<Rightarrow> Some t | None \<Rightarrow> parse_DateTime (prof_EndTime p)) of
        None \<Rightarrow> False
      | Some t \<Rightarrow> t > now)"

record scope_stats =
  VPNUsers :: int
  Connections :: int

definition zero_stats :: scope_stats where
  "zero_stats = \<lparr>VPNUsers = 0, Connections = 0\<rparr>"

definition userHasActiveProfile :: "user_profile list \<Rightarrow> time \<Rightarrow> bool" where
  "userHasActiveProfile profs now = list_ex (\<lambda>p. ProfileActive p now) profs"

text \<open>\<open>s.VPNUsers++; s.Connections += u.SharedUsers\<close>\<close>

definition count_user :: "mt_user \<Rightarrow> scope_stats \<Rightarrow> scope_stats" where
  "count_user u s = \<lparr>VPNUsers = i64 (VPNUsers s + 1), Connections = i64 (Connections s + usr_SharedUsers u)\<rparr>"

definition stats_at :: "(int \<rightharpoonup> scope_stats) \<Rightarrow> int \<Rightarrow> scope_stats" where
  "stats_at m k = (case m k of None \<Rightarrow> zero_stats | Some s \<Rightarrow> s)"

type_synonym aggregate = "scope_stats \<times> scope_stats \<times> (int \<rightharpoonup> scope_stats)"

definition aggregate_user ::
  "registry \<Rightarrow> (string \<Rightarrow> ('w, user_profile list) go) \<Rightarrow> time \<Rightarrow> mt_user \<Rightarrow> aggregate \<Rightarrow> ('w, aggregate) go" where
  "aggregate_user reg profilesFn now u = (\<lambda>(total, orphan, byManager).
     let ownerID = Resolve reg (usr_Name u) (usr_Comment u) in
     if usr_Disabled u then returnE (total, orphan, byManager)
     else bindE (profilesFn (usr_Name u)) (\<lambda>profs.
       if \<not> userHasActiveProfile profs now then returnE (total, orphan, byManager)
       else if ownerID = 0 then returnE (count_user u total, count_user u orphan, byManager)
       else returnE (count_user u total, orphan,
              byManager(ownerID \<mapsto> count_user u (stats_at byManager ownerID)))))"

definition AggregateByOwner ::
  "registry \<Rightarrow> mt_user list \<Rightarrow> (string \<Rightarrow> ('w, user_profile list) go) \<Rightarrow> time \<Rightarrow> ('w, aggregate) go" where
  "AggregateByOwner reg users profilesFn now =
     forE (aggregate_user reg profilesFn now) users (zero_stats, zero_stats, Map.empty)"

definition UsedForManager ::
  "registry \<Rightarrow> int \<Rightarrow> mt_user list \<Rightarrow> (string \<Rightarrow> ('w, user_profile list) go) \<Rightarrow> time \<Rightarrow> ('w, int) go" where
  "UsedForManager reg managerID users profilesFn now =
     forE (\<lambda>u used.
       if Resolve reg (usr_Name u) (usr_Comment u) \<noteq> managerID \<or> usr_Disabled u then returnE used
       else bindE (profilesFn (usr_Name u)) (\<lambda>profs.
         if userHasActiveProfile profs now then returnE (i64 (used + usr_SharedUsers u))
         else returnE used))
     users 0"

definition CheckAdd :: "int \<Rightarrow> int \<Rightarrow> int \<Rightarrow> bool" where
  "CheckAdd used quota newShared = (i64 (used + newShared) \<le> quota)"

definition CheckIncrease :: "int \<Rightarrow> int \<Rightarrow> int \<Rightarrow> int \<Rightarrow> bool" where
  "CheckIncrease used quota oldShared newShared = (i64 (i64 (used - oldShared) + newShared) \<le> quota)"

section \<open>The specification\<close>

text \<open>A user counts when it is enabled and has an active profile.\<close>

definition counted :: "(string \<Rightarrow> user_profile list) \<Rightarrow> time \<Rightarrow> mt_user \<Rightarrow> bool" where
  "counted prof now u \<longleftrightarrow> \<not> usr_Disabled u \<and> userHasActiveProfile (prof (usr_Name u)) now"

definition owner_of :: "registry \<Rightarrow> mt_user \<Rightarrow> int" where
  "owner_of reg u = Resolve reg (usr_Name u) (usr_Comment u)"

definition users_in ::
  "registry \<Rightarrow> (string \<Rightarrow> user_profile list) \<Rightarrow> time \<Rightarrow> (int \<Rightarrow> bool) \<Rightarrow> mt_user list \<Rightarrow> mt_user list" where
  "users_in reg prof now P us = filter (\<lambda>u. counted prof now u \<and> P (owner_of reg u)) us"

definition slots ::
  "registry \<Rightarrow> (string \<Rightarrow> user_profile list) \<Rightarrow> time \<Rightarrow> (int \<Rightarrow> bool) \<Rightarrow> mt_user list \<Rightarrow> int" where
  "slots reg prof now P us = sum_list (map usr_SharedUsers (users_in reg prof now P us))"

definition stats_of ::
  "registry \<Rightarrow> (string \<Rightarrow> user_profile list) \<Rightarrow> time \<Rightarrow> (int \<Rightarrow> bool) \<Rightarrow> mt_user list \<Rightarrow> scope_stats" where
  "stats_of reg prof now P us =
     \<lparr>VPNUsers = i64 (int (length (users_in reg prof now P us))), Connections = i64 (slots reg prof now P us)\<rparr>"

lemma slots_simps [simp]:
  "slots reg prof now P [] = 0"
  "slots reg prof now P (us @ vs) = slots reg prof now P us + slots reg prof now P vs"
  by (simp_all add: slots_def users_in_def)

lemma slots_Cons:
  "slots reg prof now P (u # us) =
     (if counted prof now u \<and> P (owner_of reg u) then usr_SharedUsers u else 0) + slots reg prof now P us"
  by (simp add: slots_def users_in_def)

lemma i64_zero [simp]: "i64 0 = 0"
  by (simp add: i64_def)

lemma stats_of_Nil [simp]: "stats_of reg prof now P [] = zero_stats"
  by (simp add: stats_of_def zero_stats_def users_in_def)

lemma stats_of_snoc:
  "stats_of reg prof now P (us @ [u]) =
     (if counted prof now u \<and> P (owner_of reg u) then count_user u (stats_of reg prof now P us)
      else stats_of reg prof now P us)"
  by (simp add: stats_of_def count_user_def users_in_def slots_def add.commute)

section \<open>The contract of the profile reader\<close>

locale profile_source =
  fixes I :: "'w \<Rightarrow> bool" and pf :: "string \<Rightarrow> ('w, user_profile list) go"
    and prof :: "string \<Rightarrow> user_profile list"
  assumes keeps: "I w \<Longrightarrow> pf n w = (r, w') \<Longrightarrow> I w'"
    and answer: "I w \<Longrightarrow> pf n w = (Inr ps, w') \<Longrightarrow> ps = prof n"

lemma forE_snoc: "forE body (xs @ [x]) s = bindE (forE body xs s) (body x)"
proof (induction xs arbitrary: s)
  case Nil
  show ?case by (simp add: fun_eq_iff bindE_def returnE_apply split: prod.split sum.split)
next
  case (Cons y ys)
  have "forE body (ys @ [x]) = (\<lambda>t. bindE (forE body ys t) (body x))" by (rule ext) (rule Cons.IH)
  then show ?case by (simp add: bindE_assoc)
qed

context profile_source
begin

lemma used_run:
  "I w \<Longrightarrow> UsedForManager reg m us pf now w = (r, w') \<Longrightarrow>
     I w' \<and> (\<forall>n. r = Inr n \<longrightarrow> n = i64 (slots reg prof now (\<lambda>i. i = m) us))"
proof (induction us arbitrary: r w' rule: rev_induct)
  case Nil
  then show ?case by (auto simp: UsedForManager_def returnE_apply)
next
  case (snoc u us)
  obtain r1 w1 where 1: "UsedForManager reg m us pf now w = (r1, w1)"
    by (cases "UsedForManager reg m us pf now w")
  note IH = snoc.IH [OF snoc.prems(1) 1]
  show ?case
  proof (cases r1)
    case (Inl e)
    then show ?thesis using snoc.prems 1 IH by (auto simp: UsedForManager_def forE_snoc bindE_apply)
  next
    case (Inr n)
    then have run: "(if Resolve reg (usr_Name u) (usr_Comment u) \<noteq> m \<or> usr_Disabled u then returnE n
       else bindE (pf (usr_Name u)) (\<lambda>profs. if userHasActiveProfile profs now
         then returnE (i64 (n + usr_SharedUsers u)) else returnE n)) w1 = (r, w')"
      using snoc.prems(2) 1 by (simp add: UsedForManager_def forE_snoc bindE_apply)
    obtain r2 w2 where 2: "pf (usr_Name u) w1 = (r2, w2)" by (cases "pf (usr_Name u) w1")
    have I: "I w1" "I w2" using IH keeps [OF _ 2] by auto
    have a: "\<And>ps. r2 = Inr ps \<Longrightarrow> ps = prof (usr_Name u)" using answer [OF I(1)] 2 by auto
    show ?thesis
      using run 2 I a IH Inr
      by (cases r2) (auto simp: returnE_apply bindE_apply slots_Cons counted_def owner_of_def split: if_splits)
  qed
qed

text \<open>
  The three results of \<open>AggregateByOwner\<close>: the totals over all users, over the orphans, and for
  each owner with a counted user the totals of that owner.
\<close>

definition by_manager_of :: "registry \<Rightarrow> time \<Rightarrow> mt_user list \<Rightarrow> int \<rightharpoonup> scope_stats" where
  "by_manager_of reg now us k =
     (if k \<noteq> 0 \<and> users_in reg prof now (\<lambda>i. i = k) us \<noteq> [] then Some (stats_of reg prof now (\<lambda>i. i = k) us)
      else None)"

lemma by_manager_at:
  "k \<noteq> 0 \<Longrightarrow> stats_at (by_manager_of reg now us) k = stats_of reg prof now (\<lambda>i. i = k) us"
  by (auto simp: stats_at_def by_manager_of_def stats_of_def zero_stats_def slots_def)

lemma users_in_snoc:
  "users_in reg prof now P (us @ [u]) =
     users_in reg prof now P us @ (if counted prof now u \<and> P (owner_of reg u) then [u] else [])"
  by (simp add: users_in_def)

lemma by_manager_snoc:
  "by_manager_of reg now (us @ [u]) =
     (if counted prof now u \<and> owner_of reg u \<noteq> 0
      then (by_manager_of reg now us)(owner_of reg u \<mapsto>
              count_user u (stats_at (by_manager_of reg now us) (owner_of reg u)))
      else by_manager_of reg now us)"
  by (rule ext) (auto simp: by_manager_of_def [of reg now "us @ [u]"] by_manager_of_def [of reg now us]
      by_manager_at users_in_snoc stats_of_snoc)

lemma aggregate_run:
  "I w \<Longrightarrow> AggregateByOwner reg us pf now w = (r, w') \<Longrightarrow>
     I w' \<and> (\<forall>a. r = Inr a \<longrightarrow>
       a = (stats_of reg prof now (\<lambda>_. True) us, stats_of reg prof now (\<lambda>i. i = 0) us,
            by_manager_of reg now us))"
proof (induction us arbitrary: r w' rule: rev_induct)
  case Nil
  then show ?case
    by (auto simp: AggregateByOwner_def returnE_apply by_manager_of_def users_in_def fun_eq_iff)
next
  case (snoc u us)
  obtain r1 w1 where 1: "AggregateByOwner reg us pf now w = (r1, w1)"
    by (cases "AggregateByOwner reg us pf now w")
  note IH = snoc.IH [OF snoc.prems(1) 1]
  show ?case
  proof (cases r1)
    case (Inl e)
    then show ?thesis using snoc.prems 1 IH by (auto simp: AggregateByOwner_def forE_snoc bindE_apply)
  next
    case (Inr a)
    obtain t op bm where a: "a = (t, op, bm)" by (cases a)
    have run: "aggregate_user reg pf now u (t, op, bm) w1 = (r, w')"
      using snoc.prems(2) 1 Inr a by (simp add: AggregateByOwner_def forE_snoc bindE_Inr)
    obtain r2 w2 where 2: "pf (usr_Name u) w1 = (r2, w2)" by (cases "pf (usr_Name u) w1")
    have I: "I w1" "I w2" using IH keeps [OF _ 2] by auto
    have ans: "\<And>ps. r2 = Inr ps \<Longrightarrow> ps = prof (usr_Name u)" using answer [OF I(1)] 2 by auto
    show ?thesis
      using run 2 I ans IH Inr a
      by (cases r2) (auto simp: aggregate_user_def Let_def returnE_apply bindE_apply stats_of_snoc
          by_manager_snoc counted_def owner_of_def split: if_splits)
  qed
qed

end

text \<open>The cached fake router is such a source, and so is every client that keeps the reading contract.\<close>

sublocale router_reads \<subseteq> source: profile_source "\<lambda>w. ok w \<and> profiles w = T" "cl_ListUserProfiles C now" T
  for T now
  using ListUserProfiles_frame ListUserProfiles_Inr by unfold_locales blast+

section \<open>Totals add up\<close>

lemma weights_split:
  fixes f :: "mt_user \<Rightarrow> int"
  assumes "finite K" "0 \<notin> K" "\<forall>u \<in> set us. counted prof now u \<longrightarrow> owner_of reg u \<in> insert 0 K"
  shows "sum_list (map f (users_in reg prof now (\<lambda>_. True) us)) =
    sum_list (map f (users_in reg prof now (\<lambda>i. i = 0) us))
      + (\<Sum>k \<in> K. sum_list (map f (users_in reg prof now (\<lambda>i. i = k) us)))"
  using assms(3)
proof (induction us)
  case Nil
  then show ?case by (simp add: users_in_def)
next
  case (Cons u us)
  have step: "(\<Sum>k \<in> K. sum_list (map f (users_in reg prof now (\<lambda>i. i = k) (u # us)))) =
      (\<Sum>k \<in> K. sum_list (map f (users_in reg prof now (\<lambda>i. i = k) us)))
        + (\<Sum>k \<in> K. if counted prof now u \<and> owner_of reg u = k then f u else 0)"
    by (simp add: users_in_def sum.distrib [symmetric] if_distrib cong: if_cong) (rule sum.cong; simp)
  have "(\<Sum>k \<in> K. if counted prof now u \<and> owner_of reg u = k then f u else 0) =
      (if counted prof now u \<and> owner_of reg u \<in> K then f u else 0)"
    using assms(1) by (cases "counted prof now u") simp_all
  then show ?case
    using Cons assms(2) unfolding step by (auto simp: users_in_def)
qed

lemma i64_sum: "finite K \<Longrightarrow> i64 (x + (\<Sum>k \<in> K. i64 (b k))) = i64 (x + (\<Sum>k \<in> K. b k))"
proof (induction K arbitrary: x rule: finite_induct)
  case (insert k K)
  have "i64 (x + (\<Sum>k \<in> insert k K. i64 (b k))) = i64 (i64 (b k) + (x + (\<Sum>k \<in> K. i64 (b k))))"
    using insert.hyps by (simp add: algebra_simps)
  also have "\<dots> = i64 ((b k + x) + (\<Sum>k \<in> K. i64 (b k)))" by (simp add: add.assoc)
  also have "\<dots> = i64 ((b k + x) + (\<Sum>k \<in> K. b k))" by (rule insert.IH)
  finally show ?case using insert.hyps by (simp add: algebra_simps)
qed simp

lemma count_as_sum: "int (length xs) = sum_list (map (\<lambda>_. 1) xs)"
  by (induction xs) simp_all

lemma slots_mset: "mset us = mset vs \<Longrightarrow> slots reg prof now P us = slots reg prof now P vs"
proof -
  have "slots reg prof now P xs = sum_mset (image_mset usr_SharedUsers
      (filter_mset (\<lambda>u. counted prof now u \<and> P (owner_of reg u)) (mset xs)))" for xs
    by (simp add: slots_def users_in_def sum_mset_sum_list flip: mset_filter mset_map)
  then show "mset us = mset vs \<Longrightarrow> slots reg prof now P us = slots reg prof now P vs" by simp
qed

context profile_source
begin

lemma by_manager_dom:
  "dom (by_manager_of reg now us) = {k. k \<noteq> 0 \<and> (\<exists>u \<in> set us. counted prof now u \<and> owner_of reg u = k)}"
  by (auto simp: by_manager_of_def users_in_def dom_def filter_empty_conv split: if_splits)

lemma by_manager_the:
  "k \<in> dom (by_manager_of reg now us) \<Longrightarrow>
     the (by_manager_of reg now us k) = stats_of reg prof now (\<lambda>i. i = k) us"
  by (auto simp: by_manager_of_def dom_def split: if_splits)

lemma finite_by_manager: "finite (dom (by_manager_of reg now us))"
  by (rule finite_subset [of _ "owner_of reg ` set us"]) (auto simp: by_manager_dom)

lemma totals_split:
  "sum_list (map f (users_in reg prof now (\<lambda>_. True) us)) =
    sum_list (map f (users_in reg prof now (\<lambda>i. i = 0) us))
      + (\<Sum>k \<in> dom (by_manager_of reg now us). sum_list (map f (users_in reg prof now (\<lambda>i. i = k) us)))"
  for f :: "mt_user \<Rightarrow> int"
  by (rule weights_split [OF finite_by_manager]) (auto simp: by_manager_dom)

lemma totals_i64:
  "i64 (sum_list (map f (users_in reg prof now (\<lambda>_. True) us))) =
    i64 (i64 (sum_list (map f (users_in reg prof now (\<lambda>i. i = 0) us)))
      + (\<Sum>k \<in> dom (by_manager_of reg now us). i64 (sum_list (map f (users_in reg prof now (\<lambda>i. i = k) us)))))"
  for f :: "mt_user \<Rightarrow> int"
  using totals_split [of f reg now us] by (simp add: i64_sum [OF finite_by_manager])

end

section \<open>Properties\<close>

text \<open>The router and the registry of the examples.\<close>

definition sample_user :: "string \<Rightarrow> int \<Rightarrow> bool \<Rightarrow> mt_user" where
  "sample_user name shared dis = \<lparr>usr_ID = name, usr_Name = name, usr_Password = ''pass1234'',
     usr_SharedUsers = shared, usr_Comment = [], usr_Disabled = dis\<rparr>"

definition sample_profile :: "string \<Rightarrow> user_profile" where
  "sample_profile name = \<lparr>prof_ID = ''*p'' @ name, prof_User = name, prof_Profile = ''profile-open-2M-30d'',
     prof_State = ''active'', prof_EndTime = []\<rparr>"

definition sample_users :: "mt_user list" where
  "sample_users = [sample_user ''ali_a'' 2 False, sample_user ''guest'' 1 False,
     sample_user ''ali_b'' 3 False, sample_user ''ali_c'' 4 True]"

definition sample_fake :: fake_client where
  "sample_fake = (NewFake 0)\<lparr>fk_users := map (\<lambda>u. (usr_Name u, u)) sample_users,
     fk_profiles := map (\<lambda>u. (usr_Name u, [sample_profile (usr_Name u)])) sample_users, fk_nextID := 9\<rparr>"

definition sample_reg :: registry where
  "sample_reg = \<lparr>reg_Separator = ''_'', reg_Managers = [\<lparr>mi_ID = 1, mi_Slug = ''ali''\<rparr>]\<rparr>"

lemma sample_source: "profile_source (\<lambda>f. f = sample_fake) Fake_ListUserProfiles (fake_profiles sample_fake)"
  by unfold_locales (auto simp: Fake_ListUserProfiles_def)

text \<open>
  C30. \<open>UsedForManager\<close> is the sum of the slots of the manager's users that are enabled and have an
  active profile, in 64-bit arithmetic, for every source of profiles that answers from one table.
\<close>

theorem used_is_slots:
  assumes "profile_source I profilesFn prof" "I w"
    and "UsedForManager reg managerID users profilesFn now w = (Inr used, w')"
  shows "used = i64 (\<Sum>u \<leftarrow> filter (\<lambda>u. \<not> usr_Disabled u \<and> Resolve reg (usr_Name u) (usr_Comment u) = managerID
      \<and> userHasActiveProfile (prof (usr_Name u)) now) users. usr_SharedUsers u)"
proof -
  have "used = i64 (slots reg prof now (\<lambda>i. i = managerID) users)"
    using profile_source.used_run [OF assms] by simp
  moreover have "users_in reg prof now (\<lambda>i. i = managerID) users =
      filter (\<lambda>u. \<not> usr_Disabled u \<and> Resolve reg (usr_Name u) (usr_Comment u) = managerID
      \<and> userHasActiveProfile (prof (usr_Name u)) now) users"
    unfolding users_in_def by (rule filter_cong) (auto simp: counted_def owner_of_def)
  ultimately show ?thesis by (simp add: slots_def)
qed

lemma used_is_slots_witness:
  "fst (UsedForManager sample_reg 1 sample_users Fake_ListUserProfiles 0 sample_fake) = Inr 5
   \<and> (5::int) = i64 (\<Sum>u \<leftarrow> filter (\<lambda>u. \<not> usr_Disabled u \<and> Resolve sample_reg (usr_Name u) (usr_Comment u) = 1
      \<and> userHasActiveProfile (fake_profiles sample_fake (usr_Name u)) 0) sample_users. usr_SharedUsers u)"
proof -
  have run: "UsedForManager sample_reg 1 sample_users Fake_ListUserProfiles 0 sample_fake = (Inr 5, sample_fake)"
    by code_simp
  show ?thesis using used_is_slots [OF sample_source refl run] run by simp
qed

text \<open>
  C31. The dashboard agrees with the router and with the quota check. Its totals add up: the active users
  and the slots of the whole router are those of the orphans and of the managers together. And the
  connections it reports for a manager are the slots that \<open>UsedForManager\<close> counts; a manager it does not
  report has none.
\<close>

theorem dashboard_adds_up:
  assumes "profile_source I profilesFn prof" "I w"
    and "AggregateByOwner reg users profilesFn now w = (Inr (tot, orphan, byManager), w')"
  shows "VPNUsers tot = i64 (VPNUsers orphan + (\<Sum>k \<in> dom byManager. VPNUsers (the (byManager k))))
    \<and> Connections tot = i64 (Connections orphan + (\<Sum>k \<in> dom byManager. Connections (the (byManager k))))
    \<and> (\<forall>v v' managerID used. I v \<and> managerID \<noteq> 0 \<and> UsedForManager reg managerID users profilesFn now v = (Inr used, v')
        \<longrightarrow> Connections (stats_at byManager managerID) = used)"
proof -
  let ?bm = "profile_source.by_manager_of prof reg now users"
  have eq: "tot = stats_of reg prof now (\<lambda>_. True) users" "orphan = stats_of reg prof now (\<lambda>i. i = 0) users"
    "byManager = ?bm"
    using profile_source.aggregate_run [OF assms(1-3)] by simp_all
  have the: "the (?bm k) = stats_of reg prof now (\<lambda>i. i = k) users" if "k \<in> dom ?bm" for k
    using profile_source.by_manager_the [OF assms(1) that] .
  have used: "Connections (stats_at byManager managerID) = used"
    if "I v" "managerID \<noteq> 0" "UsedForManager reg managerID users profilesFn now v = (Inr used, v')" for v v' managerID used
    using profile_source.by_manager_at [OF assms(1) that(2)] profile_source.used_run [OF assms(1) that(1,3)]
    by (simp add: eq stats_of_def)
  have "VPNUsers tot = i64 (VPNUsers orphan + (\<Sum>k \<in> dom byManager. VPNUsers (the (byManager k))))
    \<and> Connections tot = i64 (Connections orphan + (\<Sum>k \<in> dom byManager. Connections (the (byManager k))))"
    using profile_source.totals_i64 [OF assms(1), where f = "\<lambda>_. 1" and reg = reg and now = now and us = users]
      profile_source.totals_i64 [OF assms(1), where f = usr_SharedUsers and reg = reg and now = now and us = users]
    by (simp add: eq the stats_of_def slots_def count_as_sum del: sum_list_triv)
  then show ?thesis using used by blast
qed

lemma dashboard_adds_up_witness:
  "\<exists>tot orphan byManager.
     AggregateByOwner sample_reg sample_users Fake_ListUserProfiles 0 sample_fake = (Inr (tot, orphan, byManager), sample_fake)
     \<and> Connections tot = 6
     \<and> Connections tot = i64 (Connections orphan + (\<Sum>k \<in> dom byManager. Connections (the (byManager k))))
     \<and> Connections (stats_at byManager 1) = 5"
proof -
  have "case AggregateByOwner sample_reg sample_users Fake_ListUserProfiles 0 sample_fake of
      (Inr (tot, orphan, byManager), w) \<Rightarrow> Connections tot = 6 \<and> w = sample_fake | _ \<Rightarrow> False"
    by code_simp
  then obtain tot orphan byManager where
    run: "AggregateByOwner sample_reg sample_users Fake_ListUserProfiles 0 sample_fake = (Inr (tot, orphan, byManager), sample_fake)"
    and six: "Connections tot = 6"
    by (auto split: prod.splits sum.splits)
  have used: "UsedForManager sample_reg 1 sample_users Fake_ListUserProfiles 0 sample_fake = (Inr 5, sample_fake)"
    by code_simp
  show ?thesis using dashboard_adds_up [OF sample_source refl run] run six used by fastforce
qed

text \<open>
  Quota usage does not depend on the order in which the router lists its users.
\<close>

lemma used_order_independent:
  assumes "profile_source I profilesFn prof" "I w" "I v" "mset users = mset users'"
    and "UsedForManager reg managerID users profilesFn now w = (Inr used, w')"
    and "UsedForManager reg managerID users' profilesFn now v = (Inr used', v')"
  shows "used = used'"
  using profile_source.used_run [OF assms(1,2,5)] profile_source.used_run [OF assms(1,3,6)]
    slots_mset [OF assms(4)] by simp

section \<open>The cache and the end of a profile\<close>

text \<open>
  C34. A cache over a client refines it, whatever its time to live: a client that keeps the contract of
  the router keeps it behind the cache, with the same tables, as long as the router changes only
  through the cache. So a caller cannot tell the cached client from the router.
\<close>

theorem cache_refines_client:
  assumes "user_manager C ok users profiles"
  shows "user_manager (CachedClient C ttl) (cache_ok ok users profiles) (users \<circ> cc_inner) (profiles \<circ> cc_inner)"
  by (rule user_manager.cached_manager [OF assms])

lemma cache_refines_client_witness:
  "user_manager (CachedClient FakeClient 30000000000) (cache_ok fake_ok fake_users fake_profiles)
     (fake_users \<circ> cc_inner) (fake_profiles \<circ> cc_inner)"
  by (rule cache_refines_client [OF fake.user_manager_axioms])

text \<open>
  What is served from the cache: a user list was read less than the time to live ago, but a list
  of profiles may be of any age, because reading the profiles of one user dates those of all.
\<close>

lemma cache_age:
  assumes "Cached_ListUsers C ttl now c = (Inr us, c)" "cc_usersAt c \<noteq> now"
    and "cc_profiles c n = Some ps" "cc_profiles c m = None" "later - t < ttl"
    and "Cached_ListUserProfiles C ttl t m c = (Inr qs, c')"
  shows "now - cc_usersAt c < ttl \<and> Cached_ListUserProfiles C ttl later n c' = (Inr ps, c')"
proof -
  have "now - cc_usersAt c < ttl"
  proof (rule ccontr)
    assume "\<not> now - cc_usersAt c < ttl"
    then obtain w where "c\<lparr>cc_inner := w, cc_users := us, cc_usersAt := now\<rparr> = c"
      using assms(1) by (auto simp: Cached_ListUsers_def bindE_def inner_def split: prod.splits sum.splits)
    from arg_cong [OF this, of cc_usersAt] show False using assms(2) by simp
  qed
  moreover obtain w where "c' = c\<lparr>cc_inner := w, cc_profiles := (cc_profiles c)(m \<mapsto> qs), cc_profilesAt := t\<rparr>"
    using assms(4,6) by (auto simp: Cached_ListUserProfiles_def bindE_def inner_def split: option.splits prod.splits sum.splits)
  ultimately show ?thesis using assms(3,4,5) by (cases "n = m") (simp_all add: Cached_ListUserProfiles_def)
qed

text \<open>
  C35. An end time that was written with \<open>time.RFC3339\<close> is read back: a profile whose state does not say
  "active" is active exactly until the second in which it ends, in every zone and for every year of
  four digits. In particular the row that a renewal replaces, marked "expired", still counts until then.
\<close>

theorem end_time_read_back:
  assumes "civil_from_days ((t div 1000000000 + off * 60) div 86400) = (y, m, d)" "0 \<le> y" "y < 10000" "\<bar>off\<bar> < 1500"
    and "\<not> sublist ''active'' (toLower (trimSpace (prof_State p)))" "prof_EndTime p = fmt_RFC3339 off t"
  shows "ProfileActive p now \<longleftrightarrow> now < t - t mod 1000000000"
proof -
  have "parse_RFC3339 (prof_EndTime p) = Some (t - t mod 1000000000)"
    unfolding assms(6) by (rule parse_fmt_RFC3339 [OF assms(1-4)])
  moreover have "prof_EndTime p \<noteq> []"
    unfolding assms(6) by (auto simp: fmt_RFC3339_def Let_def fmt_date_def split: prod.splits)
  ultimately show ?thesis using assms(5) by (simp add: ProfileActive_def Let_def)
qed

lemma end_time_read_back_witness:
  "ProfileActive \<lparr>prof_ID = ''*1'', prof_User = ''ali_a'', prof_Profile = [], prof_State = ''expired'',
     prof_EndTime = fmt_RFC3339 210 1767225600500000000\<rparr> 1767225599000000000"
proof -
  have date: "civil_from_days ((1767225600500000000 div 1000000000 + 210 * 60) div 86400) = (2026, 1, 1)" by code_simp
  have state: "\<not> sublist ''active'' (toLower (trimSpace ''expired''))" by code_simp
  show ?thesis by (subst end_time_read_back [OF date]) (use state in simp_all)
qed


lemma cache_age_example:
  "Cached_ListUserProfiles FakeClient 30 50 ''ali_a''
     (snd (Cached_ListUserProfiles FakeClient 30 40 ''ali_b'' ((NewCached sample_fake)\<lparr>cc_users := sample_users,
        cc_usersAt := 20, cc_profiles := [''ali_a'' \<mapsto> []], cc_profilesAt := 0\<rparr>)))
   = (Inr [], snd (Cached_ListUserProfiles FakeClient 30 40 ''ali_b'' ((NewCached sample_fake)\<lparr>cc_users := sample_users,
        cc_usersAt := 20, cc_profiles := [''ali_a'' \<mapsto> []], cc_profilesAt := 0\<rparr>)))"
proof -
  let ?c = "(NewCached sample_fake)\<lparr>cc_users := sample_users,
        cc_usersAt := 20, cc_profiles := [''ali_a'' \<mapsto> []], cc_profilesAt := 0\<rparr>"
  have "Cached_ListUserProfiles FakeClient 30 40 ''ali_b'' ?c =
      (Inr (fake_profiles sample_fake ''ali_b''), snd (Cached_ListUserProfiles FakeClient 30 40 ''ali_b'' ?c))"
    by (simp add: Cached_ListUserProfiles_def NewCached_def bindE_def inner_def FakeClient_def Fake_ListUserProfiles_def)
  moreover have "Cached_ListUsers FakeClient 30 40 ?c = (Inr sample_users, ?c)"
    by (simp add: Cached_ListUsers_def sample_users_def)
  ultimately show ?thesis
    by (intro cache_age [THEN conjunct2, of FakeClient 30 40 ?c sample_users _ _ "''ali_b''" 50 40]) simp_all
qed

end
