(* ===== verification/Store.thy ===== *)
theory Store
  imports Go_Time
begin

text \<open>
  The panel database (store/schema.sql, store/store.go): four tables as lists of rows in the order
  of their row ids, the AUTOINCREMENT counters, and one function per method of \<open>Store\<close>, which
  is the SQL statement of the method written out over the lists, with the constraints the schema
  declares (UNIQUE with its collation, CHECK, REFERENCES with ON DELETE CASCADE).

  The driver may fail. \<open>db_fault d s\<close> says that the statements of method \<open>s\<close> fail with a
  driver error while the state is \<open>d\<close>; the code reads the tables only through these methods, so
  every error branch of the handlers is reachable. \<open>now\<close> is the instant \<open>datetime('now')\<close>
  reads. Rows with equal keys keep row-id order under ORDER BY, which SQL leaves open.
\<close>

section \<open>Tables and statements\<close>

datatype stmt =
    S_Ping | S_AdminCount | S_CreateAdmin | S_FindAdminByUsername | S_FindAdminByID
  | S_UpdateAdminPassword | S_FindManagerByUsername | S_FindManagerByID | S_ListManagers
  | S_ListManagerSlugs | S_CreateManager | S_UpdateManagerCert | S_ClearManagerCert
  | S_UpdateManager | S_ManagerVPNCount | S_SlugExists | S_FindVPNMetaByID
  | S_FindVPNMetaByName | S_FindVPNMetasByNames | S_CreateVPNMeta | S_UpdateVPNMetaCert
  | S_ClearVPNMetaCert | S_UpdateVPNMeta | S_DeleteVPNMeta | S_CreateActivation
  | S_ListActivationsByMetaID | S_UpdateLatestUnsettled | S_UpdateActivationSharedUsers
  | S_ListRenewalSharedUsersInScope | S_FindActivationByID | S_CountRenewals | S_ListRenewals
  | S_SettleThrough

record db =
  db_admins :: "panel_admin list"
  db_managers :: "manager list"
  db_metas :: "vpn_user_meta list"
  db_acts :: "profile_activation list"
  seq_admins :: int
  seq_managers :: int
  seq_metas :: int
  seq_acts :: int
  db_fault :: "stmt \<Rightarrow> bool"

definition exec :: "stmt \<Rightarrow> (db, 'a) go \<Rightarrow> (db, 'a) go" where
  "exec s m = (\<lambda>d. if db_fault d s then (Inl ErrDriver, d) else m d)"

definition query :: "stmt \<Rightarrow> (db \<Rightarrow> go_err + 'a) \<Rightarrow> (db, 'a) go" where
  "query s f = exec s (\<lambda>d. (f d, d))"

text \<open>\<open>QueryRow(\<dots>).Scan\<close>: the first row, or \<open>sql.ErrNoRows\<close>.\<close>

definition one_row :: "'a option \<Rightarrow> go_err + 'a" where
  "one_row r = (case r of None \<Rightarrow> Inl ErrNoRows | Some x \<Rightarrow> Inr x)"

text \<open>UPDATE \<open>\<dots>\<close> WHERE id = ?\<close>

definition update_by :: "('a \<Rightarrow> int) \<Rightarrow> int \<Rightarrow> ('a \<Rightarrow> 'a) \<Rightarrow> 'a list \<Rightarrow> 'a list" where
  "update_by key i f xs = map (\<lambda>x. if key x = i then f x else x) xs"

definition find_by :: "('a \<Rightarrow> int) \<Rightarrow> int \<Rightarrow> 'a list \<Rightarrow> 'a option" where
  "find_by key i xs = find (\<lambda>x. key x = i) xs"

text \<open>ORDER BY key DESC.\<close>

definition order_desc :: "('a \<Rightarrow> 'k::linorder) \<Rightarrow> 'a list \<Rightarrow> 'a list" where
  "order_desc key xs = rev (sort_key key (rev xs))"

section \<open>Administrators\<close>

definition AdminCount :: "(db, int) go" where
  "AdminCount = query S_AdminCount (\<lambda>d. Inr (int (length (db_admins d))))"

definition CreateAdmin :: "string \<Rightarrow> string \<Rightarrow> (db, unit) go" where
  "CreateAdmin username hash = exec S_CreateAdmin (\<lambda>d.
     if \<exists>a \<in> set (db_admins d). equalFold (adm_Username a) username then (Inl ErrUnique, d)
     else let i = seq_admins d + 1 in
       (Inr (), d\<lparr>db_admins := db_admins d @
            [\<lparr>adm_ID = i, adm_Username = username, adm_PasswordHash = hash, adm_IsActive = True\<rparr>],
          seq_admins := i\<rparr>))"

definition FindAdminByUsername :: "string \<Rightarrow> (db, panel_admin) go" where
  "FindAdminByUsername username = query S_FindAdminByUsername (\<lambda>d.
     one_row (find (\<lambda>a. equalFold (adm_Username a) username) (db_admins d)))"

definition FindAdminByID :: "int \<Rightarrow> (db, panel_admin) go" where
  "FindAdminByID i = query S_FindAdminByID (\<lambda>d. one_row (find_by adm_ID i (db_admins d)))"

definition UpdateAdminPassword :: "int \<Rightarrow> string \<Rightarrow> (db, unit) go" where
  "UpdateAdminPassword i hash = exec S_UpdateAdminPassword (\<lambda>d.
     (Inr (), d\<lparr>db_admins := update_by adm_ID i (adm_PasswordHash_update (\<lambda>_. hash)) (db_admins d)\<rparr>))"

section \<open>Managers\<close>

definition FindManagerByUsername :: "string \<Rightarrow> (db, manager) go" where
  "FindManagerByUsername username = query S_FindManagerByUsername (\<lambda>d.
     one_row (find (\<lambda>m. equalFold (mgr_Username m) username) (db_managers d)))"

definition FindManagerByID :: "int \<Rightarrow> (db, manager) go" where
  "FindManagerByID i = query S_FindManagerByID (\<lambda>d. one_row (find_by mgr_ID i (db_managers d)))"

definition ListManagers :: "(db, manager list) go" where
  "ListManagers = query S_ListManagers (\<lambda>d. Inr (sort_key mgr_ID (db_managers d)))"

definition ListManagerSlugs :: "(db, manager_slug list) go" where
  "ListManagerSlugs = query S_ListManagerSlugs (\<lambda>d.
     Inr (map (\<lambda>m. \<lparr>ms_ID = mgr_ID m, ms_Slug = mgr_Slug m\<rparr>) (db_managers d)))"

text \<open>The id of the new row; \<open>CreateManager\<close> stores it into its argument.\<close>

definition CreateManager :: "time \<Rightarrow> manager \<Rightarrow> (db, manager) go" where
  "CreateManager now m = exec S_CreateManager (\<lambda>d.
     if \<exists>m' \<in> set (db_managers d).
          equalFold (mgr_Username m') (mgr_Username m) \<or> equalFold (mgr_Slug m') (mgr_Slug m)
     then (Inl ErrUnique, d)
     else if mgr_Quota m \<le> 0 then (Inl ErrCheck, d)
     else let i = seq_managers d + 1;
              row = m\<lparr>mgr_ID := i, mgr_IsActive := True, mgr_CreatedAt := sqlite_datetime now,
                      mgr_UpdatedAt := sqlite_datetime now\<rparr>
          in (Inr (m\<lparr>mgr_ID := i\<rparr>),
              d\<lparr>db_managers := db_managers d @ [row], seq_managers := i\<rparr>))"

definition UpdateManagerCert :: "time \<Rightarrow> int \<Rightarrow> string \<Rightarrow> string \<Rightarrow> (db, unit) go" where
  "UpdateManagerCert now i title keyPass = exec S_UpdateManagerCert (\<lambda>d.
     (Inr (), d\<lparr>db_managers := update_by mgr_ID i
        (\<lambda>m. m\<lparr>mgr_CertTitle := Some title, mgr_CertKeyPass := Some keyPass,
               mgr_UpdatedAt := sqlite_datetime now\<rparr>) (db_managers d)\<rparr>))"

definition ClearManagerCert :: "time \<Rightarrow> int \<Rightarrow> (db, unit) go" where
  "ClearManagerCert now i = exec S_ClearManagerCert (\<lambda>d.
     (Inr (), d\<lparr>db_managers := update_by mgr_ID i
        (\<lambda>m. m\<lparr>mgr_CertTitle := None, mgr_CertKeyPass := None,
               mgr_UpdatedAt := sqlite_datetime now\<rparr>) (db_managers d)\<rparr>))"

definition or_old :: "'a option \<Rightarrow> 'a \<Rightarrow> 'a" where
  "or_old new old = (case new of None \<Rightarrow> old | Some x \<Rightarrow> x)"

text \<open>\<open>UpdateManager\<close> reads the row, replaces the given fields, and writes all five columns in a second statement.\<close>

definition merge_manager ::
  "string option \<Rightarrow> string option \<Rightarrow> int option \<Rightarrow> bool option \<Rightarrow> string option \<Rightarrow> manager \<Rightarrow> manager" where
  "merge_manager username displayName quota isActive passwordHash m =
     m\<lparr>mgr_Username := or_old username (mgr_Username m),
       mgr_DisplayName := or_old displayName (mgr_DisplayName m),
       mgr_Quota := or_old quota (mgr_Quota m),
       mgr_IsActive := or_old isActive (mgr_IsActive m),
       mgr_PasswordHash := or_old passwordHash (mgr_PasswordHash m)\<rparr>"

definition put_manager :: "time \<Rightarrow> manager \<Rightarrow> manager \<Rightarrow> manager" where
  "put_manager now m r =
     r\<lparr>mgr_Username := mgr_Username m, mgr_DisplayName := mgr_DisplayName m, mgr_Quota := mgr_Quota m,
       mgr_IsActive := mgr_IsActive m, mgr_PasswordHash := mgr_PasswordHash m,
       mgr_UpdatedAt := sqlite_datetime now\<rparr>"

definition write_manager :: "time \<Rightarrow> int \<Rightarrow> manager \<Rightarrow> (db, unit) go" where
  "write_manager now i m = exec S_UpdateManager (\<lambda>d.
     if i \<notin> set (map mgr_ID (db_managers d)) then (Inr (), d)
     else if \<exists>m' \<in> set (db_managers d).
               mgr_ID m' \<noteq> i \<and> equalFold (mgr_Username m') (mgr_Username m)
     then (Inl ErrUnique, d)
     else if mgr_Quota m \<le> 0 then (Inl ErrCheck, d)
     else (Inr (), d\<lparr>db_managers := update_by mgr_ID i (put_manager now m) (db_managers d)\<rparr>))"

definition UpdateManager ::
  "time \<Rightarrow> int \<Rightarrow> string option \<Rightarrow> string option \<Rightarrow> int option \<Rightarrow> bool option \<Rightarrow> string option
    \<Rightarrow> (db, unit) go" where
  "UpdateManager now i username displayName quota isActive passwordHash =
     bindE (FindManagerByID i) (\<lambda>m.
     write_manager now i (merge_manager username displayName quota isActive passwordHash m))"

definition ManagerVPNCount :: "int \<Rightarrow> (db, int) go" where
  "ManagerVPNCount managerID = query S_ManagerVPNCount (\<lambda>d.
     Inr (int (length (filter (\<lambda>v. meta_ManagerID v = Some managerID) (db_metas d)))))"

definition SlugExists :: "string \<Rightarrow> int \<Rightarrow> (db, bool) go" where
  "SlugExists slug excludeID = query S_SlugExists (\<lambda>d.
     Inr (list_ex (\<lambda>m. equalFold (mgr_Slug m) slug \<and> (excludeID > 0 \<longrightarrow> mgr_ID m \<noteq> excludeID))
            (db_managers d)))"

section \<open>VPN users' metadata\<close>

definition FindVPNMetaByID :: "int \<Rightarrow> (db, vpn_user_meta) go" where
  "FindVPNMetaByID i = query S_FindVPNMetaByID (\<lambda>d. one_row (find_by meta_ID i (db_metas d)))"

definition FindVPNMetaByName :: "string \<Rightarrow> (db, vpn_user_meta) go" where
  "FindVPNMetaByName name = query S_FindVPNMetaByName (\<lambda>d.
     one_row (find (\<lambda>v. meta_MikrotikName v = name) (db_metas d)))"

text \<open>A nil map, which behaves as the empty map, when the query fails or no name is given.\<close>

definition FindVPNMetasByNames :: "string list \<Rightarrow> db \<Rightarrow> string \<rightharpoonup> vpn_user_meta" where
  "FindVPNMetasByNames names d =
     (if names = [] \<or> db_fault d S_FindVPNMetasByNames then Map.empty
      else map_of (map (\<lambda>v. (meta_MikrotikName v, v))
             (filter (\<lambda>v. meta_MikrotikName v \<in> set names) (db_metas d))))"

text \<open>A foreign key that may be NULL.\<close>

definition manager_exists :: "db \<Rightarrow> int option \<Rightarrow> bool" where
  "manager_exists d r = (case r of None \<Rightarrow> True | Some i \<Rightarrow> i \<in> set (map mgr_ID (db_managers d)))"

definition CreateVPNMeta :: "time \<Rightarrow> vpn_user_meta \<Rightarrow> (db, vpn_user_meta) go" where
  "CreateVPNMeta now v = exec S_CreateVPNMeta (\<lambda>d.
     if meta_MikrotikName v \<in> set (map meta_MikrotikName (db_metas d)) then (Inl ErrUnique, d)
     else if \<not> manager_exists d (meta_ManagerID v) then (Inl ErrForeignKey, d)
     else let i = seq_metas d + 1;
              row = v\<lparr>meta_ID := i, meta_CreatedAt := sqlite_datetime now,
                      meta_UpdatedAt := sqlite_datetime now\<rparr>
          in (Inr (v\<lparr>meta_ID := i\<rparr>), d\<lparr>db_metas := db_metas d @ [row], seq_metas := i\<rparr>))"

definition UpdateVPNMetaCert :: "time \<Rightarrow> int \<Rightarrow> string \<Rightarrow> string \<Rightarrow> (db, unit) go" where
  "UpdateVPNMetaCert now i title keyPass = exec S_UpdateVPNMetaCert (\<lambda>d.
     (Inr (), d\<lparr>db_metas := update_by meta_ID i
        (\<lambda>v. v\<lparr>meta_CertTitle := Some title, meta_CertKeyPass := Some keyPass,
               meta_UpdatedAt := sqlite_datetime now\<rparr>) (db_metas d)\<rparr>))"

definition ClearVPNMetaCert :: "time \<Rightarrow> int \<Rightarrow> (db, unit) go" where
  "ClearVPNMetaCert now i = exec S_ClearVPNMetaCert (\<lambda>d.
     (Inr (), d\<lparr>db_metas := update_by meta_ID i
        (\<lambda>v. v\<lparr>meta_CertTitle := None, meta_CertKeyPass := None,
               meta_UpdatedAt := sqlite_datetime now\<rparr>) (db_metas d)\<rparr>))"

text \<open>\<open>UpdateVPNMeta\<close>, in two statements likewise.\<close>

definition merge_meta :: "string option \<Rightarrow> string option \<Rightarrow> int option \<Rightarrow> vpn_user_meta \<Rightarrow> vpn_user_meta" where
  "merge_meta contactInfo notes managerID cur =
     cur\<lparr>meta_ContactInfo := (case contactInfo of None \<Rightarrow> meta_ContactInfo cur | Some c \<Rightarrow> Some c),
         meta_Notes := (case notes of None \<Rightarrow> meta_Notes cur | Some n \<Rightarrow> Some n),
         meta_ManagerID := (case managerID of None \<Rightarrow> meta_ManagerID cur | Some k \<Rightarrow> Some k)\<rparr>"

definition put_meta :: "time \<Rightarrow> vpn_user_meta \<Rightarrow> vpn_user_meta \<Rightarrow> vpn_user_meta" where
  "put_meta now cur v =
     v\<lparr>meta_ContactInfo := meta_ContactInfo cur, meta_Notes := meta_Notes cur,
       meta_ManagerID := meta_ManagerID cur, meta_UpdatedAt := sqlite_datetime now\<rparr>"

definition write_meta :: "time \<Rightarrow> int \<Rightarrow> vpn_user_meta \<Rightarrow> (db, unit) go" where
  "write_meta now i cur = exec S_UpdateVPNMeta (\<lambda>d.
     if i \<notin> set (map meta_ID (db_metas d)) then (Inr (), d)
     else if \<not> manager_exists d (meta_ManagerID cur) then (Inl ErrForeignKey, d)
     else (Inr (), d\<lparr>db_metas := update_by meta_ID i (put_meta now cur) (db_metas d)\<rparr>))"

definition UpdateVPNMeta ::
  "time \<Rightarrow> int \<Rightarrow> string option \<Rightarrow> string option \<Rightarrow> int option \<Rightarrow> (db, unit) go" where
  "UpdateVPNMeta now i contactInfo notes managerID =
     bindE (FindVPNMetaByID i) (\<lambda>cur. write_meta now i (merge_meta contactInfo notes managerID cur))"

text \<open>The row and, by ON DELETE CASCADE, its activations.\<close>

definition DeleteVPNMeta :: "int \<Rightarrow> (db, unit) go" where
  "DeleteVPNMeta i = exec S_DeleteVPNMeta (\<lambda>d.
     (Inr (), d\<lparr>db_metas := filter (\<lambda>v. meta_ID v \<noteq> i) (db_metas d),
                db_acts := (if i \<in> set (map meta_ID (db_metas d))
                            then filter (\<lambda>a. act_VPNUserMetaID a \<noteq> i) (db_acts d)
                            else db_acts d)\<rparr>))"

section \<open>Activations\<close>

definition CreateActivation :: "time \<Rightarrow> profile_activation \<Rightarrow> (db, profile_activation) go" where
  "CreateActivation now a = exec S_CreateActivation (\<lambda>d.
     if act_VPNUserMetaID a \<notin> set (map meta_ID (db_metas d)) then (Inl ErrForeignKey, d)
     else if act_SharedUsers a \<le> 0 then (Inl ErrCheck, d)
     else let i = seq_acts d + 1;
              row = a\<lparr>act_ID := i, act_IsSettled := False, act_SettledAt := None,
                      act_SettledByAdminID := None, act_CreatedAt := sqlite_datetime now\<rparr>
          in (Inr (a\<lparr>act_ID := i\<rparr>), d\<lparr>db_acts := db_acts d @ [row], seq_acts := i\<rparr>))"

definition ListActivationsByMetaID :: "int \<Rightarrow> (db, profile_activation list) go" where
  "ListActivationsByMetaID metaID = query S_ListActivationsByMetaID (\<lambda>d.
     Inr (order_desc act_CreatedAt (filter (\<lambda>a. act_VPNUserMetaID a = metaID) (db_acts d))))"

text \<open>The subquery: ORDER BY created_at DESC, id DESC LIMIT 1 over the unsettled rows of a user.\<close>

definition latest_unsettled :: "int \<Rightarrow> profile_activation list \<Rightarrow> profile_activation option" where
  "latest_unsettled metaID acts =
     (case order_desc act_pos (filter (\<lambda>a. act_VPNUserMetaID a = metaID \<and> \<not> act_IsSettled a) acts) of
        [] \<Rightarrow> None | a # _ \<Rightarrow> Some a)"

definition UpdateLatestUnsettledActivationSharedUsers :: "int \<Rightarrow> int \<Rightarrow> (db, unit) go" where
  "UpdateLatestUnsettledActivationSharedUsers metaID sharedUsers = exec S_UpdateLatestUnsettled (\<lambda>d.
     case latest_unsettled metaID (db_acts d) of
       None \<Rightarrow> (Inr (), d)
     | Some a \<Rightarrow>
         if sharedUsers \<le> 0 then (Inl ErrCheck, d)
         else (Inr (), d\<lparr>db_acts := update_by act_ID (act_ID a)
                           (act_SharedUsers_update (\<lambda>_. sharedUsers)) (db_acts d)\<rparr>))"

definition UpdateActivationSharedUsers :: "int \<Rightarrow> int \<Rightarrow> (db, unit) go" where
  "UpdateActivationSharedUsers activationID sharedUsers = exec S_UpdateActivationSharedUsers (\<lambda>d.
     if activationID \<in> set (map act_ID (db_acts d)) \<and> sharedUsers \<le> 0 then (Inl ErrCheck, d)
     else (Inr (), d\<lparr>db_acts := update_by act_ID activationID
                       (act_SharedUsers_update (\<lambda>_. sharedUsers)) (db_acts d)\<rparr>))"

definition FindActivationByID :: "int \<Rightarrow> (db, profile_activation) go" where
  "FindActivationByID i = query S_FindActivationByID (\<lambda>d. one_row (find_by act_ID i (db_acts d)))"

section \<open>The renewal ledger\<close>

text \<open>
  SQLite's LIKE: \<open>%\<close> is any string, \<open>_\<close> any one character (a UTF-8 sequence), letters
  compare without ASCII case.
\<close>

definition drop_char :: "string \<Rightarrow> string" where
  "drop_char s =
     (case s of [] \<Rightarrow> []
      | c # cs \<Rightarrow> if 192 \<le> code c then dropWhile (\<lambda>b. 128 \<le> code b \<and> code b < 192) cs else cs)"

lemma length_drop_char: "length (drop_char (c # cs)) < length (c # cs)"
  by (simp add: drop_char_def length_dropWhile_le less_Suc_eq_le)

function like :: "string \<Rightarrow> string \<Rightarrow> bool" where
  "like [] s = (s = [])"
| "like (p # ps) s =
     (if p = CHR ''%'' then (if like ps s then True
                             else case s of [] \<Rightarrow> False | c # cs \<Rightarrow> like (p # ps) cs)
      else case s of [] \<Rightarrow> False
        | c # cs \<Rightarrow> if p = CHR ''_'' then like ps (drop_char (c # cs))
                    else if lower_char p = lower_char c then like ps cs else False)"
  by pat_completeness auto
termination
  by (relation "measure (\<lambda>(ps, s). length ps + length s)")
    (auto simp: less_SucI [OF length_drop_char [simplified]])

end
