(* ===== verification/Store_Ledger.thy ===== *)
theory Store_Ledger
  imports Store
begin

text \<open>
  The renewal ledger of the database: the filter that both ledger queries share
  (\<open>renewalWhere\<close>), the page of rows with its summary (\<open>ListRenewals\<close>), the rows for the
  live overlay (\<open>ListRenewalSharedUsersInScope\<close>) and the batch settlement
  (\<open>SettleThrough\<close>), all of store/store.go. The second half proves what the settlement does.
\<close>

section \<open>Queries\<close>

type_synonym ledger_entry = "profile_activation \<times> vpn_user_meta"

text \<open>\<open>profile_activations pa JOIN vpn_user_meta v ON v.id = pa.vpn_user_meta_id\<close>\<close>

definition joined :: "db \<Rightarrow> ledger_entry list" where
  "joined d = [(a, v). a \<leftarrow> db_acts d, v \<leftarrow> db_metas d, meta_ID v = act_VPNUserMetaID a]"

definition renewalWhere :: "renewal_filter \<Rightarrow> ledger_entry \<Rightarrow> bool" where
  "renewalWhere f e =
     (let pa = fst e; v = snd e; q = ''%'' @ rf_Query f @ ''%'' in
      (if rf_OrphanOnly f then meta_ManagerID v = None
       else case rf_ManagerID f of None \<Rightarrow> True | Some i \<Rightarrow> meta_ManagerID v = Some i)
      \<and> (if rf_Settled f = ''settled'' then act_IsSettled pa
         else if rf_Settled f = ''all'' then True
         else \<not> act_IsSettled pa)
      \<and> (rf_From f \<noteq> [] \<longrightarrow> rf_From f \<le> act_CreatedAt pa)
      \<and> (rf_To f \<noteq> [] \<longrightarrow> act_CreatedAt pa \<le> rf_To f)
      \<and> (rf_Query f \<noteq> [] \<longrightarrow>
           like q (meta_MikrotikName v)
           \<or> (case meta_ContactInfo v of None \<Rightarrow> False | Some c \<Rightarrow> like q c)))"

definition scope_entries :: "renewal_filter \<Rightarrow> db \<Rightarrow> ledger_entry list" where
  "scope_entries f d = filter (renewalWhere f) (joined d)"

definition ListRenewalSharedUsersInScope ::
  "renewal_filter \<Rightarrow> (db, renewal_shared_users_row list) go" where
  "ListRenewalSharedUsersInScope f = query S_ListRenewalSharedUsersInScope (\<lambda>d.
     Inr (map (\<lambda>(pa, v). \<lparr>rs_ID = act_ID pa, rs_MikrotikName = meta_MikrotikName v,
                          rs_SharedUsers = act_SharedUsers pa, rs_IsSettled = act_IsSettled pa\<rparr>)
            (order_desc (act_CreatedAt \<circ> fst) (scope_entries f d))))"

text \<open>The LEFT JOIN with \<open>managers\<close>.\<close>

definition display_name_of :: "db \<Rightarrow> int option \<Rightarrow> string option" where
  "display_name_of d r =
     (case r of None \<Rightarrow> None
      | Some i \<Rightarrow> map_option mgr_DisplayName (find_by mgr_ID i (db_managers d)))"

definition renewal_row_of :: "db \<Rightarrow> ledger_entry \<Rightarrow> renewal_row" where
  "renewal_row_of d e =
     (let pa = fst e; v = snd e in
      \<lparr>rr_ID = act_ID pa, rr_RenewedAt = act_CreatedAt pa, rr_MikrotikName = meta_MikrotikName v,
       rr_ManagerID = meta_ManagerID v, rr_ManagerDisplayName = display_name_of d (meta_ManagerID v),
       rr_SharedUsers = act_SharedUsers pa, rr_ProfileName = act_ProfileName pa,
       rr_ProfileState = [], rr_MikrotikEndTime = act_MikrotikEndTime pa,
       rr_IsSettled = act_IsSettled pa, rr_AmountPaid = act_AmountPaid pa,
       rr_Currency = act_Currency pa\<rparr>)"

text \<open>
  Rows of the page, number of rows, summary. A sum that leaves 64 bits is an error of SQLite's
  SUM; a negative OFFSET counts as 0.
\<close>

definition ListRenewals ::
  "renewal_filter \<Rightarrow> (db, renewal_row list \<times> int \<times> renewal_summary) go" where
  "ListRenewals f =
     bindE (query S_CountRenewals (\<lambda>d.
       let es = map fst (scope_entries f d);
           unsettled = sum_list (map (\<lambda>pa. if act_IsSettled pa then 0 else act_SharedUsers pa) es);
           all = sum_list (map act_SharedUsers es)
       in if in_i64 unsettled \<and> in_i64 all then Inr (int (length es), unsettled, all)
          else Inl ErrDriver)) (\<lambda>(total, unsettledSum, allSum).
     let page = (if rf_Page f < 1 then 1 else rf_Page f);
         size = (if rf_PageSize f < 1 then 20 else rf_PageSize f)
     in bindE (query S_ListRenewals (\<lambda>d.
          Inr (map (renewal_row_of d)
            (take (nat size) (drop (nat (i64 (i64 (page - 1) * size)))
              (order_desc (act_CreatedAt \<circ> fst) (scope_entries f d))))))) (\<lambda>items.
        returnE (items, total,
          \<lparr>UnsettledSharedUsersSum = unsettledSum, AllSharedUsersSum = allSum\<rparr>)))"

section \<open>Settlement\<close>

text \<open>\<open>scopeSQL\<close> dereferences \<open>t.ManagerID\<close> unless the scope is the orphans: \<open>None\<close> is the panic.\<close>

definition scopeSQL :: "renewal_through \<Rightarrow> (vpn_user_meta \<Rightarrow> bool) option" where
  "scopeSQL t =
     (if rt_OrphanOnly t then Some (\<lambda>v. meta_ManagerID v = None)
      else case rt_ManagerID t of None \<Rightarrow> None | Some i \<Rightarrow> Some (\<lambda>v. meta_ManagerID v = Some i))"

definition settle_where :: "(vpn_user_meta \<Rightarrow> bool) \<Rightarrow> db \<Rightarrow> profile_activation \<Rightarrow> profile_activation \<Rightarrow> bool" where
  "settle_where scope d act r \<longleftrightarrow>
     \<not> act_IsSettled r
     \<and> act_VPNUserMetaID r \<in> set (map meta_ID (filter scope (db_metas d)))
     \<and> (act_CreatedAt r < act_CreatedAt act
        \<or> act_CreatedAt r = act_CreatedAt act \<and> act_ID r \<le> act_ID act)"

definition settle_row :: "time \<Rightarrow> int \<Rightarrow> profile_activation \<Rightarrow> profile_activation" where
  "settle_row now adminID r =
     r\<lparr>act_IsSettled := True, act_SettledAt := Some (sqlite_datetime now),
       act_SettledByAdminID := Some adminID\<rparr>"

text \<open>The last statement of \<open>SettleThrough\<close>, with the scope and the activation that were looked up before.\<close>

definition settle_rows ::
  "time \<Rightarrow> int \<Rightarrow> (vpn_user_meta \<Rightarrow> bool) \<Rightarrow> profile_activation \<Rightarrow> (db, int) go" where
  "settle_rows now adminID scope act = exec S_SettleThrough (\<lambda>d.
     let hit = settle_where scope d act;
         n = length (filter hit (db_acts d))
     in if n > 0 \<and> adminID \<notin> set (map adm_ID (db_admins d)) then (Inl ErrForeignKey, d)
        else (Inr (int n),
              d\<lparr>db_acts := map (\<lambda>r. if hit r then settle_row now adminID r else r) (db_acts d)\<rparr>))"

definition SettleThrough :: "time \<Rightarrow> int \<Rightarrow> renewal_through \<Rightarrow> (db, int) go" where
  "SettleThrough now adminID through =
     bindE (FindActivationByID (rt_ActivationID through)) (\<lambda>act.
     bindE (FindVPNMetaByID (act_VPNUserMetaID act)) (\<lambda>meta.
     if rt_OrphanOnly through \<and> meta_ManagerID meta \<noteq> None
     then failE (ErrText ''not in orphan scope'')
     else if \<not> rt_OrphanOnly through \<and> rt_ManagerID through \<noteq> None
             \<and> meta_ManagerID meta \<noteq> rt_ManagerID through
     then failE (ErrText ''not in manager scope'')
     else case scopeSQL through of
       None \<Rightarrow> failE GoPanic
     | Some scope \<Rightarrow> settle_rows now adminID scope act))"

section \<open>What the settlement does\<close>

lemma settle_where_pos:
  "settle_where scope d act r \<longleftrightarrow>
     \<not> act_IsSettled r \<and> act_pos r \<le> act_pos act
     \<and> (\<exists>v \<in> set (db_metas d). scope v \<and> meta_ID v = act_VPNUserMetaID r)"
proof -
  have "act_VPNUserMetaID r \<in> set (map meta_ID (filter scope (db_metas d))) \<longleftrightarrow>
      (\<exists>v \<in> set (db_metas d). scope v \<and> meta_ID v = act_VPNUserMetaID r)"
    by force
  then show ?thesis by (auto simp: settle_where_def act_pos_def less_eq_ledger_pos_def)
qed

lemma settle_row_simps [simp]:
  "act_IsSettled (settle_row now adm r)" "act_ID (settle_row now adm r) = act_ID r"
  "act_VPNUserMetaID (settle_row now adm r) = act_VPNUserMetaID r"
  "act_SharedUsers (settle_row now adm r) = act_SharedUsers r"
  "act_CreatedAt (settle_row now adm r) = act_CreatedAt r"
  "act_pos (settle_row now adm r) = act_pos r"
  "act_SettledByAdminID (settle_row now adm r) = Some adm"
  by (simp_all add: settle_row_def act_pos_def)

lemma query_Inr_iff:
  "query s f d = (Inr x, d') \<longleftrightarrow> \<not> db_fault d s \<and> f d = Inr x \<and> d' = d"
  by (auto simp: query_def exec_def)

lemma exec_Inr_iff:
  "exec s m d = (Inr x, d') \<longleftrightarrow> \<not> db_fault d s \<and> m d = (Inr x, d')"
  by (auto simp: exec_def)

lemma one_row_Inr_iff: "one_row r = Inr x \<longleftrightarrow> r = Some x"
  by (auto simp: one_row_def split: option.split)

lemma find_by_Some: "find_by key i xs = Some x \<Longrightarrow> x \<in> set xs \<and> key x = i"
  by (auto simp: find_by_def find_Some_iff)

text \<open>Everything a successful settlement is, in terms of the rows.\<close>

lemma SettleThrough_InrE:
  assumes "SettleThrough now adm t d = (Inr n, d')"
  obtains act meta scope where
    "find_by act_ID (rt_ActivationID t) (db_acts d) = Some act"
    "find_by meta_ID (act_VPNUserMetaID act) (db_metas d) = Some meta"
    "scopeSQL t = Some scope" "scope meta"
    "n = int (length (filter (settle_where scope d act) (db_acts d)))"
    "d' = d\<lparr>db_acts := map (\<lambda>r. if settle_where scope d act r then settle_row now adm r else r) (db_acts d)\<rparr>"
proof -
  obtain act meta where act: "find_by act_ID (rt_ActivationID t) (db_acts d) = Some act"
    and meta: "find_by meta_ID (act_VPNUserMetaID act) (db_metas d) = Some meta"
    and rest: "(if rt_OrphanOnly t \<and> meta_ManagerID meta \<noteq> None
       then failE (ErrText ''not in orphan scope'')
       else if \<not> rt_OrphanOnly t \<and> rt_ManagerID t \<noteq> None \<and> meta_ManagerID meta \<noteq> rt_ManagerID t
       then failE (ErrText ''not in manager scope'')
       else case scopeSQL t of None \<Rightarrow> failE GoPanic
       | Some scope \<Rightarrow> settle_rows now adm scope act) d = (Inr n, d')"
    using assms
    unfolding SettleThrough_def FindActivationByID_def FindVPNMetaByID_def bindE_Inr_iff
      query_Inr_iff one_row_Inr_iff by blast
  obtain scope where scope: "scopeSQL t = Some scope" "scope meta"
    using rest by (auto simp: scopeSQL_def failE_apply split: if_splits option.splits)
  have "settle_rows now adm scope act d = (Inr n, d')"
    using rest scope(1) by (simp add: failE_apply split: if_splits)
  then show thesis
    using that [OF act meta scope] by (simp add: settle_rows_def exec_Inr_iff Let_def split: if_splits)
qed

end
