(* ===== verification/Store_Inv.thy ===== *)
theory Store_Inv
  imports Store_Ledger
begin

text \<open>
  The invariant of the panel database: in every table the row ids increase and lie below the
  AUTOINCREMENT counter, the UNIQUE columns hold no value twice (user names and slugs up to ASCII
  case), every foreign key names an existing row and the CHECK constraints hold. Every method of
  the store keeps it, whether it succeeds or fails.
\<close>

section \<open>The invariant\<close>

definition ids_ok :: "('a \<Rightarrow> int) \<Rightarrow> int \<Rightarrow> 'a list \<Rightarrow> bool" where
  "ids_ok key seq xs \<longleftrightarrow> sorted_wrt (<) (map key xs) \<and> (\<forall>x \<in> set xs. 1 \<le> key x \<and> key x \<le> seq) \<and> 0 \<le> seq"

definition admins_ok :: "db \<Rightarrow> bool" where
  "admins_ok d \<longleftrightarrow> ids_ok adm_ID (seq_admins d) (db_admins d)
     \<and> distinct (map (toLower \<circ> adm_Username) (db_admins d))"

definition managers_ok :: "db \<Rightarrow> bool" where
  "managers_ok d \<longleftrightarrow> ids_ok mgr_ID (seq_managers d) (db_managers d)
     \<and> distinct (map (toLower \<circ> mgr_Username) (db_managers d))
     \<and> distinct (map (toLower \<circ> mgr_Slug) (db_managers d))
     \<and> (\<forall>m \<in> set (db_managers d). 0 < mgr_Quota m)"

definition metas_ok :: "db \<Rightarrow> bool" where
  "metas_ok d \<longleftrightarrow> ids_ok meta_ID (seq_metas d) (db_metas d)
     \<and> distinct (map meta_MikrotikName (db_metas d))
     \<and> (\<forall>v \<in> set (db_metas d). manager_exists d (meta_ManagerID v))"

definition admin_exists :: "db \<Rightarrow> int option \<Rightarrow> bool" where
  "admin_exists d r = (case r of None \<Rightarrow> True | Some i \<Rightarrow> i \<in> set (map adm_ID (db_admins d)))"

definition acts_ok :: "db \<Rightarrow> bool" where
  "acts_ok d \<longleftrightarrow> ids_ok act_ID (seq_acts d) (db_acts d)
     \<and> (\<forall>a \<in> set (db_acts d). act_VPNUserMetaID a \<in> set (map meta_ID (db_metas d))
          \<and> 0 < act_SharedUsers a
          \<and> admin_exists d (act_SettledByAdminID a))"

definition db_ok :: "db \<Rightarrow> bool" where
  "db_ok d \<longleftrightarrow> admins_ok d \<and> managers_ok d \<and> metas_ok d \<and> acts_ok d"

lemmas db_ok_defs = db_ok_def admins_ok_def managers_ok_def metas_ok_def acts_ok_def

section \<open>Rows by id\<close>

lemma ids_ok_unique: "ids_ok key seq xs \<Longrightarrow> x \<in> set xs \<Longrightarrow> y \<in> set xs \<Longrightarrow> key x = key y \<Longrightarrow> x = y"
  unfolding ids_ok_def using strict_sorted_imp_sorted
  by (metis distinct_map inj_onD strict_sorted_iff)

lemma ids_ok_seq: "ids_ok key seq xs \<Longrightarrow> x \<in> set xs \<Longrightarrow> key x \<le> seq"
  by (simp add: ids_ok_def)

lemma ids_ok_find: "ids_ok key seq xs \<Longrightarrow> x \<in> set xs \<Longrightarrow> find_by key (key x) xs = Some x"
  unfolding find_by_def using ids_ok_unique [of key seq xs]
  by (metis (mono_tags, lifting) find_None_iff find_SomeD not_None_eq)

lemma db_ok_ids:
  assumes "db_ok d"
  shows "ids_ok adm_ID (seq_admins d) (db_admins d)" "ids_ok mgr_ID (seq_managers d) (db_managers d)"
    "ids_ok meta_ID (seq_metas d) (db_metas d)" "ids_ok act_ID (seq_acts d) (db_acts d)"
  using assms by (simp_all add: db_ok_defs)

lemma db_ok_faults [simp]: "db_ok (d\<lparr>db_fault := f\<rparr>) = db_ok d"
  by (simp add: db_ok_defs admin_exists_def manager_exists_def cong: option.case_cong)

section \<open>Lists of rows\<close>

lemma ids_ok_snoc: "ids_ok key seq xs \<Longrightarrow> key x = seq + 1 \<Longrightarrow> ids_ok key (seq + 1) (xs @ [x])"
  by (auto simp: ids_ok_def sorted_wrt_append)

lemma ids_ok_filter: "ids_ok key seq xs \<Longrightarrow> ids_ok key seq (filter P xs)"
proof -
  assume "ids_ok key seq xs"
  moreover then have "sorted_wrt (<) (map key (filter P xs))"
    by (induction xs) (auto simp: ids_ok_def)
  ultimately show ?thesis by (simp add: ids_ok_def)
qed

lemma map_update_by: "(\<And>x. g (f x) = g x) \<Longrightarrow> map g (update_by key i f xs) = map g xs"
  by (simp add: update_by_def)

lemma ids_ok_update_by:
  assumes "\<And>x. key (f x) = key x" "ids_ok key seq xs"
  shows "ids_ok key seq (update_by key i f xs)"
proof -
  have "map key (update_by key i f xs) = map key xs" using assms(1) by (rule map_update_by)
  moreover have "\<forall>x \<in> set (update_by key i f xs). key x \<in> key ` set xs"
    using assms(1) by (auto simp: update_by_def)
  ultimately show ?thesis using assms(2) by (fastforce simp: ids_ok_def)
qed

lemma set_update_by: "x \<in> set (update_by key i f xs) \<Longrightarrow> \<exists>y \<in> set xs. x = y \<or> x = f y \<and> key y = i"
  by (auto simp: update_by_def split: if_splits)

lemma map_key_update_by:
  "(\<And>x. key (f x) = key x) \<Longrightarrow> map key (update_by key i f xs) = map key xs"
  by (rule map_update_by)

lemma distinct_map_snoc: "distinct (map f xs) \<Longrightarrow> (\<forall>x \<in> set xs. f x \<noteq> f y) \<Longrightarrow> distinct (map f (xs @ [y]))"
  by auto

lemma ids_ok_distinct: "ids_ok key seq xs \<Longrightarrow> distinct (map key xs)"
  by (simp add: ids_ok_def strict_sorted_iff)

lemma ids_ok_inj: "ids_ok key seq xs \<Longrightarrow> x \<in> set xs \<Longrightarrow> y \<in> set xs \<Longrightarrow> key x = key y \<Longrightarrow> x = y"
  using ids_ok_distinct by (metis distinct_map inj_on_eq_iff)

lemma find_by_iff:
  "ids_ok key seq xs \<Longrightarrow> find_by key i xs = Some x \<longleftrightarrow> x \<in> set xs \<and> key x = i"
proof
  assume ok: "ids_ok key seq xs" and x: "x \<in> set xs \<and> key x = i"
  then obtain y where "find_by key i xs = Some y"
    by (cases "find_by key i xs") (auto simp: find_by_def find_None_iff)
  then show "find_by key i xs = Some x" using ok x find_by_Some ids_ok_inj by metis
qed (rule find_by_Some)

lemma distinct_update_by:
  assumes "ids_ok key seq xs" "distinct (map g xs)"
    and "\<And>x. key x = i \<Longrightarrow> g (f x) = c" "\<forall>x \<in> set xs. key x \<noteq> i \<longrightarrow> g x \<noteq> c"
  shows "distinct (map g (update_by key i f xs))"
  using assms(1,2,4)
proof (induction xs)
  case Nil
  then show ?case by (simp add: update_by_def)
next
  case (Cons x xs)
  have ok: "ids_ok key seq xs" using Cons.prems(1) by (auto simp: ids_ok_def)
  have keys: "\<forall>y \<in> set xs. key y \<noteq> key x"
    using ids_ok_distinct [OF Cons.prems(1)] by (metis distinct.simps(2) image_eqI list.set_map list.simps(9))
  have IH: "distinct (map g (update_by key i f xs))" using Cons ok by auto
  show ?case
  proof (cases "key x = i")
    case True
    then have "update_by key i f xs = xs" using keys by (auto simp: update_by_def intro: map_idI)
    then show ?thesis
      using True Cons.prems keys assms(3) [OF True] by (auto simp: update_by_def)
  next
    case False
    then have "g x \<notin> set (map g (update_by key i f xs))"
      using Cons.prems(2,3) assms(3) by (auto simp: update_by_def split: if_splits)
    then show ?thesis using IH False by (simp add: update_by_def)
  qed
qed

section \<open>Every method keeps the invariant\<close>

lemma preserves_exec [preserves_intro]: "preserves I m \<Longrightarrow> preserves I (exec s m)"
  by (simp add: preserves_def exec_def)

lemma preserves_query [preserves_intro]: "preserves I (query s f)"
  by (simp add: preserves_def query_def exec_def)

text \<open>Which tables a foreign key looks at.\<close>

lemma manager_exists_cong:
  "map mgr_ID (db_managers d') = map mgr_ID (db_managers d) \<Longrightarrow> manager_exists d' = manager_exists d"
  by (simp add: manager_exists_def fun_eq_iff del: set_map split: option.split)

lemma admin_exists_cong:
  "map adm_ID (db_admins d') = map adm_ID (db_admins d) \<Longrightarrow> admin_exists d' = admin_exists d"
  by (simp add: admin_exists_def fun_eq_iff del: set_map split: option.split)

lemma exists_frames [simp]:
  "manager_exists (d\<lparr>db_metas := vs\<rparr>) = manager_exists d"
  "manager_exists (d\<lparr>db_acts := as\<rparr>) = manager_exists d"
  "manager_exists (d\<lparr>db_admins := ads\<rparr>) = manager_exists d"
  "manager_exists (d\<lparr>seq_metas := n\<rparr>) = manager_exists d"
  "manager_exists (d\<lparr>seq_acts := n\<rparr>) = manager_exists d"
  "manager_exists (d\<lparr>seq_admins := n\<rparr>) = manager_exists d"
  "admin_exists (d\<lparr>db_metas := vs\<rparr>) = admin_exists d"
  "admin_exists (d\<lparr>db_acts := as\<rparr>) = admin_exists d"
  "admin_exists (d\<lparr>db_managers := ms\<rparr>) = admin_exists d"
  "admin_exists (d\<lparr>seq_metas := n\<rparr>) = admin_exists d"
  "admin_exists (d\<lparr>seq_acts := n\<rparr>) = admin_exists d"
  "admin_exists (d\<lparr>seq_managers := n\<rparr>) = admin_exists d"
  by (rule manager_exists_cong admin_exists_cong; simp)+

lemma db_ok_managers_update:
  assumes "db_ok d" "\<And>m. mgr_ID (f m) = mgr_ID m" "\<And>m. mgr_Slug (f m) = mgr_Slug m"
    and "\<And>m. mgr_ID m = i \<Longrightarrow> 0 < mgr_Quota m \<Longrightarrow> 0 < mgr_Quota (f m)"
    and "distinct (map (toLower \<circ> mgr_Username) (update_by mgr_ID i f (db_managers d)))"
  shows "db_ok (d\<lparr>db_managers := update_by mgr_ID i f (db_managers d)\<rparr>)"
proof -
  let ?d = "d\<lparr>db_managers := update_by mgr_ID i f (db_managers d)\<rparr>"
  have ids: "map mgr_ID (db_managers ?d) = map mgr_ID (db_managers d)"
    using assms(2) by (simp add: map_update_by)
  have "map (toLower \<circ> mgr_Slug) (db_managers ?d) = map (toLower \<circ> mgr_Slug) (db_managers d)"
    using assms(3) by (simp add: map_update_by)
  moreover have "\<forall>m \<in> set (db_managers ?d). 0 < mgr_Quota m"
    using assms(1,4) set_update_by [of _ mgr_ID i f "db_managers d"]
    by (fastforce simp: db_ok_def managers_ok_def)
  ultimately have "managers_ok ?d"
    using assms(1,5) ids_ok_update_by [of mgr_ID f, OF assms(2)]
    by (simp add: db_ok_def managers_ok_def del: map_map)
  moreover have "metas_ok ?d"
    using assms(1) manager_exists_cong [OF ids] by (simp add: db_ok_def metas_ok_def)
  ultimately show ?thesis using assms(1) by (simp add: db_ok_def admins_ok_def acts_ok_def)
qed

lemma db_ok_metas_update:
  assumes "db_ok d" "\<And>v. meta_ID (f v) = meta_ID v" "\<And>v. meta_MikrotikName (f v) = meta_MikrotikName v"
    and "\<And>v. manager_exists d (meta_ManagerID v) \<Longrightarrow> manager_exists d (meta_ManagerID (f v))"
  shows "db_ok (d\<lparr>db_metas := update_by meta_ID i f (db_metas d)\<rparr>)"
proof -
  let ?d = "d\<lparr>db_metas := update_by meta_ID i f (db_metas d)\<rparr>"
  have ids: "map meta_ID (db_metas ?d) = map meta_ID (db_metas d)"
    using assms(2) by (simp add: map_update_by)
  have names: "map meta_MikrotikName (db_metas ?d) = map meta_MikrotikName (db_metas d)"
    using assms(3) by (simp add: map_update_by)
  have "\<forall>v \<in> set (db_metas ?d). manager_exists d (meta_ManagerID v)"
    using assms(1,4) set_update_by [of _ meta_ID i f "db_metas d"]
    by (fastforce simp: db_ok_def metas_ok_def)
  then have "metas_ok ?d"
    using assms(1) names ids_ok_update_by [of meta_ID f, OF assms(2)]
    unfolding db_ok_def metas_ok_def by simp
  moreover have "acts_ok ?d"
    using assms(1) ids unfolding db_ok_def acts_ok_def by (simp del: set_map)
  ultimately show ?thesis using assms(1) by (simp add: db_ok_def admins_ok_def managers_ok_def)
qed

lemma db_ok_acts_map:
  assumes "db_ok d" "\<And>a. act_ID (f a) = act_ID a" "\<And>a. act_VPNUserMetaID (f a) = act_VPNUserMetaID a"
    and "\<And>a. a \<in> set (db_acts d) \<Longrightarrow> 0 < act_SharedUsers a \<Longrightarrow> 0 < act_SharedUsers (f a)"
    and "\<And>a. a \<in> set (db_acts d) \<Longrightarrow> act_SettledByAdminID (f a) \<noteq> act_SettledByAdminID a \<Longrightarrow>
           the (act_SettledByAdminID (f a)) \<in> set (map adm_ID (db_admins d))"
  shows "db_ok (d\<lparr>db_acts := map f (db_acts d)\<rparr>)"
proof -
  let ?d = "d\<lparr>db_acts := map f (db_acts d)\<rparr>"
  have acts: "acts_ok d" using assms(1) by (simp add: db_ok_def)
  have "map act_ID (db_acts ?d) = map act_ID (db_acts d)" using assms(2) by simp
  then have "ids_ok act_ID (seq_acts ?d) (db_acts ?d)"
    using acts assms(2) by (simp add: acts_ok_def ids_ok_def del: map_map)
  moreover have "admin_exists d (act_SettledByAdminID (f a))" if "a \<in> set (db_acts d)" for a
    using that acts assms(5) [OF that] unfolding acts_ok_def
    by (cases "act_SettledByAdminID (f a) = act_SettledByAdminID a")
      (auto simp: admin_exists_def split: option.split)
  ultimately have "acts_ok ?d"
    using acts assms(3,4) unfolding acts_ok_def by simp
  then show ?thesis
    using assms(1)
    by (simp add: db_ok_def admins_ok_def managers_ok_def metas_ok_def)
qed

lemma db_ok_acts_update:
  assumes "db_ok d" "\<And>a. act_ID (f a) = act_ID a" "\<And>a. act_VPNUserMetaID (f a) = act_VPNUserMetaID a"
    and "\<And>a. 0 < act_SharedUsers a \<Longrightarrow> 0 < act_SharedUsers (f a) \<or> act_ID a \<noteq> i"
    and "\<And>a. act_SettledByAdminID (f a) = act_SettledByAdminID a"
  shows "db_ok (d\<lparr>db_acts := update_by act_ID i f (db_acts d)\<rparr>)"
  unfolding update_by_def using assms(2-5)
  by (intro db_ok_acts_map [OF assms(1)]) (fastforce split: if_splits)+

lemma CreateAdmin_ok [preserves_intro]: "preserves db_ok (CreateAdmin username hash)"
proof (unfold CreateAdmin_def, intro preserves_exec preservesI)
  fix d assume "db_ok d"
  then have "admins_ok (d\<lparr>db_admins := db_admins d @
       [\<lparr>adm_ID = seq_admins d + 1, adm_Username = username, adm_PasswordHash = hash, adm_IsActive = True\<rparr>],
       seq_admins := seq_admins d + 1\<rparr>)" if "\<not> (\<exists>a \<in> set (db_admins d). equalFold (adm_Username a) username)"
    using that by (auto simp: db_ok_def admins_ok_def ids_ok_snoc equalFold_def)
  with \<open>db_ok d\<close> show "db_ok (snd (if \<exists>a \<in> set (db_admins d). equalFold (adm_Username a) username then (Inl ErrUnique, d)
     else let i = seq_admins d + 1 in
       (Inr (), d\<lparr>db_admins := db_admins d @
            [\<lparr>adm_ID = i, adm_Username = username, adm_PasswordHash = hash, adm_IsActive = True\<rparr>],
          seq_admins := i\<rparr>)))"
    by (auto simp: db_ok_def managers_ok_def metas_ok_def acts_ok_def admin_exists_def Let_def
        split: option.splits)
qed

lemma UpdateAdminPassword_ok [preserves_intro]: "preserves db_ok (UpdateAdminPassword i hash)"
proof (unfold UpdateAdminPassword_def, intro preserves_exec preservesI)
  fix d assume ok: "db_ok d"
  let ?f = "adm_PasswordHash_update (\<lambda>_. hash)"
  let ?d = "d\<lparr>db_admins := update_by adm_ID i ?f (db_admins d)\<rparr>"
  have "map adm_ID (db_admins ?d) = map adm_ID (db_admins d)"
    "map (toLower \<circ> adm_Username) (db_admins ?d) = map (toLower \<circ> adm_Username) (db_admins d)"
    by (simp_all add: map_update_by)
  then show "db_ok (snd (Inr (), ?d))"
    using ok ids_ok_update_by [of adm_ID ?f "seq_admins d" "db_admins d" i] admin_exists_cong [of ?d d]
    by (simp add: db_ok_def admins_ok_def managers_ok_def metas_ok_def acts_ok_def del: map_map)
qed

lemma CreateManager_ok [preserves_intro]: "preserves db_ok (CreateManager now m)"
proof (unfold CreateManager_def, intro preserves_exec preservesI)
  fix d assume ok: "db_ok d"
  let ?row = "m\<lparr>mgr_ID := seq_managers d + 1, mgr_IsActive := True,
     mgr_CreatedAt := sqlite_datetime now, mgr_UpdatedAt := sqlite_datetime now\<rparr>"
  let ?d = "d\<lparr>db_managers := db_managers d @ [?row], seq_managers := seq_managers d + 1\<rparr>"
  have "db_ok ?d" if "\<not> (\<exists>m' \<in> set (db_managers d).
      equalFold (mgr_Username m') (mgr_Username m) \<or> equalFold (mgr_Slug m') (mgr_Slug m))" "0 < mgr_Quota m"
  proof -
    have "managers_ok ?d"
      using that ok by (auto simp: db_ok_def managers_ok_def ids_ok_snoc equalFold_def)
    moreover have "\<forall>v \<in> set (db_metas d). manager_exists ?d (meta_ManagerID v)"
      using ok by (auto simp: db_ok_def metas_ok_def manager_exists_def split: option.splits)
    ultimately show ?thesis using ok by (simp add: db_ok_def admins_ok_def metas_ok_def acts_ok_def)
  qed
  then show "db_ok (snd (if \<exists>m' \<in> set (db_managers d).
          equalFold (mgr_Username m') (mgr_Username m) \<or> equalFold (mgr_Slug m') (mgr_Slug m)
     then (Inl ErrUnique, d)
     else if mgr_Quota m \<le> 0 then (Inl ErrCheck, d)
     else let i = seq_managers d + 1;
              row = m\<lparr>mgr_ID := i, mgr_IsActive := True, mgr_CreatedAt := sqlite_datetime now,
                      mgr_UpdatedAt := sqlite_datetime now\<rparr>
          in (Inr (m\<lparr>mgr_ID := i\<rparr>),
              d\<lparr>db_managers := db_managers d @ [row], seq_managers := i\<rparr>)))"
    using ok by (simp add: Let_def)
qed

lemma manager_cert_ok:
  assumes "db_ok d" "\<And>m. mgr_ID (f m) = mgr_ID m" "\<And>m. mgr_Slug (f m) = mgr_Slug m"
    "\<And>m. mgr_Username (f m) = mgr_Username m" "\<And>m. mgr_Quota (f m) = mgr_Quota m"
  shows "db_ok (d\<lparr>db_managers := update_by mgr_ID i f (db_managers d)\<rparr>)"
  using assms by (intro db_ok_managers_update) (simp_all add: map_update_by db_ok_def managers_ok_def)

lemma UpdateManagerCert_ok [preserves_intro]: "preserves db_ok (UpdateManagerCert now i title keyPass)"
  unfolding UpdateManagerCert_def by (intro preserves_exec preservesI) (simp add: manager_cert_ok)

lemma ClearManagerCert_ok [preserves_intro]: "preserves db_ok (ClearManagerCert now i)"
  unfolding ClearManagerCert_def by (intro preserves_exec preservesI) (simp add: manager_cert_ok)

lemma write_manager_ok [preserves_intro]: "preserves db_ok (write_manager now i m)"
proof (unfold write_manager_def, intro preserves_exec preservesI)
  fix d assume ok: "db_ok d"
  have "db_ok (d\<lparr>db_managers := update_by mgr_ID i (put_manager now m) (db_managers d)\<rparr>)"
    if free: "\<not> (\<exists>m' \<in> set (db_managers d). mgr_ID m' \<noteq> i \<and> equalFold (mgr_Username m') (mgr_Username m))"
      and q: "0 < mgr_Quota m"
  proof (rule db_ok_managers_update [OF ok])
    show "distinct (map (toLower \<circ> mgr_Username) (update_by mgr_ID i (put_manager now m) (db_managers d)))"
      using ok free
      by (intro distinct_update_by [where seq = "seq_managers d" and c = "toLower (mgr_Username m)"])
        (auto simp: db_ok_def managers_ok_def equalFold_def put_manager_def)
  qed (use q in \<open>simp_all add: put_manager_def\<close>)
  then show "db_ok (snd (if i \<notin> set (map mgr_ID (db_managers d)) then (Inr (), d)
     else if \<exists>m' \<in> set (db_managers d). mgr_ID m' \<noteq> i \<and> equalFold (mgr_Username m') (mgr_Username m)
     then (Inl ErrUnique, d)
     else if mgr_Quota m \<le> 0 then (Inl ErrCheck, d)
     else (Inr (), d\<lparr>db_managers := update_by mgr_ID i (put_manager now m) (db_managers d)\<rparr>)))"
    using ok by simp
qed

lemma db_ok_add_meta:
  assumes ok: "db_ok d" and fresh: "meta_MikrotikName v \<notin> set (map meta_MikrotikName (db_metas d))"
    and own: "manager_exists d (meta_ManagerID v)" and i: "meta_ID v = seq_metas d + 1"
  shows "db_ok (d\<lparr>db_metas := db_metas d @ [v], seq_metas := seq_metas d + 1\<rparr>)"
proof -
  let ?d = "d\<lparr>db_metas := db_metas d @ [v], seq_metas := seq_metas d + 1\<rparr>"
  have "metas_ok ?d"
    using ok fresh own i by (auto simp: db_ok_def metas_ok_def ids_ok_snoc)
  moreover have "acts_ok ?d"
    using ok by (auto simp: db_ok_def acts_ok_def)
  ultimately show ?thesis using ok by (simp add: db_ok_def admins_ok_def managers_ok_def)
qed

lemma CreateVPNMeta_ok [preserves_intro]: "preserves db_ok (CreateVPNMeta now v)"
  unfolding CreateVPNMeta_def
proof (intro preserves_exec preservesI)
  fix d assume ok: "db_ok d"
  let ?row = "v\<lparr>meta_ID := seq_metas d + 1, meta_CreatedAt := sqlite_datetime now,
                meta_UpdatedAt := sqlite_datetime now\<rparr>"
  have "db_ok (d\<lparr>db_metas := db_metas d @ [?row], seq_metas := seq_metas d + 1\<rparr>)"
    if "meta_MikrotikName v \<notin> set (map meta_MikrotikName (db_metas d))"
      "manager_exists d (meta_ManagerID v)"
    using that by (intro db_ok_add_meta [OF ok]) simp_all
  then show "db_ok (snd (if meta_MikrotikName v \<in> set (map meta_MikrotikName (db_metas d))
     then (Inl ErrUnique, d)
     else if \<not> manager_exists d (meta_ManagerID v) then (Inl ErrForeignKey, d)
     else let i = seq_metas d + 1;
              row = v\<lparr>meta_ID := i, meta_CreatedAt := sqlite_datetime now,
                      meta_UpdatedAt := sqlite_datetime now\<rparr>
          in (Inr (v\<lparr>meta_ID := i\<rparr>), d\<lparr>db_metas := db_metas d @ [row], seq_metas := i\<rparr>)))"
    using ok by (simp add: Let_def del: set_map)
qed

lemma UpdateVPNMetaCert_ok [preserves_intro]: "preserves db_ok (UpdateVPNMetaCert now i title keyPass)"
  unfolding UpdateVPNMetaCert_def by (intro preserves_exec preservesI) (simp add: db_ok_metas_update)

lemma ClearVPNMetaCert_ok [preserves_intro]: "preserves db_ok (ClearVPNMetaCert now i)"
  unfolding ClearVPNMetaCert_def by (intro preserves_exec preservesI) (simp add: db_ok_metas_update)

lemma write_meta_ok [preserves_intro]: "preserves db_ok (write_meta now i cur)"
  unfolding write_meta_def by (intro preserves_exec preservesI) (simp add: db_ok_metas_update put_meta_def)

lemma DeleteVPNMeta_ok [preserves_intro]: "preserves db_ok (DeleteVPNMeta i)"
  unfolding DeleteVPNMeta_def
proof (intro preserves_exec preservesI)
  fix d assume ok: "db_ok d"
  let ?as = "filter (\<lambda>a. act_VPNUserMetaID a \<noteq> i) (db_acts d)"
  let ?d = "d\<lparr>db_metas := filter (\<lambda>v. meta_ID v \<noteq> i) (db_metas d),
              db_acts := (if i \<in> set (map meta_ID (db_metas d)) then ?as else db_acts d)\<rparr>"
  have same: "i \<notin> set (map meta_ID (db_metas d)) \<Longrightarrow> ?as = db_acts d"
    using ok by (fastforce simp: db_ok_def acts_ok_def intro: filter_True)
  then have as: "db_acts ?d = ?as" by simp
  have "metas_ok ?d"
    using ok by (auto simp: db_ok_def metas_ok_def ids_ok_filter distinct_map_filter)
  moreover have "acts_ok ?d"
    using ok unfolding acts_ok_def as
    by (auto simp: db_ok_def acts_ok_def ids_ok_filter)
  ultimately show "db_ok (snd (Inr (), ?d))"
    using ok by (simp add: db_ok_def admins_ok_def managers_ok_def)
qed

lemma CreateActivation_ok [preserves_intro]: "preserves db_ok (CreateActivation now a)"
  unfolding CreateActivation_def
proof (intro preserves_exec preservesI)
  fix d assume ok: "db_ok d"
  let ?row = "a\<lparr>act_ID := seq_acts d + 1, act_IsSettled := False, act_SettledAt := None,
                act_SettledByAdminID := None, act_CreatedAt := sqlite_datetime now\<rparr>"
  have "db_ok (d\<lparr>db_acts := db_acts d @ [?row], seq_acts := seq_acts d + 1\<rparr>)"
    if "act_VPNUserMetaID a \<in> set (map meta_ID (db_metas d))" "0 < act_SharedUsers a"
    using that ok
    by (auto simp: db_ok_def admins_ok_def managers_ok_def metas_ok_def acts_ok_def ids_ok_snoc
        admin_exists_def)
  then show "db_ok (snd (if act_VPNUserMetaID a \<notin> set (map meta_ID (db_metas d))
     then (Inl ErrForeignKey, d)
     else if act_SharedUsers a \<le> 0 then (Inl ErrCheck, d)
     else let i = seq_acts d + 1;
              row = a\<lparr>act_ID := i, act_IsSettled := False, act_SettledAt := None,
                      act_SettledByAdminID := None, act_CreatedAt := sqlite_datetime now\<rparr>
          in (Inr (a\<lparr>act_ID := i\<rparr>), d\<lparr>db_acts := db_acts d @ [row], seq_acts := i\<rparr>)))"
    using ok by (simp add: Let_def del: set_map)
qed

lemma UpdateLatestUnsettled_ok [preserves_intro]:
  "preserves db_ok (UpdateLatestUnsettledActivationSharedUsers metaID n)"
  unfolding UpdateLatestUnsettledActivationSharedUsers_def
  by (intro preserves_exec preservesI) (simp add: db_ok_acts_update split: option.split)

lemma UpdateActivationSharedUsers_ok [preserves_intro]:
  "preserves db_ok (UpdateActivationSharedUsers i n)"
  unfolding UpdateActivationSharedUsers_def
proof (intro preserves_exec preservesI)
  fix d assume ok: "db_ok d"
  let ?d = "d\<lparr>db_acts := update_by act_ID i (act_SharedUsers_update (\<lambda>_. n)) (db_acts d)\<rparr>"
  have "db_ok ?d" if "\<not> (i \<in> set (map act_ID (db_acts d)) \<and> n \<le> 0)"
  proof (cases "n \<le> 0")
    case True
    then have "update_by act_ID i (act_SharedUsers_update (\<lambda>_. n)) (db_acts d) = db_acts d"
      using that by (force simp: update_by_def intro: map_idI)
    then show ?thesis using ok by simp
  next
    case False
    then show ?thesis using ok by (simp add: db_ok_acts_update)
  qed
  then show "db_ok (snd (if i \<in> set (map act_ID (db_acts d)) \<and> n \<le> 0 then (Inl ErrCheck, d)
     else (Inr (), ?d)))"
    using ok by simp
qed

lemma settle_all_ok:
  assumes ok: "db_ok d" and n: "n = length (filter hit (db_acts d))"
    and adm: "\<not> (n > 0 \<and> adm \<notin> set (map adm_ID (db_admins d)))"
  shows "db_ok (d\<lparr>db_acts := map (\<lambda>r. if hit r then settle_row now adm r else r) (db_acts d)\<rparr>)"
proof (rule db_ok_acts_map [OF ok])
  fix a assume a: "a \<in> set (db_acts d)"
    and change: "act_SettledByAdminID (if hit a then settle_row now adm a else a) \<noteq> act_SettledByAdminID a"
  then have "hit a" by (auto split: if_splits)
  then have "n > 0" using a n by (auto simp: length_greater_0_conv filter_empty_conv)
  then show "the (act_SettledByAdminID (if hit a then settle_row now adm a else a)) \<in> set (map adm_ID (db_admins d))"
    using \<open>hit a\<close> adm by simp
qed (simp_all add: settle_row_def)

lemma settle_rows_ok [preserves_intro]: "preserves db_ok (settle_rows now adm scope act)"
  unfolding settle_rows_def
proof (intro preserves_exec preservesI)
  fix d assume ok: "db_ok d"
  show "db_ok (snd (let hit = settle_where scope d act; n = length (filter hit (db_acts d))
         in if n > 0 \<and> adm \<notin> set (map adm_ID (db_admins d)) then (Inl ErrForeignKey, d)
            else (Inr (int n),
                  d\<lparr>db_acts := map (\<lambda>r. if hit r then settle_row now adm r else r) (db_acts d)\<rparr>)))"
    using settle_all_ok [OF ok refl, of "settle_where scope d act" adm now] ok
    by (simp add: Let_def del: set_map)
qed

text \<open>The methods that only read.\<close>

lemma reads_ok [preserves_intro]:
  "preserves I AdminCount" "preserves I (FindAdminByUsername u)" "preserves I (FindAdminByID i)"
  "preserves I (FindManagerByUsername u)" "preserves I (FindManagerByID i)" "preserves I ListManagers"
  "preserves I ListManagerSlugs" "preserves I (ManagerVPNCount i)" "preserves I (SlugExists s i)"
  "preserves I (FindVPNMetaByID i)" "preserves I (FindVPNMetaByName n)"
  "preserves I (ListActivationsByMetaID i)" "preserves I (FindActivationByID i)"
  "preserves I (ListRenewalSharedUsersInScope f)"
  by (simp_all add: AdminCount_def FindAdminByUsername_def FindAdminByID_def FindManagerByUsername_def
      FindManagerByID_def ListManagers_def ListManagerSlugs_def ManagerVPNCount_def SlugExists_def
      FindVPNMetaByID_def FindVPNMetaByName_def ListActivationsByMetaID_def FindActivationByID_def
      ListRenewalSharedUsersInScope_def preserves_query)

lemma ListRenewals_reads [preserves_intro]: "preserves I (ListRenewals f)"
  unfolding ListRenewals_def Let_def by (intro preserves_intro)

end
