(* ===== verification/App_State.thy ===== *)
theory App_State
  imports Config Auth Password Quota Store_Inv
begin

text \<open>
  The application object and the state its handlers run in (app/app.go). An \<open>app\<close> holds what does
  not change while the panel runs: the configuration, the router client below the cache, and the
  libraries outside the repository (bcrypt, JWT, the Unicode tables, the file system that the OpenVPN
  template is read from). A \<open>world\<close> holds what does: the database, the router behind its cache,
  the entropy source and the clock. A handler reads the clock once: every \<open>time.Now()\<close> of one
  request is the instant \<open>w_now\<close>. \<open>st\<close>, \<open>mt\<close> and \<open>rnd\<close> run a call of one part in the world.
\<close>

record 'r app =
  Cfg :: config
  Router :: "'r client"
  JWT :: jwt_lib
  Bcrypt_Generate :: "nat \<Rightarrow> string \<Rightarrow> go_err + string"
  Bcrypt_Compare :: "string \<Rightarrow> string \<Rightarrow> bool"
  Unicode :: unicode_tables
  OS_ReadFile :: "string \<Rightarrow> string option"

record 'r world =
  w_db :: db
  w_router :: "'r cached"
  w_entropy :: entropy
  w_now :: time

definition st :: "(db, 'a) go \<Rightarrow> ('r world, 'a) go" where
  "st m = (\<lambda>w. case m (w_db w) of (r, d) \<Rightarrow> (r, w\<lparr>w_db := d\<rparr>))"

definition mt :: "('r cached, 'a) go \<Rightarrow> ('r world, 'a) go" where
  "mt m = (\<lambda>w. case m (w_router w) of (r, c) \<Rightarrow> (r, w\<lparr>w_router := c\<rparr>))"

definition rnd :: "(entropy, 'a) go \<Rightarrow> ('r world, 'a) go" where
  "rnd m = (\<lambda>w. case m (w_entropy w) of (r, e) \<Rightarrow> (r, w\<lparr>w_entropy := e\<rparr>))"

definition Now :: "('r world, time) go" where
  "Now = getE w_now"

text \<open>The client of the application is always the caching one, as \<open>New\<close> builds it.\<close>

definition MT :: "'r app \<Rightarrow> 'r cached client" where
  "MT a = CachedClient (Router a) (MikrotikCacheTTL (Cfg a))"

definition Auth_Issuer :: "'r app \<Rightarrow> issuer" where
  "Auth_Issuer a = \<lparr>is_secret = JWTSecret (Cfg a), is_accessTTL = JWTAccessTTL (Cfg a),
     is_refreshTTL = JWTRefreshTTL (Cfg a)\<rparr>"

definition Registry :: "'r app \<Rightarrow> ('r world, registry) go" where
  "Registry a = bindE (st ListManagers) (\<lambda>managers.
     returnE (BuildRegistry managers (UsernamePrefixSep (Cfg a))))"

text \<open>\<open>reg, _ := a.Registry(ctx)\<close>: the zero registry when the query fails.\<close>

definition Registry_or_empty :: "'r app \<Rightarrow> ('r world, registry) go" where
  "Registry_or_empty a = bindE (tryE (Registry a)) (\<lambda>r.
     returnE (or_zero \<lparr>reg_Separator = [], reg_Managers = []\<rparr> r))"

text \<open>\<open>password.Hash\<close> draws its salt; \<open>password.Check\<close>.\<close>

definition Hash :: "'r app \<Rightarrow> string \<Rightarrow> ('r world, string) go" where
  "Hash a plain = rnd (\<lambda>es. case es of
     [] \<Rightarrow> (Inl ErrBcrypt, [])
   | None # es' \<Rightarrow> (Inl ErrBcrypt, es')
   | Some salt # es' \<Rightarrow> (Bcrypt_Generate a salt plain, es'))"

definition Check :: "'r app \<Rightarrow> string \<Rightarrow> string \<Rightarrow> bool" where
  "Check a hash plain = Bcrypt_Compare a hash plain"

definition BootstrapAdmin :: "'r app \<Rightarrow> ('r world, unit) go" where
  "BootstrapAdmin a =
     bindE (st AdminCount) (\<lambda>n.
     if n > 0 then returnE ()
     else if AdminPassword (Cfg a) = [] \<or> AdminPassword (Cfg a) = ''change-me'' then returnE ()
     else bindE (Hash a (AdminPassword (Cfg a))) (\<lambda>hash.
       st (CreateAdmin (AdminUsername (Cfg a)) hash)))"

section \<open>Helpers of the service layer that only read\<close>

definition managerUsedQuota :: "'r app \<Rightarrow> int \<Rightarrow> ('r world, int) go" where
  "managerUsedQuota a managerID =
     bindE (Registry a) (\<lambda>reg.
     bindE Now (\<lambda>now.
     bindE (mt (cl_ListUsers (MT a) now)) (\<lambda>users.
     UsedForManager reg managerID users (\<lambda>n. mt (cl_ListUserProfiles (MT a) now n)) now)))"

definition listUsers :: "'r app \<Rightarrow> bool \<Rightarrow> ('r world, mt_user list) go" where
  "listUsers a refresh =
     bindE Now (\<lambda>now.
     if refresh then mt (Cached_RefreshListUsers (Router a) (MikrotikCacheTTL (Cfg a)) now)
     else mt (cl_ListUsers (MT a) now))"

text \<open>\<open>a.MT.GetUser\<close> and \<open>a.MT.ListUserProfiles\<close> at the instant of the request.\<close>

definition GetUser :: "'r app \<Rightarrow> string \<Rightarrow> ('r world, mt_user) go" where
  "GetUser a name = bindE Now (\<lambda>now. mt (cl_GetUser (MT a) now name))"

definition ListUserProfiles :: "'r app \<Rightarrow> string \<Rightarrow> ('r world, user_profile list) go" where
  "ListUserProfiles a name = bindE Now (\<lambda>now. mt (cl_ListUserProfiles (MT a) now name))"

record owner_info =
  oi_ID :: int
  oi_DisplayName :: string
  oi_Username :: string
  oi_Slug :: string

text \<open>The four pointers \<open>enrichOwner\<close> returns are nil together, hence one option.\<close>

definition enrichOwner ::
  "registry \<Rightarrow> string \<Rightarrow> string \<Rightarrow> ('r world, owner_info option \<times> bool) go" where
  "enrichOwner reg name comment =
     (let i = Resolve reg name comment in
      if i = 0 then returnE (None, OwnerMismatch reg name comment 0)
      else bindE (tryE (st (FindManagerByID i))) (\<lambda>r. case r of
        Inl _ \<Rightarrow> returnE (None, False)
      | Inr m \<Rightarrow> returnE (Some \<lparr>oi_ID = mgr_ID m, oi_DisplayName = mgr_DisplayName m,
                               oi_Username = mgr_Username m, oi_Slug = mgr_Slug m\<rparr>,
                          OwnerMismatch reg name comment i)))"

definition assertManagerOwner :: "registry \<Rightarrow> claims \<Rightarrow> string \<Rightarrow> string \<Rightarrow> go_err + unit" where
  "assertManagerOwner reg c name comment =
     (if Resolve reg name comment \<noteq> c_ManagerID c then Inl AppNotOwner else Inr ())"

section \<open>Running parts in the world\<close>

lemma st_eq: "st m w = (r, w') \<longleftrightarrow> (\<exists>d. m (w_db w) = (r, d) \<and> w' = w\<lparr>w_db := d\<rparr>)"
  by (auto simp: st_def split: prod.split)

lemma mt_eq: "mt m w = (r, w') \<longleftrightarrow> (\<exists>c. m (w_router w) = (r, c) \<and> w' = w\<lparr>w_router := c\<rparr>)"
  by (auto simp: mt_def split: prod.split)

lemma rnd_eq: "rnd m w = (r, w') \<longleftrightarrow> (\<exists>e. m (w_entropy w) = (r, e) \<and> w' = w\<lparr>w_entropy := e\<rparr>)"
  by (auto simp: rnd_def split: prod.split)

lemma preserves_Now [preserves_intro]: "preserves I Now"
  by (simp add: Now_def preserves_getE)

lemma Now_run [go_simps]: "Now w = (Inr (w_now w), w)"
  by (simp add: Now_def getE_apply)

lemma handle_Now [go_simps]: "handle Now f g w = g (w_now w) w"
  by (simp add: handle_def Now_run)

lemma bindE_Now [go_simps]: "bindE Now g w = g (w_now w) w"
  by (simp add: bindE_def Now_run)

section \<open>Invariants of the world\<close>

text \<open>
  An invariant of the world is a database part and a router part: \<open>panel_inv D R\<close>. Calls of the
  store keep the first if \<open>D\<close> is an invariant of them, calls of the router the second.
\<close>

definition panel_inv :: "(db \<Rightarrow> bool) \<Rightarrow> ('r cached \<Rightarrow> bool) \<Rightarrow> 'r world \<Rightarrow> bool" where
  "panel_inv D R w \<longleftrightarrow> D (w_db w) \<and> R (w_router w)"

lemma preserves_st [preserves_intro]: "preserves D m \<Longrightarrow> preserves (panel_inv D R) (st m)"
  by (auto simp: preserves_def panel_inv_def st_def split: prod.splits)

lemma preserves_mt [preserves_intro]: "preserves R m \<Longrightarrow> preserves (panel_inv D R) (mt m)"
  by (auto simp: preserves_def panel_inv_def mt_def split: prod.splits)

lemma preserves_rnd [preserves_intro]: "preserves (panel_inv D R) (rnd m)"
  by (auto simp: preserves_def panel_inv_def rnd_def split: prod.splits)

end
