(* ===== verification/Cert.thy ===== *)
theory Cert
  imports App_State
begin

text \<open>
  OpenVPN certificates and configuration files (app/cert.go, app/ovpn_template.go): which key a user
  gets, the two patches of the generated file, issuing a certificate for a user or a manager, the
  connection bundle and the download. A \<open>*mikrotik.User\<close> that may be nil is an option.
\<close>

section \<open>The template\<close>

definition nl :: string where "nl = [CHR 0x0A]"

definition embeddedOvpnTemplate :: string where
  "embeddedOvpnTemplate =
     ''client'' @ [CHR 0x0A] @
     ''dev tun'' @ [CHR 0x0A] @
     ''proto udp'' @ [CHR 0x0A] @
     ''remote vpn.example.com 1194'' @ [CHR 0x0A] @
     ''resolv-retry infinite'' @ [CHR 0x0A] @
     ''nobind'' @ [CHR 0x0A] @
     ''persist-key'' @ [CHR 0x0A] @
     ''persist-tun'' @ [CHR 0x0A] @
     ''remote-cert-tls server'' @ [CHR 0x0A] @
     ''auth-user-pass'' @ [CHR 0x0A] @
     ''verb 3'' @ [CHR 0x0A] @
     [CHR 0x0A] @
     ''<auth-user-pass>'' @ [CHR 0x0A] @
     ''{{username}}'' @ [CHR 0x0A] @
     ''{{password}}'' @ [CHR 0x0A]"

text \<open>\<open>filepath.IsAbs\<close>, \<open>filepath.Clean\<close> and \<open>filepath.Join\<close> of two elements, on Unix.\<close>

definition filepath_IsAbs :: "string \<Rightarrow> bool" where
  "filepath_IsAbs p = prefix ''/'' p"

definition clean_step :: "bool \<Rightarrow> string list \<Rightarrow> string \<Rightarrow> string list" where
  "clean_step rooted stack c =
     (if c = [] \<or> c = ''.'' then stack
      else if c = ''..'' then
        (if stack \<noteq> [] \<and> last stack \<noteq> ''..'' then butlast stack
         else if rooted then stack else stack @ [c])
      else stack @ [c])"

definition filepath_Clean :: "string \<Rightarrow> string" where
  "filepath_Clean p =
     (let rooted = prefix ''/'' p;
          out = (if rooted then ''/'' else []) @
                joinWith ''/'' (foldl (clean_step rooted) [] (splitOn (CHR ''/'') p))
      in if out = [] then ''.'' else out)"

definition filepath_Join :: "string \<Rightarrow> string \<Rightarrow> string" where
  "filepath_Join p q =
     (if p = [] then (if q = [] then [] else filepath_Clean q)
      else if q = [] then filepath_Clean p
      else filepath_Clean (p @ ''/'' @ q))"

definition ovpnTemplateCandidates :: "string \<Rightarrow> string list" where
  "ovpnTemplateCandidates path =
     (if filepath_IsAbs path then [path]
      else [path] @ map (\<lambda>base. filepath_Join base path) [''.'', ''..'', ''../..'', ''../../..''] @
           [filepath_Join (filepath_Join ''..'' ''config'') ''client-template.ovpn''])"

fun first_file :: "(string \<Rightarrow> string option) \<Rightarrow> string list \<Rightarrow> string option" where
  "first_file readFile [] = None"
| "first_file readFile (p # ps) =
     (case readFile p of None \<Rightarrow> first_file readFile ps | Some b \<Rightarrow> Some b)"

definition readOvpnTemplate :: "'r app \<Rightarrow> go_err + string" where
  "readOvpnTemplate a =
     (case (if OpenVPNTemplatePath (Cfg a) \<noteq> []
            then first_file (OS_ReadFile a) (ovpnTemplateCandidates (OpenVPNTemplatePath (Cfg a)))
            else None) of
        Some b \<Rightarrow> Inr b
      | None \<Rightarrow> if embeddedOvpnTemplate \<noteq> [] then Inr embeddedOvpnTemplate else Inl ErrNotExist)"

definition renderOvpn :: "'r app \<Rightarrow> string \<Rightarrow> string \<Rightarrow> string \<Rightarrow> go_err + string" where
  "renderOvpn a username pass keyPass =
     (case readOvpnTemplate a of
        Inl e \<Rightarrow> Inl e
      | Inr s \<Rightarrow> Inr (replaceAll (replaceAll (replaceAll s ''{{username}}'' username)
                         ''{{password}}'' pass) ''{{openvpn_key_password}}'' keyPass))"

section \<open>Which certificate a user has\<close>

definition userOvpnFileName :: "string \<Rightarrow> string" where
  "userOvpnFileName mikrotikName = ''open-vpns/config-'' @ mikrotikName @ ''.ovpn''"

record openvpn_resolved =
  useCert :: bool
  keyPassword :: string
  certTitle :: string

text \<open>\<open>x.CertTitle.Valid \<and> strings.TrimSpace(x.CertTitle.String) \<noteq> ""\<close>\<close>

definition has_title :: "string option \<Rightarrow> bool" where
  "has_title t = (case t of None \<Rightarrow> False | Some s \<Rightarrow> trimSpace s \<noteq> [])"

definition no_pass :: "string option \<Rightarrow> bool" where
  "no_pass p = (case p of None \<Rightarrow> True | Some s \<Rightarrow> s = [])"

definition resolveOpenVPN :: "'r app \<Rightarrow> vpn_user_meta \<Rightarrow> ('r world, openvpn_resolved) go" where
  "resolveOpenVPN a meta =
     (if has_title (meta_CertTitle meta) then
        (if no_pass (meta_CertKeyPass meta) then failE (ErrText ''user cert_key_pass missing'')
         else returnE \<lparr>useCert = True, keyPassword = the (meta_CertKeyPass meta),
                       certTitle = the (meta_CertTitle meta)\<rparr>)
      else
        let none = returnE \<lparr>useCert = False, keyPassword = OpenVPNKeyPassword (Cfg a), certTitle = []\<rparr>
        in case meta_ManagerID meta of
          None \<Rightarrow> none
        | Some mid \<Rightarrow>
            bindE (st (FindManagerByID mid)) (\<lambda>mgr.
            if has_title (mgr_CertTitle mgr) then
              (if no_pass (mgr_CertKeyPass mgr) then failE (ErrText ''manager cert_key_pass missing'')
               else returnE \<lparr>useCert = True, keyPassword = the (mgr_CertKeyPass mgr),
                             certTitle = the (mgr_CertTitle mgr)\<rparr>)
            else none))"

section \<open>Patching the configuration file\<close>

text \<open>The loop: the first line whose trimmed text has the prefix is replaced; \<open>None\<close> if there is none.\<close>

fun replace_line :: "string \<Rightarrow> string \<Rightarrow> string list \<Rightarrow> string list option" where
  "replace_line pre line [] = None"
| "replace_line pre line (l # ls) =
     (if prefix pre (trimSpace l) then Some (line # ls)
      else map_option (\<lambda>r. l # r) (replace_line pre line ls))"

definition patch_line :: "string \<Rightarrow> string \<Rightarrow> string \<Rightarrow> string" where
  "patch_line pre line s =
     (case (if sublist pre s then replace_line pre line (splitOn (CHR 0x0A) s) else None) of
        Some ls \<Rightarrow> joinWith nl ls
      | None \<Rightarrow> line @ nl @ s)"

definition patchOvpnFriendlyName :: "string \<Rightarrow> string \<Rightarrow> string" where
  "patchOvpnFriendlyName body mikrotikName =
     patch_line ''setenv FRIENDLY_NAME''
       (''setenv FRIENDLY_NAME '' @ [CHR 0x22] @ ''Sabalan '' @ mikrotikName @ [CHR 0x22]) body"

definition patchOvpnServerAddress :: "string \<Rightarrow> string \<Rightarrow> string" where
  "patchOvpnServerAddress body serverAdr =
     patch_line ''remote '' (''remote '' @ serverAdr @ '' 1194 tcp'') body"

definition ensureUserOvpnFile :: "'r app \<Rightarrow> string \<Rightarrow> string \<Rightarrow> ('r world, unit) go" where
  "ensureUserOvpnFile a mikrotikName title =
     bindE (mt (cl_ReadFileContents (MT a) (userOvpnFileName title))) (\<lambda>body.
     let body1 = patchOvpnFriendlyName body mikrotikName;
         body2 = patchOvpnServerAddress body1 (L2TPServer (Cfg a))
     in mt (cl_WriteFileContents (MT a) (userOvpnFileName mikrotikName) body2))"

section \<open>Issuing certificates\<close>

definition provisionCertificate :: "'r app \<Rightarrow> string \<Rightarrow> string \<Rightarrow> ('r world, unit) go" where
  "provisionCertificate a title passphrase =
     mt (cl_GenerateCertificate (MT a) (MikrotikCertScript (Cfg a)) title passphrase)"

definition setupVPNCertificates ::
  "'r app \<Rightarrow> string \<Rightarrow> manager option \<Rightarrow> string option
    \<Rightarrow> ('r world, string option \<times> string option) go" where
  "setupVPNCertificates a mikrotikName mgr adminCertTitle =
     (let title = (case adminCertTitle of None \<Rightarrow> [] | Some t \<Rightarrow> trimSpace t) in
      if title \<noteq> [] then
        (if \<not> ValidCertTitle title then failE AppInvalidCertTitle
         else bindE (rnd GenerateCertKeyPass) (\<lambda>pass.
              bindE (provisionCertificate a title pass) (\<lambda>_.
              bindE (ensureUserOvpnFile a mikrotikName title) (\<lambda>_.
              returnE (Some title, Some pass)))))
      else case mgr of
        Some m \<Rightarrow>
          if has_title (mgr_CertTitle m)
          then bindE (ensureUserOvpnFile a mikrotikName (the (mgr_CertTitle m))) (\<lambda>_. returnE (None, None))
          else returnE (None, None)
      | None \<Rightarrow> returnE (None, None))"

definition provisionUserCertificate :: "'r app \<Rightarrow> vpn_user_meta \<Rightarrow> string \<Rightarrow> ('r world, unit) go" where
  "provisionUserCertificate a meta title0 =
     (let title = trimSpace title0 in
      if \<not> ValidCertTitle title then failE AppInvalidCertTitle
      else bindE (rnd GenerateCertKeyPass) (\<lambda>pass.
           bindE (provisionCertificate a title pass) (\<lambda>_.
           bindE (ensureUserOvpnFile a (meta_MikrotikName meta) title) (\<lambda>_.
           bindE Now (\<lambda>now.
           st (UpdateVPNMetaCert now (meta_ID meta) title pass))))))"

definition old_title :: "string option \<Rightarrow> string" where
  "old_title t = (case t of None \<Rightarrow> [] | Some s \<Rightarrow> trimSpace s)"

definition applyVPNUserCertTitleChange :: "'r app \<Rightarrow> vpn_user_meta \<Rightarrow> string \<Rightarrow> ('r world, unit) go" where
  "applyVPNUserCertTitleChange a meta newTitle0 =
     (let newTitle = trimSpace newTitle0; oldTitle = old_title (meta_CertTitle meta) in
      if newTitle = oldTitle then returnE ()
      else if newTitle = [] then bindE Now (\<lambda>now. st (ClearVPNMetaCert now (meta_ID meta)))
      else provisionUserCertificate a meta newTitle)"

definition setupManagerCertificate :: "'r app \<Rightarrow> int \<Rightarrow> string \<Rightarrow> ('r world, unit) go" where
  "setupManagerCertificate a managerID title0 =
     (let title = trimSpace title0 in
      if title = [] then returnE ()
      else if \<not> ValidCertTitle title then failE AppInvalidCertTitle
      else bindE (rnd GenerateCertKeyPass) (\<lambda>pass.
           bindE (provisionCertificate a title pass) (\<lambda>_.
           bindE Now (\<lambda>now.
           st (UpdateManagerCert now managerID title pass)))))"

definition applyManagerCertTitleChange :: "'r app \<Rightarrow> manager \<Rightarrow> string \<Rightarrow> ('r world, unit) go" where
  "applyManagerCertTitleChange a mgr newTitle0 =
     (let newTitle = trimSpace newTitle0; oldTitle = old_title (mgr_CertTitle mgr) in
      if newTitle = oldTitle then returnE ()
      else if newTitle = [] then bindE Now (\<lambda>now. st (ClearManagerCert now (mgr_ID mgr)))
      else setupManagerCertificate a (mgr_ID mgr) newTitle)"

section \<open>Bundles and downloads\<close>

definition ovpnBodyForMeta :: "'r app \<Rightarrow> vpn_user_meta \<Rightarrow> mt_user option \<Rightarrow> ('r world, string) go" where
  "ovpnBodyForMeta a meta u =
     bindE (resolveOpenVPN a meta) (\<lambda>resolved.
     if useCert resolved
     then mt (cl_ReadFileContents (MT a) (userOvpnFileName (meta_MikrotikName meta)))
     else bindE (case u of None \<Rightarrow> GetUser a (meta_MikrotikName meta) | Some v \<Rightarrow> returnE v) (\<lambda>v.
       liftE (renderOvpn a (usr_Name v) (usr_Password v) (keyPassword resolved))))"

definition connectionBundleFor :: "'r app \<Rightarrow> vpn_user_meta \<Rightarrow> mt_user option \<Rightarrow> ('r world, json) go" where
  "connectionBundleFor a meta u =
     bindE (resolveOpenVPN a meta) (\<lambda>resolved.
     let pw = (case u of None \<Rightarrow> JNull | Some v \<Rightarrow> if usr_Password v \<noteq> [] then JStr (usr_Password v) else JNull);
         name = (case u of None \<Rightarrow> meta_MikrotikName meta
                 | Some v \<Rightarrow> if usr_Name v \<noteq> [] then usr_Name v else meta_MikrotikName meta)
     in returnE (JObj
          [(''username'', JStr name), (''password'', pw),
           (''openvpn_key_password'', JStr (keyPassword resolved)),
           (''l2tp_ipsec_secret'', JStr (L2TPIPsecSecret (Cfg a))),
           (''l2tp_server'', JStr (L2TPServer (Cfg a))),
           (''openvpn_download_url'', JStr (OpenVPNDownloadURL (Cfg a)))]))"

definition zero_meta :: vpn_user_meta where
  "zero_meta = \<lparr>meta_ID = 0, meta_MikrotikName = [], meta_ManagerID = None, meta_ContactInfo = None,
     meta_Notes = None, meta_CertTitle = None, meta_CertKeyPass = None, meta_CreatedAt = [],
     meta_UpdatedAt = []\<rparr>"

definition connectionBundleForOwner ::
  "'r app \<Rightarrow> string \<Rightarrow> int \<Rightarrow> mt_user option \<Rightarrow> ('r world, json) go" where
  "connectionBundleForOwner a mikrotikName ownerID u =
     bindE (tryE (st (FindVPNMetaByName mikrotikName))) (\<lambda>r. case r of
       Inr meta \<Rightarrow> connectionBundleFor a meta u
     | Inl e \<Rightarrow>
         if e \<noteq> ErrNoRows then failE e
         else connectionBundleFor a (zero_meta\<lparr>meta_MikrotikName := mikrotikName,
                meta_ManagerID := (if ownerID \<noteq> 0 then Some ownerID else None)\<rparr>) u)"

definition writeOvpnDownload :: "'r app \<Rightarrow> vpn_user_meta \<Rightarrow> 'r world handler" where
  "writeOvpnDownload a meta =
     handle (GetUser a (meta_MikrotikName meta)) (\<lambda>_. respond NOT_FOUND) (\<lambda>u.
     handle (resolveOpenVPN a meta) (\<lambda>_. respond INTERNAL) (\<lambda>resolved.
     if \<not> useCert resolved \<and> usr_Password u = [] then respond UNAVAILABLE
     else handle (ovpnBodyForMeta a meta (Some u))
       (\<lambda>e. respond (if e = ErrNotFound then WriteError 503 ''OVPN_MISSING''
                     else WriteError 503 ''TEMPLATE_MISSING''))
       (\<lambda>body. respond (WriteOvpn (meta_MikrotikName meta @ ''.ovpn'') body))))"

end
