(* ===== verification/Shared_Users_Sync.thy ===== *)
theory Shared_Users_Sync
  imports App_State
begin

text \<open>
  The live overlay of the ledger (app/shared_users_sync.go): the newest unsettled activation of a
  user follows the slots the router has for that user now, every other activation keeps the number
  it was recorded with. The overlay is shown and written back to the database.
\<close>

text \<open>A nil slice is encoded as null.\<close>

definition json_slice :: "json list \<Rightarrow> json" where
  "json_slice xs = (if xs = [] then JNull else JArr xs)"

definition mikrotikSharedUsersByName :: "'r app \<Rightarrow> ('r world, string \<rightharpoonup> int) go" where
  "mikrotikSharedUsersByName a =
     bindE (listUsers a True) (\<lambda>users.
     returnE (foldl (\<lambda>m u. m(usr_Name u \<mapsto> usr_SharedUsers u)) Map.empty users))"

definition liveSharedUsers :: "(string \<rightharpoonup> int) \<Rightarrow> string \<Rightarrow> int \<Rightarrow> int" where
  "liveSharedUsers mtMap mikrotikName dbFallback =
     (case mtMap mikrotikName of Some v \<Rightarrow> v | None \<Rightarrow> dbFallback)"

definition latest_step :: "(string \<rightharpoonup> int) \<Rightarrow> renewal_shared_users_row \<Rightarrow> string \<rightharpoonup> int" where
  "latest_step out r =
     (if rs_IsSettled r then out
      else if out (rs_MikrotikName r) = None then out(rs_MikrotikName r \<mapsto> rs_ID r) else out)"

definition latestUnsettledPerUser :: "renewal_shared_users_row list \<Rightarrow> string \<rightharpoonup> int" where
  "latestUnsettledPerUser rows = foldl latest_step Map.empty rows"

text \<open>\<open>latestPerUser[name] == id\<close>, where a missing key reads as 0.\<close>

definition is_latest :: "(string \<rightharpoonup> int) \<Rightarrow> string \<Rightarrow> int \<Rightarrow> bool" where
  "is_latest m name i = ((case m name of None \<Rightarrow> 0 | Some k \<Rightarrow> k) = i)"

definition syncSharedUsersToUnsettledActivation :: "int \<Rightarrow> int \<Rightarrow> ('r world, unit) go" where
  "syncSharedUsersToUnsettledActivation metaID sharedUsers =
     bindE (tryE (st (UpdateLatestUnsettledActivationSharedUsers metaID sharedUsers))) (\<lambda>_. returnE ())"

definition activation_json :: "profile_activation \<Rightarrow> int \<Rightarrow> json" where
  "activation_json act su = JObj
     ([(''id'', JInt (act_ID act)), (''profile_name'', JStr (act_ProfileName act)),
       (''shared_users'', JInt su), (''currency'', JStr (act_Currency act)),
       (''is_settled'', JBool (act_IsSettled act)), (''created_at'', JStr (act_CreatedAt act))] @
      (case act_AmountPaid act of None \<Rightarrow> [] | Some x \<Rightarrow> [(''amount_paid'', JFloat x)]) @
      (case act_MikrotikEndTime act of None \<Rightarrow> [] | Some x \<Rightarrow> [(''mikrotik_end_time'', JStr x)]) @
      (case act_Note act of None \<Rightarrow> [] | Some x \<Rightarrow> [(''note'', JStr x)]))"

definition activationDTOs :: "profile_activation list \<Rightarrow> json list" where
  "activationDTOs acts = map (\<lambda>act. activation_json act (act_SharedUsers act)) acts"

text \<open>The loop of \<open>activationDTOsWithLiveShared\<close>; its state is the rows so far and the flag.\<close>

definition live_activation ::
  "(string \<rightharpoonup> int) \<Rightarrow> string \<Rightarrow> profile_activation \<Rightarrow> json list \<times> bool \<Rightarrow> ('r world, json list \<times> bool) go" where
  "live_activation mtMap mikrotikName act = (\<lambda>(out, synced).
     if \<not> act_IsSettled act \<and> \<not> synced then
       let su = liveSharedUsers mtMap mikrotikName (act_SharedUsers act) in
       bindE (if su \<noteq> act_SharedUsers act
              then bindE (tryE (st (UpdateActivationSharedUsers (act_ID act) su))) (\<lambda>_. returnE ())
              else returnE ()) (\<lambda>_.
       returnE (out @ [activation_json act su], True))
     else returnE (out @ [activation_json act (act_SharedUsers act)], synced))"

definition activationDTOsWithLiveShared ::
  "'r app \<Rightarrow> profile_activation list \<Rightarrow> string \<Rightarrow> ('r world, json list) go" where
  "activationDTOsWithLiveShared a acts mikrotikName =
     bindE (tryE (mikrotikSharedUsersByName a)) (\<lambda>r. case r of
       Inl _ \<Rightarrow> returnE (activationDTOs acts)
     | Inr mtMap \<Rightarrow> bindE (forE (live_activation mtMap mikrotikName) acts ([], False))
                      (\<lambda>(out, _). returnE out))"

definition sum_row :: "renewal_shared_users_row \<Rightarrow> int \<Rightarrow> int \<times> int \<Rightarrow> int \<times> int" where
  "sum_row r su s = (if rs_IsSettled r then (fst s, i64 (snd s + su)) else (i64 (fst s + su), i64 (snd s + su)))"

text \<open>The scope loop with the overlay: (unsettledSum, allSum).\<close>

definition live_scope_row ::
  "(string \<rightharpoonup> int) \<Rightarrow> (string \<rightharpoonup> int) \<Rightarrow> renewal_shared_users_row \<Rightarrow> int \<times> int \<Rightarrow> ('r world, int \<times> int) go" where
  "live_scope_row mtMap latest r s =
     (if \<not> rs_IsSettled r \<and> is_latest latest (rs_MikrotikName r) (rs_ID r) then
        let su = liveSharedUsers mtMap (rs_MikrotikName r) (rs_SharedUsers r) in
        bindE (if su \<noteq> rs_SharedUsers r
               then bindE (tryE (st (UpdateActivationSharedUsers (rs_ID r) su))) (\<lambda>_. returnE ())
               else returnE ()) (\<lambda>_. returnE (sum_row r su s))
      else returnE (sum_row r (rs_SharedUsers r) s))"

definition live_item :: "(string \<rightharpoonup> int) \<Rightarrow> (string \<rightharpoonup> int) \<Rightarrow> renewal_row \<Rightarrow> renewal_row" where
  "live_item mtMap latest it =
     (if rr_IsSettled it then it
      else if is_latest latest (rr_MikrotikName it) (rr_ID it)
      then it\<lparr>rr_SharedUsers := liveSharedUsers mtMap (rr_MikrotikName it) (rr_SharedUsers it)\<rparr>
      else it)"

text \<open>The summary, and the items, which the Go code changes in place.\<close>

definition applyRenewalsLiveSharedUsers ::
  "'r app \<Rightarrow> renewal_filter \<Rightarrow> renewal_row list \<Rightarrow> ('r world, renewal_summary \<times> renewal_row list) go" where
  "applyRenewalsLiveSharedUsers a filt items =
     bindE (st (ListRenewalSharedUsersInScope filt)) (\<lambda>scopeRows.
     if rf_Settled filt = ''settled'' then
       let s = foldl (\<lambda>s r. sum_row r (rs_SharedUsers r) s) (0, 0) scopeRows in
       returnE (\<lparr>UnsettledSharedUsersSum = fst s, AllSharedUsersSum = snd s\<rparr>, items)
     else
       bindE (mikrotikSharedUsersByName a) (\<lambda>mtMap.
       let latest = latestUnsettledPerUser scopeRows in
       bindE (forE (live_scope_row mtMap latest) scopeRows (0, 0)) (\<lambda>s.
       returnE (\<lparr>UnsettledSharedUsersSum = fst s, AllSharedUsersSum = snd s\<rparr>,
                map (live_item mtMap latest) items))))"

section \<open>Which activation is live\<close>

text \<open>\<open>latestUnsettledPerUser\<close> is the id of the first unsettled row of the user.\<close>

lemma latest_fold:
  "foldl latest_step m rows n =
     (case m n of Some i \<Rightarrow> Some i
      | None \<Rightarrow> map_option rs_ID (find (\<lambda>r. \<not> rs_IsSettled r \<and> rs_MikrotikName r = n) rows))"
  by (induction rows arbitrary: m) (auto simp: latest_step_def split: option.splits)

lemma latest_is_first:
  "latestUnsettledPerUser rows n =
     map_option rs_ID (find (\<lambda>r. \<not> rs_IsSettled r \<and> rs_MikrotikName r = n) rows)"
  by (simp add: latestUnsettledPerUser_def latest_fold)

lemma fold_user_map:
  "foldl (\<lambda>m u. m(usr_Name u \<mapsto> usr_SharedUsers u)) m us n =
     (case find (\<lambda>u. usr_Name u = n) (rev us) of Some u \<Rightarrow> Some (usr_SharedUsers u) | None \<Rightarrow> m n)"
proof (induction us arbitrary: m rule: rev_induct)
  case (snoc u us)
  then show ?case by simp
qed simp

lemma summary_fold:
  "foldl (\<lambda>s r. sum_row r (rs_SharedUsers r) s) (u0, a0) rows =
     (i64 (u0 + sum_list (map (\<lambda>r. if rs_IsSettled r then 0 else rs_SharedUsers r) rows)),
      i64 (a0 + sum_list (map rs_SharedUsers rows)))"
  if "in_i64 u0" "in_i64 a0"
  using that
proof (induction rows arbitrary: u0 a0)
  case (Cons r rows)
  then show ?case by (simp add: sum_row_def add.assoc)
qed simp

end
