(* ===== verification/Vpn_Service.thy ===== *)
theory Vpn_Service
  imports Cert Shared_Users_Sync
begin

text \<open>
  The service layer for VPN users (app/vpn_service.go and the helpers of app/vpn_by_name.go): detail
  views, creation with its rollbacks, patch, delete, profile assignment and removal. Every call that
  changes the router or the database is in the order of the code, and what was changed before an
  early return stays changed, except where the code rolls it back.
\<close>

section \<open>Requests\<close>

record createVPNReq =
  cr_LocalName :: string
  cr_Password :: string
  cr_SharedUsers :: int
  cr_Disabled :: "bool option"
  cr_ContactInfo :: "string option"
  cr_Notes :: "string option"
  cr_AssignProfile :: "bool option"
  cr_ProfileName :: "string option"
  cr_AmountPaid :: "float64 option"
  cr_Currency :: "string option"
  cr_Note :: "string option"
  cr_CertTitle :: "string option"

record patchVPNReq =
  pr_Password :: "string option"
  pr_SharedUsers :: "int option"
  pr_Disabled :: "bool option"
  pr_ContactInfo :: "string option"
  pr_Notes :: "string option"

record adminPatchVPNReq = patchVPNReq +
  ap_ManagerID :: "int option"
  ap_CertTitle :: "string option"

record assignProfileReq =
  as_ProfileName :: string
  as_AmountPaid :: "float64 option"
  as_Currency :: "string option"
  as_PaidAt :: "string option"
  as_Note :: "string option"

section \<open>Views\<close>

definition profileDTOs :: "user_profile list \<Rightarrow> json" where
  "profileDTOs profs = json_slice (map (\<lambda>p. JObj
     [(''id'', JStr (prof_ID p)), (''profile'', JStr (prof_Profile p)), (''state'', JStr (prof_State p)),
      (''end_time'', JStr (prof_EndTime p))]) profs)"

definition nullStrVal :: "string option \<Rightarrow> json" where
  "nullStrVal ns = json_opt JStr ns"

definition owner_members :: "owner_info option \<Rightarrow> bool \<Rightarrow> (string \<times> json) list" where
  "owner_members oi mismatch =
     [(''manager_id'', json_opt (JInt \<circ> oi_ID) oi),
      (''manager_display_name'', json_opt (JStr \<circ> oi_DisplayName) oi),
      (''manager_username'', json_opt (JStr \<circ> oi_Username) oi),
      (''manager_slug'', json_opt (JStr \<circ> oi_Slug) oi),
      (''owner_mismatch'', JBool mismatch)]"

definition buildVPNDetail ::
  "'r app \<Rightarrow> registry \<Rightarrow> vpn_user_meta \<Rightarrow> bool \<Rightarrow> ('r world, json) go" where
  "buildVPNDetail a reg meta includeComment =
     bindE (GetUser a (meta_MikrotikName meta)) (\<lambda>u.
     bindE (ListUserProfiles a (meta_MikrotikName meta)) (\<lambda>profs.
     bindE (tryE (st (ListActivationsByMetaID (meta_ID meta)))) (\<lambda>actsR.
     bindE (enrichOwner reg (usr_Name u) (usr_Comment u)) (\<lambda>(oi, mismatch).
     bindE (activationDTOsWithLiveShared a (or_zero [] actsR) (usr_Name u)) (\<lambda>activations.
     bindE (connectionBundleFor a meta (Some u)) (\<lambda>bundle.
     returnE (JObj
       ([(''id'', JInt (meta_ID meta)), (''mikrotik_name'', JStr (usr_Name u)),
         (''shared_users'', JInt (usr_SharedUsers u)), (''disabled'', JBool (usr_Disabled u)),
         (''contact_info'', nullStrVal (meta_ContactInfo meta)), (''notes'', nullStrVal (meta_Notes meta)),
         (''profiles'', profileDTOs profs), (''activations'', json_slice activations)] @
        owner_members oi mismatch @
        (if includeComment
         then [(''mikrotik_comment'', JStr (usr_Comment u)), (''cert_title'', nullStrVal (meta_CertTitle meta))]
         else []) @
        [(''connection_bundle'', bundle)]))))))))"

definition buildVPNDetailByName ::
  "'r app \<Rightarrow> registry \<Rightarrow> string \<Rightarrow> bool \<Rightarrow> ('r world, json) go" where
  "buildVPNDetailByName a reg name includeComment =
     bindE (tryE (st (FindVPNMetaByName name))) (\<lambda>r. case r of
       Inr meta \<Rightarrow> buildVPNDetail a reg meta includeComment
     | Inl e \<Rightarrow>
       if e \<noteq> ErrNoRows then failE e
       else
         bindE (GetUser a name) (\<lambda>u.
         bindE (ListUserProfiles a name) (\<lambda>profs.
         bindE (enrichOwner reg (usr_Name u) (usr_Comment u)) (\<lambda>(oi, mismatch).
         bindE (connectionBundleForOwner a name (case oi of None \<Rightarrow> 0 | Some o1 \<Rightarrow> oi_ID o1) (Some u)) (\<lambda>bundle.
         returnE (JObj
           ([(''id'', JNull), (''mikrotik_name'', JStr (usr_Name u)),
             (''shared_users'', JInt (usr_SharedUsers u)), (''disabled'', JBool (usr_Disabled u)),
             (''contact_info'', JNull), (''notes'', JNull), (''profiles'', profileDTOs profs),
             (''activations'', JArr []), (''connection_bundle'', bundle)] @
            owner_members oi mismatch @
            (if includeComment then [(''mikrotik_comment'', JStr (usr_Comment u))] else []))))))))"

section \<open>Creating users\<close>

definition fullName :: "string \<Rightarrow> string \<Rightarrow> string" where
  "fullName pre_fix localName = pre_fix @ localName"

definition resolveVPNPassword :: "string \<Rightarrow> ('r world, string) go" where
  "resolveVPNPassword pw0 =
     (let pw = trimSpace pw0 in
      if pw = [] then rnd GenerateVPN
      else if \<not> ValidVPN pw then failE (ErrText ''invalid password'')
      else returnE pw)"

definition vpnUserDisabled :: "bool option \<Rightarrow> bool" where
  "vpnUserDisabled p = (p = Some True)"

definition recordActivation ::
  "int \<Rightarrow> string \<Rightarrow> int \<Rightarrow> float64 option \<Rightarrow> string option \<Rightarrow> string option \<Rightarrow> user_profile list
    \<Rightarrow> ('r world, unit) go" where
  "recordActivation metaID profile shared amount currency note profs =
     bindE Now (\<lambda>now.
     let endTime = (case find (\<lambda>p. ProfileActive p now) profs of None \<Rightarrow> [] | Some p \<Rightarrow> prof_EndTime p);
         act = \<lparr>act_ID = 0, act_VPNUserMetaID = metaID, act_ProfileName = profile,
                act_SharedUsers = shared, act_AmountPaid = amount,
                act_Currency = (case currency of None \<Rightarrow> ''IRR'' | Some c \<Rightarrow> c),
                act_PaidAt = None, act_Note = note,
                act_MikrotikEndTime = (if endTime \<noteq> [] then Some endTime else None),
                act_IsSettled = False, act_SettledAt = None, act_SettledByAdminID = None,
                act_CreatedAt = []\<rparr>
     in bindE (st (CreateActivation now act)) (\<lambda>_. returnE ()))"

text \<open>\<open>if rollbackErr := a.MT.RemoveUser(name); rollbackErr \<noteq> nil { log }\<close>, then the error.\<close>

definition rollback_user :: "'r app \<Rightarrow> string \<Rightarrow> go_err \<Rightarrow> ('r world, 'a) go" where
  "rollback_user a name e = bindE (tryE (mt (cl_RemoveUser (MT a) name))) (\<lambda>_. failE e)"

text \<open>\<open>m(); if err \<noteq> nil { onErr }\<close> inside a function that returns an error.\<close>

definition orElse :: "('w, 'a) go \<Rightarrow> (go_err \<Rightarrow> ('w, 'a) go) \<Rightarrow> ('w, 'a) go" where
  "orElse m onErr = bindE (tryE m) (\<lambda>r. case r of Inl e \<Rightarrow> onErr e | Inr x \<Rightarrow> returnE x)"

definition chosen_profile :: "'r app \<Rightarrow> createVPNReq \<Rightarrow> string" where
  "chosen_profile a req =
     (case cr_ProfileName req of
        Some p \<Rightarrow> if p \<noteq> [] then p else DefaultProfile (Cfg a)
      | None \<Rightarrow> DefaultProfile (Cfg a))"

definition wants_profile :: "createVPNReq \<Rightarrow> bool" where
  "wants_profile req = (case cr_AssignProfile req of None \<Rightarrow> True | Some b \<Rightarrow> b)"

text \<open>
  The steps that both creation functions share after the router user exists: certificates, the
  database row and the profile, each with its rollback. They are written out twice in the source;
  only \<open>mgr\<close> (nil for an orphan) and the owner of the row differ.
\<close>

definition finish_create ::
  "'r app \<Rightarrow> string \<Rightarrow> manager option \<Rightarrow> createVPNReq \<Rightarrow> ('r world, json) go" where
  "finish_create a name mgr req =
     bindE (orElse (setupVPNCertificates a name mgr (cr_CertTitle req)) (rollback_user a name))
       (\<lambda>(title, keyPass).
     bindE Now (\<lambda>now.
     let meta0 = zero_meta\<lparr>meta_MikrotikName := name, meta_ManagerID := map_option mgr_ID mgr,
                   meta_CertTitle := title, meta_CertKeyPass := keyPass,
                   meta_ContactInfo := cr_ContactInfo req, meta_Notes := cr_Notes req\<rparr>
     in bindE (orElse (st (CreateVPNMeta now meta0)) (rollback_user a name)) (\<lambda>meta.
     let profile = chosen_profile a req in
     bindE (if wants_profile req then
              bindE (orElse (mt (cl_AddUserProfile (MT a) now name profile)) (\<lambda>e.
                bindE (tryE (mt (cl_RemoveUser (MT a) name))) (\<lambda>_.
                bindE (tryE (st (DeleteVPNMeta (meta_ID meta)))) (\<lambda>_.
                failE e)))) (\<lambda>_.
              bindE (tryE (ListUserProfiles a name)) (\<lambda>profsR.
              let profs = or_zero [] profsR in
              bindE (tryE (recordActivation (meta_ID meta) profile (cr_SharedUsers req)
                       (cr_AmountPaid req) (cr_Currency req) None profs)) (\<lambda>_.
              returnE profs)))
            else returnE []) (\<lambda>profs.
     returnE (JObj
       [(''id'', JInt (meta_ID meta)), (''mikrotik_name'', JStr name),
        (''shared_users'', JInt (cr_SharedUsers req)),
        (''disabled'', JBool (vpnUserDisabled (cr_Disabled req))),
        (''profiles'', profileDTOs profs)])))))"

text \<open>\<open>AddUser\<close>, with \<open>ErrNameTaken\<close> turned into the service error.\<close>

definition add_router_user :: "'r app \<Rightarrow> string \<Rightarrow> string \<Rightarrow> string \<Rightarrow> createVPNReq \<Rightarrow> ('r world, unit) go" where
  "add_router_user a name pass comment req =
     orElse (mt (cl_AddUser (MT a) name pass comment (cr_SharedUsers req) (vpnUserDisabled (cr_Disabled req))))
       (\<lambda>e. if e = ErrNameTaken then failE AppNameTaken else failE e)"

definition createVPNUser :: "'r app \<Rightarrow> manager \<Rightarrow> createVPNReq \<Rightarrow> ('r world, json) go" where
  "createVPNUser a mgr req =
     bindE (Registry a) (\<lambda>reg.
     let pre_fix = mgr_Slug mgr @ UsernamePrefixSep (Cfg a) in
     if int (length (cr_LocalName req)) > UsernameLocalMaxLen (Cfg a)
     then failE (ErrText ''local name too long'')
     else bindE (resolveVPNPassword (cr_Password req)) (\<lambda>pass.
     if cr_SharedUsers req < 1 \<or> cr_SharedUsers req > SharedUsersMax (Cfg a)
     then failE (ErrText ''invalid shared_users'')
     else
       let name = fullName pre_fix (cr_LocalName req);
           comment = PanelComment reg \<lparr>mi_ID = mgr_ID mgr, mi_Slug = mgr_Slug mgr\<rparr>
       in bindE (managerUsedQuota a (mgr_ID mgr)) (\<lambda>used.
       if wants_profile req \<and> \<not> CheckAdd used (mgr_Quota mgr) (cr_SharedUsers req)
       then failE AppQuotaExceeded
       else bindE (add_router_user a name pass comment req) (\<lambda>_.
       finish_create a name (Some mgr) req))))"

definition createOrphanVPNUser :: "'r app \<Rightarrow> createVPNReq \<Rightarrow> ('r world, json) go" where
  "createOrphanVPNUser a req =
     (let name = trimSpace (cr_LocalName req) in
      if name = [] \<or> length name > 32 then failE (ErrText ''invalid name'')
      else bindE (resolveVPNPassword (cr_Password req)) (\<lambda>pass.
      if cr_SharedUsers req < 1 \<or> cr_SharedUsers req > SharedUsersMax (Cfg a)
      then failE (ErrText ''invalid shared_users'')
      else bindE (add_router_user a name pass [] req) (\<lambda>_.
      finish_create a name None req)))"

section \<open>Changing users\<close>

text \<open>
  The quota check of the patch; \<open>used\<close> and \<open>mgr\<close> stay at their zero values for an orphan. The
  profile lookup drops its error.
\<close>

definition patch_quota_check :: "'r app \<Rightarrow> int \<Rightarrow> mt_user \<Rightarrow> int \<Rightarrow> ('r world, unit) go" where
  "patch_quota_check a ownerID u newShared =
     bindE (if ownerID \<noteq> 0
            then bindE (st (FindManagerByID ownerID)) (\<lambda>mgr.
                 bindE (managerUsedQuota a ownerID) (\<lambda>used. returnE (Some mgr, used)))
            else returnE (None, 0)) (\<lambda>(mgr, used).
     bindE (tryE (ListUserProfiles a (usr_Name u))) (\<lambda>profsR.
     bindE Now (\<lambda>now.
     let active = list_ex (\<lambda>p. ProfileActive p now) (or_zero [] profsR) in
     case mgr of
       None \<Rightarrow> returnE ()
     | Some m \<Rightarrow>
         if active \<and> \<not> CheckIncrease used (mgr_Quota m) (usr_SharedUsers u) newShared
         then failE AppQuotaExceeded else returnE ())))"

definition patchVPNUser ::
  "'r app \<Rightarrow> registry \<Rightarrow> vpn_user_meta \<Rightarrow> 'x patchVPNReq_scheme \<Rightarrow> int option \<Rightarrow> bool \<Rightarrow> ('r world, json) go" where
  "patchVPNUser a reg meta req syncManagerID includeComment =
     bindE (GetUser a (meta_MikrotikName meta)) (\<lambda>u.
     let ownerID = Resolve reg (usr_Name u) (usr_Comment u) in
     bindE (case pr_Password req of
              None \<Rightarrow> returnE None
            | Some pw \<Rightarrow> bindE (resolveVPNPassword pw) (\<lambda>pass. returnE (Some pass))) (\<lambda>passPtr.
     bindE (if ownerID \<noteq> 0
            then bindE (st (FindManagerByID ownerID)) (\<lambda>mgr.
                 returnE (PanelComment reg \<lparr>mi_ID = mgr_ID mgr, mi_Slug = mgr_Slug mgr\<rparr>))
            else returnE (usr_Comment u)) (\<lambda>comment.
     bindE (case pr_SharedUsers req of
              None \<Rightarrow> returnE ()
            | Some n \<Rightarrow> patch_quota_check a ownerID u n) (\<lambda>_.
     bindE (case syncManagerID of
              None \<Rightarrow> returnE None
            | Some k \<Rightarrow>
                if ownerID = 0 then failE AppOrphanNoOwner
                else if k \<noteq> ownerID then failE AppOwnerDBMismatch
                else returnE (Some k)) (\<lambda>mid.
     bindE (mt (cl_SetUser (MT a) (usr_Name u) passPtr (pr_SharedUsers req) comment (pr_Disabled req))) (\<lambda>_.
     bindE (case pr_SharedUsers req of
              None \<Rightarrow> returnE ()
            | Some n \<Rightarrow> syncSharedUsersToUnsettledActivation (meta_ID meta) n) (\<lambda>_.
     bindE Now (\<lambda>now.
     bindE (st (UpdateVPNMeta now (meta_ID meta) (pr_ContactInfo req) (pr_Notes req) mid)) (\<lambda>_.
     bindE (st (FindVPNMetaByID (meta_ID meta))) (\<lambda>meta'.
     buildVPNDetail a reg meta' includeComment))))))))))"

definition adminPatchVPNUser ::
  "'r app \<Rightarrow> registry \<Rightarrow> vpn_user_meta \<Rightarrow> adminPatchVPNReq \<Rightarrow> ('r world, json) go" where
  "adminPatchVPNUser a reg meta req =
     bindE (case ap_CertTitle req of
              None \<Rightarrow> returnE meta
            | Some t \<Rightarrow> bindE (applyVPNUserCertTitleChange a meta t) (\<lambda>_.
                        st (FindVPNMetaByID (meta_ID meta)))) (\<lambda>meta'.
     patchVPNUser a reg meta' req (ap_ManagerID req) True)"

definition deleteVPNUser :: "'r app \<Rightarrow> vpn_user_meta \<Rightarrow> ('r world, unit) go" where
  "deleteVPNUser a meta =
     bindE (tryE (mt (cl_RemoveUser (MT a) (meta_MikrotikName meta)))) (\<lambda>_.
     st (DeleteVPNMeta (meta_ID meta)))"

definition assignVPNProfile ::
  "'r app \<Rightarrow> registry \<Rightarrow> vpn_user_meta \<Rightarrow> assignProfileReq \<Rightarrow> bool \<Rightarrow> ('r world, json) go" where
  "assignVPNProfile a reg meta req includeComment =
     bindE (GetUser a (meta_MikrotikName meta)) (\<lambda>u.
     if Resolve reg (usr_Name u) (usr_Comment u) = 0 then failE AppOrphanNoOwner
     else bindE Now (\<lambda>now.
     bindE (mt (cl_AddUserProfile (MT a) now (usr_Name u) (as_ProfileName req))) (\<lambda>_.
     bindE (tryE (ListUserProfiles a (usr_Name u))) (\<lambda>profsR.
     bindE (tryE (recordActivation (meta_ID meta) (as_ProfileName req) (usr_SharedUsers u)
              (as_AmountPaid req) (as_Currency req) (as_Note req) (or_zero [] profsR))) (\<lambda>_.
     buildVPNDetail a reg meta includeComment)))))"

definition removeVPNProfile :: "'r app \<Rightarrow> vpn_user_meta \<Rightarrow> string \<Rightarrow> ('r world, unit) go" where
  "removeVPNProfile a meta profileRowID = mt (cl_RemoveUserProfile (MT a) profileRowID)"

definition writeVPNPatchError :: "go_err \<Rightarrow> response" where
  "writeVPNPatchError e =
     (if e = AppQuotaExceeded then WriteError 409 ''QUOTA_EXCEEDED''
      else if e = AppOrphanNoOwner then WriteError 403 ''ORPHAN_NO_OWNER''
      else if e = AppOwnerDBMismatch then WriteError 409 ''OWNER_MISMATCH''
      else if e = AppInvalidCertTitle then VALIDATION
      else if e = ErrNotFound then WriteError 503 ''OVPN_MISSING''
      else if e = ErrText ''invalid password'' then VALIDATION
      else UNAVAILABLE)"

section \<open>Users addressed by name\<close>

definition ensureVPNMeta ::
  "'r app \<Rightarrow> registry \<Rightarrow> string \<Rightarrow> claims option \<Rightarrow> ('r world, vpn_user_meta) go" where
  "ensureVPNMeta a reg name mgr =
     bindE (tryE (st (FindVPNMetaByName name))) (\<lambda>r. case r of
       Inr meta \<Rightarrow> returnE meta
     | Inl e \<Rightarrow>
       if e \<noteq> ErrNoRows then failE e
       else
         bindE (GetUser a name) (\<lambda>u.
         bindE (case mgr of
                  None \<Rightarrow> returnE ()
                | Some c \<Rightarrow> liftE (assertManagerOwner reg c (usr_Name u) (usr_Comment u))) (\<lambda>_.
         let ownerID = Resolve reg (usr_Name u) (usr_Comment u);
             meta = zero_meta\<lparr>meta_MikrotikName := name,
                      meta_ManagerID := (if ownerID \<noteq> 0 then Some ownerID else None)\<rparr>
         in bindE Now (\<lambda>now.
            orElse (st (CreateVPNMeta now meta)) (\<lambda>e.
              bindE (tryE (st (FindVPNMetaByName name))) (\<lambda>again. case again of
                Inr m \<Rightarrow> returnE m
              | Inl _ \<Rightarrow> failE e))))))"

definition deleteVPNByName :: "'r app \<Rightarrow> string \<Rightarrow> ('r world, unit) go" where
  "deleteVPNByName a name =
     bindE (tryE (st (FindVPNMetaByName name))) (\<lambda>r. case r of
       Inr meta \<Rightarrow> deleteVPNUser a meta
     | Inl e \<Rightarrow> if e = ErrNoRows then mt (cl_RemoveUser (MT a) name) else failE e)"

lemma preserves_orElse [preserves_intro]:
  "preserves I m \<Longrightarrow> (\<And>e. preserves I (f e)) \<Longrightarrow> preserves I (orElse m f)"
  unfolding orElse_def by (intro preserves_intro)

end
