(* ===== verification/Vpn_Handlers.thy ===== *)
theory Vpn_Handlers
  imports Vpn_Service
begin

text \<open>
  The manager's handlers (app/vpn_handlers.go, app/vpn_more_handlers.go): list, read, create, patch,
  delete, assign and remove a profile, connection bundle and download, all addressed by the id of
  the database row. Each starts with the role guard and, apart from list and create, the ownership
  guard \<open>assertManagerOwner\<close> on the router user that the row names.
\<close>

section \<open>Decoders\<close>

definition createVPN_fields :: "'x createVPNReq_scheme json_field list" where
  "createVPN_fields =
     [string_field ''local_name'' cr_LocalName_update, string_field ''password'' cr_Password_update,
      int_field ''shared_users'' cr_SharedUsers_update, bool_ptr ''disabled'' cr_Disabled_update,
      string_ptr ''contact_info'' cr_ContactInfo_update, string_ptr ''notes'' cr_Notes_update,
      bool_ptr ''assign_profile'' cr_AssignProfile_update, string_ptr ''profile_name'' cr_ProfileName_update,
      float_ptr ''amount_paid'' cr_AmountPaid_update, string_ptr ''currency'' cr_Currency_update,
      string_ptr ''note'' cr_Note_update, string_ptr ''cert_title'' cr_CertTitle_update]"

definition zero_createVPNReq :: createVPNReq where
  "zero_createVPNReq = \<lparr>cr_LocalName = [], cr_Password = [], cr_SharedUsers = 0, cr_Disabled = None,
     cr_ContactInfo = None, cr_Notes = None, cr_AssignProfile = None, cr_ProfileName = None,
     cr_AmountPaid = None, cr_Currency = None, cr_Note = None, cr_CertTitle = None\<rparr>"

definition patchVPN_fields :: "'x patchVPNReq_scheme json_field list" where
  "patchVPN_fields =
     [string_ptr ''password'' pr_Password_update, int_ptr ''shared_users'' pr_SharedUsers_update,
      bool_ptr ''disabled'' pr_Disabled_update, string_ptr ''contact_info'' pr_ContactInfo_update,
      string_ptr ''notes'' pr_Notes_update]"

definition zero_patchVPNReq :: patchVPNReq where
  "zero_patchVPNReq = \<lparr>pr_Password = None, pr_SharedUsers = None, pr_Disabled = None,
     pr_ContactInfo = None, pr_Notes = None\<rparr>"

definition assign_fields :: "assignProfileReq json_field list" where
  "assign_fields =
     [string_field ''profile_name'' as_ProfileName_update, float_ptr ''amount_paid'' as_AmountPaid_update,
      string_ptr ''currency'' as_Currency_update, string_ptr ''paid_at'' as_PaidAt_update,
      string_ptr ''note'' as_Note_update]"

definition zero_assignProfileReq :: assignProfileReq where
  "zero_assignProfileReq = \<lparr>as_ProfileName = [], as_AmountPaid = None, as_Currency = None,
     as_PaidAt = None, as_Note = None\<rparr>"

section \<open>The list\<close>

record vpn_row =
  vr_name :: string
  vr_shared :: int
  vr_disabled :: bool
  vr_profs :: "user_profile list"

text \<open>One turn of the filter loop; the error of \<open>ListUserProfiles\<close> is dropped.\<close>

definition list_row ::
  "'r app \<Rightarrow> registry \<Rightarrow> int \<Rightarrow> bool \<Rightarrow> string \<Rightarrow> time \<Rightarrow> mt_user \<Rightarrow> vpn_row list \<Rightarrow> ('r world, vpn_row list) go" where
  "list_row a reg managerID activeOnly qSearch now u filtered =
     (if Resolve reg (usr_Name u) (usr_Comment u) \<noteq> managerID then returnE filtered
      else if activeOnly \<and> usr_Disabled u then returnE filtered
      else if qSearch \<noteq> [] \<and> \<not> sublist qSearch (toLower (usr_Name u)) then returnE filtered
      else bindE (tryE (ListUserProfiles a (usr_Name u))) (\<lambda>profsR.
        let profs = or_zero [] profsR in
        if activeOnly \<and> \<not> list_ex (\<lambda>p. ProfileActive p now) profs then returnE filtered
        else returnE (filtered @ [\<lparr>vr_name = usr_Name u, vr_shared = usr_SharedUsers u,
                                  vr_disabled = usr_Disabled u, vr_profs = profs\<rparr>])))"

definition vpn_item :: "(string \<rightharpoonup> vpn_user_meta) \<Rightarrow> vpn_row \<Rightarrow> json" where
  "vpn_item metaMap f = JObj
     ([(''mikrotik_name'', JStr (vr_name f)), (''shared_users'', JInt (vr_shared f)),
       (''disabled'', JBool (vr_disabled f)), (''profiles'', profileDTOs (vr_profs f))] @
      (case metaMap (vr_name f) of None \<Rightarrow> [] | Some meta \<Rightarrow> [(''id'', JInt (meta_ID meta))]))"

text \<open>The page of a list response; slicing outside the list is a panic.\<close>

definition respond_page :: "request \<Rightarrow> ('a \<Rightarrow> json) \<Rightarrow> 'a list \<Rightarrow> response" where
  "respond_page r item filtered =
     (let tot = int (length filtered); page = parsePage r; pageSize = parsePageSize r;
          window = pageWindow tot page pageSize
      in case go_slice filtered (fst window) (snd window) of
           None \<Rightarrow> Recovered
         | Some fs \<Rightarrow> WriteJSON 200 (JObj
             [(''items'', json_slice (map item fs)), (''page'', JInt page), (''page_size'', JInt pageSize),
              (''total'', JInt tot)]))"

definition HandleListVPNUsers :: "'r app \<Rightarrow> 'r world endpoint" where
  "HandleListVPNUsers a ctx r = require_manager ctx (\<lambda>c.
     handle (Registry a) (\<lambda>_. respond INTERNAL) (\<lambda>reg.
     handle (listUsers a (rq_Query r ''refresh'' = ''true'')) (\<lambda>_. respond UNAVAILABLE) (\<lambda>users.
     handle Now (\<lambda>_. respond INTERNAL) (\<lambda>now.
     handle (forE (list_row a reg (c_ManagerID c) (rq_Query r ''active_only'' = ''true'')
               (toLower (trimSpace (rq_Query r ''q''))) now) users []) (\<lambda>_. respond INTERNAL) (\<lambda>filtered.
     handle (getE (\<lambda>w. FindVPNMetasByNames (map vr_name filtered) (w_db w))) (\<lambda>_. respond INTERNAL) (\<lambda>metaMap.
     respond (respond_page r (vpn_item metaMap) filtered)))))))"

section \<open>One user by id\<close>

definition vpnMetaByID :: "request \<Rightarrow> (vpn_user_meta \<Rightarrow> 'r world handler) \<Rightarrow> 'r world handler" where
  "vpnMetaByID r k =
     (case parseInt (rq_Param r ''id'') of
        (_, Some _) \<Rightarrow> respond VALIDATION
      | (i, None) \<Rightarrow>
          handle (st (FindVPNMetaByID i))
            (\<lambda>e. respond (if e = ErrNoRows then NOT_FOUND else INTERNAL)) k)"

text \<open>
  \<open>u, err := a.MT.GetUser(\<dots>); if err \<noteq> nil || a.assertManagerOwner(\<dots>) \<noteq> nil { NOT_OWNER }\<close>, the
  guard of every handler by id but the one that reads, which tells the two cases apart.
\<close>

definition owner_guard ::
  "'r app \<Rightarrow> registry \<Rightarrow> claims \<Rightarrow> vpn_user_meta \<Rightarrow> (mt_user \<Rightarrow> 'r world handler) \<Rightarrow> 'r world handler" where
  "owner_guard a reg c meta k =
     handle (GetUser a (meta_MikrotikName meta)) (\<lambda>_. respond NOT_OWNER) (\<lambda>u.
     case assertManagerOwner reg c (usr_Name u) (usr_Comment u) of
       Inl _ \<Rightarrow> respond NOT_OWNER
     | Inr _ \<Rightarrow> k u)"

definition HandleGetVPNUser :: "'r app \<Rightarrow> 'r world endpoint" where
  "HandleGetVPNUser a ctx r = require_manager ctx (\<lambda>c. vpnMetaByID r (\<lambda>meta.
     handle (Registry_or_empty a) (\<lambda>_. respond INTERNAL) (\<lambda>reg.
     handle (GetUser a (meta_MikrotikName meta)) (\<lambda>_. respond NOT_FOUND) (\<lambda>u.
     case assertManagerOwner reg c (usr_Name u) (usr_Comment u) of
       Inl _ \<Rightarrow> respond NOT_OWNER
     | Inr _ \<Rightarrow> handle (buildVPNDetail a reg meta False) (\<lambda>_. respond UNAVAILABLE)
                 (\<lambda>out. respond (WriteJSON 200 out))))))"

definition HandleCreateVPNUser :: "'r app \<Rightarrow> 'r world endpoint" where
  "HandleCreateVPNUser a ctx r = require_manager ctx (\<lambda>c.
     case DecodeJSON createVPN_fields zero_createVPNReq r of
       None \<Rightarrow> respond VALIDATION
     | Some req \<Rightarrow>
       handle (st (FindManagerByID (c_ManagerID c))) (\<lambda>_. respond INTERNAL) (\<lambda>mgr.
       handle (createVPNUser a mgr req)
         (\<lambda>e. respond (if e = AppQuotaExceeded then WriteError 409 ''QUOTA_EXCEEDED''
                       else if e = AppNameTaken then WriteError 409 ''NAME_TAKEN''
                       else VALIDATION))
         (\<lambda>out. respond (WriteJSON 201 out))))"

definition HandlePatchVPNUser :: "'r app \<Rightarrow> 'r world endpoint" where
  "HandlePatchVPNUser a ctx r = require_manager ctx (\<lambda>c. vpnMetaByID r (\<lambda>meta.
     handle (Registry_or_empty a) (\<lambda>_. respond INTERNAL) (\<lambda>reg.
     owner_guard a reg c meta (\<lambda>u.
     case DecodeJSON patchVPN_fields zero_patchVPNReq r of
       None \<Rightarrow> respond VALIDATION
     | Some req \<Rightarrow>
       handle (patchVPNUser a reg meta req None False) (\<lambda>e. respond (writeVPNPatchError e))
         (\<lambda>out. respond (WriteJSON 200 out))))))"

section \<open>Profiles, deletion, connection\<close>

text \<open>The error answers of the four assign handlers.\<close>

definition assign_error :: "go_err \<Rightarrow> response" where
  "assign_error e =
     (if e = ErrProfileMissing then WriteError 400 ''PROFILE_NOT_FOUND''
      else if e = AppOrphanNoOwner then WriteError 403 ''ORPHAN_NO_OWNER''
      else UNAVAILABLE)"

text \<open>\<open>httpx.DecodeJSON(r, &req); err \<noteq> nil || req.ProfileName == ""\<close>\<close>

definition decode_assign :: "request \<Rightarrow> assignProfileReq option" where
  "decode_assign r =
     (case DecodeJSON assign_fields zero_assignProfileReq r of
        None \<Rightarrow> None
      | Some req \<Rightarrow> if as_ProfileName req = [] then None else Some req)"

definition HandleAssignProfile :: "'r app \<Rightarrow> 'r world endpoint" where
  "HandleAssignProfile a ctx r = require_manager ctx (\<lambda>c. vpnMetaByID r (\<lambda>meta.
     handle (Registry_or_empty a) (\<lambda>_. respond INTERNAL) (\<lambda>reg.
     owner_guard a reg c meta (\<lambda>u.
     case decode_assign r of
       None \<Rightarrow> respond VALIDATION
     | Some req \<Rightarrow>
       handle (assignVPNProfile a reg meta req False) (\<lambda>e. respond (assign_error e))
         (\<lambda>out. respond (WriteJSON 200 out))))))"

definition HandleDeleteVPNUser :: "'r app \<Rightarrow> 'r world endpoint" where
  "HandleDeleteVPNUser a ctx r = require_manager ctx (\<lambda>c. vpnMetaByID r (\<lambda>meta.
     handle (Registry_or_empty a) (\<lambda>_. respond INTERNAL) (\<lambda>reg.
     owner_guard a reg c meta (\<lambda>u.
     handle (deleteVPNUser a meta) (\<lambda>_. respond INTERNAL) (\<lambda>_. respond NoContent)))))"

definition HandleConnectionBundle :: "'r app \<Rightarrow> 'r world endpoint" where
  "HandleConnectionBundle a ctx r = require_manager ctx (\<lambda>c. vpnMetaByID r (\<lambda>meta.
     handle (Registry_or_empty a) (\<lambda>_. respond INTERNAL) (\<lambda>reg.
     owner_guard a reg c meta (\<lambda>u.
     handle (connectionBundleFor a meta (Some u)) (\<lambda>_. respond INTERNAL)
       (\<lambda>bundle. respond (WriteJSON 200 bundle))))))"

definition HandleDownloadOvpn :: "'r app \<Rightarrow> 'r world endpoint" where
  "HandleDownloadOvpn a ctx r = require_manager ctx (\<lambda>c. vpnMetaByID r (\<lambda>meta.
     handle (Registry_or_empty a) (\<lambda>_. respond INTERNAL) (\<lambda>reg.
     owner_guard a reg c meta (\<lambda>u. writeOvpnDownload a meta))))"

definition HandleRemoveProfile :: "'r app \<Rightarrow> 'r world endpoint" where
  "HandleRemoveProfile a ctx r = require_manager ctx (\<lambda>c. vpnMetaByID r (\<lambda>meta.
     handle (Registry_or_empty a) (\<lambda>_. respond INTERNAL) (\<lambda>reg.
     owner_guard a reg c meta (\<lambda>u.
     handle (removeVPNProfile a meta (rq_Param r ''profileRowId'')) (\<lambda>_. respond VALIDATION)
       (\<lambda>_. respond NoContent)))))"

end
