(* ===== verification/Vpn_By_Name.thy ===== *)
theory Vpn_By_Name
  imports Vpn_Handlers
begin

text \<open>
  The handlers that address a VPN user by its router name (app/vpn_by_name.go), for managers and for
  administrators. A user without a database row gets one on the first change (\<open>ensureVPNMeta\<close>).
\<close>

definition vpnMikrotikName :: "request \<Rightarrow> string" where
  "vpnMikrotikName r = rq_Param r ''name''"

text \<open>
  \<open>GetUser\<close> with NOT_FOUND, then \<open>assertManagerOwner\<close> with NOT_OWNER: the guard of the manager's
  handlers that read the user before anything else.
\<close>

definition owned_user ::
  "'r app \<Rightarrow> registry \<Rightarrow> claims \<Rightarrow> string \<Rightarrow> (mt_user \<Rightarrow> 'r world handler) \<Rightarrow> 'r world handler" where
  "owned_user a reg c name k =
     handle (GetUser a name) (\<lambda>_. respond NOT_FOUND) (\<lambda>u.
     case assertManagerOwner reg c (usr_Name u) (usr_Comment u) of
       Inl _ \<Rightarrow> respond NOT_OWNER
     | Inr _ \<Rightarrow> k u)"

text \<open>\<open>ensureVPNMeta\<close> with the answer for the errors other than \<open>errNotOwner\<close>.\<close>

definition ensure_or ::
  "response \<Rightarrow> 'r app \<Rightarrow> registry \<Rightarrow> string \<Rightarrow> claims \<Rightarrow> (vpn_user_meta \<Rightarrow> 'r world handler) \<Rightarrow> 'r world handler" where
  "ensure_or other a reg name c k =
     handle (ensureVPNMeta a reg name (Some c))
       (\<lambda>e. respond (if e = AppNotOwner then NOT_OWNER else other)) k"

section \<open>For managers\<close>

definition HandleGetVPNUserByName :: "'r app \<Rightarrow> 'r world endpoint" where
  "HandleGetVPNUserByName a ctx r = require_manager ctx (\<lambda>c.
     let name = vpnMikrotikName r in
     handle (Registry a) (\<lambda>_. respond INTERNAL) (\<lambda>reg.
     owned_user a reg c name (\<lambda>u.
     handle (buildVPNDetailByName a reg name False) (\<lambda>_. respond UNAVAILABLE)
       (\<lambda>out. respond (WriteJSON 200 out)))))"

definition HandlePatchVPNUserByName :: "'r app \<Rightarrow> 'r world endpoint" where
  "HandlePatchVPNUserByName a ctx r = require_manager ctx (\<lambda>c.
     let name = vpnMikrotikName r in
     handle (Registry a) (\<lambda>_. respond INTERNAL) (\<lambda>reg.
     ensure_or NOT_FOUND a reg name c (\<lambda>meta.
     case DecodeJSON patchVPN_fields zero_patchVPNReq r of
       None \<Rightarrow> respond VALIDATION
     | Some req \<Rightarrow>
       handle (patchVPNUser a reg meta req None False) (\<lambda>e. respond (writeVPNPatchError e))
         (\<lambda>out. respond (WriteJSON 200 out)))))"

definition HandleAssignProfileByName :: "'r app \<Rightarrow> 'r world endpoint" where
  "HandleAssignProfileByName a ctx r = require_manager ctx (\<lambda>c.
     let name = vpnMikrotikName r in
     handle (Registry a) (\<lambda>_. respond INTERNAL) (\<lambda>reg.
     ensure_or NOT_FOUND a reg name c (\<lambda>meta.
     case decode_assign r of
       None \<Rightarrow> respond VALIDATION
     | Some req \<Rightarrow>
       handle (assignVPNProfile a reg meta req False) (\<lambda>e. respond (assign_error e))
         (\<lambda>out. respond (WriteJSON 200 out)))))"

definition HandleDeleteVPNUserByName :: "'r app \<Rightarrow> 'r world endpoint" where
  "HandleDeleteVPNUserByName a ctx r = require_manager ctx (\<lambda>c.
     let name = vpnMikrotikName r in
     handle (Registry a) (\<lambda>_. respond INTERNAL) (\<lambda>reg.
     owned_user a reg c name (\<lambda>u.
     handle (deleteVPNByName a name) (\<lambda>_. respond INTERNAL) (\<lambda>_. respond NoContent))))"

definition HandleConnectionBundleByName :: "'r app \<Rightarrow> 'r world endpoint" where
  "HandleConnectionBundleByName a ctx r = require_manager ctx (\<lambda>c.
     let name = vpnMikrotikName r in
     handle (Registry_or_empty a) (\<lambda>_. respond INTERNAL) (\<lambda>reg.
     owned_user a reg c name (\<lambda>u.
     ensure_or INTERNAL a reg name c (\<lambda>meta.
     handle (connectionBundleFor a meta (Some u)) (\<lambda>_. respond INTERNAL)
       (\<lambda>bundle. respond (WriteJSON 200 bundle))))))"

definition HandleDownloadOvpnByName :: "'r app \<Rightarrow> 'r world endpoint" where
  "HandleDownloadOvpnByName a ctx r = require_manager ctx (\<lambda>c.
     let name = vpnMikrotikName r in
     handle (Registry_or_empty a) (\<lambda>_. respond INTERNAL) (\<lambda>reg.
     owned_user a reg c name (\<lambda>u.
     ensure_or INTERNAL a reg name c (\<lambda>meta. writeOvpnDownload a meta))))"

definition HandleRemoveProfileByName :: "'r app \<Rightarrow> 'r world endpoint" where
  "HandleRemoveProfileByName a ctx r = require_manager ctx (\<lambda>c.
     let name = vpnMikrotikName r in
     handle (Registry a) (\<lambda>_. respond INTERNAL) (\<lambda>reg.
     owned_user a reg c name (\<lambda>u.
     ensure_or INTERNAL a reg name c (\<lambda>meta.
     handle (removeVPNProfile a meta (rq_Param r ''profileRowId'')) (\<lambda>_. respond VALIDATION)
       (\<lambda>_. respond NoContent)))))"

section \<open>For administrators\<close>

definition admin_patch_fields :: "adminPatchVPNReq json_field list" where
  "admin_patch_fields = patchVPN_fields @
     [int_ptr ''manager_id'' ap_ManagerID_update, string_ptr ''cert_title'' ap_CertTitle_update]"

definition zero_adminPatchVPNReq :: adminPatchVPNReq where
  "zero_adminPatchVPNReq = \<lparr>pr_Password = None, pr_SharedUsers = None, pr_Disabled = None,
     pr_ContactInfo = None, pr_Notes = None, ap_ManagerID = None, ap_CertTitle = None\<rparr>"

definition HandleAdminGetVPNUserByName :: "'r app \<Rightarrow> 'r world endpoint" where
  "HandleAdminGetVPNUserByName a ctx r =
     (let name = vpnMikrotikName r in
      handle (Registry a) (\<lambda>_. respond INTERNAL) (\<lambda>reg.
      handle (GetUser a name) (\<lambda>_. respond NOT_FOUND) (\<lambda>_.
      handle (buildVPNDetailByName a reg name True) (\<lambda>_. respond UNAVAILABLE)
        (\<lambda>out. respond (WriteJSON 200 out)))))"

definition HandleAdminPatchVPNUserByName :: "'r app \<Rightarrow> 'r world endpoint" where
  "HandleAdminPatchVPNUserByName a ctx r =
     (let name = vpnMikrotikName r in
      handle (Registry a) (\<lambda>_. respond INTERNAL) (\<lambda>reg.
      handle (ensureVPNMeta a reg name None) (\<lambda>_. respond NOT_FOUND) (\<lambda>meta.
      case DecodeJSON admin_patch_fields zero_adminPatchVPNReq r of
        None \<Rightarrow> respond VALIDATION
      | Some req \<Rightarrow>
        handle (adminPatchVPNUser a reg meta req) (\<lambda>e. respond (writeVPNPatchError e))
          (\<lambda>out. respond (WriteJSON 200 out)))))"

definition HandleAdminAssignProfileByName :: "'r app \<Rightarrow> 'r world endpoint" where
  "HandleAdminAssignProfileByName a ctx r =
     (let name = vpnMikrotikName r in
      handle (Registry a) (\<lambda>_. respond INTERNAL) (\<lambda>reg.
      handle (ensureVPNMeta a reg name None) (\<lambda>_. respond NOT_FOUND) (\<lambda>meta.
      case decode_assign r of
        None \<Rightarrow> respond VALIDATION
      | Some req \<Rightarrow>
        handle (assignVPNProfile a reg meta req True) (\<lambda>e. respond (assign_error e))
          (\<lambda>out. respond (WriteJSON 200 out)))))"

definition HandleAdminDeleteVPNUserByName :: "'r app \<Rightarrow> 'r world endpoint" where
  "HandleAdminDeleteVPNUserByName a ctx r =
     (let name = vpnMikrotikName r in
      handle (GetUser a name) (\<lambda>_. respond NOT_FOUND) (\<lambda>_.
      handle (deleteVPNByName a name) (\<lambda>_. respond INTERNAL) (\<lambda>_. respond NoContent)))"

definition HandleAdminConnectionBundleByName :: "'r app \<Rightarrow> 'r world endpoint" where
  "HandleAdminConnectionBundleByName a ctx r =
     (let name = vpnMikrotikName r in
      handle (GetUser a name) (\<lambda>_. respond NOT_FOUND) (\<lambda>u.
      handle (Registry_or_empty a) (\<lambda>_. respond INTERNAL) (\<lambda>reg.
      handle (ensureVPNMeta a reg name None) (\<lambda>_. respond NOT_FOUND) (\<lambda>meta.
      handle (connectionBundleFor a meta (Some u)) (\<lambda>_. respond INTERNAL)
        (\<lambda>bundle. respond (WriteJSON 200 bundle))))))"

definition HandleAdminDownloadOvpnByName :: "'r app \<Rightarrow> 'r world endpoint" where
  "HandleAdminDownloadOvpnByName a ctx r =
     (let name = vpnMikrotikName r in
      handle (Registry_or_empty a) (\<lambda>_. respond INTERNAL) (\<lambda>reg.
      handle (ensureVPNMeta a reg name None) (\<lambda>_. respond NOT_FOUND) (\<lambda>meta.
      writeOvpnDownload a meta)))"

definition HandleAdminRemoveProfileByName :: "'r app \<Rightarrow> 'r world endpoint" where
  "HandleAdminRemoveProfileByName a ctx r =
     (let name = vpnMikrotikName r in
      handle (Registry a) (\<lambda>_. respond INTERNAL) (\<lambda>reg.
      handle (ensureVPNMeta a reg name None) (\<lambda>_. respond NOT_FOUND) (\<lambda>meta.
      handle (removeVPNProfile a meta (rq_Param r ''profileRowId'')) (\<lambda>_. respond VALIDATION)
        (\<lambda>_. respond NoContent))))"

end
