(* ===== verification/Admin_Handlers.thy ===== *)
theory Admin_Handlers
  imports Vpn_By_Name
begin

text \<open>
  The administrator's handlers (app/admin_handlers.go): managers, totals, and VPN users by row id.
  The router puts \<open>RequireAdmin\<close> in front of them.
\<close>

section \<open>Managers\<close>

record createManagerReq =
  cm_Username :: string
  cm_Password :: string
  cm_DisplayName :: string
  cm_Slug :: string
  cm_Quota :: int
  cm_CertTitle :: "string option"

definition create_manager_fields :: "createManagerReq json_field list" where
  "create_manager_fields =
     [string_field ''username'' cm_Username_update, string_field ''password'' cm_Password_update,
      string_field ''display_name'' cm_DisplayName_update, string_field ''slug'' cm_Slug_update,
      int_field ''quota'' cm_Quota_update, string_ptr ''cert_title'' cm_CertTitle_update]"

definition zero_createManagerReq :: createManagerReq where
  "zero_createManagerReq = \<lparr>cm_Username = [], cm_Password = [], cm_DisplayName = [], cm_Slug = [],
     cm_Quota = 0, cm_CertTitle = None\<rparr>"

definition manager_json :: "manager \<Rightarrow> int \<Rightarrow> json" where
  "manager_json m used = JObj
     [(''id'', JInt (mgr_ID m)), (''username'', JStr (mgr_Username m)),
      (''display_name'', JStr (mgr_DisplayName m)), (''slug'', JStr (mgr_Slug m)),
      (''quota'', JInt (mgr_Quota m)), (''used_quota'', JInt used), (''is_active'', JBool (mgr_IsActive m)),
      (''cert_title'', nullStrVal (mgr_CertTitle m))]"

definition used_or_zero :: "'r app \<Rightarrow> int \<Rightarrow> ('r world, int) go" where
  "used_or_zero a i = bindE (tryE (managerUsedQuota a i)) (\<lambda>r. returnE (or_zero 0 r))"

definition HandleListManagers :: "'r app \<Rightarrow> 'r world endpoint" where
  "HandleListManagers a ctx r =
     handle (st ListManagers) (\<lambda>_. respond INTERNAL) (\<lambda>ms.
     handle (forE (\<lambda>m items. bindE (used_or_zero a (mgr_ID m)) (\<lambda>used.
               returnE (items @ [manager_json m used]))) ms []) (\<lambda>_. respond INTERNAL) (\<lambda>items.
     respond (WriteJSON 200 (JObj [(''items'', json_slice items)]))))"

definition stats_json :: "scope_stats \<Rightarrow> json" where
  "stats_json s = JObj [(''vpn_users'', JInt (VPNUsers s)), (''connections'', JInt (Connections s))]"

definition manager_stats :: "(int \<rightharpoonup> scope_stats) \<Rightarrow> manager \<Rightarrow> json" where
  "manager_stats byOwner m =
     (let s = stats_at byOwner (mgr_ID m) in JObj
        [(''manager_id'', JInt (mgr_ID m)), (''display_name'', JStr (mgr_DisplayName m)),
         (''username'', JStr (mgr_Username m)), (''quota'', JInt (mgr_Quota m)),
         (''vpn_users'', JInt (VPNUsers s)), (''connections'', JInt (Connections s))])"

definition HandleAdminStats :: "'r app \<Rightarrow> 'r world endpoint" where
  "HandleAdminStats a ctx r =
     handle (Registry a) (\<lambda>_. respond INTERNAL) (\<lambda>reg.
     handle (listUsers a (rq_Query r ''refresh'' = ''true'')) (\<lambda>_. respond UNAVAILABLE) (\<lambda>users.
     handle Now (\<lambda>_. respond INTERNAL) (\<lambda>now.
     handle (AggregateByOwner reg users (\<lambda>n. mt (cl_ListUserProfiles (MT a) now n)) now)
       (\<lambda>_. respond UNAVAILABLE) (\<lambda>(tot, orphan, byOwner).
     handle (st ListManagers) (\<lambda>_. respond INTERNAL) (\<lambda>managers.
     respond (WriteJSON 200 (JObj
       [(''manager_count'', JInt (int (length managers))), (''totals'', stats_json tot),
        (''orphan'', stats_json orphan),
        (''by_manager'', json_slice (map (manager_stats byOwner) managers))])))))))"

definition new_manager :: "createManagerReq \<Rightarrow> string \<Rightarrow> manager" where
  "new_manager req hash =
     \<lparr>mgr_ID = 0, mgr_Username = cm_Username req, mgr_PasswordHash = hash,
      mgr_DisplayName = cm_DisplayName req, mgr_Slug = cm_Slug req, mgr_Quota = cm_Quota req,
      mgr_IsActive = True, mgr_CertTitle = None, mgr_CertKeyPass = None, mgr_CreatedAt = [],
      mgr_UpdatedAt = []\<rparr>"

definition cert_error :: "go_err \<Rightarrow> response" where
  "cert_error e = (if e = AppInvalidCertTitle then VALIDATION else UNAVAILABLE)"

definition HandleCreateManager :: "'r app \<Rightarrow> 'r world endpoint" where
  "HandleCreateManager a ctx r =
     (case DecodeJSON create_manager_fields zero_createManagerReq r of
        None \<Rightarrow> respond VALIDATION
      | Some req \<Rightarrow>
        if \<not> ValidPanel (Unicode a) (cm_Password req) \<or> cm_Quota req < 1 then respond VALIDATION
        else handle (tryE (st ListManagerSlugs)) (\<lambda>_. respond INTERNAL) (\<lambda>slugsR.
          if SlugOverlaps (cm_Slug req) (or_zero [] slugsR) 0
          then respond (WriteError 409 ''SLUG_OVERLAPS'')
          else handle (Hash a (cm_Password req)) (\<lambda>_. respond INTERNAL) (\<lambda>hash.
          handle Now (\<lambda>_. respond INTERNAL) (\<lambda>now.
          handle (st (CreateManager now (new_manager req hash)))
            (\<lambda>_. respond (WriteError 409 ''SLUG_IN_USE'')) (\<lambda>m.
          let created = respond (WriteJSON 201 (JObj [(''id'', JInt (mgr_ID m))])) in
          case cm_CertTitle req of
            Some t \<Rightarrow>
              if trimSpace t \<noteq> []
              then handle (setupManagerCertificate a (mgr_ID m) t) (\<lambda>e. respond (cert_error e)) (\<lambda>_. created)
              else created
          | None \<Rightarrow> created)))))"

record patchManagerReq =
  pm_Username :: "string option"
  pm_DisplayName :: "string option"
  pm_Quota :: "int option"
  pm_IsActive :: "bool option"
  pm_Password :: "string option"
  pm_CertTitle :: "string option"

definition patch_manager_fields :: "patchManagerReq json_field list" where
  "patch_manager_fields =
     [string_ptr ''username'' pm_Username_update, string_ptr ''display_name'' pm_DisplayName_update,
      int_ptr ''quota'' pm_Quota_update, bool_ptr ''is_active'' pm_IsActive_update,
      string_ptr ''password'' pm_Password_update, string_ptr ''cert_title'' pm_CertTitle_update]"

definition zero_patchManagerReq :: patchManagerReq where
  "zero_patchManagerReq = \<lparr>pm_Username = None, pm_DisplayName = None, pm_Quota = None,
     pm_IsActive = None, pm_Password = None, pm_CertTitle = None\<rparr>"

text \<open>The four optional parts of the patch, each with what follows it.\<close>

definition patch_cert :: "'r app \<Rightarrow> manager \<Rightarrow> string option \<Rightarrow> 'r world handler \<Rightarrow> 'r world handler" where
  "patch_cert a cur t k =
     (case t of
        None \<Rightarrow> k
      | Some title \<Rightarrow> handle (applyManagerCertTitleChange a cur title) (\<lambda>e. respond (cert_error e)) (\<lambda>_. k))"

definition patch_username ::
  "int \<Rightarrow> string option \<Rightarrow> (string option \<Rightarrow> 'r world handler) \<Rightarrow> 'r world handler" where
  "patch_username i name k =
     (case name of
        None \<Rightarrow> k None
      | Some n \<Rightarrow>
        let u = trimSpace n in
        if u = [] then respond VALIDATION
        else handle (st (FindManagerByUsername u))
          (\<lambda>e. if e \<noteq> ErrNoRows then respond INTERNAL else k (Some u))
          (\<lambda>existing. if mgr_ID existing \<noteq> i then respond (WriteError 409 ''USERNAME_IN_USE'')
                      else k (Some u)))"

definition patch_quota :: "'r app \<Rightarrow> int \<Rightarrow> int option \<Rightarrow> 'r world handler \<Rightarrow> 'r world handler" where
  "patch_quota a i q k =
     (case q of
        None \<Rightarrow> k
      | Some n \<Rightarrow> handle (managerUsedQuota a i) (\<lambda>_. respond UNAVAILABLE) (\<lambda>used.
          if n < used then respond (WriteError 409 ''QUOTA_BELOW_USAGE'') else k))"

definition patch_password ::
  "'r app \<Rightarrow> string option \<Rightarrow> (string option \<Rightarrow> 'r world handler) \<Rightarrow> 'r world handler" where
  "patch_password a p k =
     (case p of
        None \<Rightarrow> k None
      | Some raw \<Rightarrow>
        let pw = trimSpace raw in
        if pw = [] then k None
        else if \<not> ValidPanel (Unicode a) pw then respond VALIDATION
        else handle (Hash a pw) (\<lambda>_. respond INTERNAL) (\<lambda>h. k (Some h)))"

definition HandlePatchManager :: "'r app \<Rightarrow> 'r world endpoint" where
  "HandlePatchManager a ctx r =
     (let i = fst (parseInt (rq_Param r ''id'')) in
      case DecodeJSON patch_manager_fields zero_patchManagerReq r of
        None \<Rightarrow> respond VALIDATION
      | Some req \<Rightarrow>
        handle (st (FindManagerByID i)) (\<lambda>e. respond (if e = ErrNoRows then NOT_FOUND else INTERNAL)) (\<lambda>cur.
        patch_cert a cur (pm_CertTitle req)
        (patch_username i (pm_Username req) (\<lambda>username.
        patch_quota a i (pm_Quota req)
        (patch_password a (pm_Password req) (\<lambda>hash.
        handle Now (\<lambda>_. respond INTERNAL) (\<lambda>now.
        handle (st (UpdateManager now i username (pm_DisplayName req) (pm_Quota req) (pm_IsActive req) hash))
          (\<lambda>e. respond (if e = ErrNoRows then NOT_FOUND else INTERNAL)) (\<lambda>_.
        handle (tryE (st (FindManagerByID i))) (\<lambda>_. respond INTERNAL) (\<lambda>mR.
        handle (used_or_zero a i) (\<lambda>_. respond INTERNAL) (\<lambda>used.
        respond (case mR of Inl _ \<Rightarrow> Recovered | Inr m \<Rightarrow> WriteJSON 200 (manager_json m used))))))))))))"

section \<open>VPN users\<close>

record admin_row =
  ar_user :: mt_user
  ar_owner :: "owner_info option"
  ar_mismatch :: bool
  ar_profs :: "user_profile list"

definition admin_list_row ::
  "'r app \<Rightarrow> registry \<Rightarrow> bool \<Rightarrow> int option \<Rightarrow> bool \<Rightarrow> string \<Rightarrow> mt_user \<Rightarrow> admin_row list
    \<Rightarrow> ('r world, admin_row list) go" where
  "admin_list_row a reg orphanOnly filterMgr activeOnly qSearch u filtered =
     (let ownerID = Resolve reg (usr_Name u) (usr_Comment u) in
      if orphanOnly \<and> ownerID \<noteq> 0 then returnE filtered
      else if filterMgr \<noteq> None \<and> filterMgr \<noteq> Some ownerID then returnE filtered
      else if activeOnly \<and> usr_Disabled u then returnE filtered
      else if qSearch \<noteq> [] \<and> \<not> sublist qSearch (toLower (usr_Name u))
              \<and> \<not> sublist qSearch (toLower (usr_Comment u)) then returnE filtered
      else bindE (enrichOwner reg (usr_Name u) (usr_Comment u)) (\<lambda>(oi, mismatch).
           bindE (tryE (ListUserProfiles a (usr_Name u))) (\<lambda>profsR.
           returnE (filtered @ [\<lparr>ar_user = u, ar_owner = oi, ar_mismatch = mismatch,
                                 ar_profs = or_zero [] profsR\<rparr>]))))"

definition admin_item :: "(string \<rightharpoonup> vpn_user_meta) \<Rightarrow> admin_row \<Rightarrow> json" where
  "admin_item metaMap f = JObj
     ([(''mikrotik_name'', JStr (usr_Name (ar_user f))), (''shared_users'', JInt (usr_SharedUsers (ar_user f))),
       (''disabled'', JBool (usr_Disabled (ar_user f))),
       (''mikrotik_comment'', JStr (usr_Comment (ar_user f)))] @
      owner_members (ar_owner f) (ar_mismatch f) @
      [(''profiles'', profileDTOs (ar_profs f))] @
      (case metaMap (usr_Name (ar_user f)) of None \<Rightarrow> [] | Some meta \<Rightarrow> [(''id'', JInt (meta_ID meta))]))"

definition HandleAdminListVPNUsers :: "'r app \<Rightarrow> 'r world endpoint" where
  "HandleAdminListVPNUsers a ctx r =
     handle (Registry a) (\<lambda>_. respond INTERNAL) (\<lambda>reg.
     handle (listUsers a (rq_Query r ''refresh'' = ''true'')) (\<lambda>_. respond UNAVAILABLE) (\<lambda>users.
     let v = rq_Query r ''manager_id'';
         filterMgr = (if v \<noteq> [] then Some (fst (parseInt v)) else None) in
     handle (forE (admin_list_row a reg (rq_Query r ''orphan'' = ''true'') filterMgr
               (rq_Query r ''active_only'' = ''true'') (toLower (trimSpace (rq_Query r ''q'')))) users [])
       (\<lambda>_. respond INTERNAL) (\<lambda>filtered.
     handle (getE (\<lambda>w. FindVPNMetasByNames (map (usr_Name \<circ> ar_user) filtered) (w_db w)))
       (\<lambda>_. respond INTERNAL) (\<lambda>metaMap.
     respond (respond_page r (admin_item metaMap) filtered)))))"

definition HandleAdminGetVPNUser :: "'r app \<Rightarrow> 'r world endpoint" where
  "HandleAdminGetVPNUser a ctx r = vpnMetaByID r (\<lambda>meta.
     handle (Registry_or_empty a) (\<lambda>_. respond INTERNAL) (\<lambda>reg.
     handle (buildVPNDetail a reg meta True) (\<lambda>_. respond UNAVAILABLE)
       (\<lambda>out. respond (WriteJSON 200 out))))"

record adminCreateVPNReq = createVPNReq +
  ac_ManagerID :: "int option"

definition admin_create_fields :: "adminCreateVPNReq json_field list" where
  "admin_create_fields = int_ptr ''manager_id'' ac_ManagerID_update # createVPN_fields"

definition zero_adminCreateVPNReq :: adminCreateVPNReq where
  "zero_adminCreateVPNReq = createVPNReq.extend zero_createVPNReq \<lparr>ac_ManagerID = None\<rparr>"

definition is_unavailable :: "go_err \<Rightarrow> bool" where
  "is_unavailable e = (case e of ErrUnavailable _ \<Rightarrow> True | _ \<Rightarrow> False)"

definition admin_create_error :: "go_err \<Rightarrow> response" where
  "admin_create_error e =
     (if e = AppQuotaExceeded then WriteError 409 ''QUOTA_EXCEEDED''
      else if e = AppNameTaken then WriteError 409 ''NAME_TAKEN''
      else if e = AppInvalidCertTitle then VALIDATION
      else if is_unavailable e \<or> e = ErrNotFound then UNAVAILABLE
      else VALIDATION)"

definition HandleAdminCreateVPNUser :: "'r app \<Rightarrow> 'r world endpoint" where
  "HandleAdminCreateVPNUser a ctx r =
     (case DecodeJSON admin_create_fields zero_adminCreateVPNReq r of
        None \<Rightarrow> respond VALIDATION
      | Some areq \<Rightarrow>
        let req = createVPNReq.truncate areq;
            answer = (\<lambda>m. handle m (\<lambda>e. respond (admin_create_error e)) (\<lambda>out. respond (WriteJSON 201 out))) in
        if trimSpace (cr_LocalName req) = [] then respond VALIDATION
        else case ac_ManagerID areq of
          None \<Rightarrow> answer (createOrphanVPNUser a req)
        | Some i \<Rightarrow>
          if i < 1 then answer (createOrphanVPNUser a req)
          else handle (st (FindManagerByID i))
            (\<lambda>e. respond (if e = ErrNoRows then VALIDATION else INTERNAL))
            (\<lambda>mgr. answer (createVPNUser a mgr req)))"

definition HandleAdminPatchVPNUser :: "'r app \<Rightarrow> 'r world endpoint" where
  "HandleAdminPatchVPNUser a ctx r = vpnMetaByID r (\<lambda>meta.
     case DecodeJSON admin_patch_fields zero_adminPatchVPNReq r of
       None \<Rightarrow> respond VALIDATION
     | Some req \<Rightarrow>
       handle (Registry_or_empty a) (\<lambda>_. respond INTERNAL) (\<lambda>reg.
       handle (adminPatchVPNUser a reg meta req) (\<lambda>e. respond (writeVPNPatchError e))
         (\<lambda>out. respond (WriteJSON 200 out))))"

definition HandleAdminDeleteVPNUser :: "'r app \<Rightarrow> 'r world endpoint" where
  "HandleAdminDeleteVPNUser a ctx r = vpnMetaByID r (\<lambda>meta.
     handle (deleteVPNUser a meta) (\<lambda>_. respond INTERNAL) (\<lambda>_. respond NoContent))"

definition HandleAdminAssignProfile :: "'r app \<Rightarrow> 'r world endpoint" where
  "HandleAdminAssignProfile a ctx r = vpnMetaByID r (\<lambda>meta.
     case decode_assign r of
       None \<Rightarrow> respond VALIDATION
     | Some req \<Rightarrow>
       handle (Registry_or_empty a) (\<lambda>_. respond INTERNAL) (\<lambda>reg.
       handle (assignVPNProfile a reg meta req True) (\<lambda>e. respond (assign_error e))
         (\<lambda>out. respond (WriteJSON 200 out))))"

definition HandleAdminConnectionBundle :: "'r app \<Rightarrow> 'r world endpoint" where
  "HandleAdminConnectionBundle a ctx r = vpnMetaByID r (\<lambda>meta.
     handle (GetUser a (meta_MikrotikName meta)) (\<lambda>_. respond NOT_FOUND) (\<lambda>u.
     handle (connectionBundleFor a meta (Some u)) (\<lambda>_. respond INTERNAL)
       (\<lambda>bundle. respond (WriteJSON 200 bundle))))"

definition HandleAdminDownloadOvpn :: "'r app \<Rightarrow> 'r world endpoint" where
  "HandleAdminDownloadOvpn a ctx r = vpnMetaByID r (\<lambda>meta. writeOvpnDownload a meta)"

definition HandleAdminRemoveProfile :: "'r app \<Rightarrow> 'r world endpoint" where
  "HandleAdminRemoveProfile a ctx r = vpnMetaByID r (\<lambda>meta.
     handle (removeVPNProfile a meta (rq_Param r ''profileRowId'')) (\<lambda>_. respond VALIDATION)
       (\<lambda>_. respond NoContent))"

end
