(* ===== verification/Renewals_Handlers.thy ===== *)
theory Renewals_Handlers
  imports Vpn_Handlers
begin

text \<open>
  The renewal ledger's handlers (app/renewals_handlers.go): the ledger of a manager, the ledger an
  administrator picks, and the settlement.
\<close>

definition renewal_item :: "renewal_row \<Rightarrow> json" where
  "renewal_item it = JObj
     [(''id'', JInt (rr_ID it)), (''renewed_at'', JStr (rr_RenewedAt it)),
      (''mikrotik_name'', JStr (rr_MikrotikName it)), (''shared_users'', JInt (rr_SharedUsers it)),
      (''profile_name'', JStr (rr_ProfileName it)), (''profile_state'', JStr (rr_ProfileState it)),
      (''mikrotik_end_time'', json_opt JStr (rr_MikrotikEndTime it)),
      (''is_settled'', JBool (rr_IsSettled it)), (''amount_paid'', json_opt JFloat (rr_AmountPaid it)),
      (''currency'', JStr (rr_Currency it))]"

definition renewal_scope :: "renewal_filter \<Rightarrow> ('r world, json) go" where
  "renewal_scope filt =
     (case rf_ManagerID filt of
        Some i \<Rightarrow> bindE (tryE (st (FindManagerByID i))) (\<lambda>mr.
          returnE (JObj ([(''orphan'', JBool (rf_OrphanOnly filt)), (''manager_id'', JInt i)] @
            (case mr of Inl _ \<Rightarrow> [] | Inr m \<Rightarrow> [(''manager_display_name'', JStr (mgr_DisplayName m))]))))
      | None \<Rightarrow> returnE (JObj ([(''orphan'', JBool (rf_OrphanOnly filt))] @
          (if rf_OrphanOnly filt then [(''manager_id'', JNull)] else []))))"

definition writeRenewals :: "'r app \<Rightarrow> renewal_filter \<Rightarrow> bool \<Rightarrow> 'r world handler" where
  "writeRenewals a filt canSettle =
     handle (st (ListRenewals filt)) (\<lambda>_. respond INTERNAL) (\<lambda>(items0, tot, _).
     handle (applyRenewalsLiveSharedUsers a filt items0) (\<lambda>_. respond UNAVAILABLE) (\<lambda>(summary, items).
     handle (renewal_scope filt) (\<lambda>_. respond INTERNAL) (\<lambda>scope.
     respond (WriteJSON 200 (JObj
       [(''scope'', scope), (''can_settle'', JBool canSettle),
        (''summary'', JObj [(''unsettled_shared_users_sum'', JInt (UnsettledSharedUsersSum summary)),
                            (''all_shared_users_sum'', JInt (AllSharedUsersSum summary))]),
        (''items'', json_slice (map renewal_item items)), (''page'', JInt (rf_Page filt)),
        (''page_size'', JInt (rf_PageSize filt)), (''total'', JInt tot)])))))"

definition HandleManagerRenewals :: "'r app \<Rightarrow> 'r world endpoint" where
  "HandleManagerRenewals a ctx r = require_manager ctx (\<lambda>c.
     writeRenewals a \<lparr>rf_ManagerID = Some (c_ManagerID c), rf_OrphanOnly = False,
       rf_Settled = rq_Query r ''settled'', rf_From = [], rf_To = [], rf_Query = rq_Query r ''q'',
       rf_Page = parsePage r, rf_PageSize = parsePageSize r\<rparr> False)"

definition admin_filter :: "request \<Rightarrow> renewal_filter" where
  "admin_filter r =
     (let v = rq_Query r ''manager_id'' in
      \<lparr>rf_ManagerID = (if v \<noteq> [] then Some (fst (parseInt v)) else None), rf_OrphanOnly = (v = []),
       rf_Settled = rq_Query r ''settled'', rf_From = rq_Query r ''from'', rf_To = rq_Query r ''to'',
       rf_Query = rq_Query r ''q'', rf_Page = parsePage r, rf_PageSize = parsePageSize r\<rparr>)"

definition HandleAdminRenewals :: "'r app \<Rightarrow> 'r world endpoint" where
  "HandleAdminRenewals a ctx r = writeRenewals a (admin_filter r) True"

record settle_req =
  sr_ThroughActivationID :: int
  sr_ManagerID :: "int option"

definition settle_fields :: "settle_req json_field list" where
  "settle_fields = [int_field ''through_activation_id'' sr_ThroughActivationID_update,
     int_ptr ''manager_id'' sr_ManagerID_update]"

definition HandleSettleThrough :: "'r app \<Rightarrow> 'r world endpoint" where
  "HandleSettleThrough a ctx r =
     (case ctx of
        None \<Rightarrow> respond FORBIDDEN
      | Some c \<Rightarrow>
        if c_Role c \<noteq> RoleAdmin then respond FORBIDDEN
        else case DecodeJSON settle_fields \<lparr>sr_ThroughActivationID = 0, sr_ManagerID = None\<rparr> r of
          None \<Rightarrow> respond VALIDATION
        | Some body \<Rightarrow>
          let through = \<lparr>rt_ActivationID = sr_ThroughActivationID body, rt_ManagerID = sr_ManagerID body,
                         rt_OrphanOnly = (sr_ManagerID body = None)\<rparr> in
          handle (st (FindAdminByUsername (c_Username c))) (\<lambda>_. respond INTERNAL) (\<lambda>adm.
          handle Now (\<lambda>_. respond INTERNAL) (\<lambda>now.
          handle (st (SettleThrough now (adm_ID adm) through))
            (\<lambda>_. respond (WriteError 403 ''NOT_IN_SCOPE''))
            (\<lambda>n. respond (WriteJSON 200 (JObj [(''updated_count'', JInt n)]))))))"

end
