(* ===== verification/Auth_Handlers.thy ===== *)
theory Auth_Handlers
  imports Vpn_Handlers
begin

text \<open>
  Login, tokens and the account of the caller (app/auth_handlers.go).
\<close>

record login_req =
  lr_Username :: string
  lr_Password :: string

definition login_fields :: "login_req json_field list" where
  "login_fields = [string_field ''username'' lr_Username_update, string_field ''password'' lr_Password_update]"

text \<open>\<open>manager_id\<close>, \<open>slug\<close> and \<open>name_prefix\<close> are omitted when nil.\<close>

definition login_json :: "token_pair \<Rightarrow> string \<Rightarrow> (string \<times> json) list \<Rightarrow> json" where
  "login_json pair role extra = JObj
     ([(''access_token'', JStr (AccessToken pair)), (''refresh_token'', JStr (RefreshToken pair)),
       (''role'', JStr role)] @ extra)"

definition new_pair :: "'r app \<Rightarrow> claims \<Rightarrow> ('r world, token_pair) go" where
  "new_pair a c = bindE Now (\<lambda>now. liftE (NewPair (JWT a) (Auth_Issuer a) now c))"

definition login_manager :: "'r app \<Rightarrow> login_req \<Rightarrow> 'r world handler" where
  "login_manager a req =
     handle (st (FindManagerByUsername (lr_Username req)))
       (\<lambda>e. respond (if e = ErrNoRows then UNAUTHORIZED else INTERNAL)) (\<lambda>mgr.
     if \<not> mgr_IsActive mgr then respond (WriteError 403 ''MANAGER_DISABLED'')
     else if \<not> Check a (mgr_PasswordHash mgr) (lr_Password req) then respond UNAUTHORIZED
     else handle (new_pair a (zero_claims\<lparr>c_Role := RoleManager, c_ManagerID := mgr_ID mgr,
                     c_Slug := mgr_Slug mgr, c_Username := mgr_Username mgr\<rparr>)) (\<lambda>_. respond INTERNAL) (\<lambda>pair.
       respond (WriteJSON 200 (login_json pair ''manager''
         [(''manager_id'', JInt (mgr_ID mgr)), (''slug'', JStr (mgr_Slug mgr)),
          (''name_prefix'', JStr (mgr_Slug mgr @ UsernamePrefixSep (Cfg a)))]))))"

definition HandleLogin :: "'r app \<Rightarrow> 'r world endpoint" where
  "HandleLogin a ctx r =
     (case DecodeJSON login_fields \<lparr>lr_Username = [], lr_Password = []\<rparr> r of
        None \<Rightarrow> respond VALIDATION
      | Some req \<Rightarrow>
        handle (st (FindAdminByUsername (lr_Username req))) (\<lambda>_. login_manager a req) (\<lambda>adm.
        if \<not> adm_IsActive adm \<or> \<not> Check a (adm_PasswordHash adm) (lr_Password req)
        then respond UNAUTHORIZED
        else handle (new_pair a (zero_claims\<lparr>c_Role := RoleAdmin, c_Username := adm_Username adm\<rparr>))
          (\<lambda>_. respond INTERNAL) (\<lambda>pair. respond (WriteJSON 200 (login_json pair ''admin'' [])))))"

definition HandleRefresh :: "'r app \<Rightarrow> 'r world endpoint" where
  "HandleRefresh a ctx r =
     (case DecodeJSON [string_field ''refresh_token'' RefreshToken_update]
             \<lparr>AccessToken = [], RefreshToken = []\<rparr> r of
        None \<Rightarrow> respond VALIDATION
      | Some req \<Rightarrow>
        handle Now (\<lambda>_. respond INTERNAL) (\<lambda>now.
        case Parse (JWT a) (Auth_Issuer a) now (RefreshToken req) of
          Inl _ \<Rightarrow> respond UNAUTHORIZED
        | Inr c \<Rightarrow>
          if c_TokenType c \<noteq> ''refresh'' then respond UNAUTHORIZED
          else handle (new_pair a c) (\<lambda>_. respond INTERNAL) (\<lambda>pair.
            respond (WriteJSON 200 (JObj [(''access_token'', JStr (AccessToken pair)),
                                          (''refresh_token'', JStr (RefreshToken pair))])))))"

definition HandleLogout :: "'r app \<Rightarrow> 'r world endpoint" where
  "HandleLogout a ctx r = respond NoContent"

definition HandleMe :: "'r app \<Rightarrow> 'r world endpoint" where
  "HandleMe a ctx r =
     (case ctx of
        None \<Rightarrow> respond UNAUTHORIZED
      | Some c \<Rightarrow>
        if c_Role c = RoleAdmin then
          handle (st (FindAdminByUsername (c_Username c))) (\<lambda>_. respond INTERNAL) (\<lambda>adm.
          respond (WriteJSON 200 (JObj [(''username'', JStr (adm_Username adm)), (''role'', JStr ''admin'')])))
        else
          handle (st (FindManagerByID (c_ManagerID c))) (\<lambda>_. respond INTERNAL) (\<lambda>mgr.
          handle (managerUsedQuota a (mgr_ID mgr)) (\<lambda>_. respond UNAVAILABLE) (\<lambda>used.
          respond (WriteJSON 200 (JObj
            [(''username'', JStr (mgr_Username mgr)), (''display_name'', JStr (mgr_DisplayName mgr)),
             (''slug'', JStr (mgr_Slug mgr)),
             (''name_prefix'', JStr (mgr_Slug mgr @ UsernamePrefixSep (Cfg a))),
             (''quota'', JInt (mgr_Quota mgr)), (''used_quota'', JInt used)])))))"

text \<open>
  \<open>json.Unmarshal(body, &req)\<close> with its error dropped: a display name of another type still
  allocates the pointer, so that it points to the empty string.
\<close>

definition patch_me_step :: "string option \<Rightarrow> string \<times> jval \<Rightarrow> string option" where
  "patch_me_step cur kv =
     (case snd kv of VStr s \<Rightarrow> Some s | VNull \<Rightarrow> None
      | _ \<Rightarrow> (case cur of None \<Rightarrow> Some [] | Some s \<Rightarrow> Some s))"

definition decode_patch_me :: "request \<Rightarrow> string option option" where
  "decode_patch_me r =
     (if rq_Trailing r then None
      else case rq_Body r of
        Some (VObj ms) \<Rightarrow>
          if \<exists>kv \<in> set ms. fst kv \<noteq> ''display_name'' then None
          else Some (foldl patch_me_step None ms)
      | Some VNull \<Rightarrow> Some None
      | _ \<Rightarrow> None)"

definition HandlePatchMe :: "'r app \<Rightarrow> 'r world endpoint" where
  "HandlePatchMe a ctx r =
     (case ctx of
        None \<Rightarrow> respond UNAUTHORIZED
      | Some c \<Rightarrow>
        case decode_patch_me r of
          None \<Rightarrow> respond VALIDATION
        | Some displayName \<Rightarrow>
          if c_Role c = RoleManager then
            (if displayName = None then respond VALIDATION
             else handle Now (\<lambda>_. respond INTERNAL) (\<lambda>now.
                  handle (st (UpdateManager now (c_ManagerID c) None displayName None None None))
                    (\<lambda>_. respond INTERNAL) (\<lambda>_. HandleMe a ctx r)))
          else HandleMe a ctx r)"

record change_pw_req =
  cp_CurrentPassword :: string
  cp_NewPassword :: string

definition change_pw_fields :: "change_pw_req json_field list" where
  "change_pw_fields = [string_field ''current_password'' cp_CurrentPassword_update,
     string_field ''new_password'' cp_NewPassword_update]"

abbreviation WRONG_PASSWORD :: response where
  "WRONG_PASSWORD \<equiv> WriteError 401 ''INVALID_CURRENT_PASSWORD''"

definition HandleChangePassword :: "'r app \<Rightarrow> 'r world endpoint" where
  "HandleChangePassword a ctx r =
     (case ctx of
        None \<Rightarrow> respond UNAUTHORIZED
      | Some c \<Rightarrow>
        case DecodeJSON change_pw_fields \<lparr>cp_CurrentPassword = [], cp_NewPassword = []\<rparr> r of
          None \<Rightarrow> respond VALIDATION
        | Some req \<Rightarrow>
          if \<not> ValidPanel (Unicode a) (cp_NewPassword req) then respond VALIDATION
          else if c_Role c = RoleAdmin then
            handle (st (FindAdminByUsername (c_Username c))) (\<lambda>_. respond WRONG_PASSWORD) (\<lambda>adm.
            if \<not> Check a (adm_PasswordHash adm) (cp_CurrentPassword req) then respond WRONG_PASSWORD
            else handle (Hash a (cp_NewPassword req)) (\<lambda>_. respond INTERNAL) (\<lambda>hash.
                 handle (st (UpdateAdminPassword (adm_ID adm) hash)) (\<lambda>_. respond INTERNAL)
                   (\<lambda>_. respond NoContent)))
          else
            handle (st (FindManagerByID (c_ManagerID c))) (\<lambda>_. respond WRONG_PASSWORD) (\<lambda>mgr.
            if \<not> Check a (mgr_PasswordHash mgr) (cp_CurrentPassword req) then respond WRONG_PASSWORD
            else handle (Hash a (cp_NewPassword req)) (\<lambda>_. respond INTERNAL) (\<lambda>hash.
                 handle Now (\<lambda>_. respond INTERNAL) (\<lambda>now.
                 handle (st (UpdateManager now (c_ManagerID c) None None None None (Some hash)))
                   (\<lambda>_. respond INTERNAL) (\<lambda>_. respond NoContent)))))"

definition HandleMeQuota :: "'r app \<Rightarrow> 'r world endpoint" where
  "HandleMeQuota a ctx r = require_manager ctx (\<lambda>c.
     handle (st (FindManagerByID (c_ManagerID c))) (\<lambda>_. respond INTERNAL) (\<lambda>mgr.
     handle (managerUsedQuota a (c_ManagerID c)) (\<lambda>_. respond UNAVAILABLE) (\<lambda>used.
     respond (WriteJSON 200 (JObj
       [(''quota'', JInt (mgr_Quota mgr)), (''used'', JInt used),
        (''available'', JInt (i64 (mgr_Quota mgr - used)))])))))"

end
