(* ===== verification/Server.thy ===== *)
theory Server
  imports Admin_Handlers Renewals_Handlers Auth_Handlers
begin

text \<open>
  The router (server/server.go): the route table, the two middlewares and the health check. A path
  is the list of its segments. chi tries a literal segment before a parameter, which the order of
  the table reproduces; a parameter at the end of a path is not empty. \<open>/api/v1/admin\<close> is mounted
  as a router of its own behind both middlewares, so they answer before an unknown path below it
  does; the other protected routes are a group, where the middleware wraps each route. CORS, request
  ids and logging change neither state nor answer and are left out.
\<close>

datatype seg = Lit string | Par string

type_synonym 'r route = "string \<times> seg list \<times> 'r world endpoint"

fun match_path :: "seg list \<Rightarrow> string list \<Rightarrow> (string \<times> string) list option" where
  "match_path [] [] = Some []"
| "match_path (Lit s # ps) (x # xs) = (if s = x then match_path ps xs else None)"
| "match_path (Par p # ps) (x # xs) =
     (if x = [] \<and> xs = [] then None else map_option (\<lambda>m. (p, x) # m) (match_path ps xs))"
| "match_path _ _ = None"

definition with_params :: "(string \<times> string) list \<Rightarrow> request \<Rightarrow> request" where
  "with_params ps r = r\<lparr>rq_Param := (\<lambda>k. case map_of ps k of None \<Rightarrow> [] | Some v \<Rightarrow> v)\<rparr>"

abbreviation NotFound404 :: response where "NotFound404 \<equiv> WriteError 404 []"
abbreviation MethodNotAllowed :: response where "MethodNotAllowed \<equiv> WriteError 405 []"

definition path_matches :: "string list \<Rightarrow> 'r route \<Rightarrow> bool" where
  "path_matches path rt = (match_path (fst (snd rt)) path \<noteq> None)"

definition dispatch :: "'r route list \<Rightarrow> string \<Rightarrow> string list \<Rightarrow> 'r world endpoint" where
  "dispatch routes meth path ctx r =
     (case find (\<lambda>rt. fst rt = meth \<and> path_matches path rt) routes of
        Some (_, pat, h) \<Rightarrow> h ctx (with_params (the (match_path pat path)) r)
      | None \<Rightarrow> respond (if list_ex (path_matches path) routes then MethodNotAllowed else NotFound404))"

definition Store_Ping :: "(db, unit) go" where
  "Store_Ping = query S_Ping (\<lambda>_. Inr ())"

definition HandleHealth :: "'r app \<Rightarrow> 'r world endpoint" where
  "HandleHealth a ctx r =
     handle (tryE (st Store_Ping)) (\<lambda>_. respond INTERNAL) (\<lambda>dbR.
     handle (tryE (mt (cl_Ping (MT a)))) (\<lambda>_. respond INTERNAL) (\<lambda>mtR.
     let dbOK = (dbR = Inr ()); mtOK = (mtR = Inr ()) in
     respond (WriteJSON 200 (JObj
       [(''status'', JStr (if \<not> dbOK then ''degraded'' else ''ok'')), (''db'', JBool dbOK),
        (''mikrotik'', JBool mtOK)]))))"

section \<open>Routes\<close>

abbreviation (input) api :: "seg list \<Rightarrow> seg list" where "api ps \<equiv> Lit ''api'' # Lit ''v1'' # ps"

definition public_routes :: "'r app \<Rightarrow> 'r route list" where
  "public_routes a =
     [(''GET'', [Lit ''health''], HandleHealth a),
      (''POST'', api [Lit ''auth'', Lit ''login''], HandleLogin a),
      (''POST'', api [Lit ''auth'', Lit ''refresh''], HandleRefresh a)]"

definition user_routes :: "'r app \<Rightarrow> 'r route list" where
  "user_routes a =
     [(''POST'', api [Lit ''auth'', Lit ''logout''], HandleLogout a),
      (''GET'', api [Lit ''me''], HandleMe a),
      (''PATCH'', api [Lit ''me''], HandlePatchMe a),
      (''POST'', api [Lit ''me'', Lit ''password''], HandleChangePassword a),
      (''GET'', api [Lit ''me'', Lit ''quota''], HandleMeQuota a),
      (''GET'', api [Lit ''vpn-users''], HandleListVPNUsers a),
      (''POST'', api [Lit ''vpn-users''], HandleCreateVPNUser a),
      (''GET'', api [Lit ''vpn-users'', Lit ''by-name'', Par ''name''], HandleGetVPNUserByName a),
      (''PATCH'', api [Lit ''vpn-users'', Lit ''by-name'', Par ''name''], HandlePatchVPNUserByName a),
      (''DELETE'', api [Lit ''vpn-users'', Lit ''by-name'', Par ''name''], HandleDeleteVPNUserByName a),
      (''POST'', api [Lit ''vpn-users'', Lit ''by-name'', Par ''name'', Lit ''assign-profile''], HandleAssignProfileByName a),
      (''GET'', api [Lit ''vpn-users'', Lit ''by-name'', Par ''name'', Lit ''connection''], HandleConnectionBundleByName a),
      (''GET'', api [Lit ''vpn-users'', Lit ''by-name'', Par ''name'', Lit ''ovpn''], HandleDownloadOvpnByName a),
      (''DELETE'', api [Lit ''vpn-users'', Lit ''by-name'', Par ''name'', Lit ''profiles'', Par ''profileRowId''], HandleRemoveProfileByName a),
      (''GET'', api [Lit ''vpn-users'', Par ''id''], HandleGetVPNUser a),
      (''PATCH'', api [Lit ''vpn-users'', Par ''id''], HandlePatchVPNUser a),
      (''DELETE'', api [Lit ''vpn-users'', Par ''id''], HandleDeleteVPNUser a),
      (''POST'', api [Lit ''vpn-users'', Par ''id'', Lit ''assign-profile''], HandleAssignProfile a),
      (''GET'', api [Lit ''vpn-users'', Par ''id'', Lit ''connection''], HandleConnectionBundle a),
      (''GET'', api [Lit ''vpn-users'', Par ''id'', Lit ''ovpn''], HandleDownloadOvpn a),
      (''DELETE'', api [Lit ''vpn-users'', Par ''id'', Lit ''profiles'', Par ''profileRowId''], HandleRemoveProfile a),
      (''GET'', api [Lit ''renewals''], HandleManagerRenewals a)]"

text \<open>Below \<open>/api/v1/admin\<close>.\<close>

definition admin_routes :: "'r app \<Rightarrow> 'r route list" where
  "admin_routes a =
     [(''GET'', [Lit ''stats''], HandleAdminStats a),
      (''GET'', [Lit ''managers''], HandleListManagers a),
      (''POST'', [Lit ''managers''], HandleCreateManager a),
      (''PATCH'', [Lit ''managers'', Par ''id''], HandlePatchManager a),
      (''GET'', [Lit ''vpn-users''], HandleAdminListVPNUsers a),
      (''POST'', [Lit ''vpn-users''], HandleAdminCreateVPNUser a),
      (''GET'', [Lit ''vpn-users'', Lit ''by-name'', Par ''name''], HandleAdminGetVPNUserByName a),
      (''PATCH'', [Lit ''vpn-users'', Lit ''by-name'', Par ''name''], HandleAdminPatchVPNUserByName a),
      (''DELETE'', [Lit ''vpn-users'', Lit ''by-name'', Par ''name''], HandleAdminDeleteVPNUserByName a),
      (''POST'', [Lit ''vpn-users'', Lit ''by-name'', Par ''name'', Lit ''assign-profile''], HandleAdminAssignProfileByName a),
      (''GET'', [Lit ''vpn-users'', Lit ''by-name'', Par ''name'', Lit ''connection''], HandleAdminConnectionBundleByName a),
      (''GET'', [Lit ''vpn-users'', Lit ''by-name'', Par ''name'', Lit ''ovpn''], HandleAdminDownloadOvpnByName a),
      (''DELETE'', [Lit ''vpn-users'', Lit ''by-name'', Par ''name'', Lit ''profiles'', Par ''profileRowId''], HandleAdminRemoveProfileByName a),
      (''GET'', [Lit ''vpn-users'', Par ''id''], HandleAdminGetVPNUser a),
      (''PATCH'', [Lit ''vpn-users'', Par ''id''], HandleAdminPatchVPNUser a),
      (''DELETE'', [Lit ''vpn-users'', Par ''id''], HandleAdminDeleteVPNUser a),
      (''POST'', [Lit ''vpn-users'', Par ''id'', Lit ''assign-profile''], HandleAdminAssignProfile a),
      (''GET'', [Lit ''vpn-users'', Par ''id'', Lit ''connection''], HandleAdminConnectionBundle a),
      (''GET'', [Lit ''vpn-users'', Par ''id'', Lit ''ovpn''], HandleAdminDownloadOvpn a),
      (''DELETE'', [Lit ''vpn-users'', Par ''id'', Lit ''profiles'', Par ''profileRowId''], HandleAdminRemoveProfile a),
      (''GET'', [Lit ''renewals''], HandleAdminRenewals a),
      (''POST'', [Lit ''renewals'', Lit ''settle-through''], HandleSettleThrough a)]"

text \<open>The middleware reads the clock to check the expiry of the token.\<close>

definition authenticated :: "'r app \<Rightarrow> 'r world endpoint \<Rightarrow> 'r world endpoint" where
  "authenticated a h ctx r w = Middleware (JWT a) (Auth_Issuer a) (w_now w) h ctx r w"

definition protect :: "'r app \<Rightarrow> 'r route \<Rightarrow> 'r route" where
  "protect a rt = (fst rt, fst (snd rt), authenticated a (snd (snd rt)))"

definition serve :: "'r app \<Rightarrow> string \<Rightarrow> string list \<Rightarrow> request \<Rightarrow> 'r world handler" where
  "serve a meth path r =
     (case path of
        x # y # z # rest \<Rightarrow>
          if [x, y, z] = [''api'', ''v1'', ''admin'']
          then authenticated a (RequireAdmin (dispatch (admin_routes a) meth rest)) None r
          else dispatch (public_routes a @ map (protect a) (user_routes a)) meth path None r
      | _ \<Rightarrow> dispatch (public_routes a @ map (protect a) (user_routes a)) meth path None r)"

end
