(* ===== verification/Store_Statements.thy ===== *)
theory Store_Statements
  imports Store_Inv Owner
begin

text \<open>
  What requests do to the database, statement by statement. SQLite runs the statements of concurrent
  requests one after the other, and a method of the store is one statement, except \<open>UpdateManager\<close>,
  \<open>UpdateVPNMeta\<close> and \<open>SettleThrough\<close>, which read first: there the statement that writes is a step of
  its own. \<open>db_statement\<close> is any of them with any arguments, so its sequences contain what every
  interleaving of requests does. \<open>store_invariant\<close> is the contract of a predicate that the statements
  keep; the methods of the store, and later the handlers, inherit it. \<open>CreateManager\<close> is set apart in
  \<open>statement_invariant\<close>, because some predicates hold only through what its handler checks first.
\<close>

section \<open>Statements\<close>

inductive db_statement :: "db \<Rightarrow> db \<Rightarrow> bool" where
  CreateAdmin: "db_statement d (snd (CreateAdmin u h d))"
| UpdateAdminPassword: "db_statement d (snd (UpdateAdminPassword i h d))"
| CreateManager: "db_statement d (snd (CreateManager now m d))"
| UpdateManagerCert: "db_statement d (snd (UpdateManagerCert now i title pass d))"
| ClearManagerCert: "db_statement d (snd (ClearManagerCert now i d))"
| write_manager: "db_statement d (snd (write_manager now i m d))"
| CreateVPNMeta: "db_statement d (snd (CreateVPNMeta now v d))"
| UpdateVPNMetaCert: "db_statement d (snd (UpdateVPNMetaCert now i title pass d))"
| ClearVPNMetaCert: "db_statement d (snd (ClearVPNMetaCert now i d))"
| write_meta: "db_statement d (snd (write_meta now i v d))"
| DeleteVPNMeta: "db_statement d (snd (DeleteVPNMeta i d))"
| CreateActivation: "db_statement d (snd (CreateActivation now act d))"
| UpdateLatestUnsettled: "db_statement d (snd (UpdateLatestUnsettledActivationSharedUsers i n d))"
| UpdateActivationSharedUsers: "db_statement d (snd (UpdateActivationSharedUsers i n d))"
| settle_rows: "db_statement d (snd (settle_rows now adm scope act d))"

section \<open>Contracts\<close>

locale store_invariant =
  fixes D :: "db \<Rightarrow> bool"
  assumes CreateAdmin_keeps [preserves_intro]: "preserves D (CreateAdmin u h)"
    and UpdateAdminPassword_keeps [preserves_intro]: "preserves D (UpdateAdminPassword i h)"
    and UpdateManagerCert_keeps [preserves_intro]: "preserves D (UpdateManagerCert now i title pass)"
    and ClearManagerCert_keeps [preserves_intro]: "preserves D (ClearManagerCert now i)"
    and write_manager_keeps [preserves_intro]: "preserves D (write_manager now i m)"
    and CreateVPNMeta_keeps [preserves_intro]: "preserves D (CreateVPNMeta now v)"
    and UpdateVPNMetaCert_keeps [preserves_intro]: "preserves D (UpdateVPNMetaCert now i title pass)"
    and ClearVPNMetaCert_keeps [preserves_intro]: "preserves D (ClearVPNMetaCert now i)"
    and write_meta_keeps [preserves_intro]: "preserves D (write_meta now i v)"
    and DeleteVPNMeta_keeps [preserves_intro]: "preserves D (DeleteVPNMeta i)"
    and CreateActivation_keeps [preserves_intro]: "preserves D (CreateActivation now act)"
    and UpdateLatestUnsettled_keeps [preserves_intro]:
      "preserves D (UpdateLatestUnsettledActivationSharedUsers i n)"
    and UpdateActivationSharedUsers_keeps [preserves_intro]: "preserves D (UpdateActivationSharedUsers i n)"
    and settle_rows_keeps [preserves_intro]: "preserves D (settle_rows now adm scope act)"

locale statement_invariant = store_invariant +
  assumes CreateManager_keeps [preserves_intro]: "preserves D (CreateManager now m)"

context store_invariant
begin

lemma UpdateManager_keeps [preserves_intro]: "preserves D (UpdateManager now i mu md mq ma mp)"
  unfolding UpdateManager_def by (intro preserves_intro)

lemma UpdateVPNMeta_keeps [preserves_intro]: "preserves D (UpdateVPNMeta now i vc vn vm)"
  unfolding UpdateVPNMeta_def by (intro preserves_intro)

lemma SettleThrough_keeps [preserves_intro]: "preserves D (SettleThrough now i t)"
  unfolding SettleThrough_def by (intro preserves_intro)

end

context statement_invariant
begin

lemma statement_keeps: "db_statement d d' \<Longrightarrow> D d \<Longrightarrow> D d'"
  by (erule db_statement.cases; hypsubst; erule preservesD [rotated]; intro preserves_intro)

lemma statements_keep: "db_statement\<^sup>*\<^sup>* d d' \<Longrightarrow> D d \<Longrightarrow> D d'"
  by (induction rule: rtranclp_induct) (auto intro: statement_keeps)

end

section \<open>Predicates that statements keep\<close>

text \<open>
  No two managers have overlapping slugs. Only \<open>CreateManager\<close> adds a slug, and its handler checks
  the new one, unless the query for the old ones fails.
\<close>

definition slugs_ok :: "db \<Rightarrow> bool" where
  "slugs_ok d \<longleftrightarrow> slugs_apart (map mgr_Slug (db_managers d)) \<and> \<not> db_fault d S_ListManagerSlugs"

text \<open>A settlement, once made, is never reopened, and who made it and when stays as it was.\<close>

definition settled_as :: "int \<Rightarrow> string option \<Rightarrow> int option \<Rightarrow> db \<Rightarrow> bool" where
  "settled_as i at adm d \<longleftrightarrow> i \<le> seq_acts d \<and>
     (\<forall>r \<in> set (db_acts d). act_ID r = i \<longrightarrow>
        act_IsSettled r \<and> act_SettledAt r = at \<and> act_SettledByAdminID r = adm)"

text \<open>A manager stays, and its slug never changes, so the names of its users stay its own.\<close>

definition slug_is :: "int \<Rightarrow> string \<Rightarrow> db \<Rightarrow> bool" where
  "slug_is i s d \<longleftrightarrow> i \<le> seq_managers d \<and> i \<in> set (map mgr_ID (db_managers d))
     \<and> (\<forall>m \<in> set (db_managers d). mgr_ID m = i \<longrightarrow> mgr_Slug m = s)"

lemma mem_update_by: "x \<in> set (update_by key i f xs) \<Longrightarrow> \<exists>y \<in> set xs. x = (if key y = i then f y else y)"
  by (auto simp: update_by_def)

lemma image_update_by:
  assumes "\<And>x. h (f x) = h x"
  shows "h ` set (update_by key i f xs) = h ` set xs"
  unfolding update_by_def set_map image_image by (rule image_cong [OF refl]) (simp add: assms)

lemma put_manager_simps [simp]:
  "mgr_ID (put_manager now m r) = mgr_ID r" "mgr_Slug (put_manager now m r) = mgr_Slug r"
  by (simp_all add: put_manager_def)

text \<open>What a successful update of a manager is: the five columns of the given record.\<close>

lemma update_by_absent: "i \<notin> set (map key xs) \<Longrightarrow> update_by key i f xs = xs"
  by (induction xs) (auto simp: update_by_def)

lemma write_manager_run:
  "write_manager now i m d = (Inr x, d') \<Longrightarrow>
     d' = d\<lparr>db_managers := update_by mgr_ID i (put_manager now m) (db_managers d)\<rparr>"
  by (auto simp: write_manager_def exec_Inr_iff update_by_absent split: if_splits)

lemma UpdateManager_run:
  assumes "UpdateManager now i username displayName quota isActive hash d = (Inr x, d')"
  obtains m where "find_by mgr_ID i (db_managers d) = Some m"
    "write_manager now i (merge_manager username displayName quota isActive hash m) d = (Inr x, d')"
  using assms by (auto simp: UpdateManager_def bindE_Inr_iff FindManagerByID_def query_Inr_iff one_row_Inr_iff)

lemma preserves_execI:
  "(\<And>d. D d \<Longrightarrow> D (snd (m d))) \<Longrightarrow> preserves D (exec s m)"
  by (intro preserves_exec preservesI)

lemmas store_defs = CreateAdmin_def UpdateAdminPassword_def UpdateManagerCert_def ClearManagerCert_def
  write_manager_def CreateVPNMeta_def UpdateVPNMetaCert_def ClearVPNMetaCert_def write_meta_def
  DeleteVPNMeta_def CreateActivation_def UpdateLatestUnsettledActivationSharedUsers_def
  UpdateActivationSharedUsers_def settle_rows_def CreateManager_def

text \<open>The integrity of the database; a settlement; a slug; what can be reached by statements.\<close>

interpretation db_integrity: statement_invariant db_ok
  by unfold_locales (intro preserves_intro)+

interpretation slugs: store_invariant slugs_ok
  by unfold_locales (auto simp: store_defs slugs_ok_def Let_def map_update_by intro!: preserves_execI split: option.split)

interpretation settled: statement_invariant "settled_as i at adm" for i at adm
  by unfold_locales (auto simp: store_defs settled_as_def settle_where_def Let_def dest!: mem_update_by
      intro!: preserves_execI split: option.split)

interpretation slug: statement_invariant "slug_is i s" for i s
  by unfold_locales (auto simp: store_defs slug_is_def image_update_by Let_def dest!: mem_update_by
      intro!: preserves_execI split: option.split if_splits)

interpretation reached: statement_invariant "db_statement\<^sup>*\<^sup>* d0" for d0
  by unfold_locales (auto intro!: preservesI intro: rtranclp.rtrancl_into_rtrancl db_statement.intros)

end
