(* ===== verification/Router_Steps.thy ===== *)
theory Router_Steps
  imports Mikrotik_Cached
begin

text \<open>
  What requests do to the router behind its cache, step by step. A step is a call of the client below
  the cache, which holds that client's lock, or an assignment to the fields of the cache, which no lock
  protects: every assignment is allowed, so that sequences of steps contain what every interleaving of
  requests does. A predicate that both keep is an invariant of every method of \<open>CachedClient\<close>
  (\<open>command_invariant\<close>); the contract of the router is one, the truth of the cache is not.
\<close>

section \<open>Steps\<close>

inductive router_step :: "'r client \<Rightarrow> 'r cached \<Rightarrow> 'r cached \<Rightarrow> bool" for C :: "'r client" where
  Ping: "router_step C c (snd (inner (cl_Ping C) c))"
| ListUsers: "router_step C c (snd (inner (cl_ListUsers C now) c))"
| AddUser: "router_step C c (snd (inner (cl_AddUser C name pw comment shared dis) c))"
| SetUser: "router_step C c (snd (inner (cl_SetUser C name pwo so comment diso) c))"
| RemoveUser: "router_step C c (snd (inner (cl_RemoveUser C name) c))"
| ListUserProfiles: "router_step C c (snd (inner (cl_ListUserProfiles C now name) c))"
| AddUserProfile: "router_step C c (snd (inner (cl_AddUserProfile C now name profile) c))"
| RemoveUserProfile: "router_step C c (snd (inner (cl_RemoveUserProfile C i) c))"
| GenerateCertificate: "router_step C c (snd (inner (cl_GenerateCertificate C script title pass) c))"
| ReadFileContents: "router_step C c (snd (inner (cl_ReadFileContents C file_name) c))"
| WriteFileContents: "router_step C c (snd (inner (cl_WriteFileContents C file_name body) c))"
| FileExists: "router_step C c (snd (inner (cl_FileExists C file_name) c))"
| InvalidateCache: "router_step C c (c\<lparr>cc_inner := cl_InvalidateCache C (cc_inner c)\<rparr>)"
| assign: "cc_inner c' = cc_inner c \<Longrightarrow> router_step C c c'"

section \<open>Invariants of the steps\<close>

locale command_invariant =
  fixes C :: "'r client" and R :: "'r cached \<Rightarrow> bool"
  assumes Ping_keeps [preserves_intro]: "preserves R (inner (cl_Ping C))"
    and ListUsers_keeps [preserves_intro]: "preserves R (inner (cl_ListUsers C now))"
    and AddUser_keeps [preserves_intro]: "preserves R (inner (cl_AddUser C name pw comment shared dis))"
    and SetUser_keeps [preserves_intro]: "preserves R (inner (cl_SetUser C name pwo so comment diso))"
    and RemoveUser_keeps [preserves_intro]: "preserves R (inner (cl_RemoveUser C name))"
    and ListUserProfiles_keeps [preserves_intro]: "preserves R (inner (cl_ListUserProfiles C now name))"
    and AddUserProfile_keeps [preserves_intro]: "preserves R (inner (cl_AddUserProfile C now name profile))"
    and RemoveUserProfile_keeps [preserves_intro]: "preserves R (inner (cl_RemoveUserProfile C i))"
    and GenerateCertificate_keeps [preserves_intro]: "preserves R (inner (cl_GenerateCertificate C script title pass))"
    and ReadFileContents_keeps [preserves_intro]: "preserves R (inner (cl_ReadFileContents C file_name))"
    and WriteFileContents_keeps [preserves_intro]: "preserves R (inner (cl_WriteFileContents C file_name body))"
    and FileExists_keeps [preserves_intro]: "preserves R (inner (cl_FileExists C file_name))"
    and InvalidateCache_keeps: "R c \<Longrightarrow> R (c\<lparr>cc_inner := cl_InvalidateCache C (cc_inner c)\<rparr>)"
    and assign_keeps: "R c \<Longrightarrow> cc_inner c' = cc_inner c \<Longrightarrow> R c'"

context command_invariant
begin

lemma step_keeps: "router_step C c c' \<Longrightarrow> R c \<Longrightarrow> R c'"
  by (erule router_step.cases; hypsubst;
      (erule InvalidateCache_keeps | erule (1) assign_keeps | (erule preservesD [rotated], intro preserves_intro)))

lemma steps_keep: "(router_step C)\<^sup>*\<^sup>* c c' \<Longrightarrow> R c \<Longrightarrow> R c'"
  by (induction rule: rtranclp_induct) (auto intro: step_keeps)

lemma returning [preserves_intro]: "(\<And>c. cc_inner (f c) = cc_inner c) \<Longrightarrow> preserves R (\<lambda>c. (r, f c))"
  by (rule preservesI) (auto intro: assign_keeps)

lemma Cached_Invalidate: "R c \<Longrightarrow> R (Cached_InvalidateCache C c)"
  unfolding Cached_InvalidateCache_def
  by (rule assign_keeps [where c = "c\<lparr>cc_inner := cl_InvalidateCache C (cc_inner c)\<rparr>"])
    (simp_all add: InvalidateCache_keeps)

lemma write_through [preserves_intro]: "preserves R (inner m) \<Longrightarrow> preserves R (write_through C m)"
  unfolding write_through_def by (rule preserves_bindE) (auto intro!: preservesI Cached_Invalidate)

lemma Cached_ListUsers_inv [preserves_intro]: "preserves R (Cached_ListUsers C ttl now)"
proof -
  have "preserves R (bindE (inner (cl_ListUsers C now)) (\<lambda>u c'. (Inr u, c'\<lparr>cc_users := u, cc_usersAt := now\<rparr>)))"
    by (intro preserves_intro) simp
  then show ?thesis by (auto simp: preserves_def Cached_ListUsers_def)
qed

lemma Cached_RefreshListUsers_inv [preserves_intro]: "preserves R (Cached_RefreshListUsers C ttl now)"
proof (rule preservesI)
  fix c assume "R c"
  then have "R (c\<lparr>cc_users := []\<rparr>)" by (rule assign_keeps) simp
  then show "R (snd (Cached_RefreshListUsers C ttl now c))"
    using Cached_ListUsers_inv by (simp add: Cached_RefreshListUsers_def Cached_forceUsers_def preserves_def)
qed

lemma Cached_ListUserProfiles_inv [preserves_intro]: "preserves R (Cached_ListUserProfiles C ttl now user)"
proof -
  have "preserves R (bindE (inner (cl_ListUserProfiles C now user)) (\<lambda>p c'.
      (Inr p, c'\<lparr>cc_profiles := (cc_profiles c')(user \<mapsto> p), cc_profilesAt := now\<rparr>)))"
    by (intro preserves_intro) simp
  then show ?thesis by (auto simp: preserves_def Cached_ListUserProfiles_def split: option.split bool.split)
qed

lemma Cached_inv [preserves_intro]:
  "preserves R (Cached_GetUser C ttl now name)" "preserves R (Cached_AddUser C name pw comment shared dis)"
  "preserves R (Cached_SetUser C name pwo so comment diso)" "preserves R (Cached_RemoveUser C name)"
  "preserves R (Cached_AddUserProfile C now name profile)" "preserves R (Cached_RemoveUserProfile C i)"
  unfolding Cached_GetUser_def Cached_AddUser_def Cached_SetUser_def Cached_RemoveUser_def
    Cached_AddUserProfile_def Cached_RemoveUserProfile_def
  by (intro preserves_intro)+

end

text \<open>What can be reached by steps.\<close>

lemma reached_by: "(\<And>c. router_step C c (snd (m c))) \<Longrightarrow> preserves ((router_step C)\<^sup>*\<^sup>* c0) m"
  by (rule preservesI) (blast intro: rtranclp.rtrancl_into_rtrancl)

interpretation router_reached: command_invariant C "(router_step C)\<^sup>*\<^sup>* c0" for C :: "'r client" and c0
proof unfold_locales
  show "(router_step C)\<^sup>*\<^sup>* c0 (c\<lparr>cc_inner := cl_InvalidateCache C (cc_inner c)\<rparr>)"
    if "(router_step C)\<^sup>*\<^sup>* c0 c" for c
    using that router_step.InvalidateCache by (rule rtranclp.rtrancl_into_rtrancl)
  show "(router_step C)\<^sup>*\<^sup>* c0 c'" if "(router_step C)\<^sup>*\<^sup>* c0 c" "cc_inner c' = cc_inner c" for c c'
    using that(1) router_step.assign [OF that(2)] by (rule rtranclp.rtrancl_into_rtrancl)
qed (intro reached_by router_step.intros)+

section \<open>The contract of the router\<close>

lemma preserves_inner: "preserves ok m \<Longrightarrow> preserves (\<lambda>c. ok (cc_inner c)) (inner m)"
  by (auto simp: preserves_def inner_def split: prod.split)

context user_manager
begin

lemma preserves_ok:
  "preserves ok (cl_Ping C)" "preserves ok (cl_ListUsers C now)" "preserves ok (cl_GetUser C now name)"
  "preserves ok (cl_AddUser C name pw comment shared dis)"
  "preserves ok (cl_SetUser C name pwo so comment diso)" "preserves ok (cl_RemoveUser C name)"
  "preserves ok (cl_ListUserProfiles C now name)" "preserves ok (cl_AddUserProfile C now name profile)"
  "preserves ok (cl_RemoveUserProfile C i)" "preserves ok (cl_GenerateCertificate C script title pass)"
  "preserves ok (cl_ReadFileContents C file_name)" "preserves ok (cl_WriteFileContents C file_name body)"
  "preserves ok (cl_FileExists C file_name)"
proof -
  show "preserves ok (cl_Ping C)" by (rule preserves_resultI) (auto dest: Ping_keeps)
  show "preserves ok (cl_ListUsers C now)" by (rule preserves_resultI) (auto dest: ListUsers_frame)
  show "preserves ok (cl_GetUser C now name)" by (rule preserves_resultI) (auto dest: GetUser_frame)
  show "preserves ok (cl_AddUser C name pw comment shared dis)"
    by (rule preserves_resultI) (auto dest: AddUser_Inl AddUser_Inr)
  show "preserves ok (cl_SetUser C name pwo so comment diso)"
    by (rule preserves_resultI) (auto dest: SetUser_Inl SetUser_Inr)
  show "preserves ok (cl_RemoveUser C name)" by (rule preserves_resultI) (auto dest: RemoveUser_Inl RemoveUser_Inr)
  show "preserves ok (cl_ListUserProfiles C now name)" by (rule preserves_resultI) (auto dest: ListUserProfiles_frame)
  show "preserves ok (cl_AddUserProfile C now name profile)"
    by (rule preserves_resultI) (auto dest: AddUserProfile_Inl AddUserProfile_Inr)
  show "preserves ok (cl_RemoveUserProfile C i)"
    by (rule preserves_resultI) (auto dest: RemoveUserProfile_Inl RemoveUserProfile_Inr)
  show "preserves ok (cl_GenerateCertificate C script title pass)"
    by (rule preserves_resultI) (auto dest: Generate_keeps)
  show "preserves ok (cl_ReadFileContents C file_name)" by (rule preserves_resultI) (auto dest: Read_keeps)
  show "preserves ok (cl_WriteFileContents C file_name body)" by (rule preserves_resultI) (auto dest: Write_keeps)
  show "preserves ok (cl_FileExists C file_name)" by (rule preserves_resultI) (auto dest: Exists_keeps)
qed

end

sublocale user_manager \<subseteq> contract: command_invariant C "\<lambda>c. ok (cc_inner c)"
proof unfold_locales
  show "ok (cc_inner (c\<lparr>cc_inner := cl_InvalidateCache C (cc_inner c)\<rparr>))" if "ok (cc_inner c)" for c
    using InvalidateCache_frame [OF that] by simp
  show "ok (cc_inner c')" if "ok (cc_inner c)" "cc_inner c' = cc_inner c" for c c'
    using that by simp
qed (intro preserves_inner preserves_ok)+

context user_manager
begin

text \<open>However requests interleave, the router keeps its contract.\<close>

lemma contract_command: "command_invariant C (\<lambda>c. ok (cc_inner c))"
  by (rule contract.command_invariant_axioms)

end

end
