(* ===== verification/Panel_Inv.thy ===== *)
theory Panel_Inv
  imports Server Store_Statements Router_Steps
begin

text \<open>
  Invariants of the whole panel. \<open>store_invariant\<close> is the contract of a database predicate that every
  method of the store keeps, \<open>router_invariant\<close> that of a predicate of the cached router that every
  method of the client keeps; \<open>panel_invariant\<close> joins them and lifts them, through the service layer
  and the handlers, to every request the server answers. \<open>CreateManager\<close> is left to its handler,
  because what that handler checks first matters for some predicates: the lemmas about it take the
  extra hypothesis that the handler keeps the predicate.
\<close>

section \<open>Contracts\<close>

locale router_invariant =
  fixes a :: "'r app" and R :: "'r cached \<Rightarrow> bool"
  assumes Ping_inv [preserves_intro]: "preserves R (cl_Ping (MT a))"
    and ListUsers_inv [preserves_intro]: "preserves R (cl_ListUsers (MT a) now)"
    and RefreshListUsers_inv [preserves_intro]:
      "preserves R (Cached_RefreshListUsers (Router a) (MikrotikCacheTTL (Cfg a)) now)"
    and GetUser_inv [preserves_intro]: "preserves R (cl_GetUser (MT a) now name)"
    and AddUser_inv [preserves_intro]: "preserves R (cl_AddUser (MT a) name pw comment shared dis)"
    and SetUser_inv [preserves_intro]: "preserves R (cl_SetUser (MT a) name pwo so comment diso)"
    and RemoveUser_inv [preserves_intro]: "preserves R (cl_RemoveUser (MT a) name)"
    and ListUserProfiles_inv [preserves_intro]: "preserves R (cl_ListUserProfiles (MT a) now name)"
    and AddUserProfile_inv [preserves_intro]: "preserves R (cl_AddUserProfile (MT a) now name profile)"
    and RemoveUserProfile_inv [preserves_intro]: "preserves R (cl_RemoveUserProfile (MT a) i)"
    and GenerateCertificate_inv [preserves_intro]: "preserves R (cl_GenerateCertificate (MT a) script title pass)"
    and ReadFileContents_inv [preserves_intro]: "preserves R (cl_ReadFileContents (MT a) file_name)"
    and WriteFileContents_inv [preserves_intro]: "preserves R (cl_WriteFileContents (MT a) file_name body)"

locale panel_invariant = store_invariant D + router_invariant a R
  for D :: "db \<Rightarrow> bool" and a :: "'r app" and R :: "'r cached \<Rightarrow> bool"

section \<open>Reading\<close>

context panel_invariant
begin

lemma Registry_inv [preserves_intro]: "preserves (panel_inv D R) (Registry a)"
  unfolding Registry_def by (intro preserves_intro)

lemma Registry_or_empty_inv [preserves_intro]: "preserves (panel_inv D R) (Registry_or_empty a)"
  unfolding Registry_or_empty_def by (intro preserves_intro)

lemma Hash_inv [preserves_intro]: "preserves (panel_inv D R) (Hash a plain)"
  unfolding Hash_def by (intro preserves_intro)

lemma BootstrapAdmin_inv [preserves_intro]: "preserves (panel_inv D R) (BootstrapAdmin a)"
  unfolding BootstrapAdmin_def by (intro preserves_intro)

lemma UsedForManager_inv [preserves_intro]:
  "(\<And>n. preserves I (pf n)) \<Longrightarrow> preserves I (UsedForManager reg m us pf now)"
  unfolding UsedForManager_def by (intro preserves_intro)

lemma AggregateByOwner_inv [preserves_intro]:
  "(\<And>n. preserves I (pf n)) \<Longrightarrow> preserves I (AggregateByOwner reg us pf now)"
  unfolding AggregateByOwner_def aggregate_user_def Let_def by (intro preserves_intro)

lemma managerUsedQuota_inv [preserves_intro]: "preserves (panel_inv D R) (managerUsedQuota a i)"
  unfolding managerUsedQuota_def by (intro preserves_intro)

lemma listUsers_inv [preserves_intro]: "preserves (panel_inv D R) (listUsers a b)"
  unfolding listUsers_def by (intro preserves_intro)

lemma GetUser_inv' [preserves_intro]: "preserves (panel_inv D R) (GetUser a name)"
  unfolding GetUser_def by (intro preserves_intro)

lemma ListUserProfiles_inv' [preserves_intro]: "preserves (panel_inv D R) (ListUserProfiles a name)"
  unfolding ListUserProfiles_def by (intro preserves_intro)

lemma enrichOwner_inv [preserves_intro]: "preserves (panel_inv D R) (enrichOwner reg name comment)"
  unfolding enrichOwner_def Let_def by (intro preserves_intro)

lemma new_pair_inv [preserves_intro]: "preserves (panel_inv D R) (new_pair a c)"
  unfolding new_pair_def by (intro preserves_intro)

section \<open>Certificates and the overlay\<close>

lemma resolveOpenVPN_inv [preserves_intro]: "preserves (panel_inv D R) (resolveOpenVPN a meta)"
  unfolding resolveOpenVPN_def Let_def by (intro preserves_intro)

lemma ensureUserOvpnFile_inv [preserves_intro]: "preserves (panel_inv D R) (ensureUserOvpnFile a n t)"
  unfolding ensureUserOvpnFile_def Let_def by (intro preserves_intro)

lemma provisionCertificate_inv [preserves_intro]: "preserves (panel_inv D R) (provisionCertificate a t p)"
  unfolding provisionCertificate_def by (intro preserves_intro)

lemma setupVPNCertificates_inv [preserves_intro]: "preserves (panel_inv D R) (setupVPNCertificates a n m t)"
  unfolding setupVPNCertificates_def Let_def by (intro preserves_intro)

lemma provisionUserCertificate_inv [preserves_intro]: "preserves (panel_inv D R) (provisionUserCertificate a m t)"
  unfolding provisionUserCertificate_def Let_def by (intro preserves_intro)

lemma applyVPNUserCertTitleChange_inv [preserves_intro]:
  "preserves (panel_inv D R) (applyVPNUserCertTitleChange a m t)"
  unfolding applyVPNUserCertTitleChange_def Let_def by (intro preserves_intro)

lemma setupManagerCertificate_inv [preserves_intro]: "preserves (panel_inv D R) (setupManagerCertificate a i t)"
  unfolding setupManagerCertificate_def Let_def by (intro preserves_intro)

lemma applyManagerCertTitleChange_inv [preserves_intro]:
  "preserves (panel_inv D R) (applyManagerCertTitleChange a m t)"
  unfolding applyManagerCertTitleChange_def Let_def by (intro preserves_intro)

lemma ovpnBodyForMeta_inv [preserves_intro]: "preserves (panel_inv D R) (ovpnBodyForMeta a meta u)"
  unfolding ovpnBodyForMeta_def by (intro preserves_intro)

lemma connectionBundleFor_inv [preserves_intro]: "preserves (panel_inv D R) (connectionBundleFor a meta u)"
  unfolding connectionBundleFor_def Let_def by (intro preserves_intro)

lemma connectionBundleForOwner_inv [preserves_intro]:
  "preserves (panel_inv D R) (connectionBundleForOwner a n i u)"
  unfolding connectionBundleForOwner_def by (intro preserves_intro)

lemma writeOvpnDownload_inv [preserves_intro]: "preserves (panel_inv D R) (writeOvpnDownload a meta)"
  unfolding writeOvpnDownload_def by (intro preserves_intro)

lemma mikrotikSharedUsersByName_inv [preserves_intro]: "preserves (panel_inv D R) (mikrotikSharedUsersByName a)"
  unfolding mikrotikSharedUsersByName_def by (intro preserves_intro)

lemma syncSharedUsers_inv [preserves_intro]: "preserves (panel_inv D R) (syncSharedUsersToUnsettledActivation i n)"
  unfolding syncSharedUsersToUnsettledActivation_def by (intro preserves_intro)

lemma live_activation_inv [preserves_intro]: "preserves (panel_inv D R) (live_activation m n act s)"
  unfolding live_activation_def Let_def by (intro preserves_intro)

lemma activationDTOsWithLiveShared_inv [preserves_intro]:
  "preserves (panel_inv D R) (activationDTOsWithLiveShared a acts n)"
  unfolding activationDTOsWithLiveShared_def by (intro preserves_intro)

lemma live_scope_row_inv [preserves_intro]: "preserves (panel_inv D R) (live_scope_row m l r s)"
  unfolding live_scope_row_def Let_def by (intro preserves_intro)

lemma applyRenewalsLiveSharedUsers_inv [preserves_intro]:
  "preserves (panel_inv D R) (applyRenewalsLiveSharedUsers a f items)"
  unfolding applyRenewalsLiveSharedUsers_def Let_def by (intro preserves_intro)

section \<open>The service layer\<close>

lemma buildVPNDetail_inv [preserves_intro]: "preserves (panel_inv D R) (buildVPNDetail a reg meta b)"
  unfolding buildVPNDetail_def by (intro preserves_intro)

lemma buildVPNDetailByName_inv [preserves_intro]: "preserves (panel_inv D R) (buildVPNDetailByName a reg n b)"
  unfolding buildVPNDetailByName_def by (intro preserves_intro)

lemma resolveVPNPassword_inv [preserves_intro]: "preserves (panel_inv D R) (resolveVPNPassword pw)"
  unfolding resolveVPNPassword_def Let_def by (intro preserves_intro)

lemma recordActivation_inv [preserves_intro]: "preserves (panel_inv D R) (recordActivation i p n am cu no ps)"
  unfolding recordActivation_def Let_def by (intro preserves_intro)

lemma rollback_user_inv [preserves_intro]: "preserves (panel_inv D R) (rollback_user a n e)"
  unfolding rollback_user_def by (intro preserves_intro)

lemma finish_create_inv [preserves_intro]: "preserves (panel_inv D R) (finish_create a n m req)"
  unfolding finish_create_def Let_def by (intro preserves_intro)

lemma add_router_user_inv [preserves_intro]: "preserves (panel_inv D R) (add_router_user a n p c req)"
  unfolding add_router_user_def by (intro preserves_intro)

lemma createVPNUser_inv [preserves_intro]: "preserves (panel_inv D R) (createVPNUser a m req)"
  unfolding createVPNUser_def Let_def by (intro preserves_intro)

lemma createOrphanVPNUser_inv [preserves_intro]: "preserves (panel_inv D R) (createOrphanVPNUser a req)"
  unfolding createOrphanVPNUser_def Let_def by (intro preserves_intro)

lemma patch_quota_check_inv [preserves_intro]: "preserves (panel_inv D R) (patch_quota_check a i u n)"
  unfolding patch_quota_check_def Let_def by (intro preserves_intro)

lemma patchVPNUser_inv [preserves_intro]: "preserves (panel_inv D R) (patchVPNUser a reg meta req k b)"
  unfolding patchVPNUser_def Let_def by (intro preserves_intro)

lemma adminPatchVPNUser_inv [preserves_intro]: "preserves (panel_inv D R) (adminPatchVPNUser a reg meta areq)"
  unfolding adminPatchVPNUser_def by (intro preserves_intro)

lemma deleteVPNUser_inv [preserves_intro]: "preserves (panel_inv D R) (deleteVPNUser a meta)"
  unfolding deleteVPNUser_def by (intro preserves_intro)

lemma assignVPNProfile_inv [preserves_intro]: "preserves (panel_inv D R) (assignVPNProfile a reg meta req b)"
  unfolding assignVPNProfile_def by (intro preserves_intro)

lemma removeVPNProfile_inv [preserves_intro]: "preserves (panel_inv D R) (removeVPNProfile a meta i)"
  unfolding removeVPNProfile_def by (intro preserves_intro)

lemma ensureVPNMeta_inv [preserves_intro]: "preserves (panel_inv D R) (ensureVPNMeta a reg n c)"
  unfolding ensureVPNMeta_def Let_def by (intro preserves_intro)

lemma deleteVPNByName_inv [preserves_intro]: "preserves (panel_inv D R) (deleteVPNByName a n)"
  unfolding deleteVPNByName_def by (intro preserves_intro)

section \<open>The handlers\<close>

lemma list_row_inv [preserves_intro]: "preserves (panel_inv D R) (list_row a reg i b q now u fs)"
  unfolding list_row_def Let_def by (intro preserves_intro)

lemma vpnMetaByID_inv [preserves_intro]:
  "(\<And>x. preserves (panel_inv D R) (k x)) \<Longrightarrow> preserves (panel_inv D R) (vpnMetaByID r k)"
  unfolding vpnMetaByID_def by (intro preserves_intro)

lemma owner_guard_inv [preserves_intro]:
  "(\<And>x. preserves (panel_inv D R) (k x)) \<Longrightarrow> preserves (panel_inv D R) (owner_guard a reg c meta k)"
  unfolding owner_guard_def by (intro preserves_intro)

lemma owned_user_inv [preserves_intro]:
  "(\<And>x. preserves (panel_inv D R) (k x)) \<Longrightarrow> preserves (panel_inv D R) (owned_user a reg c n k)"
  unfolding owned_user_def by (intro preserves_intro)

lemma ensure_or_inv [preserves_intro]:
  "(\<And>x. preserves (panel_inv D R) (k x)) \<Longrightarrow> preserves (panel_inv D R) (ensure_or other a reg n c k)"
  unfolding ensure_or_def by (intro preserves_intro)

lemma writeRenewals_inv [preserves_intro]: "preserves (panel_inv D R) (writeRenewals a f b)"
  unfolding writeRenewals_def renewal_scope_def by (intro preserves_intro)

lemma login_manager_inv [preserves_intro]: "preserves (panel_inv D R) (login_manager a lreq)"
  unfolding login_manager_def Let_def by (intro preserves_intro)

lemma used_or_zero_inv [preserves_intro]: "preserves (panel_inv D R) (used_or_zero a i)"
  unfolding used_or_zero_def by (intro preserves_intro)

lemma patch_parts_inv [preserves_intro]:
  "preserves (panel_inv D R) h \<Longrightarrow> preserves (panel_inv D R) (patch_cert a m t h)"
  "(\<And>x. preserves (panel_inv D R) (k x)) \<Longrightarrow> preserves (panel_inv D R) (patch_username i t k)"
  "preserves (panel_inv D R) h \<Longrightarrow> preserves (panel_inv D R) (patch_quota a i q h)"
  "(\<And>x. preserves (panel_inv D R) (k x)) \<Longrightarrow> preserves (panel_inv D R) (patch_password a t k)"
  unfolding patch_cert_def patch_username_def patch_quota_def patch_password_def Let_def
  by (intro preserves_intro; assumption)+

lemma admin_list_row_inv [preserves_intro]: "preserves (panel_inv D R) (admin_list_row a reg b1 fm b2 q u fs)"
  unfolding admin_list_row_def Let_def by (intro preserves_intro)

lemma HandleListVPNUsers_inv [preserves_intro]: "preserves (panel_inv D R) (HandleListVPNUsers a ctx r)"
  unfolding HandleListVPNUsers_def Let_def by (intro preserves_intro)

lemma HandleGetVPNUser_inv [preserves_intro]: "preserves (panel_inv D R) (HandleGetVPNUser a ctx r)"
  unfolding HandleGetVPNUser_def Let_def by (intro preserves_intro)

lemma HandleCreateVPNUser_inv [preserves_intro]: "preserves (panel_inv D R) (HandleCreateVPNUser a ctx r)"
  unfolding HandleCreateVPNUser_def Let_def by (intro preserves_intro)

lemma HandlePatchVPNUser_inv [preserves_intro]: "preserves (panel_inv D R) (HandlePatchVPNUser a ctx r)"
  unfolding HandlePatchVPNUser_def Let_def by (intro preserves_intro)

lemma HandleAssignProfile_inv [preserves_intro]: "preserves (panel_inv D R) (HandleAssignProfile a ctx r)"
  unfolding HandleAssignProfile_def Let_def by (intro preserves_intro)

lemma HandleDeleteVPNUser_inv [preserves_intro]: "preserves (panel_inv D R) (HandleDeleteVPNUser a ctx r)"
  unfolding HandleDeleteVPNUser_def Let_def by (intro preserves_intro)

lemma HandleConnectionBundle_inv [preserves_intro]: "preserves (panel_inv D R) (HandleConnectionBundle a ctx r)"
  unfolding HandleConnectionBundle_def Let_def by (intro preserves_intro)

lemma HandleDownloadOvpn_inv [preserves_intro]: "preserves (panel_inv D R) (HandleDownloadOvpn a ctx r)"
  unfolding HandleDownloadOvpn_def Let_def by (intro preserves_intro)

lemma HandleRemoveProfile_inv [preserves_intro]: "preserves (panel_inv D R) (HandleRemoveProfile a ctx r)"
  unfolding HandleRemoveProfile_def Let_def by (intro preserves_intro)

lemma HandleGetVPNUserByName_inv [preserves_intro]: "preserves (panel_inv D R) (HandleGetVPNUserByName a ctx r)"
  unfolding HandleGetVPNUserByName_def Let_def by (intro preserves_intro)

lemma HandlePatchVPNUserByName_inv [preserves_intro]: "preserves (panel_inv D R) (HandlePatchVPNUserByName a ctx r)"
  unfolding HandlePatchVPNUserByName_def Let_def by (intro preserves_intro)

lemma HandleAssignProfileByName_inv [preserves_intro]: "preserves (panel_inv D R) (HandleAssignProfileByName a ctx r)"
  unfolding HandleAssignProfileByName_def Let_def by (intro preserves_intro)

lemma HandleDeleteVPNUserByName_inv [preserves_intro]: "preserves (panel_inv D R) (HandleDeleteVPNUserByName a ctx r)"
  unfolding HandleDeleteVPNUserByName_def Let_def by (intro preserves_intro)

lemma HandleConnectionBundleByName_inv [preserves_intro]: "preserves (panel_inv D R) (HandleConnectionBundleByName a ctx r)"
  unfolding HandleConnectionBundleByName_def Let_def by (intro preserves_intro)

lemma HandleDownloadOvpnByName_inv [preserves_intro]: "preserves (panel_inv D R) (HandleDownloadOvpnByName a ctx r)"
  unfolding HandleDownloadOvpnByName_def Let_def by (intro preserves_intro)

lemma HandleRemoveProfileByName_inv [preserves_intro]: "preserves (panel_inv D R) (HandleRemoveProfileByName a ctx r)"
  unfolding HandleRemoveProfileByName_def Let_def by (intro preserves_intro)

lemma HandleAdminGetVPNUserByName_inv [preserves_intro]: "preserves (panel_inv D R) (HandleAdminGetVPNUserByName a ctx r)"
  unfolding HandleAdminGetVPNUserByName_def Let_def by (intro preserves_intro)

lemma HandleAdminPatchVPNUserByName_inv [preserves_intro]: "preserves (panel_inv D R) (HandleAdminPatchVPNUserByName a ctx r)"
  unfolding HandleAdminPatchVPNUserByName_def Let_def by (intro preserves_intro)

lemma HandleAdminAssignProfileByName_inv [preserves_intro]: "preserves (panel_inv D R) (HandleAdminAssignProfileByName a ctx r)"
  unfolding HandleAdminAssignProfileByName_def Let_def by (intro preserves_intro)

lemma HandleAdminDeleteVPNUserByName_inv [preserves_intro]: "preserves (panel_inv D R) (HandleAdminDeleteVPNUserByName a ctx r)"
  unfolding HandleAdminDeleteVPNUserByName_def Let_def by (intro preserves_intro)

lemma HandleAdminConnectionBundleByName_inv [preserves_intro]: "preserves (panel_inv D R) (HandleAdminConnectionBundleByName a ctx r)"
  unfolding HandleAdminConnectionBundleByName_def Let_def by (intro preserves_intro)

lemma HandleAdminDownloadOvpnByName_inv [preserves_intro]: "preserves (panel_inv D R) (HandleAdminDownloadOvpnByName a ctx r)"
  unfolding HandleAdminDownloadOvpnByName_def Let_def by (intro preserves_intro)

lemma HandleAdminRemoveProfileByName_inv [preserves_intro]: "preserves (panel_inv D R) (HandleAdminRemoveProfileByName a ctx r)"
  unfolding HandleAdminRemoveProfileByName_def Let_def by (intro preserves_intro)

lemma HandleListManagers_inv [preserves_intro]: "preserves (panel_inv D R) (HandleListManagers a ctx r)"
  unfolding HandleListManagers_def Let_def by (intro preserves_intro)

lemma HandleAdminStats_inv [preserves_intro]: "preserves (panel_inv D R) (HandleAdminStats a ctx r)"
  unfolding HandleAdminStats_def Let_def by (intro preserves_intro)

lemma HandlePatchManager_inv [preserves_intro]: "preserves (panel_inv D R) (HandlePatchManager a ctx r)"
  unfolding HandlePatchManager_def Let_def by (intro preserves_intro)

lemma HandleAdminListVPNUsers_inv [preserves_intro]: "preserves (panel_inv D R) (HandleAdminListVPNUsers a ctx r)"
  unfolding HandleAdminListVPNUsers_def Let_def by (intro preserves_intro)

lemma HandleAdminGetVPNUser_inv [preserves_intro]: "preserves (panel_inv D R) (HandleAdminGetVPNUser a ctx r)"
  unfolding HandleAdminGetVPNUser_def Let_def by (intro preserves_intro)

lemma HandleAdminCreateVPNUser_inv [preserves_intro]: "preserves (panel_inv D R) (HandleAdminCreateVPNUser a ctx r)"
  unfolding HandleAdminCreateVPNUser_def Let_def by (intro preserves_intro)

lemma HandleAdminPatchVPNUser_inv [preserves_intro]: "preserves (panel_inv D R) (HandleAdminPatchVPNUser a ctx r)"
  unfolding HandleAdminPatchVPNUser_def Let_def by (intro preserves_intro)

lemma HandleAdminDeleteVPNUser_inv [preserves_intro]: "preserves (panel_inv D R) (HandleAdminDeleteVPNUser a ctx r)"
  unfolding HandleAdminDeleteVPNUser_def Let_def by (intro preserves_intro)

lemma HandleAdminAssignProfile_inv [preserves_intro]: "preserves (panel_inv D R) (HandleAdminAssignProfile a ctx r)"
  unfolding HandleAdminAssignProfile_def Let_def by (intro preserves_intro)

lemma HandleAdminConnectionBundle_inv [preserves_intro]: "preserves (panel_inv D R) (HandleAdminConnectionBundle a ctx r)"
  unfolding HandleAdminConnectionBundle_def Let_def by (intro preserves_intro)

lemma HandleAdminDownloadOvpn_inv [preserves_intro]: "preserves (panel_inv D R) (HandleAdminDownloadOvpn a ctx r)"
  unfolding HandleAdminDownloadOvpn_def Let_def by (intro preserves_intro)

lemma HandleAdminRemoveProfile_inv [preserves_intro]: "preserves (panel_inv D R) (HandleAdminRemoveProfile a ctx r)"
  unfolding HandleAdminRemoveProfile_def Let_def by (intro preserves_intro)

lemma HandleManagerRenewals_inv [preserves_intro]: "preserves (panel_inv D R) (HandleManagerRenewals a ctx r)"
  unfolding HandleManagerRenewals_def Let_def by (intro preserves_intro)

lemma HandleAdminRenewals_inv [preserves_intro]: "preserves (panel_inv D R) (HandleAdminRenewals a ctx r)"
  unfolding HandleAdminRenewals_def Let_def by (intro preserves_intro)

lemma HandleSettleThrough_inv [preserves_intro]: "preserves (panel_inv D R) (HandleSettleThrough a ctx r)"
  unfolding HandleSettleThrough_def Let_def by (intro preserves_intro)

lemma HandleLogin_inv [preserves_intro]: "preserves (panel_inv D R) (HandleLogin a ctx r)"
  unfolding HandleLogin_def Let_def by (intro preserves_intro)

lemma HandleRefresh_inv [preserves_intro]: "preserves (panel_inv D R) (HandleRefresh a ctx r)"
  unfolding HandleRefresh_def Let_def by (intro preserves_intro)

lemma HandleLogout_inv [preserves_intro]: "preserves (panel_inv D R) (HandleLogout a ctx r)"
  unfolding HandleLogout_def Let_def by (intro preserves_intro)

lemma HandleMe_inv [preserves_intro]: "preserves (panel_inv D R) (HandleMe a ctx r)"
  unfolding HandleMe_def Let_def by (intro preserves_intro)

lemma HandlePatchMe_inv [preserves_intro]: "preserves (panel_inv D R) (HandlePatchMe a ctx r)"
  unfolding HandlePatchMe_def Let_def by (intro preserves_intro)

lemma HandleChangePassword_inv [preserves_intro]: "preserves (panel_inv D R) (HandleChangePassword a ctx r)"
  unfolding HandleChangePassword_def Let_def by (intro preserves_intro)

lemma HandleMeQuota_inv [preserves_intro]: "preserves (panel_inv D R) (HandleMeQuota a ctx r)"
  unfolding HandleMeQuota_def Let_def by (intro preserves_intro)

lemma HandleHealth_inv [preserves_intro]: "preserves (panel_inv D R) (HandleHealth a ctx r)"
  unfolding HandleHealth_def Let_def Store_Ping_def by (intro preserves_intro)

lemma HandleCreateManager_inv:
  "(\<And>now m. preserves D (CreateManager now m)) \<Longrightarrow> preserves (panel_inv D R) (HandleCreateManager a ctx r)"
  unfolding HandleCreateManager_def Let_def by (intro preserves_intro; assumption?)

section \<open>The server\<close>

lemma dispatch_inv:
  assumes "\<forall>rt \<in> set routes. \<forall>ctx r. preserves I (snd (snd rt) ctx r)"
  shows "preserves I (dispatch routes meth path ctx r)"
proof (cases "find (\<lambda>rt. fst rt = meth \<and> path_matches path rt) routes")
  case None
  then show ?thesis by (simp add: dispatch_def preserves_respond)
next
  case (Some rt)
  then have "rt \<in> set routes" by (auto simp: find_Some_iff)
  with assms have "preserves I (snd (snd rt) ctx (with_params ps r))" for ps by blast
  then show ?thesis using Some by (simp add: dispatch_def case_prod_beta)
qed

lemma authenticated_inv:
  assumes "\<And>c r. preserves I (h c r)"
  shows "preserves I (authenticated a h ctx r)"
  using assms
  by (auto simp: preserves_def authenticated_def Middleware_def respond_apply split: option.split)

lemma RequireAdmin_inv:
  "(\<And>c r. preserves I (h c r)) \<Longrightarrow> preserves I (RequireAdmin h ctx r)"
  by (simp add: RequireAdmin_def preserves_respond split: option.split)

lemma routes_inv:
  "\<forall>rt \<in> set (public_routes a). \<forall>ctx r. preserves (panel_inv D R) (snd (snd rt) ctx r)"
  "\<forall>rt \<in> set (map (protect a) (user_routes a)). \<forall>ctx r. preserves (panel_inv D R) (snd (snd rt) ctx r)"
proof -
  show "\<forall>rt \<in> set (public_routes a). \<forall>ctx r. preserves (panel_inv D R) (snd (snd rt) ctx r)"
    by (simp add: public_routes_def HandleHealth_inv HandleLogin_inv HandleRefresh_inv)
  have "\<forall>rt \<in> set (user_routes a). \<forall>ctx r. preserves (panel_inv D R) (snd (snd rt) ctx r)"
    unfolding user_routes_def
    by (simp, intro conjI allI preserves_intro)
  then show "\<forall>rt \<in> set (map (protect a) (user_routes a)). \<forall>ctx r. preserves (panel_inv D R) (snd (snd rt) ctx r)"
    by (simp add: protect_def authenticated_inv)
qed

lemma admin_routes_inv:
  assumes "\<And>ctx r. preserves (panel_inv D R) (HandleCreateManager a ctx r)"
  shows "\<forall>rt \<in> set (admin_routes a). \<forall>ctx r. preserves (panel_inv D R) (snd (snd rt) ctx r)"
  unfolding admin_routes_def
  by (simp add: assms, intro conjI allI preserves_intro)

lemma serve_inv:
  assumes "\<And>ctx r. preserves (panel_inv D R) (HandleCreateManager a ctx r)"
  shows "preserves (panel_inv D R) (serve a meth path r)"
proof -
  have 1: "preserves (panel_inv D R) (dispatch (public_routes a @ map (protect a) (user_routes a)) meth path None r)"
    by (rule dispatch_inv) (use routes_inv in auto)
  have 2: "preserves (panel_inv D R) (authenticated a (RequireAdmin (dispatch (admin_routes a) meth rest)) None r)" for rest
    by (intro authenticated_inv RequireAdmin_inv dispatch_inv admin_routes_inv assms)
  show ?thesis unfolding serve_def using 1 2 by (auto split: list.split)
qed

end

section \<open>The router behind its cache\<close>

text \<open>An invariant of the steps of the router is one of the methods of the cached client.\<close>

lemma command_router:
  assumes "command_invariant (Router a) R"
  shows "router_invariant a R"
  by unfold_locales (simp_all add: MT_def CachedClient_def command_invariant.Ping_keeps [OF assms]
        command_invariant.Cached_ListUsers_inv [OF assms] command_invariant.Cached_RefreshListUsers_inv [OF assms]
        command_invariant.Cached_inv [OF assms] command_invariant.Cached_ListUserProfiles_inv [OF assms]
        command_invariant.GenerateCertificate_keeps [OF assms] command_invariant.ReadFileContents_keeps [OF assms]
        command_invariant.WriteFileContents_keeps [OF assms])

lemma panel_router:
  assumes "user_manager (Router a) ok users profiles"
  shows "router_invariant a (cache_ok ok users profiles)"
proof -
  have m: "user_manager (MT a) (cache_ok ok users profiles) (users \<circ> cc_inner) (profiles \<circ> cc_inner)"
    unfolding MT_def by (rule user_manager.cached_manager [OF assms])
  have refresh: "preserves (cache_ok ok users profiles) (Cached_RefreshListUsers (Router a) ttl now)" for ttl now
  proof (rule preservesI)
    fix c assume "cache_ok ok users profiles c"
    then have empty: "cache_ok ok users profiles (c\<lparr>cc_users := []\<rparr>)" by (simp add: cache_ok_def)
    obtain r c' where run: "Cached_ListUsers (Router a) ttl now (c\<lparr>cc_users := []\<rparr>) = (r, c')"
      by (cases "Cached_ListUsers (Router a) ttl now (c\<lparr>cc_users := []\<rparr>)")
    show "cache_ok ok users profiles (snd (Cached_RefreshListUsers (Router a) ttl now c))"
      using router_reads.cached_ListUsers(1) [OF user_manager.axioms(1) [OF assms] empty run] run
      by (simp add: Cached_RefreshListUsers_def Cached_forceUsers_def)
  qed
  show ?thesis by (intro router_invariant.intro refresh user_manager.preserves_ok [OF m])
qed

text \<open>The panel with the fake router is one instance.\<close>

interpretation fake_router: router_invariant "a\<lparr>Router := FakeClient\<rparr>" "cache_ok fake_ok fake_users fake_profiles"
  for a :: "fake_client app"
  by (rule panel_router) (simp add: fake.user_manager_axioms)

interpretation fake_panel: panel_invariant db_ok "a\<lparr>Router := FakeClient\<rparr>"
  "cache_ok fake_ok fake_users fake_profiles" for a :: "fake_client app"
  by (intro panel_invariant.intro db_integrity.store_invariant_axioms fake_router.router_invariant_axioms)

section \<open>Slugs at creation\<close>

text \<open>\<open>slugs_ok\<close> through \<open>HandleCreateManager\<close>: the check in front of the insert is what keeps it.\<close>

lemma slugs_listed:
  "map ms_Slug (map (\<lambda>m. \<lparr>ms_ID = mgr_ID m, ms_Slug = mgr_Slug m\<rparr>) ms) = map mgr_Slug ms"
  by simp

lemma CreateManager_slugs:
  assumes "slugs_ok d" "\<not> SlugOverlaps (mgr_Slug m)
     (map (\<lambda>m. \<lparr>ms_ID = mgr_ID m, ms_Slug = mgr_Slug m\<rparr>) (db_managers d)) 0"
  shows "slugs_ok (snd (CreateManager now m d))"
  using assms slugs_apart_snoc
  by (auto simp: CreateManager_def exec_def slugs_ok_def Let_def SlugOverlaps_iff comparable_def)

lemma ListManagerSlugs_run:
  "\<not> db_fault (w_db w) S_ListManagerSlugs \<Longrightarrow> tryE (st ListManagerSlugs) w =
     (Inr (Inr (map (\<lambda>m. \<lparr>ms_ID = mgr_ID m, ms_Slug = mgr_Slug m\<rparr>) (db_managers (w_db w)))), w)"
  by (simp add: tryE_apply st_def ListManagerSlugs_def query_def exec_def)

lemma Hash_frame: "Hash a plain w = (r, w') \<Longrightarrow> w_db w' = w_db w \<and> w_router w' = w_router w"
  by (auto simp: Hash_def rnd_eq)

context router_invariant
begin

lemma slugs_panel: "panel_invariant slugs_ok a R"
  by (intro panel_invariant.intro slugs.store_invariant_axioms router_invariant_axioms)

lemma create_slugs:
  assumes inv: "panel_inv slugs_ok R w"
    and apart: "\<not> SlugOverlaps (mgr_Slug m)
      (map (\<lambda>m. \<lparr>ms_ID = mgr_ID m, ms_Slug = mgr_Slug m\<rparr>) (db_managers (w_db w))) 0"
    and rest: "\<And>e. preserves (panel_inv slugs_ok R) (f e)" "\<And>x. preserves (panel_inv slugs_ok R) (g x)"
  shows "panel_inv slugs_ok R (snd (handle (st (CreateManager now m)) f g w))"
proof (rule handle_inv [OF _ rest])
  show "panel_inv slugs_ok R (snd (st (CreateManager now m) w))"
    using inv CreateManager_slugs [OF _ apart, of now]
    by (simp add: panel_inv_def st_def split: prod.split) (metis snd_conv)
qed

lemma HandleCreateManager_slugs: "preserves (panel_inv slugs_ok R) (HandleCreateManager a ctx r)"
proof (cases "DecodeJSON create_manager_fields zero_createManagerReq r")
  case None
  then show ?thesis by (simp add: HandleCreateManager_def preserves_respond)
next
  case (Some req)
  let ?created = "\<lambda>m. respond (WriteJSON 201 (JObj [(''id'', JInt (mgr_ID m))]))"
  let ?rest = "\<lambda>m. case cm_CertTitle req of
            Some t \<Rightarrow>
              if trimSpace t \<noteq> []
              then handle (setupManagerCertificate a (mgr_ID m) t) (\<lambda>e. respond (cert_error e)) (\<lambda>_. ?created m)
              else ?created m
          | None \<Rightarrow> ?created m"
  have rest: "preserves (panel_inv slugs_ok R) (?rest m)" for m
    by (intro preserves_intro panel_invariant.setupManagerCertificate_inv [OF slugs_panel])
  have "panel_inv slugs_ok R (snd (HandleCreateManager a ctx r w))" if inv: "panel_inv slugs_ok R w" for w
  proof -
    let ?slugs = "map (\<lambda>m. \<lparr>ms_ID = mgr_ID m, ms_Slug = mgr_Slug m\<rparr>) (db_managers (w_db w))"
    have nf: "\<not> db_fault (w_db w) S_ListManagerSlugs" using inv by (simp add: panel_inv_def slugs_ok_def)
    obtain h w1 where h: "Hash a (cm_Password req) w = (h, w1)" by (cases "Hash a (cm_Password req) w")
    have same: "w_db w1 = w_db w" "w_router w1 = w_router w" using Hash_frame [OF h] by simp_all
    have inv1: "panel_inv slugs_ok R w1" using inv same by (simp add: panel_inv_def)
    have create: "panel_inv slugs_ok R (snd (handle (st (CreateManager now (new_manager req hash)))
        (\<lambda>_. respond (WriteError 409 ''SLUG_IN_USE'')) ?rest w1))"
      if "\<not> SlugOverlaps (cm_Slug req) ?slugs 0" for now hash
      using that same by (intro create_slugs inv1 rest preserves_respond) (simp add: new_manager_def)
    show ?thesis
      using inv inv1 create h
      by (auto simp: HandleCreateManager_def Some Let_def handle_def [of "tryE _"] ListManagerSlugs_run [OF nf]
          handle_def [of "Hash _ _"] handle_Now or_zero_def respond_apply
          split: sum.split)
  qed
  then show ?thesis by (rule preservesI)
qed

end

end
