(* ===== verification/Store_Props.thy ===== *)
theory Store_Props
  imports Store_Inv
begin

text \<open>
  Properties of the database methods: the settlement, the newest unsettled activation and the order of
  the results. The examples run on a small database with two managers.
\<close>

section \<open>Examples\<close>

definition sample_meta :: "int \<Rightarrow> string \<Rightarrow> int option \<Rightarrow> vpn_user_meta" where
  "sample_meta i name owner = \<lparr>meta_ID = i, meta_MikrotikName = name, meta_ManagerID = owner,
     meta_ContactInfo = None, meta_Notes = None, meta_CertTitle = None, meta_CertKeyPass = None,
     meta_CreatedAt = [], meta_UpdatedAt = []\<rparr>"

definition sample_act :: "int \<Rightarrow> int \<Rightarrow> int \<Rightarrow> string \<Rightarrow> bool \<Rightarrow> profile_activation" where
  "sample_act i meta shared at settled = \<lparr>act_ID = i, act_VPNUserMetaID = meta, act_ProfileName = ''p'',
     act_SharedUsers = shared, act_AmountPaid = None, act_Currency = ''IRR'', act_PaidAt = None,
     act_Note = None, act_MikrotikEndTime = None, act_IsSettled = settled, act_SettledAt = None,
     act_SettledByAdminID = None, act_CreatedAt = at\<rparr>"

definition sample_db :: db where
  "sample_db = \<lparr>db_admins = [\<lparr>adm_ID = 1, adm_Username = ''admin'', adm_PasswordHash = [], adm_IsActive = True\<rparr>],
     db_managers = [sample_manager 1 ''ali'', sample_manager 2 ''reza''],
     db_metas = [sample_meta 1 ''ali_a'' (Some 1), sample_meta 2 ''reza_b'' (Some 2), sample_meta 3 ''ali_b'' (Some 1)],
     db_acts = [sample_act 1 1 2 ''2025-01-01 00:00:00'' False, sample_act 2 2 1 ''2025-01-02 00:00:00'' False,
                sample_act 3 3 3 ''2025-01-03 00:00:00'' False, sample_act 4 1 2 ''2025-01-04 00:00:00'' False],
     seq_admins = 1, seq_managers = 2, seq_metas = 3, seq_acts = 4, db_fault = (\<lambda>_. False)\<rparr>"

lemma sample_db_ok: "db_ok sample_db"
  by (simp add: db_ok_defs ids_ok_def sample_db_def sample_manager_def sample_meta_def sample_act_def
      manager_exists_def admin_exists_def toLower_def lower_char_def is_upper_def)

section \<open>Ordered results\<close>

lemma set_order_desc [simp]: "set (order_desc key xs) = set xs"
  by (simp add: order_desc_def)

lemma length_order_desc [simp]: "length (order_desc key xs) = length xs"
  by (simp add: order_desc_def)

lemma order_desc_sorted: "sorted_wrt (\<lambda>x y. key y \<le> key x) (order_desc key xs)"
  unfolding order_desc_def sorted_wrt_rev
  using sorted_sort_key [of key "rev xs"] by (simp add: sorted_map)

lemma distinct_order_desc [simp]: "distinct (order_desc key xs) = distinct xs"
  by (simp add: order_desc_def)

lemma latest_unsettled_None:
  "latest_unsettled i acts = None \<longleftrightarrow> \<not> (\<exists>r \<in> set acts. act_VPNUserMetaID r = i \<and> \<not> act_IsSettled r)"
proof -
  let ?rs = "filter (\<lambda>a. act_VPNUserMetaID a = i \<and> \<not> act_IsSettled a) acts"
  have "latest_unsettled i acts = None \<longleftrightarrow> length (order_desc act_pos ?rs) = 0"
    unfolding latest_unsettled_def by (cases "order_desc act_pos ?rs") (simp_all del: length_order_desc)
  then show ?thesis unfolding length_order_desc length_0_conv filter_empty_conv by blast
qed

lemma latest_unsettled_Some:
  assumes "latest_unsettled i acts = Some a"
  shows "a \<in> set acts \<and> act_VPNUserMetaID a = i \<and> \<not> act_IsSettled a
    \<and> (\<forall>r \<in> set acts. act_VPNUserMetaID r = i \<and> \<not> act_IsSettled r \<longrightarrow> act_pos r \<le> act_pos a)"
proof -
  let ?rs = "filter (\<lambda>a. act_VPNUserMetaID a = i \<and> \<not> act_IsSettled a) acts"
  obtain rest where o: "order_desc act_pos ?rs = a # rest"
    using assms by (auto simp: latest_unsettled_def split: list.splits)
  have s: "set ?rs = set (a # rest)" using set_order_desc [of act_pos ?rs] unfolding o by (rule sym)
  have top: "\<forall>r \<in> set (a # rest). act_pos r \<le> act_pos a"
    using order_desc_sorted [of act_pos ?rs] unfolding o by simp
  have "a \<in> set ?rs" unfolding s by simp
  moreover have "\<forall>r \<in> set ?rs. act_pos r \<le> act_pos a" unfolding s by (rule top)
  ultimately show ?thesis by simp
qed

section \<open>Properties\<close>

text \<open>
  C3. A successful \<open>SettleThrough\<close> settles exactly the unsettled activations up to and including the
  chosen one, in the order of creation and id, of the users in the scope (those of the manager, or
  the orphans), reports their number, and changes nothing else.
\<close>

theorem settle_exact:
  assumes "SettleThrough now adm t d = (Inr n, d')"
  shows "\<exists>act \<in> set (db_acts d). act_ID act = rt_ActivationID t \<and>
    (let hit = (\<lambda>r. \<not> act_IsSettled r \<and> act_pos r \<le> act_pos act
           \<and> (\<exists>v \<in> set (db_metas d). meta_ID v = act_VPNUserMetaID r
                \<and> meta_ManagerID v = (if rt_OrphanOnly t then None else rt_ManagerID t)))
     in d' = d\<lparr>db_acts := map (\<lambda>r. if hit r then settle_row now adm r else r) (db_acts d)\<rparr>
        \<and> n = int (length (filter hit (db_acts d))))"
proof -
  obtain act meta scope where run: "find_by act_ID (rt_ActivationID t) (db_acts d) = Some act"
    "scopeSQL t = Some scope" "n = int (length (filter (settle_where scope d act) (db_acts d)))"
    "d' = d\<lparr>db_acts := map (\<lambda>r. if settle_where scope d act r then settle_row now adm r else r) (db_acts d)\<rparr>"
    by (rule SettleThrough_InrE [OF assms]) (rule that)
  have scope: "scope v \<longleftrightarrow> meta_ManagerID v = (if rt_OrphanOnly t then None else rt_ManagerID t)" for v
    using run(2) by (auto simp: scopeSQL_def split: if_splits option.splits)
  have hit: "settle_where scope d act = (\<lambda>r. \<not> act_IsSettled r \<and> act_pos r \<le> act_pos act
           \<and> (\<exists>v \<in> set (db_metas d). meta_ID v = act_VPNUserMetaID r
                \<and> meta_ManagerID v = (if rt_OrphanOnly t then None else rt_ManagerID t)))"
    by (auto simp: fun_eq_iff settle_where_pos scope)
  have act: "act \<in> set (db_acts d)" "act_ID act = rt_ActivationID t"
    using find_by_Some [OF run(1)] by simp_all
  show ?thesis
    unfolding Let_def
    by (rule bexI [OF _ act(1)]) (intro conjI act(2) run(3,4) [unfolded hit])
qed

definition sample_through :: renewal_through where
  "sample_through = \<lparr>rt_ActivationID = 3, rt_ManagerID = Some 1, rt_OrphanOnly = False\<rparr>"

lemma sample_settle_result: "fst (SettleThrough 0 1 sample_through sample_db) = Inr 2"
  by code_simp

lemma settle_exact_witness:
  "\<exists>act \<in> set (db_acts sample_db). act_ID act = 3
     \<and> length (filter (\<lambda>r. \<not> act_IsSettled r \<and> act_pos r \<le> act_pos act
         \<and> (\<exists>v \<in> set (db_metas sample_db). meta_ID v = act_VPNUserMetaID r \<and> meta_ManagerID v = Some 1))
       (db_acts sample_db)) = 2"
proof -
  have run: "SettleThrough 0 1 sample_through sample_db
      = (Inr 2, snd (SettleThrough 0 1 sample_through sample_db))"
    using sample_settle_result by (simp add: prod_eq_iff)
  obtain act where "act \<in> set (db_acts sample_db)" "act_ID act = 3"
    "(2::int) = int (length (filter (\<lambda>r. \<not> act_IsSettled r \<and> act_pos r \<le> act_pos act
         \<and> (\<exists>v \<in> set (db_metas sample_db). meta_ID v = act_VPNUserMetaID r \<and> meta_ManagerID v = Some 1))
       (db_acts sample_db)))"
    using settle_exact [OF run] unfolding Let_def sample_through_def by auto
  then show ?thesis by (intro bexI [of _ act] conjI) linarith+
qed

end
