(* ===== verification/Panel_Samples.thy ===== *)
theory Panel_Samples
  imports Panel_Inv Store_Props
begin

text \<open>
  A small panel for the examples: the default configuration, the fake router behind its cache, the
  database of the store examples, and stand-ins for the libraries (a token is good if it is one of
  three texts, a hash is the password behind a mark).
\<close>

definition manager_claims :: "int \<Rightarrow> string \<Rightarrow> claims" where
  "manager_claims i slug = zero_claims\<lparr>c_Role := RoleManager, c_ManagerID := i, c_Slug := slug,
     c_Username := slug, c_TokenType := ''access''\<rparr>"

definition admin_claims :: claims where
  "admin_claims = zero_claims\<lparr>c_Role := RoleAdmin, c_Username := ''admin'', c_TokenType := ''access''\<rparr>"

definition sample_jwt :: jwt_lib where
  "sample_jwt = \<lparr>SignedString = (\<lambda>secret c. Inr (c_TokenType c @ c_Username c)),
     ParseWithClaims = (\<lambda>secret now token.
       if token = ''t-admin'' then Inr (admin_claims, True)
       else if token = ''t-ali'' then Inr (manager_claims 1 ''ali'', True)
       else if token = ''t-reza'' then Inr (manager_claims 2 ''reza'', True)
       else Inl ErrToken)\<rparr>"

text \<open>What \<open>Load\<close> reads from an empty environment.\<close>

definition default_config :: config where
  "default_config = \<lparr>HTTPAddr = '':8080'', CORSOrigins = [''http://localhost:4200''],
     SQLitePath = ''./data/panel.db'', TZ = ''Asia/Tehran'', MikrotikCacheTTL = 30000000000, MikrotikFake = True,
     MikrotikHost = ''192.168.56.11'', MikrotikPort = 8729, MikrotikUser = ''admin'', MikrotikPass = [],
     MikrotikAPI = ''api-ssl'', MikrotikUseTLS = True, MikrotikTLSInsec = False, MikrotikTimeout = 10000000000,
     MikrotikCertScript = ''generate-certificate'', JWTSecret = ''change-me'', JWTAccessTTL = 900000000000,
     JWTRefreshTTL = 604800000000000, AdminUsername = ''admin'', AdminPassword = ''change-me'',
     DefaultProfile = ''profile-open-2M-30d'', UsernamePrefixSep = ''_'', UsernameLocalMaxLen = 24,
     SharedUsersMax = 20, OpenVPNDownloadURL = ''http://dl.nimbaha.info/dl/'', OpenVPNKeyPassword = [],
     L2TPIPsecSecret = [], L2TPServer = [], OpenVPNTemplatePath = ''./config/client-template.ovpn''\<rparr>"

lemma Load_default: "Load (\<lambda>_. None) (\<lambda>_. []) = default_config"
  by code_simp

definition sample_app :: "fake_client app" where
  "sample_app = \<lparr>Cfg = default_config, Router = FakeClient, JWT = sample_jwt,
     Bcrypt_Generate = (\<lambda>salt p. Inr (CHR ''#'' # p)), Bcrypt_Compare = (\<lambda>h p. h = CHR ''#'' # p),
     Unicode = \<lparr>high_letter = (\<lambda>_. False), high_digit = (\<lambda>_. False)\<rparr>, OS_ReadFile = (\<lambda>_. None)\<rparr>"

text \<open>The router of the quota examples, with a user of the second manager.\<close>

definition panel_fake :: fake_client where
  "panel_fake = sample_fake\<lparr>fk_users := map (\<lambda>u. (usr_Name u, u)) (sample_user ''reza_b'' 1 False # sample_users)\<rparr>"

definition sample_world :: "fake_client world" where
  "sample_world = \<lparr>w_db = sample_db, w_router = NewCached panel_fake, w_entropy = replicate 20 (Some 53),
     w_now = 0\<rparr>"

definition sample_request :: "string \<Rightarrow> request" where
  "sample_request auth = \<lparr>rq_Authorization = auth, rq_Query = (\<lambda>_. []), rq_Param = (\<lambda>_. []),
     rq_Body = None, rq_Trailing = False\<rparr>"

lemma sample_app_router [simp]: "Router sample_app = FakeClient"
  by (simp add: sample_app_def)

lemma sample_router: "user_manager (Router sample_app) fake_ok fake_users fake_profiles"
  by (simp add: fake.user_manager_axioms)

lemma sample_cache_ok: "cache_ok fake_ok fake_users fake_profiles (w_router sample_world)"
  proof -
  have "fake_ok panel_fake" by code_simp
  then show ?thesis by (simp add: cache_ok_def sample_world_def NewCached_def)
qed

text \<open>The first activation settled by the administrator, and a request that creates a manager.\<close>

definition settled_db :: db where
  "settled_db = sample_db\<lparr>db_acts := [settle_row 0 1 (sample_act 1 1 2 ''2025-01-01 00:00:00'' False),
     sample_act 2 2 1 ''2025-01-02 00:00:00'' False]\<rparr>"

definition settled_world :: "fake_client world" where
  "settled_world = sample_world\<lparr>w_db := settled_db\<rparr>"

definition create_manager_request :: "string \<Rightarrow> request" where
  "create_manager_request slug = (sample_request ''Bearer t-admin'')\<lparr>rq_Body := Some (VObj
     [(''username'', VStr slug), (''password'', VStr ''secret123''), (''display_name'', VStr slug),
      (''slug'', VStr slug), (''quota'', VNum (Some 5) 5)])\<rparr>"

lemma sample_settled_ok: "db_ok settled_db"
  by (simp add: db_ok_defs ids_ok_def settled_db_def sample_db_def sample_manager_def sample_meta_def sample_act_def
      manager_exists_def admin_exists_def toLower_def lower_char_def is_upper_def settle_row_def)

end
