(* ===== verification/Access.thy ===== *)
theory Access
  imports Panel_Samples
begin

text \<open>
  Who may do what: requests without a token, the administrator's subtree, the ownership guards of
  the manager's handlers, login and tokens. \<open>managed_panel\<close> is a panel whose router keeps the
  contract of the client interface; in it the reading calls answer from the router's tables and
  change nothing but the cache.
\<close>

lemma status_simps [simp]:
  "status NoContent = 204" "status (WriteError n e) = n" "status (WriteJSON n j) = n"
  "status (WriteOvpn f b) = 200" "status Recovered = 500"
  by (simp_all add: status_def)

lemma st_query: "st (query s f) w = (r, w') \<Longrightarrow> w' = w"
  by (auto simp: st_eq query_def exec_def split: if_splits)

section \<open>A panel over a router that keeps its contract\<close>

definition world_users :: "('r \<Rightarrow> string \<rightharpoonup> mt_user) \<Rightarrow> 'r world \<Rightarrow> string \<rightharpoonup> mt_user" where
  "world_users users w = users (cc_inner (w_router w))"

definition world_profiles :: "('r \<Rightarrow> string \<Rightarrow> user_profile list) \<Rightarrow> 'r world \<Rightarrow> string \<Rightarrow> user_profile list" where
  "world_profiles profiles w = profiles (cc_inner (w_router w))"

definition world_registry :: "'r app \<Rightarrow> 'r world \<Rightarrow> registry" where
  "world_registry a w = BuildRegistry (sort_key mgr_ID (db_managers (w_db w))) (UsernamePrefixSep (Cfg a))"

locale managed_panel = user_manager "Router a" ok users profiles
  for a :: "'r app" and ok :: "'r \<Rightarrow> bool" and users :: "'r \<Rightarrow> string \<rightharpoonup> mt_user"
    and profiles :: "'r \<Rightarrow> string \<Rightarrow> user_profile list"

text \<open>The client the handlers call is the router behind its cache.\<close>

sublocale managed_panel \<subseteq> client: user_manager "MT a" "cache_ok ok users profiles" "users \<circ> cc_inner" "profiles \<circ> cc_inner"
  unfolding MT_def by (rule cached_manager)

interpretation fake_managed: managed_panel "a\<lparr>Router := FakeClient\<rparr>" fake_ok fake_users fake_profiles
  for a :: "fake_client app"
  by (intro managed_panel.intro) (simp add: fake.user_manager_axioms)

context managed_panel
begin

definition fresh :: "'r world \<Rightarrow> bool" where
  "fresh w \<longleftrightarrow> cache_ok ok users profiles (w_router w)"

text \<open>Nothing the panel shows has changed from \<open>w\<close> to \<open>w'\<close>.\<close>

definition same :: "'r world \<Rightarrow> 'r world \<Rightarrow> bool" where
  "same w w' \<longleftrightarrow> fresh w' \<and> w_db w' = w_db w \<and> world_users users w' = world_users users w
     \<and> world_profiles profiles w' = world_profiles profiles w \<and> w_now w' = w_now w"

lemma same_refl: "fresh w \<Longrightarrow> same w w"
  by (simp add: same_def)

lemma same_trans: "same w w1 \<Longrightarrow> same w1 w2 \<Longrightarrow> same w w2"
  by (simp add: same_def)

lemma same_fresh: "same w w' \<Longrightarrow> fresh w'"
  by (simp add: same_def)

lemma same_registry: "same w w' \<Longrightarrow> world_registry a w' = world_registry a w"
  by (simp add: same_def world_registry_def)

lemma GetUser_run:
  assumes "fresh w" "GetUser a name w = (r, w')"
  shows "same w w' \<and> (\<forall>u. r = Inr u \<longrightarrow> world_users users w name = Some u)
    \<and> (r = Inl ErrNotFound \<longrightarrow> world_users users w name = None)"
proof -
  obtain c where c: "cl_GetUser (MT a) (w_now w) name (w_router w) = (r, c)" "w' = w\<lparr>w_router := c\<rparr>"
    using assms(2) by (auto simp: GetUser_def bindE_Now mt_eq)
  have ok: "cache_ok ok users profiles (w_router w)" using assms(1) by (simp add: fresh_def)
  show ?thesis
    using client.GetUser_frame [OF ok c(1)] client.GetUser_Inr [OF ok] client.GetUser_NotFound [OF ok] c
    by (auto simp: same_def fresh_def world_users_def world_profiles_def)
qed

lemma ListUserProfiles_run:
  assumes "fresh w" "ListUserProfiles a name w = (r, w')"
  shows "same w w' \<and> (\<forall>ps. r = Inr ps \<longrightarrow> world_profiles profiles w name = ps)"
proof -
  obtain c where c: "cl_ListUserProfiles (MT a) (w_now w) name (w_router w) = (r, c)" "w' = w\<lparr>w_router := c\<rparr>"
    using assms(2) by (auto simp: ListUserProfiles_def bindE_Now mt_eq)
  have ok: "cache_ok ok users profiles (w_router w)" using assms(1) by (simp add: fresh_def)
  show ?thesis
    using client.ListUserProfiles_frame [OF ok c(1)] client.ListUserProfiles_Inr [OF ok] c
    by (auto simp: same_def fresh_def world_users_def world_profiles_def)
qed

lemma Registry_or_empty_run:
  "Registry_or_empty a w = (Inr (if db_fault (w_db w) S_ListManagers then \<lparr>reg_Separator = [], reg_Managers = []\<rparr>
     else world_registry a w), w)"
  by (simp add: Registry_or_empty_def Registry_def ListManagers_def query_def exec_def st_def bindE_def tryE_apply
      returnE_apply or_zero_def world_registry_def)

lemma Registry_run:
  "Registry a w = (if db_fault (w_db w) S_ListManagers then Inl ErrDriver else Inr (world_registry a w), w)"
  by (simp add: Registry_def ListManagers_def query_def exec_def st_def bindE_def returnE_apply world_registry_def)

section \<open>The ownership guards\<close>

lemma owner_guard_run:
  assumes "fresh w" "owner_guard a reg c meta k w = (resp, w')"
  shows "(\<exists>u. world_users users w (meta_MikrotikName meta) = Some u \<and> Resolve reg (usr_Name u) (usr_Comment u) = c_ManagerID c)
    \<or> 400 \<le> status resp \<and> same w w'"
  using assms(2) unfolding owner_guard_def
proof (cases rule: handle_cases)
  case (panic w1)
  then show ?thesis using GetUser_run [OF assms(1)] by auto
next
  case (error e w1)
  then show ?thesis using GetUser_run [OF assms(1)] by (auto simp: respond_def)
next
  case (fine u w1)
  then show ?thesis
    using GetUser_run [OF assms(1)]
    by (auto simp: respond_def assertManagerOwner_def split: if_splits)
qed

lemma owned_user_run:
  assumes "fresh w" "owned_user a reg c name k w = (resp, w')"
  shows "(\<exists>u. world_users users w name = Some u \<and> Resolve reg (usr_Name u) (usr_Comment u) = c_ManagerID c)
    \<or> 400 \<le> status resp \<and> same w w'"
  using assms(2) unfolding owned_user_def
proof (cases rule: handle_cases)
  case (panic w1)
  then show ?thesis using GetUser_run [OF assms(1)] by auto
next
  case (error e w1)
  then show ?thesis using GetUser_run [OF assms(1)] by (auto simp: respond_def)
next
  case (fine u w1)
  then show ?thesis
    using GetUser_run [OF assms(1)] by (auto simp: respond_def assertManagerOwner_def split: if_splits)
qed

lemma vpnMetaByID_run:
  assumes "fresh w" "vpnMetaByID r k w = (resp, w')"
  shows "(\<exists>meta. meta \<in> set (db_metas (w_db w)) \<and> parseInt (rq_Param r ''id'') = (meta_ID meta, None) \<and> k meta w = (resp, w'))
    \<or> 400 \<le> status resp \<and> same w w'"
proof (cases "parseInt (rq_Param r ''id'')")
  case (Pair i e)
  show ?thesis
  proof (cases e)
    case (Some x)
    then have "resp = VALIDATION" "w' = w" using assms(2) Pair by (auto simp: vpnMetaByID_def respond_def)
    then show ?thesis using assms(1) by (simp add: same_refl)
  next
    case None
    with assms(2) Pair have "handle (st (FindVPNMetaByID i)) (\<lambda>e. respond (if e = ErrNoRows then NOT_FOUND else INTERNAL)) k w = (resp, w')"
      by (simp add: vpnMetaByID_def)
    then show ?thesis
    proof (cases rule: handle_cases)
      case (panic w1)
      then show ?thesis using assms(1) st_query [OF panic(1) [unfolded FindVPNMetaByID_def]] by (simp add: same_refl)
    next
      case (error e w1)
      then show ?thesis
        using assms(1) st_query [OF error(1) [unfolded FindVPNMetaByID_def]]
        by (auto simp: respond_def same_refl split: if_splits)
    next
      case (fine meta w1)
      then have "find_by meta_ID i (db_metas (w_db w)) = Some meta" "w1 = w"
        by (auto simp: st_eq FindVPNMetaByID_def query_Inr_iff one_row_Inr_iff)
      then show ?thesis using fine(2) Pair None find_by_Some by fastforce
    qed
  qed
qed

text \<open>The manager's handlers by id: what they do before the guard lets them go on.\<close>

lemma guarded_by_id:
  assumes "fresh w" "c_ManagerID c \<noteq> 0"
    and "require_manager (Some c) (\<lambda>c. vpnMetaByID r (\<lambda>meta.
       handle (Registry_or_empty a) (\<lambda>_. respond INTERNAL) (\<lambda>reg. g c meta reg))) w = (resp, w')"
    and guard: "\<And>meta reg. g c meta reg w = (resp, w') \<Longrightarrow>
       (\<exists>u. world_users users w (meta_MikrotikName meta) = Some u \<and> Resolve reg (usr_Name u) (usr_Comment u) = c_ManagerID c)
       \<or> 400 \<le> status resp \<and> same w w'"
  shows "(\<exists>meta \<in> set (db_metas (w_db w)). \<exists>u. parseInt (rq_Param r ''id'') = (meta_ID meta, None)
      \<and> world_users users w (meta_MikrotikName meta) = Some u
      \<and> Resolve (world_registry a w) (usr_Name u) (usr_Comment u) = c_ManagerID c)
    \<or> 400 \<le> status resp \<and> same w w'"
proof (cases "c_Role c = RoleManager")
  case False
  then have "resp = FORBIDDEN" "w' = w" using assms(3) by (auto simp: require_manager_def respond_def)
  then show ?thesis using assms(1) by (simp add: same_refl)
next
  case True
  have "vpnMetaByID r (\<lambda>meta. handle (Registry_or_empty a) (\<lambda>_. respond INTERNAL) (\<lambda>reg. g c meta reg)) w = (resp, w')"
    using assms(3) True by (simp add: require_manager_def)
  from vpnMetaByID_run [OF assms(1) this] show ?thesis
  proof (elim disjE exE conjE)
    fix meta assume m: "meta \<in> set (db_metas (w_db w))" "parseInt (rq_Param r ''id'') = (meta_ID meta, None)"
      and run: "handle (Registry_or_empty a) (\<lambda>_. respond INTERNAL) (\<lambda>reg. g c meta reg) w = (resp, w')"
    let ?reg = "if db_fault (w_db w) S_ListManagers then \<lparr>reg_Separator = [], reg_Managers = []\<rparr> else world_registry a w"
    have "g c meta ?reg w = (resp, w')"
      using run by (simp add: handle_def Registry_or_empty_run split del: if_split)
    from guard [OF this] show ?thesis
      using m assms(2) by (auto simp: Resolve_def split: if_splits)
  qed blast
qed

lemma by_id_handlers:
  assumes "fresh w" "c_ManagerID c \<noteq> 0" "h (Some c) r w = (resp, w')"
    and "h \<in> {HandleGetVPNUser a, HandlePatchVPNUser a, HandleAssignProfile a, HandleDeleteVPNUser a,
      HandleConnectionBundle a, HandleDownloadOvpn a, HandleRemoveProfile a}"
  shows "(\<exists>meta \<in> set (db_metas (w_db w)). \<exists>u. parseInt (rq_Param r ''id'') = (meta_ID meta, None)
      \<and> world_users users w (meta_MikrotikName meta) = Some u
      \<and> Resolve (world_registry a w) (usr_Name u) (usr_Comment u) = c_ManagerID c)
    \<or> 400 \<le> status resp \<and> same w w'"
  using assms(4)
proof (elim insertE emptyE)
  assume h: "h = HandleGetVPNUser a"
  show ?thesis
    by (rule guarded_by_id [OF assms(1,2) assms(3) [unfolded h HandleGetVPNUser_def owned_user_def [symmetric]]])
      (rule owned_user_run [OF assms(1)])
next
  assume h: "h = HandlePatchVPNUser a"
  show ?thesis
    by (rule guarded_by_id [OF assms(1,2) assms(3) [unfolded h HandlePatchVPNUser_def]]) (rule owner_guard_run [OF assms(1)])
next
  assume h: "h = HandleAssignProfile a"
  show ?thesis
    by (rule guarded_by_id [OF assms(1,2) assms(3) [unfolded h HandleAssignProfile_def]]) (rule owner_guard_run [OF assms(1)])
next
  assume h: "h = HandleDeleteVPNUser a"
  show ?thesis
    by (rule guarded_by_id [OF assms(1,2) assms(3) [unfolded h HandleDeleteVPNUser_def]]) (rule owner_guard_run [OF assms(1)])
next
  assume h: "h = HandleConnectionBundle a"
  show ?thesis
    by (rule guarded_by_id [OF assms(1,2) assms(3) [unfolded h HandleConnectionBundle_def]]) (rule owner_guard_run [OF assms(1)])
next
  assume h: "h = HandleDownloadOvpn a"
  show ?thesis
    by (rule guarded_by_id [OF assms(1,2) assms(3) [unfolded h HandleDownloadOvpn_def]]) (rule owner_guard_run [OF assms(1)])
next
  assume h: "h = HandleRemoveProfile a"
  show ?thesis
    by (rule guarded_by_id [OF assms(1,2) assms(3) [unfolded h HandleRemoveProfile_def]]) (rule owner_guard_run [OF assms(1)])
qed

text \<open>The handlers by name that read the user before anything else.\<close>

lemma guarded_by_name:
  assumes "fresh w" "c_ManagerID c \<noteq> 0" "owned_user a reg c name k w = (resp, w')"
    and "reg = world_registry a w \<or> reg_Managers reg = []"
  shows "(\<exists>u. world_users users w name = Some u \<and> Resolve (world_registry a w) (usr_Name u) (usr_Comment u) = c_ManagerID c)
    \<or> 400 \<le> status resp \<and> same w w'"
  using owned_user_run [OF assms(1,3)] assms(2,4) by (auto simp: Resolve_def)

lemma by_name_handlers:
  assumes "fresh w" "c_ManagerID c \<noteq> 0" "h (Some c) r w = (resp, w')"
    and "h \<in> {HandleGetVPNUserByName a, HandleDeleteVPNUserByName a, HandleConnectionBundleByName a,
      HandleDownloadOvpnByName a, HandleRemoveProfileByName a}"
  shows "(\<exists>u. world_users users w (rq_Param r ''name'') = Some u
      \<and> Resolve (world_registry a w) (usr_Name u) (usr_Comment u) = c_ManagerID c)
    \<or> 400 \<le> status resp \<and> same w w'"
proof (cases "c_Role c = RoleManager")
  case False
  then have "resp = FORBIDDEN" "w' = w"
    using assms(3,4)
    by (auto simp: require_manager_def respond_def HandleGetVPNUserByName_def HandleDeleteVPNUserByName_def
        HandleConnectionBundleByName_def HandleDownloadOvpnByName_def HandleRemoveProfileByName_def)
  then show ?thesis using assms(1) by (simp add: same_refl)
next
  case role: True
  show ?thesis
  proof (cases "db_fault (w_db w) S_ListManagers")
    case True
    have "(\<exists>k. owned_user a \<lparr>reg_Separator = [], reg_Managers = []\<rparr> c (rq_Param r ''name'') k w = (resp, w'))
      \<or> resp = INTERNAL \<and> w' = w"
      using assms(3,4) role True
      by (auto simp: require_manager_def respond_def HandleGetVPNUserByName_def HandleDeleteVPNUserByName_def
          HandleConnectionBundleByName_def HandleDownloadOvpnByName_def HandleRemoveProfileByName_def
          vpnMikrotikName_def Let_def handle_def Registry_run Registry_or_empty_run)
    then show ?thesis
    proof (elim disjE exE conjE)
      fix k assume run: "owned_user a \<lparr>reg_Separator = [], reg_Managers = []\<rparr> c (rq_Param r ''name'') k w = (resp, w')"
      show ?thesis by (rule guarded_by_name [OF assms(1,2) run]) simp
    qed (use assms(1) in \<open>simp add: same_refl\<close>)
  next
    case False
    have "\<exists>k. owned_user a (world_registry a w) c (rq_Param r ''name'') k w = (resp, w')"
      using assms(3,4) role False
      by (auto simp: require_manager_def HandleGetVPNUserByName_def HandleDeleteVPNUserByName_def
          HandleConnectionBundleByName_def HandleDownloadOvpnByName_def HandleRemoveProfileByName_def
          vpnMikrotikName_def Let_def handle_def [of "Registry a"] handle_def [of "Registry_or_empty a"]
          Registry_run Registry_or_empty_run)
    then show ?thesis using guarded_by_name [OF assms(1,2)] by blast
  qed
qed

end

section \<open>Requests without the right token\<close>

lemma match_Lits: "match_path (map Lit ss) path = (if path = ss then Some [] else None)"
proof (induction ss arbitrary: path)
  case Nil
  then show ?case by (cases path) auto
next
  case (Cons s ss)
  then show ?case by (cases path) auto
qed

lemma find_append: "find P (xs @ ys) = (case find P xs of None \<Rightarrow> find P ys | Some x \<Rightarrow> Some x)"
  by (induction xs) auto

lemma find_protected:
  "find P (map (protect a) rts) = Some rt \<Longrightarrow> \<exists>h. snd (snd rt) = authenticated a h"
  by (auto simp: find_Some_iff protect_def)

lemma dispatch_protected:
  assumes "authenticate (JWT a) (Auth_Issuer a) (w_now w) (rq_Authorization r) = None"
    and "\<forall>rt \<in> set (public_routes a). \<not> path_matches path rt"
  shows "dispatch (public_routes a @ map (protect a) (user_routes a)) meth path None r w
    \<in> {(UNAUTHORIZED, w), (NotFound404, w), (MethodNotAllowed, w)}"
proof -
  let ?P = "\<lambda>rt. fst rt = meth \<and> path_matches path rt"
  have pub: "find ?P (public_routes a) = None" using assms(2) by (auto simp: find_None_iff)
  show ?thesis
  proof (cases "find ?P (map (protect a) (user_routes a))")
    case None
    then show ?thesis using pub by (auto simp: dispatch_def find_append respond_def)
  next
    case (Some rt)
    obtain m pat h where rt: "rt = (m, pat, h)" by (cases rt)
    obtain h' where "h = authenticated a h'" using find_protected [OF Some] rt by auto
    then show ?thesis
      using pub Some rt assms(1)
      by (simp add: dispatch_def find_append authenticated_def Middleware_def with_params_def respond_def)
  qed
qed

lemma admin_forbidden:
  assumes "authenticate (JWT a) (Auth_Issuer a) (w_now w) (rq_Authorization r) = Some c" "c_Role c \<noteq> RoleAdmin"
  shows "serve a meth (''api'' # ''v1'' # ''admin'' # rest) r w = (FORBIDDEN, w)"
  using assms by (simp add: serve_def authenticated_def Middleware_def RequireAdmin_def respond_def)

section \<open>Properties\<close>



text \<open>The VPN user that a request names: through a row of the database, or itself.\<close>

definition names_user :: "bool \<Rightarrow> 'r world \<Rightarrow> request \<Rightarrow> string \<Rightarrow> bool" where
  "names_user byID w r name =
     (if byID then \<exists>meta \<in> set (db_metas (w_db w)). parseInt (rq_Param r ''id'') = (meta_ID meta, None)
                \<and> meta_MikrotikName meta = name
      else rq_Param r ''name'' = name)"

text \<open>The manager's handlers that look at the owner, by id and by name.\<close>

definition guarded_handlers :: "'r app \<Rightarrow> (bool \<times> 'r world endpoint) set" where
  "guarded_handlers a = Pair True ` {HandleGetVPNUser a, HandlePatchVPNUser a, HandleAssignProfile a,
       HandleDeleteVPNUser a, HandleConnectionBundle a, HandleDownloadOvpn a, HandleRemoveProfile a}
     \<union> Pair False ` {HandleGetVPNUserByName a, HandleDeleteVPNUserByName a, HandleConnectionBundleByName a,
       HandleDownloadOvpnByName a, HandleRemoveProfileByName a}"


definition id_request :: "string \<Rightarrow> request" where
  "id_request i = (sample_request [])\<lparr>rq_Param := (\<lambda>_. i)\<rparr>"


definition disable_request :: "string \<Rightarrow> request" where
  "disable_request name = (sample_request [])\<lparr>rq_Param := (\<lambda>_. name),
     rq_Body := Some (VObj [(''disabled'', VBool True)])\<rparr>"


section \<open>Login and tokens\<close>

lemma login_manager_success:
  assumes "login_manager a req w = (WriteJSON 200 j, w')"
  shows "w' = w \<and> (\<exists>m \<in> set (db_managers (w_db w)). equalFold (mgr_Username m) (lr_Username req)
    \<and> mgr_IsActive m \<and> Check a (mgr_PasswordHash m) (lr_Password req))"
  using assms unfolding login_manager_def
proof (cases rule: handle_cases)
  case (fine m w1)
  have w1: "w1 = w" using fine(1) st_query by (auto simp: FindManagerByUsername_def)
  have m: "m \<in> set (db_managers (w_db w))" "equalFold (mgr_Username m) (lr_Username req)"
    using fine(1) by (auto simp: st_eq FindManagerByUsername_def query_Inr_iff one_row_Inr_iff dest: find_SomeD)
  have pair: "new_pair a c w2 = (q, w3) \<Longrightarrow> w3 = w2" for c w2 q w3
    by (auto simp: new_pair_def bindE_Now liftE_def)
  show ?thesis
    using fine(2) m w1 by (auto simp: respond_def split: if_splits elim!: handle_cases dest!: pair)
qed (auto simp: respond_def split: if_splits)

text \<open>
  C26. A login succeeds only with the password of an active account: an active administrator whose
  username matches, or else an active manager; and it changes nothing.
\<close>

theorem login_needs_password:
  assumes "HandleLogin a ctx r w = (WriteJSON 200 j, w')"
  shows "w' = w \<and> (\<exists>req. DecodeJSON login_fields \<lparr>lr_Username = [], lr_Password = []\<rparr> r = Some req \<and>
    ((\<exists>adm \<in> set (db_admins (w_db w)). equalFold (adm_Username adm) (lr_Username req) \<and> adm_IsActive adm
        \<and> Check a (adm_PasswordHash adm) (lr_Password req))
     \<or> (\<exists>m \<in> set (db_managers (w_db w)). equalFold (mgr_Username m) (lr_Username req) \<and> mgr_IsActive m
        \<and> Check a (mgr_PasswordHash m) (lr_Password req))))"
proof -
  obtain req where req: "DecodeJSON login_fields \<lparr>lr_Username = [], lr_Password = []\<rparr> r = Some req"
    using assms by (auto simp: HandleLogin_def respond_def split: option.splits)
  have pair: "new_pair a c w2 = (q, w3) \<Longrightarrow> w3 = w2" for c w2 q w3
    by (auto simp: new_pair_def bindE_Now liftE_def)
  have "handle (st (FindAdminByUsername (lr_Username req))) (\<lambda>_. login_manager a req) (\<lambda>adm.
        if \<not> adm_IsActive adm \<or> \<not> Check a (adm_PasswordHash adm) (lr_Password req)
        then respond UNAUTHORIZED
        else handle (new_pair a (zero_claims\<lparr>c_Role := RoleAdmin, c_Username := adm_Username adm\<rparr>))
          (\<lambda>_. respond INTERNAL) (\<lambda>pair. respond (WriteJSON 200 (login_json pair ''admin'' [])))) w = (WriteJSON 200 j, w')"
    using assms req by (simp add: HandleLogin_def)
  then show ?thesis
  proof (cases rule: handle_cases)
    case (error e w1)
    have "w1 = w" by (rule st_query [OF error(1) [unfolded FindAdminByUsername_def]])
    then show ?thesis using login_manager_success [of a req w j w'] error(3) req by blast
  next
    case (fine adm w1)
    have "w1 = w" using fine(1) st_query by (auto simp: FindAdminByUsername_def)
    moreover have "adm \<in> set (db_admins (w_db w))" "equalFold (adm_Username adm) (lr_Username req)"
      using fine(1) by (auto simp: st_eq FindAdminByUsername_def query_Inr_iff one_row_Inr_iff dest: find_SomeD)
    ultimately show ?thesis
      using fine(2) req by (auto simp: respond_def split: if_splits elim!: handle_cases dest!: pair)
  qed auto
qed

text \<open>The world with a password for the manager ali.\<close>

definition login_world :: "fake_client world" where
  "login_world = sample_world\<lparr>w_db := sample_db\<lparr>db_managers :=
     [(sample_manager 1 ''ali'')\<lparr>mgr_PasswordHash := ''#secret123''\<rparr>]\<rparr>\<rparr>"

definition login_request :: "string \<Rightarrow> string \<Rightarrow> request" where
  "login_request name pw = (sample_request [])\<lparr>rq_Body := Some (VObj [(''username'', VStr name), (''password'', VStr pw)])\<rparr>"

lemma login_needs_password_witness:
  "\<exists>m \<in> set (db_managers (w_db login_world)). mgr_Slug m = ''ali'' \<and> Check sample_app (mgr_PasswordHash m) ''secret123''"
proof -
  let ?run = "HandleLogin sample_app None (login_request ''ali'' ''secret123'') login_world"
  have "case fst ?run of WriteJSON n j \<Rightarrow> n = 200 | _ \<Rightarrow> False" by code_simp
  then obtain j where "fst ?run = WriteJSON 200 j" by (auto split: response.splits)
  then have run: "?run = (WriteJSON 200 j, snd ?run)" by (simp add: prod_eq_iff)
  have req: "DecodeJSON login_fields \<lparr>lr_Username = [], lr_Password = []\<rparr> (login_request ''ali'' ''secret123'')
      = Some \<lparr>lr_Username = ''ali'', lr_Password = ''secret123''\<rparr>" by code_simp
  show ?thesis
    using login_needs_password [OF run] req
    by (auto simp: login_world_def sample_world_def sample_db_def sample_manager_def equalFold_def toLower_def lower_char_def is_upper_def)
qed

text \<open>
  C25. Tokens: the access token of a pair authenticates its owner with the same role, manager, slug
  and username until it expires, and not longer; the refresh token never passes as an access token,
  and gives the same identity back to \<open>Parse\<close> until it expires. The hypothesis is the contract of
  the JWT library for HS256 tokens: what was signed is read back while it has not expired.
\<close>

theorem tokens_round_trip:
  assumes lib: "\<And>c t. SignedString L (is_secret i) c = Inr t \<Longrightarrow>
      ParseWithClaims L (is_secret i) now t = (if now < c_ExpiresAt c then Inr (c, True) else Inl ErrToken)"
    and pair: "NewPair L i issued c = Inr pair"
  shows "authenticate L i now (''Bearer '' @ AccessToken pair) =
      (if now < NewNumericDate (issued + is_accessTTL i) then Some (sign_claims c issued (is_accessTTL i) ''access'') else None)
    \<and> authenticate L i now (''Bearer '' @ RefreshToken pair) = None
    \<and> Parse L i now (RefreshToken pair) =
      (if now < NewNumericDate (issued + is_refreshTTL i) then Inr (sign_claims c issued (is_refreshTTL i) ''refresh'') else Inl ErrToken)"
proof -
  have access: "SignedString L (is_secret i) (sign_claims c issued (is_accessTTL i) ''access'') = Inr (AccessToken pair)"
    and refresh: "SignedString L (is_secret i) (sign_claims (c\<lparr>c_TokenType := ''refresh''\<rparr>) issued (is_refreshTTL i) ''refresh'') = Inr (RefreshToken pair)"
    using pair by (auto simp: NewPair_def sign_def split: sum.splits)
  have same: "sign_claims (c\<lparr>c_TokenType := ''refresh''\<rparr>) issued (is_refreshTTL i) ''refresh'' = sign_claims c issued (is_refreshTTL i) ''refresh''"
    by (simp add: sign_claims_def)
  show ?thesis
    using lib [OF access] lib [OF refresh] unfolding same
    by (simp add: authenticate_def Parse_def) (simp add: sign_claims_def)
qed

definition ali_claims :: claims where
  "ali_claims = manager_claims 1 ''ali''"

definition one_user_jwt :: jwt_lib where
  "one_user_jwt = \<lparr>SignedString = (\<lambda>s c.
       if c = sign_claims ali_claims 0 60000000000 ''access'' then Inr ''a''
       else if c = sign_claims ali_claims 0 90000000000 ''refresh'' then Inr ''r'' else Inl ErrToken),
     ParseWithClaims = (\<lambda>s now t.
       let c = (if t = ''a'' then sign_claims ali_claims 0 60000000000 ''access''
                else sign_claims ali_claims 0 90000000000 ''refresh'')
       in if now < c_ExpiresAt c then Inr (c, True) else Inl ErrToken)\<rparr>"

lemma tokens_round_trip_witness:
  "authenticate one_user_jwt \<lparr>is_secret = ''k'', is_accessTTL = 60000000000, is_refreshTTL = 90000000000\<rparr> 5 ''Bearer a''
     = Some (sign_claims ali_claims 0 60000000000 ''access'')
   \<and> authenticate one_user_jwt \<lparr>is_secret = ''k'', is_accessTTL = 60000000000, is_refreshTTL = 90000000000\<rparr> 5 ''Bearer r'' = None"
proof -
  let ?i = "\<lparr>is_secret = ''k'', is_accessTTL = 60000000000, is_refreshTTL = 90000000000\<rparr>"
  have lib: "ParseWithClaims one_user_jwt (is_secret ?i) 5 t = (if 5 < c_ExpiresAt c then Inr (c, True) else Inl ErrToken)"
    if "SignedString one_user_jwt (is_secret ?i) c = Inr t" for c t
    using that by (auto simp: one_user_jwt_def Let_def split: if_splits)
  have pair: "NewPair one_user_jwt ?i 0 ali_claims = Inr \<lparr>AccessToken = ''a'', RefreshToken = ''r''\<rparr>"
  proof -
    have "c_TokenType (sign_claims ali_claims 0 90000000000 ''refresh'') \<noteq> c_TokenType (sign_claims ali_claims 0 60000000000 ''access'')"
      by (simp add: sign_claims_def)
    then have "sign_claims ali_claims 0 90000000000 ''refresh'' \<noteq> sign_claims ali_claims 0 60000000000 ''access''" by metis
    moreover have "sign_claims (ali_claims\<lparr>c_TokenType := ''refresh''\<rparr>) 0 90000000000 ''refresh'' = sign_claims ali_claims 0 90000000000 ''refresh''"
      by (simp add: sign_claims_def)
    ultimately show ?thesis by (simp add: NewPair_def sign_def one_user_jwt_def)
  qed
  show ?thesis using tokens_round_trip [OF lib pair] by (simp add: NewNumericDate_def)
qed

end
