(* ===== verification/Create_Props.thy ===== *)
theory Create_Props
  imports Access
begin

text \<open>
  Creating a VPN user, from the service call down to the router and the database: what a success
  has done, what a failure leaves, and the quota. The calls that leave the router's tables and the
  database alone keep \<open>same w0\<close>; the router user exists from \<open>add_router_user\<close> on (\<open>added\<close>), and
  every failure after that takes it back.
\<close>

section \<open>Calls that change nothing that is shown\<close>

lemma resolveVPNPassword_valid: "resolveVPNPassword pw w = (Inr pass, w') \<Longrightarrow> ValidVPN pass"
  by (auto simp: resolveVPNPassword_def Let_def rnd_def GenerateVPN_def failE_apply returnE_apply
      split: if_splits prod.splits dest: GenerateVPN_loop_spec)

context managed_panel
begin

lemma same_mt:
  assumes "\<And>c r c'. cache_ok ok users profiles c \<Longrightarrow> m c = (r, c') \<Longrightarrow> cache_ok ok users profiles c'
    \<and> (users \<circ> cc_inner) c' = (users \<circ> cc_inner) c \<and> (profiles \<circ> cc_inner) c' = (profiles \<circ> cc_inner) c"
  shows "preserves (same w0) (mt m)"
proof (rule preservesI)
  fix w assume w: "same w0 w"
  obtain r c where m: "m (w_router w) = (r, c)" by (cases "m (w_router w)")
  have "cache_ok ok users profiles (w_router w)" using w by (simp add: same_def fresh_def)
  from assms [OF this m] show "same w0 (snd (mt m w))"
    using w m by (simp add: same_def fresh_def mt_def world_users_def world_profiles_def)
qed

lemma same_intro [preserves_intro]:
  "preserves (same w0) (mt (cl_ListUsers (MT a) now))"
  "preserves (same w0) (mt (cl_GetUser (MT a) now name))"
  "preserves (same w0) (mt (cl_ListUserProfiles (MT a) now name))"
  "preserves (same w0) (mt (cl_GenerateCertificate (MT a) script title pass))"
  "preserves (same w0) (mt (cl_ReadFileContents (MT a) file_name))"
  "preserves (same w0) (mt (cl_WriteFileContents (MT a) file_name body))"
  by (rule same_mt, erule (1) client.ListUsers_frame client.GetUser_frame client.ListUserProfiles_frame
      client.Generate_keeps client.Read_keeps client.Write_keeps)+

lemma same_rnd [preserves_intro]: "preserves (same w0) (rnd m)"
  by (auto simp: preserves_def same_def fresh_def rnd_def world_users_def world_profiles_def split: prod.split)

lemma same_query [preserves_intro]: "preserves (same w0) (st (query s f))"
  by (rule preservesI) (simp add: st_query [OF prod.collapse [symmetric]])

lemma same_store [preserves_intro]:
  "preserves (same w0) (st (FindManagerByID i))" "preserves (same w0) (st ListManagers)"
  "preserves (same w0) (st (FindVPNMetaByName n))" "preserves (same w0) (st (FindVPNMetaByID i))"
  unfolding FindManagerByID_def ListManagers_def FindVPNMetaByName_def FindVPNMetaByID_def by (rule same_query)+

lemma same_services [preserves_intro]:
  "preserves (same w0) (Registry a)" "preserves (same w0) (GetUser a n)" "preserves (same w0) (ListUserProfiles a n)"
  "preserves (same w0) (resolveVPNPassword pw)" "preserves (same w0) (ensureUserOvpnFile a n t)"
  "preserves (same w0) (provisionCertificate a t p)"
  unfolding Registry_def GetUser_def ListUserProfiles_def resolveVPNPassword_def ensureUserOvpnFile_def
    provisionCertificate_def Let_def
  by (intro preserves_intro)+

lemma same_certificates [preserves_intro]: "preserves (same w0) (setupVPNCertificates a n m t)"
  unfolding setupVPNCertificates_def Let_def by (intro preserves_intro)

lemma same_used [preserves_intro]: "preserves (same w0) (managerUsedQuota a i)"
  unfolding managerUsedQuota_def UsedForManager_def by (intro preserves_intro)

lemma same_run: "preserves (same w) m \<Longrightarrow> fresh w \<Longrightarrow> m w = (r, w') \<Longrightarrow> same w w'"
  using preservesD' [of "same w" m w r w'] by (simp add: same_refl)

section \<open>Quota usage in terms of the router's tables\<close>

lemma ListUsers_run:
  assumes "fresh w" "mt (cl_ListUsers (MT a) now) w = (Inr us, w')"
  shows "distinct (map usr_Name us) \<and> world_users users w = user_map us"
proof -
  obtain c where "cl_ListUsers (MT a) now (w_router w) = (Inr us, c)" using assms(2) by (auto simp: mt_eq)
  then show ?thesis using client.ListUsers_Inr assms(1) by (auto simp: fresh_def world_users_def)
qed

lemma profiles_source:
  "profile_source (same w) (\<lambda>n. mt (cl_ListUserProfiles (MT a) now n)) (world_profiles profiles w)"
proof
  fix v n r v' assume "same w v" "mt (cl_ListUserProfiles (MT a) now n) v = (r, v')"
  then show "same w v'" using preservesD' [OF same_intro(3)] by blast
next
  fix v n ps v' assume v: "same w v" and run: "mt (cl_ListUserProfiles (MT a) now n) v = (Inr ps, v')"
  then obtain c where "cl_ListUserProfiles (MT a) now n (w_router v) = (Inr ps, c)" by (auto simp: mt_eq)
  then show "ps = world_profiles profiles w n"
    using client.ListUserProfiles_Inr [of "w_router v" now n ps c] v
    by (simp add: same_def fresh_def world_profiles_def)
qed

end

text \<open>The slots of a manager: the sum over the router's users that are its own, enabled, and active.\<close>

definition world_slots ::
  "('r \<Rightarrow> string \<rightharpoonup> mt_user) \<Rightarrow> ('r \<Rightarrow> string \<Rightarrow> user_profile list) \<Rightarrow> 'r app \<Rightarrow> int \<Rightarrow> 'r world \<Rightarrow> int" where
  "world_slots users profiles a managerID w =
     (\<Sum>u \<in> {u \<in> ran (world_users users w). \<not> usr_Disabled u
         \<and> Resolve (world_registry a w) (usr_Name u) (usr_Comment u) = managerID
         \<and> userHasActiveProfile (world_profiles profiles w (usr_Name u)) (w_now w)}. usr_SharedUsers u)"

lemma ran_user_map: "distinct (map usr_Name us) \<Longrightarrow> ran (user_map us) = set us"
  by (auto simp: ran_def user_map_Some)

context managed_panel
begin

lemma managerUsedQuota_run:
  assumes "fresh w" "managerUsedQuota a i w = (Inr used, w')"
  shows "used = i64 (world_slots users profiles a i w)"
proof -
  obtain us w1 where reg: "Registry a w = (Inr (world_registry a w), w)"
    and list: "mt (cl_ListUsers (MT a) (w_now w)) w = (Inr us, w1)"
    and run: "UsedForManager (world_registry a w) i us (\<lambda>n. mt (cl_ListUserProfiles (MT a) (w_now w) n)) (w_now w) w1 = (Inr used, w')"
    using assms(2) by (auto simp: managerUsedQuota_def bindE_Inr_iff Registry_run Now_run split: if_splits)
  have "same w w1" using same_run [OF same_intro(1) assms(1) list] .
  from profile_source.used_run [OF profiles_source this run]
  have used: "used = i64 (slots (world_registry a w) (world_profiles profiles w) (w_now w) (\<lambda>k. k = i) us)" by simp
  have us: "distinct (map usr_Name us)" "ran (world_users users w) = set us"
    using ListUsers_run [OF assms(1) list] ran_user_map by auto
  have "slots (world_registry a w) (world_profiles profiles w) (w_now w) (\<lambda>k. k = i) us =
      (\<Sum>u \<in> set (users_in (world_registry a w) (world_profiles profiles w) (w_now w) (\<lambda>k. k = i) us). usr_SharedUsers u)"
    unfolding slots_def users_in_def using us(1) by (intro sum_list_distinct_conv_sum_set distinct_filter) (simp add: distinct_map)
  also have "\<dots> = world_slots users profiles a i w"
    unfolding world_slots_def us(2) users_in_def by (rule sum.cong) (auto simp: counted_def owner_of_def)
  finally show ?thesis using used by simp
qed

end

section \<open>From the router user on\<close>

text \<open>\<open>added w0 name u w\<close>: compared to \<open>w0\<close>, the router of \<open>w\<close> has the new user \<open>u\<close>; the database
  may have changed. \<open>undone w0 w\<close>: the router's tables are those of \<open>w0\<close> again.\<close>

definition new_user :: "string \<Rightarrow> string \<Rightarrow> string \<Rightarrow> string \<Rightarrow> createVPNReq \<Rightarrow> mt_user" where
  "new_user i name pass comment req = \<lparr>usr_ID = i, usr_Name = name, usr_Password = pass,
     usr_SharedUsers = cr_SharedUsers req, usr_Comment = comment, usr_Disabled = vpnUserDisabled (cr_Disabled req)\<rparr>"

context managed_panel
begin

definition added :: "'r world \<Rightarrow> string \<Rightarrow> mt_user \<Rightarrow> 'r world \<Rightarrow> bool" where
  "added w0 name u w \<longleftrightarrow> fresh w \<and> world_users users w0 name = None
     \<and> world_users users w = (world_users users w0)(name \<mapsto> u)
     \<and> (\<forall>n. n \<noteq> name \<longrightarrow> world_profiles profiles w n = world_profiles profiles w0 n) \<and> w_now w = w_now w0"

definition undone :: "'r world \<Rightarrow> 'r world \<Rightarrow> bool" where
  "undone w0 w \<longleftrightarrow> world_users users w = world_users users w0 \<and> world_profiles profiles w = world_profiles profiles w0"

lemma added_same: "added w0 name u w \<Longrightarrow> same w w' \<Longrightarrow> added w0 name u w'"
  by (simp add: added_def same_def)

lemma added_db: "added w0 name u (w\<lparr>w_db := d\<rparr>) = added w0 name u w"
  by (simp add: added_def fresh_def world_users_def world_profiles_def)

lemma db_parts [simp]:
  "fresh (w\<lparr>w_db := d\<rparr>) = fresh w" "world_users users (w\<lparr>w_db := d\<rparr>) = world_users users w"
  "world_profiles profiles (w\<lparr>w_db := d\<rparr>) = world_profiles profiles w"
  by (simp_all add: fresh_def world_users_def world_profiles_def)

lemma add_router_user_Inr:
  assumes "fresh w" "add_router_user a name pass comment req w = (Inr (), w')"
  shows "\<exists>i. added w name (new_user i name pass comment req) w' \<and> w_db w' = w_db w
    \<and> world_profiles profiles w' = world_profiles profiles w \<and> w_now w' = w_now w"
proof -
  obtain c where c: "cl_AddUser (MT a) name pass comment (cr_SharedUsers req) (vpnUserDisabled (cr_Disabled req)) (w_router w) = (Inr (), c)"
    "w' = w\<lparr>w_router := c\<rparr>"
    using assms(2) by (auto simp: add_router_user_def orElse_def bindE_Inr_iff tryE_apply returnE_apply failE_apply mt_eq
        mt_def split: sum.splits if_splits prod.splits)
  show ?thesis
    using client.AddUser_Inr [OF assms(1) [unfolded fresh_def] c(1)] c(2)
    by (auto simp: added_def new_user_def fresh_def world_users_def world_profiles_def)
qed

lemma add_router_user_Inl:
  assumes "fresh w" "add_router_user a name pass comment req w = (Inl e, w')"
  shows "same w w'"
proof -
  obtain e' c where c: "cl_AddUser (MT a) name pass comment (cr_SharedUsers req) (vpnUserDisabled (cr_Disabled req)) (w_router w) = (Inl e', c)"
    "w' = w\<lparr>w_router := c\<rparr>"
    using assms(2) by (auto simp: add_router_user_def orElse_def bindE_def tryE_apply returnE_apply failE_apply
        mt_def split: sum.splits if_splits prod.splits)
  show ?thesis
    using client.AddUser_Inl [OF assms(1) [unfolded fresh_def] c(1)] c(2)
    by (auto simp: same_def fresh_def world_users_def world_profiles_def)
qed

text \<open>A router that can remove the users it has.\<close>

definition removes :: bool where
  "removes \<longleftrightarrow> (\<forall>r name. ok r \<longrightarrow> users r name \<noteq> None \<longrightarrow> fst (cl_RemoveUser (Router a) name r) = Inr ())"

lemma remove_run:
  assumes "removes" "added w0 name u w" "world_profiles profiles w = world_profiles profiles w0" "fresh w0"
    "tryE (mt (cl_RemoveUser (MT a) name)) w = (x, w')"
  shows "undone w0 w' \<and> w_db w' = w_db w \<and> fresh w'"
proof -
  have ok: "cache_ok ok users profiles (w_router w)" using assms(2) by (simp add: added_def fresh_def)
  have "fst (cl_RemoveUser (Router a) name (cc_inner (w_router w))) = Inr ()"
    using assms(1,2) ok by (simp add: removes_def added_def cache_ok_def world_users_def)
  then obtain r where "cl_RemoveUser (Router a) name (cc_inner (w_router w)) = (Inr (), r)"
    by (metis prod.collapse)
  then have "fst (cl_RemoveUser (MT a) name (w_router w)) = Inr ()"
    by (simp add: MT_def CachedClient_def Cached_RemoveUser_def write_through_def inner_def bindE_def)
  then obtain c where c: "cl_RemoveUser (MT a) name (w_router w) = (Inr (), c)" by (metis prod.collapse)
  have w': "w' = w\<lparr>w_router := c\<rparr>" using assms(5) c by (simp add: tryE_apply mt_def)
  have "world_profiles profiles w0 name = []"
    using assms(2,4) client.orphan_profiles [of "w_router w0" name]
    by (simp add: added_def fresh_def world_users_def world_profiles_def)
  then show ?thesis
    using client.RemoveUser_Inr [OF ok c] w' assms(2,3)
    by (auto simp: undone_def added_def fresh_def world_users_def world_profiles_def fun_upd_idem)
qed

lemma rollback_run:
  assumes "removes" "added w0 name u w" "world_profiles profiles w = world_profiles profiles w0" "fresh w0"
    "rollback_user a name e w = (r, w')"
  shows "r = Inl e \<and> undone w0 w' \<and> w_db w' = w_db w"
proof -
  obtain x w1 where 1: "tryE (mt (cl_RemoveUser (MT a) name)) w = (x, w1)" by (cases "tryE (mt (cl_RemoveUser (MT a) name)) w")
  then have "r = Inl e" "w' = w1"
    using assms(5) by (auto simp: rollback_user_def bindE_def tryE_apply failE_apply)
  then show ?thesis using remove_run [OF assms(1-4) 1] by simp
qed

end

lemma orElse_cases:
  assumes "orElse m f w = (r, w')"
  obtains (fine) x where "m w = (Inr x, w')" "r = Inr x"
    | (error) e w1 where "m w = (Inl e, w1)" "f e w1 = (r, w')"
proof -
  obtain q w1 where m: "m w = (q, w1)" by (cases "m w")
  then show thesis
    using assms fine error by (cases q) (auto simp: orElse_def bindE_def tryE_apply returnE_apply)
qed

lemma CreateVPNMeta_Inl: "CreateVPNMeta now v d = (Inl e, d') \<Longrightarrow> d' = d"
  by (auto simp: CreateVPNMeta_def exec_def Let_def split: if_splits)

lemma CreateVPNMeta_Inr:
  "CreateVPNMeta now v d = (Inr m, d') \<Longrightarrow> meta_ID m = seq_metas d + 1 \<and>
     d' = d\<lparr>db_metas := db_metas d @ [v\<lparr>meta_ID := seq_metas d + 1, meta_CreatedAt := sqlite_datetime now,
            meta_UpdatedAt := sqlite_datetime now\<rparr>], seq_metas := seq_metas d + 1\<rparr>"
  by (auto simp: CreateVPNMeta_def exec_def Let_def split: if_splits)

text \<open>Deleting the row that was just added restores the two tables.\<close>

lemma delete_added:
  assumes "db_ok d" "meta_ID row = seq_metas d + 1"
    and "tryE (DeleteVPNMeta (seq_metas d + 1)) (d\<lparr>db_metas := db_metas d @ [row], seq_metas := n\<rparr>) = (x, d')"
    and "\<not> db_fault d S_DeleteVPNMeta"
  shows "db_metas d' = db_metas d \<and> db_acts d' = db_acts d"
proof -
  have "\<forall>v \<in> set (db_metas d). meta_ID v \<noteq> seq_metas d + 1"
    using ids_ok_seq [OF db_ok_ids(3) [OF assms(1)]] by fastforce
  moreover have "\<forall>r \<in> set (db_acts d). act_VPNUserMetaID r \<noteq> seq_metas d + 1"
    using assms(1) ids_ok_seq [OF db_ok_ids(3) [OF assms(1)]] by (fastforce simp: db_ok_defs)
  ultimately show ?thesis
    using assms(2-4) by (auto simp: tryE_apply DeleteVPNMeta_def exec_def filter_id_conv)
qed

lemma db_managers_delete: "db_managers (snd (DeleteVPNMeta i d)) = db_managers d"
  by (simp add: DeleteVPNMeta_def exec_def)

lemma recordActivation_frame:
  "recordActivation i p n am cu no ps w = (r, w') \<Longrightarrow>
     w_router w' = w_router w \<and> w_now w' = w_now w \<and> db_metas (w_db w') = db_metas (w_db w)
     \<and> db_managers (w_db w') = db_managers (w_db w)"
  unfolding recordActivation_def bindE_Now Let_def
  by (auto simp: bindE_def st_def CreateActivation_def exec_def returnE_apply Let_def
      split: if_splits prod.splits sum.splits)

lemma bindE_cases:
  assumes "bindE m f w = (r, w')"
  obtains (error) e where "m w = (Inl e, w')" "r = Inl e"
    | (fine) x w1 where "m w = (Inr x, w1)" "f x w1 = (r, w')"
  using assms by (auto simp: bindE_def split: prod.splits sum.splits)

context managed_panel
begin

lemma AddUserProfile_keeps:
  assumes "fresh w" "mt (cl_AddUserProfile (MT a) now name profile) w = (r, w')"
  shows "fresh w' \<and> world_users users w' = world_users users w \<and> w_db w' = w_db w
    \<and> w_now w' = w_now w \<and> (\<forall>n. n \<noteq> name \<longrightarrow> world_profiles profiles w' n = world_profiles profiles w n)
    \<and> (\<forall>e. r = Inl e \<longrightarrow> world_profiles profiles w' = world_profiles profiles w)
    \<and> (r = Inr () \<longrightarrow> (\<exists>p \<in> set (world_profiles profiles w' name). prof_Profile p = profile))"
proof -
  obtain c where c: "cl_AddUserProfile (MT a) now name profile (w_router w) = (r, c)" "w' = w\<lparr>w_router := c\<rparr>"
    using assms(2) by (auto simp: mt_eq)
  have ok: "cache_ok ok users profiles (w_router w)" using assms(1) by (simp add: fresh_def)
  show ?thesis
  proof (cases r)
    case (Inl e)
    then show ?thesis
      using client.AddUserProfile_Inl [OF ok] c by (auto simp: fresh_def world_users_def world_profiles_def)
  next
    case (Inr x)
    then show ?thesis
      using client.AddUserProfile_Inr [OF ok, of now name profile] c
      by (fastforce simp: fresh_def world_users_def world_profiles_def)
  qed
qed

text \<open>The last part of \<open>finish_create\<close>: the profile and the activation.\<close>

abbreviation (input) assign_step :: "time \<Rightarrow> string \<Rightarrow> vpn_user_meta \<Rightarrow> createVPNReq \<Rightarrow> ('r world, user_profile list) go" where
  "assign_step now name meta req \<equiv>
     bindE (orElse (mt (cl_AddUserProfile (MT a) now name (chosen_profile a req))) (\<lambda>e.
                bindE (tryE (mt (cl_RemoveUser (MT a) name))) (\<lambda>_.
                bindE (tryE (st (DeleteVPNMeta (meta_ID meta)))) (\<lambda>_.
                failE e)))) (\<lambda>_.
              bindE (tryE (ListUserProfiles a name)) (\<lambda>profsR.
              bindE (tryE (recordActivation (meta_ID meta) (chosen_profile a req) (cr_SharedUsers req)
                       (cr_AmountPaid req) (cr_Currency req) None (or_zero [] profsR))) (\<lambda>_.
              returnE (or_zero [] profsR))))"

lemma assign_step_Inr:
  assumes "added w0 name u w" "assign_step now name meta req w = (Inr ps, w')"
  shows "added w0 name u w' \<and> db_metas (w_db w') = db_metas (w_db w) \<and> db_managers (w_db w') = db_managers (w_db w)"
proof -
  let ?fail = "\<lambda>e. bindE (tryE (mt (cl_RemoveUser (MT a) name))) (\<lambda>_.
      bindE (tryE (st (DeleteVPNMeta (meta_ID meta)))) (\<lambda>_. failE e))"
  obtain x w1 where add: "orElse (mt (cl_AddUserProfile (MT a) now name (chosen_profile a req))) ?fail w = (Inr x, w1)"
    and rest: "bindE (tryE (ListUserProfiles a name)) (\<lambda>profsR.
              bindE (tryE (recordActivation (meta_ID meta) (chosen_profile a req) (cr_SharedUsers req)
                       (cr_AmountPaid req) (cr_Currency req) None (or_zero [] profsR))) (\<lambda>_.
              returnE (or_zero [] profsR))) w1 = (Inr ps, w')"
    by (rule bindE_InrE [OF assms(2)])
  have 1: "mt (cl_AddUserProfile (MT a) now name (chosen_profile a req)) w = (Inr x, w1)"
    using add by (cases rule: orElse_cases) (auto simp: bindE_def tryE_apply failE_apply)
  obtain q w2 where 2: "ListUserProfiles a name w1 = (q, w2)" by (cases "ListUserProfiles a name w1")
  have "w' = snd (recordActivation (meta_ID meta) (chosen_profile a req) (cr_SharedUsers req)
      (cr_AmountPaid req) (cr_Currency req) None (or_zero [] q) w2)"
    using rest 2 by (auto simp: bindE_def tryE_apply returnE_apply)
  then obtain y where 3: "recordActivation (meta_ID meta) (chosen_profile a req) (cr_SharedUsers req)
      (cr_AmountPaid req) (cr_Currency req) None (or_zero [] q) w2 = (y, w')"
    by (metis prod.collapse)
  have f: "fresh w" using assms(1) by (simp add: added_def)
  note A = AddUserProfile_keeps [OF f 1]
  have L: "same w1 w2" using ListUserProfiles_run [OF _ 2] A by simp
  show ?thesis
    using assms(1) A L recordActivation_frame [OF 3]
    by (simp add: added_def same_def fresh_def world_users_def world_profiles_def fun_upd_def)
qed

lemma assign_step_Inl:
  assumes "removes" "added w0 name u w" "world_profiles profiles w = world_profiles profiles w0" "fresh w0"
    and "assign_step now name meta req w = (Inl e, w')"
  shows "undone w0 w' \<and> (\<exists>x. tryE (DeleteVPNMeta (meta_ID meta)) (w_db w) = (x, w_db w'))"
proof -
  have f: "fresh w" using assms(2) by (simp add: added_def)
  obtain q w1 where 1: "mt (cl_AddUserProfile (MT a) now name (chosen_profile a req)) w = (q, w1)"
    by (cases "mt (cl_AddUserProfile (MT a) now name (chosen_profile a req)) w")
  note A = AddUserProfile_keeps [OF f 1]
  have "\<exists>e'. q = Inl e'"
    using assms(5) 1 by (cases q) (auto simp: bindE_def orElse_def tryE_apply returnE_apply split: prod.splits sum.splits)
  then obtain e' where q: "q = Inl e'" ..
  have added1: "added w0 name u w1" "world_profiles profiles w1 = world_profiles profiles w0"
    using assms(2,3) A q by (simp_all add: added_def)
  obtain x w2 where 2: "tryE (mt (cl_RemoveUser (MT a) name)) w1 = (x, w2)"
    by (cases "tryE (mt (cl_RemoveUser (MT a) name)) w1")
  note R = remove_run [OF assms(1) added1 assms(4) 2]
  have x: "\<exists>y. x = Inr y" using 2 by (auto simp: tryE_apply)
  have "w' = snd (st (DeleteVPNMeta (meta_ID meta)) w2)"
    using assms(5) 1 q 2 x by (auto simp: bindE_def orElse_def tryE_apply failE_apply)
  then have w': "w' = w2\<lparr>w_db := snd (DeleteVPNMeta (meta_ID meta) (w_db w2))\<rparr>"
    by (simp add: st_def split: prod.split)
  have db: "w_db w2 = w_db w" using R A by simp
  show ?thesis unfolding w' using R db by (simp add: undone_def tryE_apply)
qed

end


context managed_panel
begin

lemma finish_create_Inr:
  assumes "added w0 name u w" "finish_create a name mgr req w = (Inr out, w')"
  shows "added w0 name u w' \<and> db_managers (w_db w') = db_managers (w_db w)
    \<and> (\<exists>row. db_metas (w_db w') = db_metas (w_db w) @ [row] \<and> meta_MikrotikName row = name
        \<and> meta_ManagerID row = map_option mgr_ID mgr)
    \<and> (\<not> wants_profile req \<longrightarrow> world_profiles profiles w' = world_profiles profiles w)"
proof -
  obtain t k w1 meta w2 ps where
    1: "orElse (setupVPNCertificates a name mgr (cr_CertTitle req)) (rollback_user a name) w = (Inr (t, k), w1)"
    and 2: "orElse (st (CreateVPNMeta (w_now w1) (zero_meta\<lparr>meta_MikrotikName := name,
                   meta_ManagerID := map_option mgr_ID mgr, meta_CertTitle := t, meta_CertKeyPass := k,
                   meta_ContactInfo := cr_ContactInfo req, meta_Notes := cr_Notes req\<rparr>)))
              (rollback_user a name) w1 = (Inr meta, w2)"
    and 3: "(if wants_profile req then assign_step (w_now w1) name meta req else returnE []) w2 = (Inr ps, w')"
    using assms(2) unfolding finish_create_def Let_def
    by (elim bindE_InrE) (auto simp: Now_run returnE_apply split: prod.splits elim!: bindE_InrE)
  have "setupVPNCertificates a name mgr (cr_CertTitle req) w = (Inr (t, k), w1)"
    using 1 by (cases rule: orElse_cases) (auto simp: rollback_user_def bindE_def tryE_apply failE_apply)
  then have same: "same w w1" using same_run [OF same_certificates] assms(1) by (simp add: added_def)
  obtain d where d: "CreateVPNMeta (w_now w1) (zero_meta\<lparr>meta_MikrotikName := name,
                   meta_ManagerID := map_option mgr_ID mgr, meta_CertTitle := t, meta_CertKeyPass := k,
                   meta_ContactInfo := cr_ContactInfo req, meta_Notes := cr_Notes req\<rparr>) (w_db w1) = (Inr meta, d)"
    "w2 = w1\<lparr>w_db := d\<rparr>"
    using 2 by (cases rule: orElse_cases)
      (auto simp: rollback_user_def bindE_def tryE_apply failE_apply st_def split: prod.splits)
  have a2: "added w0 name u w2" using added_same [OF assms(1) same] by (simp add: d(2) added_db)
  have db: "w_db w1 = w_db w" using same by (simp add: same_def)
  have step: "added w0 name u w' \<and> db_metas (w_db w') = db_metas (w_db w2) \<and> db_managers (w_db w') = db_managers (w_db w2)
    \<and> (\<not> wants_profile req \<longrightarrow> world_profiles profiles w' = world_profiles profiles w2)"
  proof (cases "wants_profile req")
    case True
    then have "assign_step (w_now w1) name meta req w2 = (Inr ps, w')" using 3 by simp
    from assign_step_Inr [OF a2 this] True show ?thesis by simp
  next
    case False
    then show ?thesis using 3 a2 by (simp add: returnE_apply)
  qed
  then show ?thesis
    using CreateVPNMeta_Inr [OF d(1)] db d(2) same by (auto simp: zero_meta_def same_def)
qed

lemma finish_create_Inl:
  assumes "removes" "added w0 name u w" "world_profiles profiles w = world_profiles profiles w0" "fresh w0"
    and "db_ok (w_db w)" "\<not> db_fault (w_db w) S_DeleteVPNMeta"
    and "finish_create a name mgr req w = (Inl e, w')"
  shows "undone w0 w' \<and> db_metas (w_db w') = db_metas (w_db w) \<and> db_acts (w_db w') = db_acts (w_db w)"
  using assms(7) unfolding finish_create_def Let_def
proof (cases rule: bindE_cases)
  case (error e')
  then show ?thesis
  proof (cases rule: orElse_cases)
    case (error e2 w1)
    have "same w w1" using same_run [OF same_certificates _ error(1)] assms(2) by (simp add: added_def)
    then show ?thesis
      using rollback_run [OF assms(1) added_same [OF assms(2)] _ assms(4) error(2)] assms(3) by (simp add: same_def)
  qed simp
next
  case (fine x w1)
  obtain t k where x: "x = (t, k)" by (cases x)
  let ?v = "zero_meta\<lparr>meta_MikrotikName := name, meta_ManagerID := map_option mgr_ID mgr, meta_CertTitle := t,
    meta_CertKeyPass := k, meta_ContactInfo := cr_ContactInfo req, meta_Notes := cr_Notes req\<rparr>"
  have "setupVPNCertificates a name mgr (cr_CertTitle req) w = (Inr x, w1)"
    using fine(1) by (cases rule: orElse_cases) (auto simp: rollback_user_def bindE_def tryE_apply failE_apply)
  then have same: "same w w1" using same_run [OF same_certificates] assms(2) by (simp add: added_def)
  then have db: "w_db w1 = w_db w" by (simp add: same_def)
  note a1 = added_same [OF assms(2) same]
  have p1: "world_profiles profiles w1 = world_profiles profiles w0" using same assms(3) by (simp add: same_def)
  have rest: "bindE (orElse (st (CreateVPNMeta (w_now w1) ?v)) (rollback_user a name)) (\<lambda>meta.
      bindE (if wants_profile req then assign_step (w_now w1) name meta req else returnE []) (\<lambda>profs.
      returnE (JObj
       [(''id'', JInt (meta_ID meta)), (''mikrotik_name'', JStr name),
        (''shared_users'', JInt (cr_SharedUsers req)),
        (''disabled'', JBool (vpnUserDisabled (cr_Disabled req))),
        (''profiles'', profileDTOs profs)]))) w1 = (Inl e, w')"
    using fine(2) by (simp add: x bindE_Now)
  then show ?thesis
  proof (cases rule: bindE_cases)
    case (error e')
    then show ?thesis
    proof (cases rule: orElse_cases)
      case (error e2 w2)
      then have "w2 = w1" using CreateVPNMeta_Inl by (fastforce simp: st_def split: prod.splits)
      then show ?thesis using rollback_run [OF assms(1) a1 p1 assms(4) error(2) [unfolded \<open>w2 = w1\<close>]] db by simp
    qed simp
  next
    case (fine meta w2)
    then obtain d where d: "CreateVPNMeta (w_now w1) ?v (w_db w1) = (Inr meta, d)" "w2 = w1\<lparr>w_db := d\<rparr>"
      by (cases rule: orElse_cases)
        (auto simp: rollback_user_def bindE_def tryE_apply failE_apply st_def split: prod.splits)
    have "assign_step (w_now w1) name meta req w2 = (Inl e, w')"
      using fine(2) by (cases rule: bindE_cases) (auto simp: returnE_apply split: if_splits)
    from assign_step_Inl [OF assms(1) _ _ assms(4) this] a1 p1
    obtain y where U: "undone w0 w'" and y: "tryE (DeleteVPNMeta (meta_ID meta)) (w_db w2) = (y, w_db w')"
      by (auto simp: d(2) added_db)
    note C = CreateVPNMeta_Inr [OF d(1)]
    have "tryE (DeleteVPNMeta (seq_metas (w_db w1) + 1)) (w_db w1\<lparr>db_metas := db_metas (w_db w1) @ [?v\<lparr>meta_ID :=
        seq_metas (w_db w1) + 1, meta_CreatedAt := sqlite_datetime (w_now w1), meta_UpdatedAt := sqlite_datetime (w_now w1)\<rparr>],
        seq_metas := seq_metas (w_db w1) + 1\<rparr>) = (y, w_db w')"
      using y C by (simp add: d(2))
    then have "db_metas (w_db w') = db_metas (w_db w1) \<and> db_acts (w_db w') = db_acts (w_db w1)"
      by (rule delete_added [rotated 2]) (use assms(5,6) db in simp_all)
    then show ?thesis using U db by simp
  qed
qed

end


text \<open>What a new user does to the slots of the managers.\<close>

lemma sum_if_insert:
  fixes f :: "'x \<Rightarrow> int"
  shows "finite S \<and> u \<notin> S \<Longrightarrow> sum f (if P then insert u S else S) = sum f S + (if P then f u else 0)"
  by simp

context managed_panel
begin

lemma slots_added:
  assumes "added w0 name u w" "usr_Name u = name" "world_registry a w = world_registry a w0"
    and "finite (ran (world_users users w0))" "\<forall>v \<in> ran (world_users users w0). usr_Name v \<noteq> name"
  shows "world_slots users profiles a k w = world_slots users profiles a k w0
    + (if \<not> usr_Disabled u \<and> Resolve (world_registry a w0) name (usr_Comment u) = k
          \<and> userHasActiveProfile (world_profiles profiles w name) (w_now w0) then usr_SharedUsers u else 0)"
proof -
  let ?P = "\<lambda>w v. \<not> usr_Disabled v \<and> Resolve (world_registry a w) (usr_Name v) (usr_Comment v) = k
    \<and> userHasActiveProfile (world_profiles profiles w (usr_Name v)) (w_now w)"
  let ?S = "{v \<in> ran (world_users users w0). ?P w0 v}"
  have ran: "ran (world_users users w) = insert u (ran (world_users users w0))"
    using assms(1) by (simp add: added_def)
  have old: "?P w v = ?P w0 v" if "v \<in> ran (world_users users w0)" for v
    using that assms by (simp add: added_def)
  have new: "?P w u \<longleftrightarrow> \<not> usr_Disabled u \<and> Resolve (world_registry a w0) name (usr_Comment u) = k
      \<and> userHasActiveProfile (world_profiles profiles w name) (w_now w0)"
    using assms(1-3) by (simp add: added_def)
  have "{v \<in> ran (world_users users w). ?P w v} = (if ?P w u then insert u ?S else ?S)"
    unfolding ran using old by auto
  moreover have "finite ?S \<and> u \<notin> ?S" using assms(2,4,5) by auto
  then have "(\<Sum>v \<in> (if ?P w u then insert u ?S else ?S). usr_SharedUsers v)
      = (\<Sum>v \<in> ?S. usr_SharedUsers v) + (if ?P w u then usr_SharedUsers u else 0)"
    by (rule sum_if_insert)
  ultimately show ?thesis unfolding world_slots_def new by simp
qed

text \<open>The calls of \<open>createVPNUser\<close> that come before the router user, and the ones after.\<close>

lemma createVPNUser_Inr:
  assumes "fresh w" "createVPNUser a mgr req w = (Inr out, w')"
    and name: "name = fullName (mgr_Slug mgr @ UsernamePrefixSep (Cfg a)) (cr_LocalName req)"
    and comment: "comment = PanelComment (world_registry a w) \<lparr>mi_ID = mgr_ID mgr, mi_Slug = mgr_Slug mgr\<rparr>"
  obtains used pass w1 w2 where
    "resolveVPNPassword (cr_Password req) w = (Inr pass, w1)" "same w w1"
    "1 \<le> cr_SharedUsers req \<and> cr_SharedUsers req \<le> SharedUsersMax (Cfg a)"
    "managerUsedQuota a (mgr_ID mgr) w1 = (Inr used, w2)" "same w w2"
    "wants_profile req \<Longrightarrow> CheckAdd used (mgr_Quota mgr) (cr_SharedUsers req)"
    "bindE (add_router_user a name pass comment req) (\<lambda>_. finish_create a name (Some mgr) req) w2 = (Inr out, w')"
proof -
  have reg: "Registry a w = (Inr (world_registry a w), w)"
    by (rule bindE_InrE [OF assms(2) [unfolded createVPNUser_def]]) (simp add: Registry_run split: if_splits)
  let ?add = "\<lambda>pass. bindE (add_router_user a name pass comment req) (\<lambda>_. finish_create a name (Some mgr) req)"
  let ?quota = "\<lambda>pass. bindE (managerUsedQuota a (mgr_ID mgr)) (\<lambda>used.
     if wants_profile req \<and> \<not> CheckAdd used (mgr_Quota mgr) (cr_SharedUsers req)
     then failE AppQuotaExceeded else ?add pass)"
  have "bindE (resolveVPNPassword (cr_Password req)) (\<lambda>pass.
     if cr_SharedUsers req < 1 \<or> cr_SharedUsers req > SharedUsersMax (Cfg a)
     then failE (ErrText ''invalid shared_users'') else ?quota pass) w = (Inr out, w')"
    using assms(2) unfolding createVPNUser_def Let_def bindE_Inr [where m = "Registry a" and w = w, OF reg]
      name [symmetric] comment [symmetric]
    by (simp add: failE_apply split: if_split_asm)
  then obtain pass w1 where 1: "resolveVPNPassword (cr_Password req) w = (Inr pass, w1)"
    and q: "(if cr_SharedUsers req < 1 \<or> cr_SharedUsers req > SharedUsersMax (Cfg a)
     then failE (ErrText ''invalid shared_users'') else ?quota pass) w1 = (Inr out, w')"
    by (rule bindE_InrE)
  have r1: "1 \<le> cr_SharedUsers req \<and> cr_SharedUsers req \<le> SharedUsersMax (Cfg a)"
    using q by (simp add: failE_apply split: if_split_asm)
  have "?quota pass w1 = (Inr out, w')" using q r1 by simp
  then obtain used w2 where 3: "managerUsedQuota a (mgr_ID mgr) w1 = (Inr used, w2)"
    and q2: "(if wants_profile req \<and> \<not> CheckAdd used (mgr_Quota mgr) (cr_SharedUsers req)
     then failE AppQuotaExceeded else ?add pass) w2 = (Inr out, w')"
    by (rule bindE_InrE)
  have r3: "CheckAdd used (mgr_Quota mgr) (cr_SharedUsers req)" if "wants_profile req"
    using q2 that by (simp add: failE_apply split: if_split_asm)
  have 4: "?add pass w2 = (Inr out, w')" using q2 by (simp add: failE_apply split: if_split_asm)
  have s1: "same w w1" using same_run [OF same_services(4) assms(1) 1] .
  have s2: "same w w2" using same_run [OF same_used same_fresh [OF s1] 3] s1 same_trans by blast
  show thesis by (rule that [OF 1 s1 r1 3 s2 r3 4])
qed

lemma managerUsedQuota_users:
  assumes "fresh w" "managerUsedQuota a i w = (Inr used, w')"
  shows "finite (ran (world_users users w)) \<and> (\<forall>v \<in> ran (world_users users w). world_users users w (usr_Name v) = Some v)"
proof -
  obtain us w1 where "mt (cl_ListUsers (MT a) (w_now w)) w = (Inr us, w1)"
    using assms(2) by (auto simp: managerUsedQuota_def bindE_Inr_iff Registry_run Now_run split: if_splits)
  from ListUsers_run [OF assms(1) this] show ?thesis by (auto simp: ran_user_map user_map_Some)
qed

lemma same_slots: "same w w' \<Longrightarrow> world_slots users profiles a k w' = world_slots users profiles a k w"
  by (simp add: world_slots_def same_registry) (simp add: same_def)

lemma no_profile_yet: "fresh w \<Longrightarrow> world_users users w name = None \<Longrightarrow> world_profiles profiles w name = []"
  using client.orphan_profiles [of "w_router w" name] by (simp add: fresh_def world_users_def world_profiles_def)

lemma create_adds:
  assumes "fresh w" "createVPNUser a mgr req w = (Inr out, w')"
    and name: "name = fullName (mgr_Slug mgr @ UsernamePrefixSep (Cfg a)) (cr_LocalName req)"
    and comment: "comment = PanelComment (world_registry a w) \<lparr>mi_ID = mgr_ID mgr, mi_Slug = mgr_Slug mgr\<rparr>"
  obtains i pass where "added w name (new_user i name pass comment req) w'" "ValidVPN pass"
    "1 \<le> cr_SharedUsers req \<and> cr_SharedUsers req \<le> SharedUsersMax (Cfg a)"
    "if wants_profile req
     then CheckAdd (i64 (world_slots users profiles a (mgr_ID mgr) w)) (mgr_Quota mgr) (cr_SharedUsers req)
     else world_profiles profiles w' name = []"
    "world_registry a w' = world_registry a w"
    "\<exists>row. db_metas (w_db w') = db_metas (w_db w) @ [row] \<and> meta_MikrotikName row = name
       \<and> meta_ManagerID row = Some (mgr_ID mgr)"
    "finite (ran (world_users users w))" "\<forall>v \<in> ran (world_users users w). usr_Name v \<noteq> name"
proof -
  obtain used pass w1 w2 where c: "resolveVPNPassword (cr_Password req) w = (Inr pass, w1)" "same w w1"
    "1 \<le> cr_SharedUsers req \<and> cr_SharedUsers req \<le> SharedUsersMax (Cfg a)"
    "managerUsedQuota a (mgr_ID mgr) w1 = (Inr used, w2)" "same w w2"
    "wants_profile req \<Longrightarrow> CheckAdd used (mgr_Quota mgr) (cr_SharedUsers req)"
    "bindE (add_router_user a name pass comment req) (\<lambda>_. finish_create a name (Some mgr) req) w2 = (Inr out, w')"
    by (rule createVPNUser_Inr [OF assms]) (rule that)
  obtain w3 where add: "add_router_user a name pass comment req w2 = (Inr (), w3)"
    and fin: "finish_create a name (Some mgr) req w3 = (Inr out, w')"
    by (rule bindE_InrE [OF c(7)]) simp
  obtain i where i: "added w2 name (new_user i name pass comment req) w3" "w_db w3 = w_db w2"
    "world_profiles profiles w3 = world_profiles profiles w2"
    using add_router_user_Inr [OF same_fresh [OF c(5)] add] by blast
  note F = finish_create_Inr [OF i(1) fin]
  have a1: "added w name (new_user i name pass comment req) w'"
    using F c(5) by (simp add: added_def same_def)
  have used: "used = i64 (world_slots users profiles a (mgr_ID mgr) w)"
    using managerUsedQuota_run [OF same_fresh [OF c(2)] c(4)] same_slots [OF c(2)] by simp
  have quota: "if wants_profile req
     then CheckAdd (i64 (world_slots users profiles a (mgr_ID mgr) w)) (mgr_Quota mgr) (cr_SharedUsers req)
     else world_profiles profiles w' name = []"
    using c(6) used F i(3) c(5) no_profile_yet [OF assms(1)] a1 by (simp add: same_def added_def)
  have reg: "world_registry a w' = world_registry a w"
    using F i(2) c(5) by (simp add: world_registry_def same_def)
  have row: "\<exists>row. db_metas (w_db w') = db_metas (w_db w) @ [row] \<and> meta_MikrotikName row = name
       \<and> meta_ManagerID row = Some (mgr_ID mgr)"
    using F i(2) c(5) by (auto simp: same_def)
  have us: "finite (ran (world_users users w))" "\<forall>v \<in> ran (world_users users w). usr_Name v \<noteq> name"
    using managerUsedQuota_users [OF same_fresh [OF c(2)] c(4)] c(2) a1 by (auto simp: same_def added_def)
  show thesis by (rule that [OF a1 resolveVPNPassword_valid [OF c(1)] c(3) quota reg row us])
qed

lemma create_slots:
  assumes "fresh w" "createVPNUser a mgr req w = (Inr out, w')"
    and "in_i64 (world_slots users profiles a (mgr_ID mgr) w + cr_SharedUsers req)"
  shows "world_slots users profiles a (mgr_ID mgr) w'
    \<le> max (mgr_Quota mgr) (world_slots users profiles a (mgr_ID mgr) w)"
proof (rule create_adds [OF assms(1,2) refl refl], goal_cases)
  case (1 i pass)
  let ?name = "fullName (mgr_Slug mgr @ UsernamePrefixSep (Cfg a)) (cr_LocalName req)"
  have S: "world_slots users profiles a (mgr_ID mgr) w' = world_slots users profiles a (mgr_ID mgr) w \<or>
      userHasActiveProfile (world_profiles profiles w' ?name) (w_now w) \<and>
      world_slots users profiles a (mgr_ID mgr) w' = world_slots users profiles a (mgr_ID mgr) w + cr_SharedUsers req"
    using slots_added [OF 1(1) _ 1(5,7,8), of "mgr_ID mgr"] by (simp add: new_user_def split: if_splits)
  show ?case
  proof (cases "wants_profile req")
    case True
    then have "world_slots users profiles a (mgr_ID mgr) w + cr_SharedUsers req \<le> mgr_Quota mgr"
      using 1(4) assms(3) by (simp add: CheckAdd_def)
    then show ?thesis using S by auto
  next
    case False
    then show ?thesis using S 1(4) by (simp add: userHasActiveProfile_def)
  qed
qed

text \<open>Failures: the tables of the router, the rows of the users and the activations are as before.\<close>

definition rolled_back :: "'r world \<Rightarrow> 'r world \<Rightarrow> bool" where
  "rolled_back w w' \<longleftrightarrow> undone w w' \<and> db_metas (w_db w') = db_metas (w_db w) \<and> db_acts (w_db w') = db_acts (w_db w)"

lemma same_rolled_back: "same w w' \<Longrightarrow> rolled_back w w'"
  by (simp add: same_def rolled_back_def undone_def)

lemma rolled_back_trans: "same w w1 \<Longrightarrow> rolled_back w1 w' \<Longrightarrow> rolled_back w w'"
  by (simp add: same_def rolled_back_def undone_def)

lemma added_or_rolled_back:
  assumes "removes" "fresh w" "db_ok (w_db w)" "\<not> db_fault (w_db w) S_DeleteVPNMeta"
    and "bindE (add_router_user a name pass comment req) (\<lambda>_. finish_create a name mgr req) w = (Inl e, w')"
  shows "rolled_back w w'"
  using assms(5)
proof (cases rule: bindE_cases)
  case (error e')
  then show ?thesis using add_router_user_Inl [OF assms(2) error(1)] same_rolled_back by blast
next
  case (fine x w1)
  obtain i where i: "added w name (new_user i name pass comment req) w1" "w_db w1 = w_db w"
    "world_profiles profiles w1 = world_profiles profiles w"
    using add_router_user_Inr [OF assms(2)] fine(1) by fastforce
  show ?thesis
    using finish_create_Inl [OF assms(1) i(1,3) assms(2) _ _ fine(2)] i(2) assms(3,4) by (simp add: rolled_back_def)
qed

text \<open>\<open>rolls w0 m\<close>: started with the tables of \<open>w0\<close>, an error of \<open>m\<close> leaves them.\<close>

definition rolls :: "'r world \<Rightarrow> ('r world, 'a) go \<Rightarrow> bool" where
  "rolls w0 m \<longleftrightarrow> (\<forall>w e w'. same w0 w \<longrightarrow> m w = (Inl e, w') \<longrightarrow> rolled_back w w')"

lemma rolls_fail: "rolls w0 (failE e)"
  by (auto simp: rolls_def failE_apply intro: same_rolled_back [OF same_refl] same_fresh)

lemma rolls_bind:
  assumes "\<And>w. preserves (same w) m" "\<And>x. rolls w0 (f x)"
  shows "rolls w0 (bindE m f)"
  unfolding rolls_def
proof (intro allI impI)
  fix w e w' assume w: "same w0 w" and run: "bindE m f w = (Inl e, w')"
  from run show "rolled_back w w'"
  proof (cases rule: bindE_cases)
    case (error e')
    then show ?thesis using same_run [OF assms(1) same_fresh [OF w] error(1)] same_rolled_back by blast
  next
    case (fine x w1)
    have "same w w1" using same_run [OF assms(1) same_fresh [OF w] fine(1)] .
    then show ?thesis
      using assms(2) fine(2) same_trans [OF w] rolled_back_trans unfolding rolls_def by blast
  qed
qed

lemma rolls_if: "rolls w0 m \<Longrightarrow> rolls w0 n \<Longrightarrow> rolls w0 (if b then m else n)"
  by simp

lemma rolls_add:
  assumes "removes" "db_ok (w_db w0)" "\<not> db_fault (w_db w0) S_DeleteVPNMeta"
  shows "rolls w0 (bindE (add_router_user a name pass comment req) (\<lambda>_. finish_create a name mgr req))"
  using added_or_rolled_back [OF assms(1)] assms(2,3) by (simp add: rolls_def same_def)

lemmas rolls_rules = rolls_bind rolls_fail rolls_if

lemma createVPNUser_rolls:
  assumes "removes" "db_ok (w_db w0)" "\<not> db_fault (w_db w0) S_DeleteVPNMeta"
  shows "rolls w0 (createVPNUser a mgr req)"
  unfolding createVPNUser_def Let_def by (intro rolls_add [OF assms] rolls_rules same_services same_used)

lemma createOrphanVPNUser_rolls:
  assumes "removes" "db_ok (w_db w0)" "\<not> db_fault (w_db w0) S_DeleteVPNMeta"
  shows "rolls w0 (createOrphanVPNUser a req)"
  unfolding createOrphanVPNUser_def Let_def by (intro rolls_add [OF assms] rolls_rules same_services)

end


section \<open>Properties\<close>

definition sample_create :: createVPNReq where
  "sample_create = \<lparr>cr_LocalName = ''home'', cr_Password = ''secret99'', cr_SharedUsers = 2, cr_Disabled = None,
     cr_ContactInfo = None, cr_Notes = None, cr_AssignProfile = None, cr_ProfileName = None, cr_AmountPaid = None,
     cr_Currency = None, cr_Note = None, cr_CertTitle = None\<rparr>"

text \<open>
  C7. Creating a user cannot take a manager past its quota: afterwards the slots of its enabled users
  with an active profile are at most the quota, or at most what they were (when the user gets no
  profile, or the manager was past its quota before). The sum must fit in 64 bits.
\<close>

theorem create_respects_quota:
  assumes "user_manager (Router a) ok users profiles" "cache_ok ok users profiles (w_router w)"
    and "createVPNUser a mgr req w = (Inr out, w')"
    and "in_i64 (world_slots users profiles a (mgr_ID mgr) w + cr_SharedUsers req)"
  shows "world_slots users profiles a (mgr_ID mgr) w'
    \<le> max (mgr_Quota mgr) (world_slots users profiles a (mgr_ID mgr) w)"
proof -
  have p: "managed_panel a ok users profiles" by (rule managed_panel.intro [OF assms(1)])
  show ?thesis
    using managed_panel.create_slots [OF p _ assms(3,4)] assms(2) by (simp add: managed_panel.fresh_def [OF p])
qed

lemma sample_slots: "world_slots fake_users fake_profiles sample_app 1 sample_world = 5"
proof -
  let ?P = "\<lambda>u. \<not> usr_Disabled u \<and> Resolve (world_registry sample_app sample_world) (usr_Name u) (usr_Comment u) = 1
    \<and> userHasActiveProfile (world_profiles fake_profiles sample_world (usr_Name u)) (w_now sample_world)"
  have "ran (world_users fake_users sample_world) = set (map snd (fk_users panel_fake))"
    unfolding world_users_def sample_world_def NewCached_def fake_users_def by (simp, rule ran_distinct) code_simp
  then have "world_slots fake_users fake_profiles sample_app 1 sample_world
      = (\<Sum>u \<in> set (filter ?P (map snd (fk_users panel_fake))). usr_SharedUsers u)"
    unfolding world_slots_def by (intro sum.cong) auto
  also have "\<dots> = 5" by code_simp
  finally show ?thesis .
qed

lemma sample_create_runs:
  "createVPNUser sample_app (sample_manager 1 ''ali'') sample_create sample_world
     = (Inr (projr (fst (createVPNUser sample_app (sample_manager 1 ''ali'') sample_create sample_world))),
        snd (createVPNUser sample_app (sample_manager 1 ''ali'') sample_create sample_world))"
proof -
  have "isl (fst (createVPNUser sample_app (sample_manager 1 ''ali'') sample_create sample_world)) \<longrightarrow> False" by code_simp
  then show ?thesis by (metis prod.collapse sum.collapse(2))
qed

lemma create_respects_quota_witness:
  "world_slots fake_users fake_profiles sample_app 1
     (snd (createVPNUser sample_app (sample_manager 1 ''ali'') sample_create sample_world)) \<le> 10"
  using create_respects_quota [OF sample_router sample_cache_ok sample_create_runs] sample_slots
  by (simp add: sample_manager_def sample_create_def in_i64_def)

text \<open>
  C8. A created user was not there before, is the only change to the users of the router, has the
  manager's name pattern and panel comment, a valid password and a permitted number of slots, and
  has a row of its own in the database, owned by the manager.
\<close>

theorem create_adds_one_user:
  assumes "user_manager (Router a) ok users profiles" "cache_ok ok users profiles (w_router w)"
    and "createVPNUser a mgr req w = (Inr out, w')"
  shows "\<exists>i pass row. let name = mgr_Slug mgr @ UsernamePrefixSep (Cfg a) @ cr_LocalName req in
    world_users users w name = None
    \<and> world_users users w' = (world_users users w)(name \<mapsto>
        \<lparr>usr_ID = i, usr_Name = name, usr_Password = pass, usr_SharedUsers = cr_SharedUsers req,
         usr_Comment = ''panel='' @ mgr_Slug mgr, usr_Disabled = (cr_Disabled req = Some True)\<rparr>)
    \<and> ValidVPN pass \<and> 1 \<le> cr_SharedUsers req \<and> cr_SharedUsers req \<le> SharedUsersMax (Cfg a)
    \<and> db_metas (w_db w') = db_metas (w_db w) @ [row]
    \<and> meta_MikrotikName row = name \<and> meta_ManagerID row = Some (mgr_ID mgr)"
proof -
  have p: "managed_panel a ok users profiles" by (rule managed_panel.intro [OF assms(1)])
  have f: "managed_panel.fresh ok users profiles w" using assms(2) by (simp add: managed_panel.fresh_def [OF p])
  show ?thesis
    by (rule managed_panel.create_adds [OF p f assms(3) refl refl])
      (auto simp: Let_def fullName_def managed_panel.added_def [OF p] new_user_def vpnUserDisabled_def PanelComment_def)
qed

lemma create_adds_one_user_witness:
  "length (db_metas (w_db (snd (createVPNUser sample_app (sample_manager 1 ''ali'') sample_create sample_world)))) = 4"
proof -
  obtain row where "db_metas (w_db (snd (createVPNUser sample_app (sample_manager 1 ''ali'') sample_create sample_world)))
      = db_metas (w_db sample_world) @ [row]"
    using create_adds_one_user [OF sample_router sample_cache_ok sample_create_runs] by (auto simp: Let_def)
  then show ?thesis by (simp only:) (simp add: sample_world_def sample_db_def)
qed

text \<open>
  C9. A creation that fails leaves no trace: the users and profiles of the router, the rows of the
  VPN users and the activations are as before, provided the router can remove a user it has and the
  database can delete a row. Both creation functions roll back.
\<close>

theorem create_rolls_back:
  assumes "user_manager (Router a) ok users profiles" "cache_ok ok users profiles (w_router w)"
    and "\<forall>r name. ok r \<longrightarrow> users r name \<noteq> None \<longrightarrow> fst (cl_RemoveUser (Router a) name r) = Inr ()"
    and "db_ok (w_db w)" "\<not> db_fault (w_db w) S_DeleteVPNMeta"
    and "create \<in> {createVPNUser a mgr req, createOrphanVPNUser a req}"
    and "create w = (Inl e, w')"
  shows "world_users users w' = world_users users w \<and> world_profiles profiles w' = world_profiles profiles w
    \<and> db_metas (w_db w') = db_metas (w_db w) \<and> db_acts (w_db w') = db_acts (w_db w)"
proof -
  have p: "managed_panel a ok users profiles" by (rule managed_panel.intro [OF assms(1)])
  have "managed_panel.rolls ok users profiles w create"
    using assms(6) managed_panel.createVPNUser_rolls [OF p _ assms(4,5)]
      managed_panel.createOrphanVPNUser_rolls [OF p _ assms(4,5)] assms(3)
    by (auto simp: managed_panel.removes_def [OF p])
  then have "managed_panel.rolled_back users profiles w w'"
    using assms(2,7) managed_panel.same_refl [OF p]
    by (auto simp: managed_panel.rolls_def [OF p] managed_panel.fresh_def [OF p])
  then show ?thesis by (simp add: managed_panel.rolled_back_def [OF p] managed_panel.undone_def [OF p])
qed

definition faulty_world :: "fake_client world" where
  "faulty_world = sample_world\<lparr>w_db := sample_db\<lparr>db_fault := (\<lambda>s. s = S_CreateVPNMeta)\<rparr>\<rparr>"

lemma create_rolls_back_witness:
  "world_users fake_users (snd (createVPNUser sample_app (sample_manager 1 ''ali'') sample_create faulty_world)) ''ali_home'' = None"
proof -
  let ?run = "createVPNUser sample_app (sample_manager 1 ''ali'') sample_create"
  have "isl (fst (?run faulty_world))" by code_simp
  then have run: "?run faulty_world = (Inl (projl (fst (?run faulty_world))), snd (?run faulty_world))"
    by (metis prod.collapse sum.collapse(1))
  have "\<forall>r name. fake_ok r \<longrightarrow> fake_users r name \<noteq> None \<longrightarrow> fst (cl_RemoveUser (Router sample_app) name r) = Inr ()"
    by (simp add: FakeClient_def Fake_RemoveUser_def fake_users_def)
  moreover have "cache_ok fake_ok fake_users fake_profiles (w_router faulty_world)"
    using sample_cache_ok by (simp add: faulty_world_def)
  moreover have "db_ok (w_db faulty_world)" using sample_db_ok by (simp add: faulty_world_def)
  moreover have "world_users fake_users faulty_world ''ali_home'' = None"
    by (simp add: world_users_def faulty_world_def sample_world_def NewCached_def) code_simp
  ultimately show ?thesis
    using create_rolls_back [where create = ?run and a = sample_app and mgr = "sample_manager 1 ''ali''"
        and req = sample_create, OF sample_router _ _ _ _ _ run]
    by (simp add: faulty_world_def)
qed

end
