(* ===== verification/Ledger_Props.thy ===== *)
theory Ledger_Props
  imports Create_Props
begin

text \<open>
  The ledger as its readers see it: a manager's ledger shows nothing of other managers (two worlds
  that differ only in the activations of others give the same answer), which rows the pages of the
  list handlers hold, what the filter does to the live overlay, and the quota an administrator may
  set.
\<close>

section \<open>Pages\<close>

lemma i64_wrap: "i64 x = i64 (x - 2 ^ 64)"
proof -
  have "take_bit 64 x = take_bit 64 (x - 2 ^ 64)" by (simp only: take_bit_eq_mod minus_mod_self2)
  then show ?thesis unfolding i64_def signed_take_bit_eq_iff_take_bit_eq by simp
qed

lemma page_slice:
  assumes "0 < n" "in_i64 n" "in_i64 (int (length xs))"
    and start_def: "start = i64 (i64 (page - 1) * n)"
  shows "go_slice xs (fst (pageWindow (int (length xs)) page n)) (snd (pageWindow (int (length xs)) page n)) =
    (if start < 0 then None
     else if int (length xs) \<le> start then Some []
     else if 2 ^ 63 \<le> start + n then None
     else Some (take (nat n) (drop (nat start) xs)))"
proof -
  have s: "in_i64 start" unfolding start_def by simp
  consider "start < 0" | "0 \<le> start" "int (length xs) \<le> start"
    | "0 \<le> start" "start < int (length xs)" "2 ^ 63 \<le> start + n"
    | "0 \<le> start" "start < int (length xs)" "start + n < 2 ^ 63" by linarith
  then show ?thesis
  proof cases
    case 1
    then show ?thesis by (simp add: pageWindow_def go_slice_def start_def [symmetric] Let_def)
  next
    case 2
    then show ?thesis by (simp add: pageWindow_def go_slice_def start_def [symmetric] Let_def)
  next
    case 3
    have "start + n - 2 ^ 64 < 0" "in_i64 (start + n - 2 ^ 64)" using 3 s assms(1,2) by (auto simp: in_i64_def)
    moreover have "i64 (start + n) = i64 (start + n - 2 ^ 64)" by (rule i64_wrap)
    ultimately show ?thesis
      using 3 by (simp add: pageWindow_def go_slice_def start_def [symmetric] Let_def)
  next
    case 4
    then have "i64 (start + n) = start + n" using s assms(1,2) by (intro i64_id) (auto simp: in_i64_def)
    then show ?thesis
      using 4 assms(1) by (auto simp: pageWindow_def go_slice_def start_def [symmetric] Let_def nat_le_iff)
  qed
qed


definition far_page :: request where
  "far_page = (sample_request [])\<lparr>rq_Query := (\<lambda>k. if k = ''page'' then ''4611686018427387905'' else ''3'')\<rparr>"


section \<open>What a manager's ledger depends on\<close>

text \<open>The database without the activations of other managers' users.\<close>

definition own_acts :: "int \<Rightarrow> db \<Rightarrow> db" where
  "own_acts i d = d\<lparr>db_acts := filter (\<lambda>r. \<exists>v \<in> set (db_metas d). meta_ID v = act_VPNUserMetaID r
     \<and> meta_ManagerID v = Some i) (db_acts d)\<rparr>"

lemma filter_empty_conv': "(\<And>x. x \<in> set xs \<Longrightarrow> \<not> P x) \<Longrightarrow> filter P xs = []"
  by (simp add: filter_empty_conv)

lemma scope_entries_own:
  assumes "rf_ManagerID f = Some i" "\<not> rf_OrphanOnly f"
  shows "scope_entries f (own_acts i d) = scope_entries f d"
proof -
  let ?own = "\<lambda>r. \<exists>v \<in> set (db_metas d). meta_ID v = act_VPNUserMetaID r \<and> meta_ManagerID v = Some i"
  let ?J = "\<lambda>as. [(a, v). a \<leftarrow> as, v \<leftarrow> db_metas d, meta_ID v = act_VPNUserMetaID a]"
  have "filter (renewalWhere f) (?J (filter ?own as)) = filter (renewalWhere f) (?J as)" for as
  proof (induction as)
    case (Cons r rs)
    show ?case
    proof (cases "?own r")
      case True
      then show ?thesis using Cons by simp
    next
      case False
      have "filter (renewalWhere f) [(r, v). v \<leftarrow> db_metas d, meta_ID v = act_VPNUserMetaID r] = []"
        by (rule filter_empty_conv') (use assms False in \<open>auto simp: renewalWhere_def Let_def\<close>)
      then show ?thesis using Cons False by simp
    qed
  qed simp
  then show ?thesis by (simp add: scope_entries_def joined_def own_acts_def)
qed

text \<open>Worlds that agree in everything but the rows of the users and the activations.\<close>

definition alike :: "'r world \<Rightarrow> 'r world \<Rightarrow> bool" where
  "alike w v \<longleftrightarrow> w_router v = w_router w \<and> w_now v = w_now w
     \<and> db_managers (w_db v) = db_managers (w_db w) \<and> db_fault (w_db v) = db_fault (w_db w)"

definition agree :: "('r world, 'a) go \<Rightarrow> bool" where
  "agree m \<longleftrightarrow> (\<forall>w v. alike w v \<longrightarrow> fst (m v) = fst (m w) \<and> alike (snd (m w)) (snd (m v)))"

lemma agreeD: "agree m \<Longrightarrow> alike w v \<Longrightarrow> fst (m v) = fst (m w) \<and> alike (snd (m w)) (snd (m v))"
  by (simp add: agree_def)

lemma agree_bind:
  assumes "agree m" "\<And>x. agree (f x)"
  shows "agree (bindE m f)"
  unfolding agree_def
proof (intro allI impI)
  fix w v :: "'a world" assume "alike w v"
  then have m: "fst (m v) = fst (m w)" "alike (snd (m w)) (snd (m v))" using assms(1) by (simp_all add: agree_def)
  show "fst (bindE m f v) = fst (bindE m f w) \<and> alike (snd (bindE m f w)) (snd (bindE m f v))"
  proof (cases "fst (m w)")
    case (Inl e)
    then show ?thesis using m by (simp add: bindE_def split_beta)
  next
    case (Inr x)
    then show ?thesis using m assms(2) [of x] by (simp add: bindE_def split_beta agree_def)
  qed
qed

lemma agree_basics: "agree (returnE x)" "agree (failE e)" "agree Now" "agree (mt m)"
  by (auto simp: agree_def alike_def returnE_apply failE_apply Now_run mt_def split: prod.splits)

lemma agree_try: "agree m \<Longrightarrow> agree (tryE m)"
  by (auto simp: agree_def tryE_apply split: prod.splits)

lemma agree_if: "agree m \<Longrightarrow> agree n \<Longrightarrow> agree (if b then m else n)"
  by simp

lemma agree_for: "(\<And>x s. agree (body x s)) \<Longrightarrow> agree (forE body xs s)"
  by (induction xs arbitrary: s) (auto intro!: agree_bind agree_basics)

lemma agree_write: "agree (bindE (tryE (st (UpdateActivationSharedUsers i n))) (\<lambda>_. returnE x))"
  by (auto simp: agree_def alike_def bindE_def tryE_apply returnE_apply st_def UpdateActivationSharedUsers_def
      exec_def split: prod.splits)

lemma agree_manager: "agree (st (FindManagerByID i))"
  by (auto simp: agree_def alike_def st_def FindManagerByID_def query_def exec_def split: prod.splits)

lemmas agree_intro = agree_bind agree_basics agree_try agree_if agree_for agree_write agree_manager

lemma agree_router_list: "agree (mikrotikSharedUsersByName a)"
  unfolding mikrotikSharedUsersByName_def listUsers_def by (intro agree_intro)

lemma agree_scope: "agree (renewal_scope f)"
  unfolding renewal_scope_def by (auto split: option.split intro!: agree_intro)

lemma agree_live_row: "agree (live_scope_row m l r s)"
  unfolding live_scope_row_def Let_def by (intro agree_intro)

lemma agree_overlay:
  "agree (if rf_Settled f = ''settled'' then returnE x
     else bindE (mikrotikSharedUsersByName a) (\<lambda>mtMap.
       bindE (forE (live_scope_row mtMap latest) rows (0, 0)) (\<lambda>s. returnE (g mtMap s))))"
  by (intro agree_intro agree_router_list agree_live_row)

text \<open>The two queries of the ledger see the manager's own rows only.\<close>

lemma own_acts_parts [simp]:
  "db_metas (own_acts i d) = db_metas d" "db_managers (own_acts i d) = db_managers d" "db_fault (own_acts i d) = db_fault d"
  by (simp_all add: own_acts_def)

lemma renewal_row_own [simp]: "renewal_row_of (own_acts i d) = renewal_row_of d"
  by (auto simp: renewal_row_of_def display_name_of_def fun_eq_iff split: option.split)

lemma ListRenewals_own:
  assumes "rf_ManagerID f = Some i" "\<not> rf_OrphanOnly f"
  shows "ListRenewals f (own_acts i d) = (fst (ListRenewals f d), own_acts i d)" "snd (ListRenewals f d) = d"
  by (simp_all add: ListRenewals_def query_def exec_def bindE_def returnE_apply scope_entries_own [OF assms] Let_def
      split: prod.split sum.split)

lemma ScopeRows_own:
  assumes "rf_ManagerID f = Some i" "\<not> rf_OrphanOnly f"
  shows "ListRenewalSharedUsersInScope f (own_acts i d) = (fst (ListRenewalSharedUsersInScope f d), own_acts i d)"
    "snd (ListRenewalSharedUsersInScope f d) = d"
  by (simp_all add: ListRenewalSharedUsersInScope_def query_def exec_def scope_entries_own [OF assms])

definition own_world :: "int \<Rightarrow> 'r world \<Rightarrow> 'r world" where
  "own_world i w = w\<lparr>w_db := own_acts i (w_db w)\<rparr>"

lemma alike_own: "alike w (own_world i w)"
  by (simp add: alike_def own_world_def)

lemma overlay_own:
  assumes "rf_ManagerID f = Some i" "\<not> rf_OrphanOnly f"
  shows "fst (applyRenewalsLiveSharedUsers a f items (own_world i w)) = fst (applyRenewalsLiveSharedUsers a f items w)
    \<and> alike (snd (applyRenewalsLiveSharedUsers a f items w)) (snd (applyRenewalsLiveSharedUsers a f items (own_world i w)))"
proof -
  have q: "st (ListRenewalSharedUsersInScope f) (own_world i w) = (fst (ListRenewalSharedUsersInScope f (w_db w)), own_world i w)"
    "st (ListRenewalSharedUsersInScope f) w = (fst (ListRenewalSharedUsersInScope f (w_db w)), w)"
    using ScopeRows_own [OF assms, of "w_db w"] by (simp_all add: st_def own_world_def split_beta)
  show ?thesis
  proof (cases "fst (ListRenewalSharedUsersInScope f (w_db w))")
    case (Inl e)
    then show ?thesis by (simp add: applyRenewalsLiveSharedUsers_def bindE_def q alike_own)
  next
    case (Inr rows)
    let ?rest = "if rf_Settled f = ''settled''
      then returnE (\<lparr>UnsettledSharedUsersSum = fst (foldl (\<lambda>s r. sum_row r (rs_SharedUsers r) s) (0, 0) rows),
             AllSharedUsersSum = snd (foldl (\<lambda>s r. sum_row r (rs_SharedUsers r) s) (0, 0) rows)\<rparr>, items)
      else bindE (mikrotikSharedUsersByName a) (\<lambda>mtMap.
        bindE (forE (live_scope_row mtMap (latestUnsettledPerUser rows)) rows (0, 0)) (\<lambda>s.
        returnE (\<lparr>UnsettledSharedUsersSum = fst s, AllSharedUsersSum = snd s\<rparr>,
                 map (live_item mtMap (latestUnsettledPerUser rows)) items)))"
    have "applyRenewalsLiveSharedUsers a f items v = ?rest v"
      if "st (ListRenewalSharedUsersInScope f) v = (Inr rows, v)" for v :: "'a world"
      unfolding applyRenewalsLiveSharedUsers_def Let_def
        bindE_Inr [where m = "st (ListRenewalSharedUsersInScope f)" and w = v, OF that] ..
    note run = this [OF q(1) [unfolded Inr]] this [OF q(2) [unfolded Inr]]
    show ?thesis unfolding run by (rule agreeD [OF agree_overlay alike_own])
  qed
qed

lemma handle_alike:
  assumes "fst (m v) = fst (m w)" "alike (snd (m w)) (snd (m v))"
    and "\<And>e w' v'. alike w' v' \<Longrightarrow> fst (onErr e v') = fst (onErr e w')"
    and "\<And>x w' v'. alike w' v' \<Longrightarrow> fst (onOk x v') = fst (onOk x w')"
  shows "fst (handle m onErr onOk v) = fst (handle m onErr onOk w)"
  using assms by (cases "fst (m w)") (auto simp: handle_def split_beta)

lemma writeRenewals_own:
  assumes "rf_ManagerID f = Some i" "\<not> rf_OrphanOnly f"
  shows "fst (writeRenewals a f b (own_world i w)) = fst (writeRenewals a f b w)"
proof -
  have "st (ListRenewals f) (own_world i w) = (fst (ListRenewals f (w_db w)), own_world i w)"
    "st (ListRenewals f) w = (fst (ListRenewals f (w_db w)), w)"
    using ListRenewals_own [OF assms, of "w_db w"] by (simp_all add: st_def own_world_def split_beta)
  moreover have "fst (handle (applyRenewalsLiveSharedUsers a f items) (\<lambda>_. respond UNAVAILABLE) (\<lambda>(summary, items).
      handle (renewal_scope f) (\<lambda>_. respond INTERNAL) (\<lambda>scope. respond (k summary items scope))) (own_world i w)) =
    fst (handle (applyRenewalsLiveSharedUsers a f items) (\<lambda>_. respond UNAVAILABLE) (\<lambda>(summary, items).
      handle (renewal_scope f) (\<lambda>_. respond INTERNAL) (\<lambda>scope. respond (k summary items scope))) w)"
    for items and k :: "renewal_summary \<Rightarrow> renewal_row list \<Rightarrow> json \<Rightarrow> response"
  proof (rule handle_alike, goal_cases)
    case 1
    show ?case by (rule overlay_own [OF assms, THEN conjunct1])
  next
    case 2
    show ?case by (rule overlay_own [OF assms, THEN conjunct2])
  next
    case (4 x w' v')
    then show ?case
      by (cases x) (auto simp: respond_def
          intro!: handle_alike agreeD [OF agree_scope, THEN conjunct1] agreeD [OF agree_scope, THEN conjunct2])
  qed (simp add: respond_def)
  ultimately show ?thesis
    by (cases "fst (ListRenewals f (w_db w))")
      (auto simp: writeRenewals_def handle_def [of "st (ListRenewals f)"] respond_def [of INTERNAL])
qed

text \<open>
  C37. A manager's ledger shows nothing of anybody else: the answer is the same, to the last byte of
  the rows, the total and the two sums, when every activation of users that are not the manager's own
  is taken out of the database.
\<close>

theorem manager_ledger_isolated:
  "fst (HandleManagerRenewals a (Some c) r (own_world (c_ManagerID c) w)) = fst (HandleManagerRenewals a (Some c) r w)"
  by (simp add: HandleManagerRenewals_def require_manager_def writeRenewals_own respond_def)

section \<open>The filter and the live overlay\<close>

definition grown_world :: "fake_client world" where
  "grown_world = sample_world\<lparr>w_router := NewCached (panel_fake\<lparr>fk_users := [(''ali_a'', sample_user ''ali_a'' 5 False)]\<rparr>)\<rparr>"

definition ledger_request :: "string \<Rightarrow> request" where
  "ledger_request day = (sample_request [])\<lparr>rq_Query := (\<lambda>k.
     if k = ''manager_id'' then ''1'' else if k = ''to'' then day else [])\<rparr>"


section \<open>The quota an administrator may set\<close>

lemma UpdateManager_quota:
  assumes "st (UpdateManager now i username displayName (Some q) isActive hash) w = (Inr x, w')"
  shows "\<exists>m \<in> set (db_managers (w_db w')). mgr_ID m = i \<and> mgr_Quota m = q"
proof -
  obtain d' where run: "UpdateManager now i username displayName (Some q) isActive hash (w_db w) = (Inr x, d')" "w_db w' = d'"
    using assms by (auto simp: st_def split: prod.splits)
  obtain m0 where m0: "find_by mgr_ID i (db_managers (w_db w)) = Some m0"
    and put: "write_manager now i (merge_manager username displayName (Some q) isActive hash m0) (w_db w) = (Inr x, d')"
    by (rule UpdateManager_run [OF run(1)])
  have d': "\<exists>f. db_managers d' = update_by mgr_ID i f (db_managers (w_db w)) \<and> (\<forall>r. mgr_ID (f r) = mgr_ID r \<and> mgr_Quota (f r) = q)"
    by (rule exI [of _ "put_manager now (merge_manager username displayName (Some q) isActive hash m0)"])
      (simp add: write_manager_run [OF put] put_manager_def merge_manager_def or_old_def)
  then obtain f where f: "db_managers d' = update_by mgr_ID i f (db_managers (w_db w))"
    "\<And>r. mgr_ID (f r) = mgr_ID r" "\<And>r. mgr_Quota (f r) = q" by blast
  have "f m0 \<in> set (db_managers d')" using find_by_Some [OF m0] by (auto simp: f(1) update_by_def)
  then show ?thesis using f find_by_Some [OF m0] run(2) by (intro bexI [of _ "f m0"]) simp_all
qed

text \<open>Reading the usage leaves the database alone.\<close>

definition keeps_db :: "('r world, 'a) go \<Rightarrow> bool" where
  "keeps_db m \<longleftrightarrow> (\<forall>w. w_db (snd (m w)) = w_db w)"

lemma keeps_db_preserves: "keeps_db m \<longleftrightarrow> (\<forall>d. preserves (\<lambda>w. w_db w = d) m)"
  by (auto simp: keeps_db_def preserves_def)

lemma keeps_db_used: "keeps_db (used_or_zero a i)"
proof -
  have mt: "preserves (\<lambda>w. w_db w = d) (mt g)" for d and g :: "('a cached, 'b) go"
    by (auto simp: preserves_def mt_def split: prod.split)
  have reg: "preserves (\<lambda>w. w_db w = d) (Registry a)" for d and a :: "'a app"
    by (rule preservesI) (simp add: Registry_def bindE_def st_def ListManagers_def query_def exec_def returnE_apply)
  show ?thesis
    unfolding keeps_db_preserves used_or_zero_def managerUsedQuota_def UsedForManager_def
    by (intro allI preserves_intro mt reg)
qed

text \<open>A handler step that ends in no error did not stop at this call.\<close>

lemma handle_success:
  assumes "handle m onErr onOk w = (resp, w')" "status resp < 400" "\<And>e v. 400 \<le> status (fst (onErr e v))"
  obtains x w1 where "m w = (Inr x, w1)" "onOk x w1 = (resp, w')"
proof -
  obtain q w1 where m: "m w = (q, w1)" by (cases "m w")
  show thesis
  proof (cases q)
    case (Inl e)
    then have "(if e = GoPanic then (Recovered, w1) else onErr e w1) = (resp, w')" using assms(1) m by (simp add: handle_def)
    then have "resp = Recovered \<or> resp = fst (onErr e w1)" by (auto split: if_splits dest: sym)
    then show thesis using assms(2) assms(3) [of e w1] by auto
  next
    case (Inr x)
    then show thesis using assms(1) m that by (simp add: handle_def)
  qed
qed

lemma map_sort_key:
  assumes "\<And>x. k x = l (g x)"
  shows "map g (sort_key k xs) = sort_key l (map g xs)"
proof -
  have "map g (insort_key k x ys) = insort_key l (g x) (map g ys)" for x ys
    using assms by (induction ys) simp_all
  then show ?thesis by (induction xs) (simp_all add: sort_key_def)
qed

lemma BuildRegistry_sorted:
  "BuildRegistry (sort_key mgr_ID ms) sep = \<lparr>reg_Separator = sep,
     reg_Managers = sort_key mi_ID (map (\<lambda>m. \<lparr>mi_ID = mgr_ID m, mi_Slug = mgr_Slug m\<rparr>) ms)\<rparr>"
  by (simp add: BuildRegistry_def map_sort_key [of mgr_ID mi_ID])

context managed_panel
begin

text \<open>As \<open>same\<close>, but the database may change as long as ids and slugs of the managers stay.\<close>

definition shows_same :: "'r world \<Rightarrow> 'r world \<Rightarrow> bool" where
  "shows_same w w' \<longleftrightarrow> fresh w' \<and> world_users users w' = world_users users w
     \<and> world_profiles profiles w' = world_profiles profiles w \<and> w_now w' = w_now w
     \<and> world_registry a w' = world_registry a w"

lemma same_shows: "(\<And>v. preserves (same v) m) \<Longrightarrow> preserves (shows_same w) m"
proof (rule preservesI)
  fix v assume m: "\<And>v. preserves (same v) m" and v: "shows_same w v"
  then have "fresh v" by (simp add: shows_same_def)
  from same_run [OF m this prod.collapse [symmetric]] have "same v (snd (m v))" .
  then show "shows_same w (snd (m v))" using v same_registry [of v "snd (m v)"] by (simp add: shows_same_def same_def)
qed

lemma shows_db:
  assumes "\<And>d. map mgr_ID (db_managers (snd (m d))) = map mgr_ID (db_managers d)
    \<and> map mgr_Slug (db_managers (snd (m d))) = map mgr_Slug (db_managers d)"
  shows "preserves (shows_same w) (st m)"
proof (rule preservesI)
  fix v assume v: "shows_same w v"
  have pairs: "map (\<lambda>x. (mgr_ID x, mgr_Slug x)) xs = zip (map mgr_ID xs) (map mgr_Slug xs)" for xs
    by (induction xs) auto
  have "map (\<lambda>x. (mgr_ID x, mgr_Slug x)) (db_managers (snd (m (w_db v))))
      = map (\<lambda>x. (mgr_ID x, mgr_Slug x)) (db_managers (w_db v))"
    by (simp only: pairs assms [THEN conjunct1] assms [THEN conjunct2])
  then have "map (\<lambda>x. \<lparr>mi_ID = fst x, mi_Slug = snd x\<rparr>) (map (\<lambda>x. (mgr_ID x, mgr_Slug x)) (db_managers (snd (m (w_db v)))))
      = map (\<lambda>x. \<lparr>mi_ID = fst x, mi_Slug = snd x\<rparr>) (map (\<lambda>x. (mgr_ID x, mgr_Slug x)) (db_managers (w_db v)))"
    by (rule arg_cong)
  then show "shows_same w (snd (st m v))"
    using v by (simp add: shows_same_def st_def split_beta world_registry_def BuildRegistry_sorted comp_def)
qed

lemma shows_cert: "preserves (shows_same w) (applyManagerCertTitleChange a mgr title)"
proof -
  have db: "preserves (shows_same w) (st (UpdateManagerCert now i t k))" "preserves (shows_same w) (st (ClearManagerCert now i))" for now i t k
    by (rule shows_db, simp add: UpdateManagerCert_def ClearManagerCert_def exec_def map_update_by)+
  have other: "preserves (shows_same w) (rnd g)" "preserves (shows_same w) (provisionCertificate a t k)" for g :: "(entropy, string) go" and t k
    by (rule same_shows, rule same_rnd same_services)+
  show ?thesis
    unfolding applyManagerCertTitleChange_def setupManagerCertificate_def Let_def
    by (intro preserves_intro db other)
qed

lemma patched_quota:
  assumes "fresh w" "HandlePatchManager a ctx r w = (resp, w')" "status resp < 400"
    and "DecodeJSON patch_manager_fields zero_patchManagerReq r = Some req" "pm_Quota req = Some q"
    and i: "i = fst (parseInt (rq_Param r ''id''))"
  shows "i64 (world_slots users profiles a i w) \<le> q
    \<and> (\<exists>m \<in> set (db_managers (w_db w')). mgr_ID m = i \<and> mgr_Quota m = q)"
proof -
  let ?update = "\<lambda>username hash. handle Now (\<lambda>_. respond INTERNAL) (\<lambda>now.
        handle (st (UpdateManager now i username (pm_DisplayName req) (Some q) (pm_IsActive req) hash))
          (\<lambda>e. respond (if e = ErrNoRows then NOT_FOUND else INTERNAL)) (\<lambda>_.
        handle (tryE (st (FindManagerByID i))) (\<lambda>_. respond INTERNAL) (\<lambda>mR.
        handle (used_or_zero a i) (\<lambda>_. respond INTERNAL) (\<lambda>used.
        respond (case mR of Inl _ \<Rightarrow> Recovered | Inr m \<Rightarrow> WriteJSON 200 (manager_json m used))))))"
  let ?quota = "\<lambda>username. patch_quota a i (Some q) (patch_password a (pm_Password req) (?update username))"
  have start: "handle (st (FindManagerByID i)) (\<lambda>e. respond (if e = ErrNoRows then NOT_FOUND else INTERNAL)) (\<lambda>cur.
      patch_cert a cur (pm_CertTitle req) (patch_username i (pm_Username req) ?quota)) w = (resp, w')"
    using assms(2) unfolding HandlePatchManager_def Let_def i [symmetric] assms(4) by (simp add: assms(5))
  obtain cur where cur: "patch_cert a cur (pm_CertTitle req) (patch_username i (pm_Username req) ?quota) w = (resp, w')"
    by (rule handle_success [OF start assms(3)])
      (auto simp: respond_def FindManagerByID_def dest: st_query)
  have refl: "shows_same w w" using assms(1) by (simp add: shows_same_def)
  obtain w1 where w1: "shows_same w w1" "patch_username i (pm_Username req) ?quota w1 = (resp, w')"
  proof (cases "pm_CertTitle req")
    case None
    then show thesis using that [OF refl] cur by (simp add: patch_cert_def)
  next
    case (Some title)
    have "handle (applyManagerCertTitleChange a cur title) (\<lambda>e. respond (cert_error e))
      (\<lambda>_. patch_username i (pm_Username req) ?quota) w = (resp, w')"
      using cur Some by (simp add: patch_cert_def)
    then obtain x v where v: "applyManagerCertTitleChange a cur title w = (Inr x, v)"
      and rest: "patch_username i (pm_Username req) ?quota v = (resp, w')"
      by (rule handle_success [OF _ assms(3)]) (simp add: respond_def cert_error_def)
    show thesis by (rule that [OF preservesD' [OF shows_cert refl v] rest])
  qed
  obtain username where w2: "?quota username w1 = (resp, w')"
  proof (cases "pm_Username req")
    case None
    then show thesis using that w1(2) by (simp add: patch_username_def)
  next
    case (Some n)
    obtain q v where run: "st (FindManagerByUsername (trimSpace n)) w1 = (q, v)"
      by (cases "st (FindManagerByUsername (trimSpace n)) w1")
    then have "v = w1" using st_query by (simp add: FindManagerByUsername_def)
    then show thesis
      using that [of "Some (trimSpace n)"] w1(2) Some run assms(3)
      by (auto simp: patch_username_def Let_def handle_def respond_def split: if_splits sum.splits)
  qed
  have "handle (managerUsedQuota a i) (\<lambda>_. respond UNAVAILABLE) (\<lambda>used.
      if q < used then respond (WriteError 409 ''QUOTA_BELOW_USAGE'')
      else patch_password a (pm_Password req) (?update username)) w1 = (resp, w')"
    using w2 by (simp add: patch_quota_def)
  then obtain used w3 where used: "managerUsedQuota a i w1 = (Inr used, w3)"
    and rest: "(if q < used then respond (WriteError 409 ''QUOTA_BELOW_USAGE'')
      else patch_password a (pm_Password req) (?update username)) w3 = (resp, w')"
    by (rule handle_success [OF _ assms(3)]) (simp add: respond_def)
  have q: "used \<le> q" using rest assms(3) by (auto simp: respond_def split: if_splits)
  have f1: "fresh w1" using w1(1) by (simp add: shows_same_def)
  have slots: "used = i64 (world_slots users profiles a i w)"
    using managerUsedQuota_run [OF f1 used] w1(1) by (simp add: world_slots_def shows_same_def)
  have pw: "patch_password a (pm_Password req) (?update username) w3 = (resp, w')" using rest q by simp
  obtain hash w4 where upd: "?update username hash w4 = (resp, w')"
  proof (cases "pm_Password req = None \<or> trimSpace (the (pm_Password req)) = []")
    case True
    then show thesis using that pw by (auto simp: patch_password_def Let_def split: option.splits)
  next
    case False
    then obtain raw where raw: "pm_Password req = Some raw" "trimSpace raw \<noteq> []" by auto
    have "handle (Hash a (trimSpace raw)) (\<lambda>_. respond INTERNAL) (\<lambda>h. ?update username (Some h)) w3 = (resp, w')"
      using pw raw assms(3) by (auto simp: patch_password_def Let_def respond_def split: if_splits)
    then obtain h v where "?update username (Some h) v = (resp, w')"
      by (rule handle_success [OF _ assms(3)]) (simp add: respond_def)
    then show thesis by (rule that)
  qed
  obtain now where "handle (st (UpdateManager now i username (pm_DisplayName req) (Some q) (pm_IsActive req) hash))
          (\<lambda>e. respond (if e = ErrNoRows then NOT_FOUND else INTERNAL)) (\<lambda>_.
        handle (tryE (st (FindManagerByID i))) (\<lambda>_. respond INTERNAL) (\<lambda>mR.
        handle (used_or_zero a i) (\<lambda>_. respond INTERNAL) (\<lambda>used.
        respond (case mR of Inl _ \<Rightarrow> Recovered | Inr m \<Rightarrow> WriteJSON 200 (manager_json m used))))) w4 = (resp, w')"
    using upd by (simp add: handle_Now)
  then obtain x w5 where upd5: "st (UpdateManager now i username (pm_DisplayName req) (Some q) (pm_IsActive req) hash) w4 = (Inr x, w5)"
    and rest5: "handle (tryE (st (FindManagerByID i))) (\<lambda>_. respond INTERNAL) (\<lambda>mR.
        handle (used_or_zero a i) (\<lambda>_. respond INTERNAL) (\<lambda>used.
        respond (case mR of Inl _ \<Rightarrow> Recovered | Inr m \<Rightarrow> WriteJSON 200 (manager_json m used)))) w5 = (resp, w')"
    by (rule handle_success [OF _ assms(3)]) (simp add: respond_def)
  have row: "\<exists>m \<in> set (db_managers (w_db w5)). mgr_ID m = i \<and> mgr_Quota m = q"
    by (rule UpdateManager_quota [OF upd5])
  obtain mR where mR: "st (FindManagerByID i) w5 = (mR, w5)"
    unfolding FindManagerByID_def by (metis st_query prod.collapse)
  obtain u w6 where u: "used_or_zero a i w5 = (u, w6)" by (cases "used_or_zero a i w5")
  have "w' = w6"
    using rest5 mR u by (auto simp: handle_def tryE_apply respond_def split: sum.splits if_splits)
  moreover have "w_db w6 = w_db w5"
    using keeps_db_used [of a i, unfolded keeps_db_def, rule_format, of w5] u by simp
  ultimately have "w_db w' = w_db w5" by simp
  then show ?thesis using slots q row by simp
qed

end

text \<open>
  C38. The quota of a manager cannot be set below what it uses: when changing a manager gives an answer
  other than an error and the request names a quota, then this quota is at least the slots of the
  manager's enabled users with an active profile (a sum in 64-bit arithmetic), and the manager's row
  has it afterwards.
\<close>

theorem quota_not_below_usage:
  assumes "user_manager (Router a) ok users profiles" "cache_ok ok users profiles (w_router w)"
    and "HandlePatchManager a ctx r w = (resp, w')" "status resp < 400"
    and "DecodeJSON patch_manager_fields zero_patchManagerReq r = Some req" "pm_Quota req = Some q"
    and "i = fst (parseInt (rq_Param r ''id''))"
  shows "i64 (world_slots users profiles a i w) \<le> q
    \<and> (\<exists>m \<in> set (db_managers (w_db w')). mgr_ID m = i \<and> mgr_Quota m = q)"
proof -
  have p: "managed_panel a ok users profiles" by (rule managed_panel.intro [OF assms(1)])
  show ?thesis
    by (rule managed_panel.patched_quota [OF p _ assms(3-7)]) (simp add: managed_panel.fresh_def [OF p] assms(2))
qed

definition quota_request :: request where
  "quota_request = (id_request ''1'')\<lparr>rq_Body := Some (VObj [(''quota'', VNum (Some 6) 6)])\<rparr>"

lemma quota_not_below_usage_witness:
  "\<exists>m \<in> set (db_managers (w_db (snd (HandlePatchManager sample_app (Some admin_claims) quota_request sample_world)))).
     mgr_ID m = 1 \<and> mgr_Quota m = 6"
proof -
  let ?run = "HandlePatchManager sample_app (Some admin_claims) quota_request sample_world"
  let ?req = "zero_patchManagerReq\<lparr>pm_Quota := Some 6\<rparr>"
  have "status (fst ?run) < 400" by code_simp
  moreover have "DecodeJSON patch_manager_fields zero_patchManagerReq quota_request = Some ?req" by code_simp
  moreover have "1 = fst (parseInt (rq_Param quota_request ''id''))" by code_simp
  ultimately show ?thesis
    using quota_not_below_usage [OF sample_router sample_cache_ok prod.collapse [symmetric], of "Some admin_claims" quota_request ?req 6 1]
    by simp
qed

end
