(* ===== verification/Change_Props.thy ===== *)
theory Change_Props
  imports Ledger_Props
begin

text \<open>
  Changing a VPN user: what a successful delete, patch and profile assignment have done to the
  router and to the database. The detail view that ends a patch and an assignment writes into the ledger (the live overlay); on the router it only reads.
\<close>

section \<open>The detail view\<close>

context managed_panel
begin

lemma refresh_run:
  assumes "fresh w" "listUsers a True w = (r, w')"
  shows "same w w' \<and> (\<forall>us. r = Inr us \<longrightarrow> distinct (map usr_Name us) \<and> world_users users w = user_map us)"
proof -
  let ?list = "cl_ListUsers (MT a) (w_now w)" and ?c = "(w_router w)\<lparr>cc_users := []\<rparr>"
  have ok: "cache_ok ok users profiles ?c" using assms(1) by (simp add: fresh_def cache_ok_def)
  obtain c where c: "?list ?c = (r, c)" "w' = w\<lparr>w_router := c\<rparr>"
    using assms(2)
    by (auto simp: listUsers_def bindE_Now mt_eq Cached_RefreshListUsers_def Cached_forceUsers_def MT_def CachedClient_def)
  show ?thesis
    using client.ListUsers_frame [OF ok c(1)] client.ListUsers_Inr [OF ok, of "w_now w"] c
    by (auto simp: same_def fresh_def world_users_def world_profiles_def)
qed

lemma same_refresh [preserves_intro]: "preserves (same w0) (mikrotikSharedUsersByName a)"
proof -
  have "preserves (same w0) (listUsers a True)"
  proof (rule preservesI)
    fix w assume w: "same w0 w"
    obtain r w' where run: "listUsers a True w = (r, w')" by (cases "listUsers a True w")
    then show "same w0 (snd (listUsers a True w))"
      using refresh_run [OF same_fresh [OF w] run] same_trans [OF w] by simp
  qed
  then show ?thesis unfolding mikrotikSharedUsersByName_def by (intro preserves_intro)
qed

lemma shows_reads [preserves_intro]:
  "preserves (shows_same w0) (GetUser a n)" "preserves (shows_same w0) (ListUserProfiles a n)"
  "preserves (shows_same w0) (mikrotikSharedUsersByName a)" "preserves (shows_same w0) (st (query s f))"
  by (rule same_shows, rule same_services same_refresh same_query)+

lemma shows_query [preserves_intro]:
  "preserves (shows_same w0) (st (FindManagerByID i))" "preserves (shows_same w0) (st (FindVPNMetaByID i))"
  "preserves (shows_same w0) (st (ListActivationsByMetaID i))"
  unfolding FindManagerByID_def FindVPNMetaByID_def ListActivationsByMetaID_def by (rule shows_reads)+

lemma shows_writes [preserves_intro]:
  "preserves (shows_same w0) (st (UpdateActivationSharedUsers i n))"
  "preserves (shows_same w0) (st (UpdateLatestUnsettledActivationSharedUsers i n))"
  "preserves (shows_same w0) (st (CreateActivation now act))"
  "preserves (shows_same w0) (st (UpdateVPNMeta now i vc vn vm))"
  by (rule shows_db; simp add: UpdateActivationSharedUsers_def UpdateLatestUnsettledActivationSharedUsers_def
      CreateActivation_def UpdateVPNMeta_def write_meta_def FindVPNMetaByID_def query_def exec_def bindE_def Let_def
      split: option.split sum.split prod.split)+

lemma shows_overlay [preserves_intro]: "preserves (shows_same w0) (activationDTOsWithLiveShared a acts n)"
  unfolding activationDTOsWithLiveShared_def live_activation_def Let_def by (intro preserves_intro)

lemma shows_detail [preserves_intro]: "preserves (shows_same w0) (buildVPNDetail a reg meta b)"
  unfolding buildVPNDetail_def enrichOwner_def connectionBundleFor_def resolveOpenVPN_def Let_def
  by (intro preserves_intro)

lemma shows_record [preserves_intro]: "preserves (shows_same w0) (recordActivation i p n am cu no ps)"
  unfolding recordActivation_def Let_def by (intro preserves_intro)

lemma shows_sync [preserves_intro]: "preserves (shows_same w0) (syncSharedUsersToUnsettledActivation i n)"
  unfolding syncSharedUsersToUnsettledActivation_def by (intro preserves_intro)

lemma shows_run: "preserves (shows_same w) m \<Longrightarrow> fresh w \<Longrightarrow> m w = (r, w') \<Longrightarrow> shows_same w w'"
  using preservesD' [of "shows_same w" m w r w'] by (simp add: shows_same_def)

end


section \<open>Assigning a profile\<close>

lemma CreateActivation_run:
  assumes "CreateActivation now act d = (Inr x, d')"
  shows "0 < act_SharedUsers act \<and> d' = d\<lparr>db_acts := db_acts d @ [act\<lparr>act_ID := seq_acts d + 1, act_IsSettled := False,
      act_SettledAt := None, act_SettledByAdminID := None, act_CreatedAt := sqlite_datetime now\<rparr>],
      seq_acts := seq_acts d + 1\<rparr>"
  using assms by (auto simp: CreateActivation_def exec_def Let_def split: if_splits)

lemma preserves_bindE_run:
  assumes "preserves I m" "\<And>x w w'. I w \<Longrightarrow> m w = (Inr x, w') \<Longrightarrow> preserves I (f x)"
  shows "preserves I (bindE m f)"
proof (rule preservesI)
  fix w assume w: "I w"
  obtain r w' where run: "m w = (r, w')" by (cases "m w")
  have "I w'" using preservesD' [OF assms(1) w run] .
  then show "I (snd (bindE m f w))"
    using assms(2) [OF w] run preservesD by (cases r) (auto simp: bindE_def)
qed

text \<open>The ledger, its slots left out; and a row of it.\<close>

definition without_slots :: "profile_activation list \<Rightarrow> profile_activation list" where
  "without_slots acts = map (act_SharedUsers_update (\<lambda>_. 0)) acts"

definition row_slots :: "int \<Rightarrow> int \<Rightarrow> profile_activation list \<Rightarrow> bool" where
  "row_slots i k acts \<longleftrightarrow> (\<exists>r \<in> set acts. act_ID r = i \<and> act_SharedUsers r = k)"

lemma without_slots_update:
  "without_slots (update_by act_ID i (act_SharedUsers_update (\<lambda>_. n)) acts) = without_slots acts"
  by (simp add: without_slots_def update_by_def comp_def)

lemma row_slots_update:
  "row_slots j k acts \<Longrightarrow> row_slots j k (update_by act_ID i (act_SharedUsers_update (\<lambda>_. k)) acts)"
  unfolding row_slots_def update_by_def by (elim bexE, rule_tac x = "if act_ID r = i then r\<lparr>act_SharedUsers := k\<rparr> else r" in bexI) auto

context managed_panel
begin

text \<open>\<open>overlaid\<close>: the user of this name and the table of users are as in \<open>w0\<close>, the ledger is \<open>L\<close> up to
  the slots, and the row \<open>i\<close> has the slots of the user.\<close>

definition overlaid :: "'r world \<Rightarrow> profile_activation list \<Rightarrow> int \<Rightarrow> int \<Rightarrow> 'r world \<Rightarrow> bool" where
  "overlaid w0 L i k w \<longleftrightarrow> shows_same w0 w \<and> without_slots (db_acts (w_db w)) = L
     \<and> row_slots i k (db_acts (w_db w)) \<and> db_metas (w_db w) = db_metas (w_db w0)"

lemma overlaid_same:
  assumes "\<And>v. preserves (same v) m"
  shows "preserves (overlaid w0 L i k) m"
proof (rule preservesI)
  fix w assume w: "overlaid w0 L i k w"
  then have f: "fresh w" by (simp add: overlaid_def shows_same_def)
  have "same w (snd (m w))" using same_run [OF assms f prod.collapse [symmetric]] .
  moreover have "shows_same w0 (snd (m w))"
    using preservesD [OF same_shows [OF assms]] w by (simp add: overlaid_def)
  ultimately show "overlaid w0 L i k (snd (m w))" using w by (simp add: overlaid_def same_def)
qed

lemma overlaid_reads [preserves_intro]:
  "preserves (overlaid w0 L i k) (GetUser a n)" "preserves (overlaid w0 L i k) (ListUserProfiles a n)"
  "preserves (overlaid w0 L i k) (mikrotikSharedUsersByName a)" "preserves (overlaid w0 L i k) (st (query s f))"
  by (rule overlaid_same, rule same_services same_refresh same_query)+

lemma overlaid_query [preserves_intro]:
  "preserves (overlaid w0 L i k) (st (FindManagerByID m))" "preserves (overlaid w0 L i k) (st (ListActivationsByMetaID m))"
  unfolding FindManagerByID_def ListActivationsByMetaID_def by (rule overlaid_reads)+

lemma overlaid_update: "preserves (overlaid w0 L i k) (st (UpdateActivationSharedUsers j k))"
proof (rule preservesI)
  fix w assume w: "overlaid w0 L i k w"
  have "shows_same w0 (snd (st (UpdateActivationSharedUsers j k) w))"
    using preservesD [OF shows_writes(1)] w by (simp add: overlaid_def)
  then show "overlaid w0 L i k (snd (st (UpdateActivationSharedUsers j k) w))"
    using w by (auto simp: overlaid_def st_def UpdateActivationSharedUsers_def exec_def without_slots_update row_slots_update
        split: prod.split)
qed

lemma live_slots:
  assumes "fresh w" "mikrotikSharedUsersByName a w = (Inr m, w')" "world_users users w name = Some u"
  shows "liveSharedUsers m name n = usr_SharedUsers u"
proof -
  obtain us where us: "listUsers a True w = (Inr us, w')"
    and m: "m = foldl (\<lambda>m u. m(usr_Name u \<mapsto> usr_SharedUsers u)) Map.empty us"
    using assms(2) by (auto simp: mikrotikSharedUsersByName_def bindE_Inr_iff returnE_apply)
  have d: "distinct (map usr_Name us)" "user_map us name = Some u"
    using refresh_run [OF assms(1) us] assms(3) by auto
  have "user_map (rev us) name = Some u" using d by (simp add: user_map_Some rev_map [symmetric])
  then show ?thesis by (simp add: liveSharedUsers_def m fold_user_map user_map_find [symmetric])
qed

lemma overlaid_overlay:
  assumes "world_users users w0 name = Some u"
  shows "preserves (overlaid w0 L i (usr_SharedUsers u)) (activationDTOsWithLiveShared a acts name)"
proof (rule preservesI)
  let ?I = "overlaid w0 L i (usr_SharedUsers u)"
  fix w assume w: "?I w"
  then have f: "fresh w" and u: "world_users users w name = Some u"
    using assms by (simp_all add: overlaid_def shows_same_def)
  obtain q v where run: "mikrotikSharedUsersByName a w = (q, v)" by (cases "mikrotikSharedUsersByName a w")
  have v: "?I v" using preservesD' [OF overlaid_reads(3) w run] .
  show "?I (snd (activationDTOsWithLiveShared a acts name w))"
  proof (cases q)
    case (Inl e)
    then show ?thesis using v run by (simp add: activationDTOsWithLiveShared_def bindE_def tryE_apply returnE_apply)
  next
    case (Inr m)
    note live = live_slots [OF f run [unfolded Inr] u]
    have body: "preserves ?I (live_activation m name act s)" for act s
      unfolding live_activation_def Let_def live by (intro preserves_intro overlaid_update)
    have "preserves ?I (bindE (forE (live_activation m name) acts ([], False)) (\<lambda>(out, _). returnE out))"
      by (intro preserves_intro body)
    from preservesD [OF this v] show ?thesis
      using run Inr by (simp add: activationDTOsWithLiveShared_def bindE_def tryE_apply)
  qed
qed

lemma GetUser_name: "GetUser a name w = (Inr u, w') \<Longrightarrow> usr_Name u = name"
  by (auto simp: GetUser_def bindE_Now mt_eq MT_def CachedClient_def Cached_GetUser_def bindE_Inr_iff liftE_apply
      find_user_iff dest: user_map_name)

lemma overlaid_detail:
  assumes "world_users users w0 (meta_MikrotikName meta) = Some u"
  shows "preserves (overlaid w0 L i (usr_SharedUsers u)) (buildVPNDetail a reg meta b)"
  unfolding buildVPNDetail_def
proof (rule preserves_bindE_run [OF overlaid_reads(1)], goal_cases)
  let ?I = "overlaid w0 L i (usr_SharedUsers u)"
  case (1 x w w')
  then have n: "usr_Name x = meta_MikrotikName meta" using GetUser_name by blast
  have other: "preserves ?I (enrichOwner reg n c)" "preserves ?I (connectionBundleFor a meta y)" for n c y
    unfolding enrichOwner_def connectionBundleFor_def resolveOpenVPN_def Let_def by (intro preserves_intro)+
  show ?case unfolding n by (intro preserves_intro other overlaid_overlay [OF assms])
qed

end


definition assigned_row :: "vpn_user_meta \<Rightarrow> assignProfileReq \<Rightarrow> int \<Rightarrow> profile_activation \<Rightarrow> bool" where
  "assigned_row meta req shared row \<longleftrightarrow> act_VPNUserMetaID row = meta_ID meta \<and> act_ProfileName row = as_ProfileName req
     \<and> act_SharedUsers row = shared \<and> act_AmountPaid row = as_AmountPaid req
     \<and> act_Currency row = (case as_Currency req of None \<Rightarrow> ''IRR'' | Some c \<Rightarrow> c)
     \<and> act_Note row = as_Note req \<and> \<not> act_IsSettled row"

text \<open>Recording an activation succeeds when the row exists, the slots are positive and the insert works.\<close>

lemma recordActivation_run:
  assumes "recordActivation i p n am cu no ps w = (r, w')" "0 < n"
    and "\<not> db_fault (w_db w) S_CreateActivation" "i \<in> set (map meta_ID (db_metas (w_db w)))"
  obtains row where "w_db w' = w_db w\<lparr>db_acts := db_acts (w_db w) @ [row], seq_acts := seq_acts (w_db w) + 1\<rparr>"
    "act_ID row = seq_acts (w_db w) + 1" "act_VPNUserMetaID row = i" "act_ProfileName row = p" "act_SharedUsers row = n"
    "act_AmountPaid row = am" "act_Currency row = (case cu of None \<Rightarrow> ''IRR'' | Some c \<Rightarrow> c)" "act_Note row = no"
    "\<not> act_IsSettled row"
proof -
  define e where "e = (case find (\<lambda>p. ProfileActive p (w_now w)) ps of None \<Rightarrow> [] | Some p \<Rightarrow> prof_EndTime p)"
  have "w_db w' = w_db w\<lparr>db_acts := db_acts (w_db w) @ [\<lparr>act_ID = seq_acts (w_db w) + 1, act_VPNUserMetaID = i,
      act_ProfileName = p, act_SharedUsers = n, act_AmountPaid = am,
      act_Currency = (case cu of None \<Rightarrow> ''IRR'' | Some c \<Rightarrow> c), act_PaidAt = None, act_Note = no,
      act_MikrotikEndTime = (if e \<noteq> [] then Some e else None), act_IsSettled = False, act_SettledAt = None,
      act_SettledByAdminID = None, act_CreatedAt = sqlite_datetime (w_now w)\<rparr>], seq_acts := seq_acts (w_db w) + 1\<rparr>"
    using assms(2-4) arg_cong [OF assms(1) [symmetric], of "w_db \<circ> snd"]
    by (simp add: recordActivation_def Now_run Let_def bindE_def st_def CreateActivation_def exec_def returnE_apply e_def
        cong: if_cong)
  then show thesis by (rule that) simp_all
qed

context managed_panel
begin

lemma assigned:
  assumes "fresh w" "assignVPNProfile a reg meta req b w = (Inr out, w')"
    and "\<not> db_fault (w_db w) S_CreateActivation" "meta_ID meta \<in> set (map meta_ID (db_metas (w_db w)))"
    and name: "name = meta_MikrotikName meta"
    and "\<forall>u. world_users users w name = Some u \<longrightarrow> 0 < usr_SharedUsers u"
  shows "\<exists>u row. world_users users w name = Some u \<and> Resolve reg name (usr_Comment u) \<noteq> 0
    \<and> world_users users w' = world_users users w
    \<and> (\<exists>p \<in> set (world_profiles profiles w' name). prof_Profile p = as_ProfileName req)
    \<and> (\<forall>n. n \<noteq> name \<longrightarrow> world_profiles profiles w' n = world_profiles profiles w n)
    \<and> without_slots (db_acts (w_db w')) = without_slots (db_acts (w_db w) @ [row])
    \<and> assigned_row meta req (usr_SharedUsers u) row \<and> row_slots (act_ID row) (usr_SharedUsers u) (db_acts (w_db w'))
    \<and> db_metas (w_db w') = db_metas (w_db w)"
proof -
  obtain u w1 where get: "GetUser a name w = (Inr u, w1)"
    and 1: "(if Resolve reg (usr_Name u) (usr_Comment u) = 0 then failE AppOrphanNoOwner
     else bindE Now (\<lambda>now.
     bindE (mt (cl_AddUserProfile (MT a) now (usr_Name u) (as_ProfileName req))) (\<lambda>_.
     bindE (tryE (ListUserProfiles a (usr_Name u))) (\<lambda>profsR.
     bindE (tryE (recordActivation (meta_ID meta) (as_ProfileName req) (usr_SharedUsers u)
              (as_AmountPaid req) (as_Currency req) (as_Note req) (or_zero [] profsR))) (\<lambda>_.
     buildVPNDetail a reg meta b))))) w1 = (Inr out, w')"
    using assms(2) unfolding assignVPNProfile_def name by (rule bindE_InrE)
  have n: "usr_Name u = name" using GetUser_name [OF get] .
  have G: "same w w1" "world_users users w name = Some u" using GetUser_run [OF assms(1) get] by simp_all
  have own: "Resolve reg name (usr_Comment u) \<noteq> 0"
    using 1 by (auto simp: n failE_apply split: if_split_asm)
  have "bindE (mt (cl_AddUserProfile (MT a) (w_now w1) name (as_ProfileName req))) (\<lambda>_.
     bindE (tryE (ListUserProfiles a name)) (\<lambda>profsR.
     bindE (tryE (recordActivation (meta_ID meta) (as_ProfileName req) (usr_SharedUsers u)
              (as_AmountPaid req) (as_Currency req) (as_Note req) (or_zero [] profsR))) (\<lambda>_.
     buildVPNDetail a reg meta b))) w1 = (Inr out, w')"
    using 1 own by (simp add: n bindE_Now)
  then obtain w2 where add: "mt (cl_AddUserProfile (MT a) (w_now w1) name (as_ProfileName req)) w1 = (Inr (), w2)"
    and 2: "bindE (tryE (ListUserProfiles a name)) (\<lambda>profsR.
     bindE (tryE (recordActivation (meta_ID meta) (as_ProfileName req) (usr_SharedUsers u)
              (as_AmountPaid req) (as_Currency req) (as_Note req) (or_zero [] profsR))) (\<lambda>_.
     buildVPNDetail a reg meta b)) w2 = (Inr out, w')"
    by (rule bindE_InrE) simp
  note A = AddUserProfile_keeps [OF same_fresh [OF G(1)] add]
  obtain q w3 where list: "ListUserProfiles a name w2 = (q, w3)" by (cases "ListUserProfiles a name w2")
  have L: "same w2 w3" using ListUserProfiles_run [OF _ list] A by simp
  obtain r w4 where rec: "recordActivation (meta_ID meta) (as_ProfileName req) (usr_SharedUsers u)
      (as_AmountPaid req) (as_Currency req) (as_Note req) (or_zero [] q) w3 = (r, w4)"
    by (metis prod.collapse)
  have detail: "buildVPNDetail a reg meta b w4 = (Inr out, w')"
    using 2 list rec by (simp add: bindE_def tryE_apply)
  have db: "w_db w3 = w_db w" using L A G by (simp add: same_def)
  have pos: "0 < usr_SharedUsers u" using assms(6) G(2) by simp
  obtain row where row: "w_db w4 = w_db w3\<lparr>db_acts := db_acts (w_db w3) @ [row], seq_acts := seq_acts (w_db w3) + 1\<rparr>"
    "assigned_row meta req (usr_SharedUsers u) row"
    by (rule recordActivation_run [OF rec pos]) (use assms(3,4) db in \<open>simp_all add: assigned_row_def\<close>)
  have S: "shows_same w3 w4" using shows_run [OF shows_record same_fresh [OF L] rec] .
  have users: "world_users users w4 = world_users users w" using S L A G by (simp add: shows_same_def same_def)
  have "overlaid w4 (without_slots (db_acts (w_db w) @ [row])) (act_ID row) (usr_SharedUsers u) w4"
    using S row db by (simp add: overlaid_def shows_same_def row_slots_def assigned_row_def)
  moreover have "world_users users w4 (meta_MikrotikName meta) = Some u" using users G(2) name by simp
  ultimately have O: "overlaid w4 (without_slots (db_acts (w_db w) @ [row])) (act_ID row) (usr_SharedUsers u) w'"
    using preservesD' [OF overlaid_detail _ detail] by blast
  show ?thesis
  proof (intro exI conjI)
    show "world_users users w name = Some u" by (rule G(2))
    show "Resolve reg name (usr_Comment u) \<noteq> 0" by (rule own)
    show "assigned_row meta req (usr_SharedUsers u) row" by (rule row(2))
  qed (use O S L A G users row db in \<open>simp_all add: overlaid_def shows_same_def same_def\<close>)
qed

end


section \<open>Deleting\<close>

lemma DeleteVPNMeta_run:
  assumes "db_ok d" "DeleteVPNMeta i d = (Inr x, d')"
  shows "db_metas d' = filter (\<lambda>v. meta_ID v \<noteq> i) (db_metas d)
    \<and> db_acts d' = filter (\<lambda>r. act_VPNUserMetaID r \<noteq> i) (db_acts d) \<and> db_managers d' = db_managers d"
proof -
  have "\<forall>r \<in> set (db_acts d). act_VPNUserMetaID r \<in> set (map meta_ID (db_metas d))"
    using assms(1) by (simp add: db_ok_defs)
  then have "filter (\<lambda>r. act_VPNUserMetaID r \<noteq> i) (db_acts d) = db_acts d" if "i \<notin> set (map meta_ID (db_metas d))"
    using that by (auto simp: filter_id_conv)
  then show ?thesis using assms(2) by (auto simp: DeleteVPNMeta_def exec_def split: if_splits)
qed

context managed_panel
begin

lemma deleted:
  assumes "fresh w" "deleteVPNUser a meta w = (Inr x, w')" "db_ok (w_db w)"
    and name: "name = meta_MikrotikName meta"
  shows "db_metas (w_db w') = filter (\<lambda>v. meta_ID v \<noteq> meta_ID meta) (db_metas (w_db w))
    \<and> db_acts (w_db w') = filter (\<lambda>r. act_VPNUserMetaID r \<noteq> meta_ID meta) (db_acts (w_db w))
    \<and> (case fst (cl_RemoveUser (MT a) name (w_router w)) of
         Inr _ \<Rightarrow> world_users users w' = (world_users users w)(name := None)
               \<and> world_profiles profiles w' = (world_profiles profiles w)(name := [])
       | Inl _ \<Rightarrow> world_users users w' = world_users users w \<and> world_profiles profiles w' = world_profiles profiles w)"
proof -
  obtain q c where rm: "cl_RemoveUser (MT a) name (w_router w) = (q, c)" by (cases "cl_RemoveUser (MT a) name (w_router w)")
  have del: "st (DeleteVPNMeta (meta_ID meta)) (w\<lparr>w_router := c\<rparr>) = (Inr x, w')"
    using assms(2) rm by (simp add: deleteVPNUser_def bindE_def tryE_apply mt_def name)
  then obtain d where d: "DeleteVPNMeta (meta_ID meta) (w_db w) = (Inr x, d)" "w' = w\<lparr>w_router := c, w_db := d\<rparr>"
    by (auto simp: st_eq)
  have ok: "cache_ok ok users profiles (w_router w)" using assms(1) by (simp add: fresh_def)
  have "case q of
         Inr _ \<Rightarrow> world_users users w' = (world_users users w)(name := None)
               \<and> world_profiles profiles w' = (world_profiles profiles w)(name := [])
       | Inl _ \<Rightarrow> world_users users w' = world_users users w \<and> world_profiles profiles w' = world_profiles profiles w"
  proof (cases q)
    case (Inl e)
    then show ?thesis
      using client.RemoveUser_Inl [OF ok] rm d by (simp add: world_users_def world_profiles_def)
  next
    case (Inr y)
    then show ?thesis
      using client.RemoveUser_Inr [OF ok] rm d by (simp add: world_users_def world_profiles_def fun_upd_def)
  qed
  then show ?thesis using DeleteVPNMeta_run [OF assms(3) d(1)] d(2) rm by simp
qed

end

section \<open>Changing\<close>

text \<open>The part of a user in the slots of a manager, and what one changed user does to the sum.\<close>

definition share ::
  "('r \<Rightarrow> string \<Rightarrow> user_profile list) \<Rightarrow> 'r app \<Rightarrow> int \<Rightarrow> 'r world \<Rightarrow> mt_user \<Rightarrow> int" where
  "share profiles a k w u =
     (if \<not> usr_Disabled u \<and> Resolve (world_registry a w) (usr_Name u) (usr_Comment u) = k
         \<and> userHasActiveProfile (world_profiles profiles w (usr_Name u)) (w_now w)
      then usr_SharedUsers u else 0)"

lemma world_slots_share:
  "finite (ran (world_users users w)) \<Longrightarrow>
     world_slots users profiles a k w = (\<Sum>u \<in> ran (world_users users w). share profiles a k w u)"
  unfolding world_slots_def share_def by (simp add: sum.inter_filter)

lemma ran_changed:
  assumes "m name = Some u" "\<And>n x. m n = Some x \<Longrightarrow> key x = n"
  shows "ran (m(name \<mapsto> v)) = insert v (ran m - {u})"
proof -
  have "x \<in> ran (m(name := None)) \<longleftrightarrow> x \<in> ran m - {u}" for x
  proof
    assume "x \<in> ran (m(name := None))"
    then obtain n where n: "n \<noteq> name" "m n = Some x" by (auto simp: ran_def split: if_splits)
    then have "x \<noteq> u" using assms(2) [of n x] assms(2) [OF assms(1)] by auto
    then show "x \<in> ran m - {u}" using n(2) by (auto simp: ran_def)
  next
    assume "x \<in> ran m - {u}"
    then obtain n where "m n = Some x" "x \<noteq> u" by (auto simp: ran_def)
    then have "m n = Some x" "n \<noteq> name" using assms(1) by auto
    then show "x \<in> ran (m(name := None))" by (auto simp: ran_def)
  qed
  then have "ran (m(name := None)) = ran m - {u}" by blast
  then show ?thesis using ran_map_upd [of "m(name := None)" name v] by simp
qed

context managed_panel
begin

lemma GetUser_table:
  assumes "fresh w" "GetUser a name w = (Inr u, w')"
  obtains us where "distinct (map usr_Name us)" "world_users users w = user_map us"
proof -
  obtain us c where "Cached_ListUsers (Router a) (MikrotikCacheTTL (Cfg a)) (w_now w) (w_router w) = (Inr us, c)"
    using assms(2) by (auto simp: GetUser_def bindE_Now mt_eq MT_def CachedClient_def Cached_GetUser_def bindE_Inr_iff)
  then have "mt (cl_ListUsers (MT a) (w_now w)) w = (Inr us, w\<lparr>w_router := c\<rparr>)"
    by (simp add: mt_def MT_def CachedClient_def)
  from ListUsers_run [OF assms(1) this] show thesis by (auto intro: that)
qed

lemma slots_changed:
  assumes "distinct (map usr_Name us)" "world_users users w = user_map us" "world_users users w name = Some u"
    and "usr_Name v = name" "world_users users w' = (world_users users w)(name \<mapsto> v)"
    and "world_profiles profiles w' = world_profiles profiles w" "w_now w' = w_now w"
    and "world_registry a w' = world_registry a w"
  shows "world_slots users profiles a k w' =
    world_slots users profiles a k w - share profiles a k w u + share profiles a k w v"
proof -
  let ?R = "ran (world_users users w)"
  have key: "usr_Name x = n" if "world_users users w n = Some x" for n x using that assms(2) user_map_name by metis
  have ran: "ran (world_users users w') = insert v (?R - {u})"
    unfolding assms(5) by (rule ran_changed [where key = usr_Name]) (use assms(3) key in simp_all)
  have fin: "finite ?R" by (simp add: assms(1,2) ran_user_map)
  have u: "u \<in> ?R" using assms(3) by (auto simp: ran_def)
  have "x = u" if "x \<in> ?R" "usr_Name x = name" for x
    using that key assms(3) by (auto simp: ran_def)
  then have v: "v \<notin> ?R - {u}" using assms(4) by blast
  have same: "share profiles a k w' x = share profiles a k w x" for x using assms(6-8) by (simp add: share_def)
  have "world_slots users profiles a k w' = (\<Sum>x \<in> ran (world_users users w'). share profiles a k w x)"
    by (subst world_slots_share) (simp_all add: ran fin same)
  also have "\<dots> = share profiles a k w v + (\<Sum>x \<in> ?R - {u}. share profiles a k w x)"
    unfolding ran using v fin by simp
  also have "(\<Sum>x \<in> ?R - {u}. share profiles a k w x) = (\<Sum>x \<in> ?R. share profiles a k w x) - share profiles a k w u"
    using fin u by (simp add: sum_diff1)
  finally show ?thesis by (simp add: world_slots_share [OF fin])
qed

end


context managed_panel
begin

text \<open>A router that answers every query for profiles.\<close>

definition answers :: bool where
  "answers \<longleftrightarrow> (\<forall>r now n. ok r \<longrightarrow> (\<exists>ps. fst (cl_ListUserProfiles (Router a) now n r) = Inr ps))"

lemma ListUserProfiles_answers:
  assumes "answers" "fresh w"
  obtains w' where "ListUserProfiles a n w = (Inr (world_profiles profiles w n), w')"
proof -
  obtain q w' where run: "ListUserProfiles a n w = (q, w')" by (cases "ListUserProfiles a n w")
  have "ok (cc_inner (w_router w))" using assms(2) by (simp add: fresh_def cache_ok_def)
  then obtain ps r where "cl_ListUserProfiles (Router a) (w_now w) n (cc_inner (w_router w)) = (Inr ps, r)"
    using assms(1) unfolding answers_def by (metis prod.collapse)
  then have "\<exists>ps. q = Inr ps"
    using run by (auto simp: ListUserProfiles_def Now_run mt_eq MT_def CachedClient_def Cached_ListUserProfiles_def
        bindE_def inner_def split: option.splits bool.splits)
  then show thesis using that run ListUserProfiles_run [OF assms(2) run] by auto
qed

lemma FindManagerByID_run:
  "st (FindManagerByID i) w = (Inr m, w') \<Longrightarrow> w' = w \<and> find_by mgr_ID i (db_managers (w_db w)) = Some m"
  by (auto simp: FindManagerByID_def query_def exec_def st_def one_row_def split: if_splits prod.splits option.splits)

lemma quota_check_run:
  assumes "fresh w" "patch_quota_check a k u n w = (Inr x, w')" "answers" "k \<noteq> 0"
    and "find_by mgr_ID k (db_managers (w_db w)) = Some m"
    and "userHasActiveProfile (world_profiles profiles w (usr_Name u)) (w_now w)"
  shows "i64 (world_slots users profiles a k w - usr_SharedUsers u + n) \<le> mgr_Quota m"
proof -
  obtain used w1 where used: "managerUsedQuota a k w = (Inr used, w1)"
    and rest: "bindE (tryE (ListUserProfiles a (usr_Name u))) (\<lambda>profsR.
     bindE Now (\<lambda>now. if list_ex (\<lambda>p. ProfileActive p now) (or_zero [] profsR)
         \<and> \<not> CheckIncrease used (mgr_Quota m) (usr_SharedUsers u) n
       then failE AppQuotaExceeded else returnE ())) w1 = (Inr x, w')"
    using assms(2) unfolding patch_quota_check_def bindE_assoc
    by (auto simp: assms(4) bindE_Inr_iff returnE_apply Let_def dest!: FindManagerByID_run)
      (use assms(5) in \<open>fastforce simp: bindE_Inr_iff\<close>)
  have S: "same w w1" using same_run [OF same_used assms(1) used] .
  obtain w2 where L: "ListUserProfiles a (usr_Name u) w1 = (Inr (world_profiles profiles w1 (usr_Name u)), w2)"
    by (rule ListUserProfiles_answers [OF assms(3) same_fresh [OF S]])
  have "same w1 w2" using ListUserProfiles_run [OF same_fresh [OF S] L] by simp
  then have "list_ex (\<lambda>p. ProfileActive p (w_now w2)) (world_profiles profiles w1 (usr_Name u))"
    using S assms(6) by (simp add: same_def userHasActiveProfile_def)
  then have "CheckIncrease used (mgr_Quota m) (usr_SharedUsers u) n"
    using rest L by (simp add: bindE_def tryE_apply Now_run or_zero_def failE_apply split: if_splits)
  moreover have "used = i64 (world_slots users profiles a k w)" by (rule managerUsedQuota_run [OF assms(1) used])
  moreover have "i64 (i64 s - o1) = i64 (s - o1)" for s o1 using i64_add_left [of s "- o1"] by simp
  ultimately show ?thesis by (simp add: CheckIncrease_def)
qed

lemma same_quota_check: "preserves (same v) (patch_quota_check a k u n)"
  unfolding patch_quota_check_def Let_def by (intro preserves_intro)

end


context managed_panel
begin

text \<open>\<open>SetUser\<close>, the calls of a patch after it, and the calls before it.\<close>

lemma SetUser_run:
  assumes "fresh w" "mt (cl_SetUser (MT a) name pass so comment dis) w = (Inr y, w')" "world_users users w name = Some u"
  obtains c where "comment \<noteq> [] \<longrightarrow> c = comment" "fresh w'" "w_now w' = w_now w" "w_db w' = w_db w"
    "world_users users w' = (world_users users w)(name \<mapsto> set_fields pass so c dis u)"
    "world_profiles profiles w' = world_profiles profiles w"
proof -
  obtain c1 where c1: "cl_SetUser (MT a) name pass so comment dis (w_router w) = (Inr (), c1)" "w' = w\<lparr>w_router := c1\<rparr>"
    using assms(2) by (auto simp: mt_eq)
  from client.SetUser_Inr [OF assms(1) [unfolded fresh_def] c1(1)] obtain c where
    c: "cache_ok ok users profiles c1" "(profiles \<circ> cc_inner) c1 = (profiles \<circ> cc_inner) (w_router w)"
      "comment \<noteq> [] \<longrightarrow> c = comment"
      "(users \<circ> cc_inner) c1 = ((users \<circ> cc_inner) (w_router w))(name \<mapsto> set_fields pass so c dis u)"
    using assms(3) by (auto simp: world_users_def)
  have U: "world_users users w' = (world_users users w)(name \<mapsto> set_fields pass so c dis u)"
    using c(4) c1(2) by (simp add: world_users_def fun_eq_iff)
  show thesis by (rule that [OF c(3) _ _ _ U]) (use c c1(2) in \<open>simp_all add: fresh_def world_profiles_def\<close>)
qed

lemma patch_tail:
  assumes "fresh w6"
    and "(case pr_SharedUsers req of None \<Rightarrow> returnE ()
      | Some n \<Rightarrow> syncSharedUsersToUnsettledActivation i n) w6 = (Inr z, w7)" "Now w7 = (Inr now, w8)"
    and "st (UpdateVPNMeta now i vc vn mid) w8 = (Inr e, w9)" "st (FindVPNMetaByID i) w9 = (Inr v, w10)"
    and "buildVPNDetail a reg v b w10 = (Inr out, w')"
  shows "shows_same w6 w'"
proof -
  have "shows_same w6 w7"
    using assms(2) shows_run [OF shows_sync assms(1)] assms(1)
    by (auto simp: returnE_apply shows_same_def split: option.splits)
  then have "shows_same w6 w8" using assms(3) by (simp add: Now_run)
  from preservesD' [OF shows_writes(4) this assms(4)] have "shows_same w6 w9" .
  from preservesD' [OF shows_query(2) this assms(5)] have "shows_same w6 w10" .
  from preservesD' [OF shows_detail this assms(6)] show ?thesis .
qed

lemma patch_head:
  assumes "fresh w" "patchVPNUser a reg meta req sync b w = (Inr out, w')"
    and name: "name = meta_MikrotikName meta"
  obtains u w1 pass comment w3 x w4 w5 y w6 where "GetUser a name w = (Inr u, w1)" "usr_Name u = name"
    "world_users users w name = Some u"
    "(pass = None \<longleftrightarrow> pr_Password req = None) \<and> (\<forall>p. pass = Some p \<longrightarrow> ValidVPN p)" "same w w3"
    "Resolve reg name (usr_Comment u) \<noteq> 0 \<longrightarrow>
      (\<exists>m. find_by mgr_ID (Resolve reg name (usr_Comment u)) (db_managers (w_db w)) = Some m \<and> comment = ''panel='' @ mgr_Slug m)"
    "(case pr_SharedUsers req of None \<Rightarrow> returnE ()
      | Some n \<Rightarrow> patch_quota_check a (Resolve reg name (usr_Comment u)) u n) w3 = (Inr x, w4)" "same w w5"
    "mt (cl_SetUser (MT a) name pass (pr_SharedUsers req) comment (pr_Disabled req)) w5 = (Inr y, w6)"
    "fresh w6 \<Longrightarrow> shows_same w6 w'"
proof -
  obtain u w1 pass w2 comment w3 x w4 mid w5 y w6 z w7 now w8 e w9 v w10 where
    get: "GetUser a name w = (Inr u, w1)"
    and pass: "(case pr_Password req of None \<Rightarrow> returnE None
      | Some pw \<Rightarrow> bindE (resolveVPNPassword pw) (\<lambda>pass. returnE (Some pass))) w1 = (Inr pass, w2)"
    and comment: "(if Resolve reg (usr_Name u) (usr_Comment u) \<noteq> 0
      then bindE (st (FindManagerByID (Resolve reg (usr_Name u) (usr_Comment u)))) (\<lambda>mgr.
             returnE (PanelComment reg \<lparr>mi_ID = mgr_ID mgr, mi_Slug = mgr_Slug mgr\<rparr>))
      else returnE (usr_Comment u)) w2 = (Inr comment, w3)"
    and quota: "(case pr_SharedUsers req of None \<Rightarrow> returnE ()
      | Some n \<Rightarrow> patch_quota_check a (Resolve reg (usr_Name u) (usr_Comment u)) u n) w3 = (Inr x, w4)"
    and sync: "(case sync of None \<Rightarrow> returnE None
      | Some k \<Rightarrow> if Resolve reg (usr_Name u) (usr_Comment u) = 0 then failE AppOrphanNoOwner
          else if k \<noteq> Resolve reg (usr_Name u) (usr_Comment u) then failE AppOwnerDBMismatch
          else returnE (Some k)) w4 = (Inr mid, w5)"
    and set: "mt (cl_SetUser (MT a) (usr_Name u) pass (pr_SharedUsers req) comment (pr_Disabled req)) w5 = (Inr y, w6)"
    and tail: "(case pr_SharedUsers req of None \<Rightarrow> returnE ()
      | Some n \<Rightarrow> syncSharedUsersToUnsettledActivation (meta_ID meta) n) w6 = (Inr z, w7)"
      "Now w7 = (Inr now, w8)"
      "st (UpdateVPNMeta now (meta_ID meta) (pr_ContactInfo req) (pr_Notes req) mid) w8 = (Inr e, w9)"
      "st (FindVPNMetaByID (meta_ID meta)) w9 = (Inr v, w10)"
      "buildVPNDetail a reg v b w10 = (Inr out, w')"
    using assms(2) unfolding patchVPNUser_def Let_def name [symmetric]
    by (elim bindE_InrE) (rule that)
  have n: "usr_Name u = name" using GetUser_name [OF get] .
  have G: "same w w1" "world_users users w name = Some u" using GetUser_run [OF assms(1) get] by simp_all
  have P: "same w1 w2 \<and> (pass = None \<longleftrightarrow> pr_Password req = None) \<and> (\<forall>p. pass = Some p \<longrightarrow> ValidVPN p)"
    using pass same_refl [OF same_fresh [OF G(1)]] same_run [OF same_services(4) same_fresh [OF G(1)]]
    by (auto simp: returnE_apply split: option.splits elim!: bindE_InrE dest: resolveVPNPassword_valid)
  then have S2: "same w w2" using same_trans [OF G(1)] by blast
  have C: "w3 = w2 \<and> (Resolve reg name (usr_Comment u) \<noteq> 0 \<longrightarrow>
      (\<exists>m. find_by mgr_ID (Resolve reg name (usr_Comment u)) (db_managers (w_db w)) = Some m \<and> comment = ''panel='' @ mgr_Slug m))"
    using comment S2
    by (auto simp: n returnE_apply PanelComment_def same_def split: if_split_asm elim!: bindE_InrE dest!: FindManagerByID_run)
  have S3: "same w w3" using C S2 by simp
  have "same w3 w4"
    using quota same_refl [OF same_fresh [OF S3]] same_run [OF same_quota_check same_fresh [OF S3]]
    by (auto simp: returnE_apply split: option.splits)
  moreover have "w5 = w4" using sync by (auto simp: returnE_apply failE_apply split: option.splits if_splits)
  ultimately have S5: "same w w5" using same_trans [OF S3] by simp
  show thesis
    by (rule that [OF get n G(2) P [THEN conjunct2] S3 C [THEN conjunct2] quota [unfolded n] S5 set [unfolded n]
          patch_tail [OF _ tail]])
qed

lemma patched:
  assumes "fresh w" "patchVPNUser a reg meta req sync b w = (Inr out, w')" "answers"
    and name: "name = meta_MikrotikName meta"
  obtains u pass c w1 where "GetUser a name w = (Inr u, w1)" "usr_Name u = name" "world_users users w name = Some u"
    "world_users users w' = (world_users users w)(name \<mapsto> set_fields pass (pr_SharedUsers req) c (pr_Disabled req) u)"
    "world_profiles profiles w' = world_profiles profiles w" "w_now w' = w_now w"
    "world_registry a w' = world_registry a w"
    "(pass = None \<longleftrightarrow> pr_Password req = None) \<and> (\<forall>p. pass = Some p \<longrightarrow> ValidVPN p)"
    "\<And>k. k = Resolve reg name (usr_Comment u) \<Longrightarrow> k \<noteq> 0 \<Longrightarrow> \<exists>m. find_by mgr_ID k (db_managers (w_db w)) = Some m
       \<and> c = ''panel='' @ mgr_Slug m
       \<and> (\<forall>n. pr_SharedUsers req = Some n \<longrightarrow> userHasActiveProfile (world_profiles profiles w name) (w_now w)
            \<longrightarrow> i64 (world_slots users profiles a k w - usr_SharedUsers u + n) \<le> mgr_Quota m)"
proof -
  obtain y w5 w6 u w1 pass comment w3 x w4 where h: "GetUser a name w = (Inr u, w1)" "usr_Name u = name"
    "world_users users w name = Some u"
    "(pass = None \<longleftrightarrow> pr_Password req = None) \<and> (\<forall>p. pass = Some p \<longrightarrow> ValidVPN p)" "same w w3"
    "Resolve reg name (usr_Comment u) \<noteq> 0 \<longrightarrow>
      (\<exists>m. find_by mgr_ID (Resolve reg name (usr_Comment u)) (db_managers (w_db w)) = Some m \<and> comment = ''panel='' @ mgr_Slug m)"
    "(case pr_SharedUsers req of None \<Rightarrow> returnE ()
      | Some n \<Rightarrow> patch_quota_check a (Resolve reg name (usr_Comment u)) u n) w3 = (Inr x, w4)" "same w w5"
    "mt (cl_SetUser (MT a) name pass (pr_SharedUsers req) comment (pr_Disabled req)) w5 = (Inr y, w6)"
    "fresh w6 \<Longrightarrow> shows_same w6 w'"
    by (rule patch_head [OF assms(1,2) name]) (rule that)
  have "world_users users w5 name = Some u" using h(3,8) by (simp add: same_def)
  from SetUser_run [OF same_fresh [OF h(8)] h(9) this] obtain c where c: "comment \<noteq> [] \<longrightarrow> c = comment" "fresh w6"
    "w_now w6 = w_now w5" "w_db w6 = w_db w5" "world_profiles profiles w6 = world_profiles profiles w5"
    "world_users users w6 = (world_users users w5)(name \<mapsto> set_fields pass (pr_SharedUsers req) c (pr_Disabled req) u)"
    by metis
  have K: "\<exists>m. find_by mgr_ID k (db_managers (w_db w)) = Some m \<and> c = ''panel='' @ mgr_Slug m
       \<and> (\<forall>n. pr_SharedUsers req = Some n \<longrightarrow> userHasActiveProfile (world_profiles profiles w name) (w_now w)
            \<longrightarrow> i64 (world_slots users profiles a k w - usr_SharedUsers u + n) \<le> mgr_Quota m)"
    if k: "k = Resolve reg name (usr_Comment u)" "k \<noteq> 0" for k
  proof -
    obtain m where m: "find_by mgr_ID k (db_managers (w_db w)) = Some m" "comment = ''panel='' @ mgr_Slug m"
      using h(6) k by blast
    have "i64 (world_slots users profiles a k w - usr_SharedUsers u + n) \<le> mgr_Quota m"
      if sh: "pr_SharedUsers req = Some n" and act: "userHasActiveProfile (world_profiles profiles w name) (w_now w)" for n
    proof -
      have "patch_quota_check a k u n w3 = (Inr x, w4)" using h(7) sh k by simp
      from quota_check_run [OF same_fresh [OF h(5)] this assms(3) k(2), of m] show ?thesis
        using m(1) act h(2,5) same_slots [OF h(5)] by (simp add: same_def)
    qed
    then show ?thesis using m c(1) by simp
  qed
  have reg: "world_registry a w6 = world_registry a w" using c(4) h(8) by (simp add: world_registry_def same_def)
  show thesis
    by (rule that [OF h(1-3) _ _ _ _ h(4) K]) (use h(8) h(10) [OF c(2)] c reg in \<open>simp_all add: shows_same_def same_def\<close>)
qed

end


context managed_panel
begin

lemma patched_slots:
  assumes "fresh w" "patchVPNUser a (world_registry a w) meta req sync b w = (Inr out, w')" "answers"
    and name: "name = meta_MikrotikName meta"
    and user: "world_users users w name = Some u" "0 \<le> usr_SharedUsers u"
    and enable: "usr_Disabled u \<longrightarrow> pr_Disabled req \<noteq> Some False"
    and k: "k = Resolve (world_registry a w) name (usr_Comment u)" "k \<noteq> 0"
    and range: "\<And>n. pr_SharedUsers req = Some n \<Longrightarrow> in_i64 (world_slots users profiles a k w - usr_SharedUsers u + n)"
  shows "\<exists>pass c. \<exists>m \<in> set (db_managers (w_db w)).
    world_users users w' = (world_users users w)(name \<mapsto> set_fields pass (pr_SharedUsers req) c (pr_Disabled req) u)
    \<and> (pass = None \<longleftrightarrow> pr_Password req = None) \<and> (\<forall>p. pass = Some p \<longrightarrow> ValidVPN p)
    \<and> world_profiles profiles w' = world_profiles profiles w
    \<and> mgr_ID m = k \<and> c = ''panel='' @ mgr_Slug m
    \<and> world_slots users profiles a k w' \<le> max (mgr_Quota m) (world_slots users profiles a k w)"
proof (rule patched [OF assms(1-4)], goal_cases)
  case (1 u1 pass c w1)
  have "u1 = u" using 1(3) user(1) by simp
  obtain m where m: "find_by mgr_ID k (db_managers (w_db w)) = Some m" "c = ''panel='' @ mgr_Slug m"
    "\<And>n. pr_SharedUsers req = Some n \<Longrightarrow> userHasActiveProfile (world_profiles profiles w name) (w_now w)
       \<Longrightarrow> i64 (world_slots users profiles a k w - usr_SharedUsers u + n) \<le> mgr_Quota m"
    using 1(9) [of k] k unfolding \<open>u1 = u\<close> by auto
  let ?v = "set_fields pass (pr_SharedUsers req) c (pr_Disabled req) u"
  obtain us where us: "distinct (map usr_Name us)" "world_users users w = user_map us"
    by (rule GetUser_table [OF assms(1) 1(1)])
  have n: "usr_Name u = name" using 1(2) by (simp add: \<open>u1 = u\<close>)
  have S: "world_slots users profiles a k w' =
      world_slots users profiles a k w - share profiles a k w u + share profiles a k w ?v"
    by (rule slots_changed [OF us user(1)]) (use 1(4-7) n in \<open>simp_all add: \<open>u1 = u\<close>\<close>)
  have "share profiles a k w ?v \<le> share profiles a k w u
      \<or> world_slots users profiles a k w - share profiles a k w u + share profiles a k w ?v \<le> mgr_Quota m"
  proof (cases "pr_SharedUsers req")
    case None
    then show ?thesis using user(2) enable k n by (auto simp: share_def set_fields_def split: option.splits)
  next
    case (Some n1)
    show ?thesis
    proof (cases "share profiles a k w ?v = 0")
      case True
      then show ?thesis using user(2) by (simp add: share_def)
    next
      case False
      then have act: "userHasActiveProfile (world_profiles profiles w name) (w_now w)" "share profiles a k w ?v = n1"
        using n Some by (auto simp: share_def set_fields_def split: if_split_asm)
      have "\<not> usr_Disabled u" using False enable by (auto simp: share_def set_fields_def split: if_split_asm option.splits)
      then have "share profiles a k w u = usr_SharedUsers u" using act k n by (simp add: share_def)
      then show ?thesis using m(3) [OF Some act(1)] range [OF Some] act(2) by simp
    qed
  qed
  then have "world_slots users profiles a k w' \<le> max (mgr_Quota m) (world_slots users profiles a k w)" using S by auto
  moreover have "m \<in> set (db_managers (w_db w))" "mgr_ID m = k" using find_by_Some [OF m(1)] by simp_all
  ultimately show ?case
    using 1(4,5,8) m(2) by (intro exI [of _ pass] exI [of _ c] bexI [of _ m] conjI) (simp_all add: \<open>u1 = u\<close>)
qed

end


text \<open>The slots of a manager on the fake router, as a sum that computes.\<close>

definition fake_table :: "fake_client world \<Rightarrow> (string \<times> mt_user) list" where
  "fake_table w = fk_users (cc_inner (w_router w))"

definition fake_slots :: "fake_client app \<Rightarrow> int \<Rightarrow> fake_client world \<Rightarrow> int" where
  "fake_slots a k w = sum_list (map (share fake_profiles a k w \<circ> snd) (fake_table w))"

definition keyed :: "fake_client world \<Rightarrow> bool" where
  "keyed w \<longleftrightarrow> distinct (map fst (fake_table w)) \<and> list_all (\<lambda>(n, u). usr_Name u = n) (fake_table w)"

lemma world_slots_fake:
  assumes "keyed w"
  shows "world_slots fake_users fake_profiles a k w = fake_slots a k w"
proof -
  have ran: "ran (world_users fake_users w) = set (map snd (fake_table w))"
    using ran_distinct [OF assms [unfolded keyed_def, THEN conjunct1]] by (simp add: world_users_def fake_users_def fake_table_def)
  have "map fst (fake_table w) = map (usr_Name \<circ> snd) (fake_table w)"
    using assms by (auto simp: keyed_def list_all_iff)
  then have "distinct (map snd (fake_table w))"
    using assms by (metis keyed_def distinct_map map_map)
  then show ?thesis
    by (simp add: world_slots_share ran fake_slots_def sum_list_distinct_conv_sum_set [symmetric] comp_def
        del: set_map)
qed

section \<open>Examples\<close>

definition ali :: manager where
  "ali = sample_manager 1 ''ali''"

text \<open>A panel whose first manager has used its quota, with a disabled user and one without a profile.\<close>

definition full_world :: "fake_client world" where
  "full_world = sample_world\<lparr>
     w_db := sample_db\<lparr>db_managers := [ali\<lparr>mgr_Quota := 5\<rparr>, sample_manager 2 ''reza''],
       db_metas := db_metas sample_db @ [sample_meta 4 ''ali_c'' (Some 1), sample_meta 5 ''ali_d'' (Some 1)],
       seq_metas := 5\<rparr>,
     w_router := NewCached (panel_fake\<lparr>fk_users := fk_users panel_fake @ [(''ali_d'', sample_user ''ali_d'' 2 False)]\<rparr>)\<rparr>"

definition assign_req :: assignProfileReq where
  "assign_req = \<lparr>as_ProfileName = ''profile-open-2M-30d'', as_AmountPaid = None, as_Currency = None,
     as_PaidAt = None, as_Note = None\<rparr>"

definition ali_d :: vpn_user_meta where
  "ali_d = sample_meta 5 ''ali_d'' (Some 1)"

definition full_registry :: registry where
  "full_registry = world_registry sample_app full_world"

text \<open>What is shown of a run: it succeeds, and the slots of the first manager afterwards.\<close>

definition used_after :: "(go_err + 'a) \<times> fake_client world \<Rightarrow> int option" where
  "used_after run = (if isl (fst run) \<or> \<not> keyed (snd run) then None else Some (fake_slots sample_app 1 (snd run)))"

lemma used_after_world:
  "used_after (r, w') = Some n \<Longrightarrow> (\<exists>x. r = Inr x) \<and> world_slots fake_users fake_profiles sample_app 1 w' = n"
  by (cases r) (auto simp: used_after_def world_slots_fake split: if_splits)

lemma assign_run: "used_after (assignVPNProfile sample_app full_registry ali_d assign_req False full_world) = Some 7"
  by code_simp

section \<open>Properties\<close>

text \<open>
  C12. Deleting a VPN user that succeeds has removed its row and exactly its activations. On the router
  the user and its profiles are gone and all others are kept, if the router did the removal; if the
  router failed, the deletion succeeds all the same and the user stays on the router without a row.
\<close>

theorem delete_removes_user:
  assumes "user_manager (Router a) ok users profiles" "cache_ok ok users profiles (w_router w)"
    and "deleteVPNUser a meta w = (Inr (), w')" "db_ok (w_db w)"
  shows "db_metas (w_db w') = filter (\<lambda>v. meta_ID v \<noteq> meta_ID meta) (db_metas (w_db w))
    \<and> db_acts (w_db w') = filter (\<lambda>r. act_VPNUserMetaID r \<noteq> meta_ID meta) (db_acts (w_db w))
    \<and> (case fst (cl_RemoveUser (MT a) (meta_MikrotikName meta) (w_router w)) of
         Inr _ \<Rightarrow> world_users users w' = (world_users users w)(meta_MikrotikName meta := None)
               \<and> world_profiles profiles w' = (world_profiles profiles w)(meta_MikrotikName meta := [])
       | Inl _ \<Rightarrow> world_users users w' = world_users users w \<and> world_profiles profiles w' = world_profiles profiles w)"
proof -
  have p: "managed_panel a ok users profiles" by (rule managed_panel.intro [OF assms(1)])
  show ?thesis
    by (rule managed_panel.deleted [OF p _ assms(3,4) refl]) (simp add: managed_panel.fresh_def [OF p] assms(2))
qed

definition ali_a :: vpn_user_meta where
  "ali_a = sample_meta 1 ''ali_a'' (Some 1)"

lemma delete_removes_user_witness:
  "map act_ID (db_acts (w_db (snd (deleteVPNUser sample_app ali_a sample_world)))) = [2, 3]
   \<and> world_users fake_users (snd (deleteVPNUser sample_app ali_a sample_world)) ''ali_a'' = None"
proof -
  let ?run = "deleteVPNUser sample_app ali_a sample_world"
  have "fst ?run = Inr ()" by code_simp
  then have run: "?run = (Inr (), snd ?run)" by (simp add: prod_eq_iff)
  have ok: "db_ok (w_db sample_world)" using sample_db_ok by (simp add: sample_world_def)
  have "fst (cl_RemoveUser (MT sample_app) (meta_MikrotikName ali_a) (w_router sample_world)) = Inr ()" by code_simp
  moreover have "map act_ID (filter (\<lambda>r. act_VPNUserMetaID r \<noteq> meta_ID ali_a) (db_acts (w_db sample_world))) = [2, 3]"
    by code_simp
  moreover have "meta_MikrotikName ali_a = ''ali_a''" by (simp add: ali_a_def sample_meta_def)
  ultimately show ?thesis
    using delete_removes_user [OF sample_router sample_cache_ok run ok] by simp
qed



text \<open>
  C10. A patch that succeeds changes one user of the router and no profile, to the fields of the request
  (a valid password among them) and the panel comment of the owner, and does not take the owner past
  its quota: afterwards its slots are at most the quota or at most what they were. This holds for an
  owned user that the patch does not enable, when the router answers queries for profiles and the
  sums fit in 64 bits.
\<close>

theorem patch_respects_quota:
  assumes "user_manager (Router a) ok users profiles" "cache_ok ok users profiles (w_router w)"
    and "\<forall>r now n. ok r \<longrightarrow> (\<exists>ps. fst (cl_ListUserProfiles (Router a) now n r) = Inr ps)"
    and "patchVPNUser a (world_registry a w) meta req sync b w = (Inr out, w')"
    and "name = meta_MikrotikName meta" "world_users users w name = Some u" "0 \<le> usr_SharedUsers u"
    and "usr_Disabled u \<longrightarrow> pr_Disabled req \<noteq> Some False"
    and "k = Resolve (world_registry a w) name (usr_Comment u)" "k \<noteq> 0"
    and "\<forall>n. pr_SharedUsers req = Some n \<longrightarrow> in_i64 (world_slots users profiles a k w - usr_SharedUsers u + n)"
  shows "\<exists>pass c. \<exists>m \<in> set (db_managers (w_db w)).
    world_users users w' = (world_users users w)(name \<mapsto> set_fields pass (pr_SharedUsers req) c (pr_Disabled req) u)
    \<and> (pass = None \<longleftrightarrow> pr_Password req = None) \<and> (\<forall>p. pass = Some p \<longrightarrow> ValidVPN p)
    \<and> world_profiles profiles w' = world_profiles profiles w
    \<and> mgr_ID m = k \<and> c = ''panel='' @ mgr_Slug m
    \<and> world_slots users profiles a k w' \<le> max (mgr_Quota m) (world_slots users profiles a k w)"
proof -
  have p: "managed_panel a ok users profiles" by (rule managed_panel.intro [OF assms(1)])
  have f: "managed_panel.fresh ok users profiles w" by (simp add: managed_panel.fresh_def [OF p] assms(2))
  have "managed_panel.answers a ok" using assms(3) by (simp add: managed_panel.answers_def [OF p])
  from managed_panel.patched_slots [OF p f assms(4) this assms(5-10)] assms(11) show ?thesis by blast
qed

definition more_slots_req :: patchVPNReq where
  "more_slots_req = \<lparr>pr_Password = None, pr_SharedUsers = Some 4, pr_Disabled = None, pr_ContactInfo = None,
     pr_Notes = None\<rparr>"

lemma patch_respects_quota_witness:
  "\<exists>m \<in> set (db_managers sample_db). mgr_ID m = 1
     \<and> world_slots fake_users fake_profiles sample_app 1
         (snd (patchVPNUser sample_app (world_registry sample_app sample_world) ali_a more_slots_req None False sample_world))
       \<le> max (mgr_Quota m) 5"
proof -
  let ?reg = "world_registry sample_app sample_world"
  let ?run = "patchVPNUser sample_app ?reg ali_a more_slots_req None False sample_world"
  have "isl (fst ?run) \<longrightarrow> False" by code_simp
  then have run: "?run = (Inr (projr (fst ?run)), snd ?run)" by (metis prod.collapse sum.collapse(2))
  have u: "world_users fake_users sample_world ''ali_a'' = Some (sample_user ''ali_a'' 2 False)" by code_simp
  have answers: "\<forall>r now n. fake_ok r \<longrightarrow> (\<exists>ps. fst (cl_ListUserProfiles (Router sample_app) now n r) = Inr ps)"
    by (simp add: FakeClient_def Fake_ListUserProfiles_def)
  have owner: "1 = Resolve ?reg ''ali_a'' (usr_Comment (sample_user ''ali_a'' 2 False))" by code_simp
  have "\<forall>n. pr_SharedUsers more_slots_req = Some n \<longrightarrow>
      in_i64 (world_slots fake_users fake_profiles sample_app 1 sample_world - usr_SharedUsers (sample_user ''ali_a'' 2 False) + n)"
    by (simp add: sample_slots more_slots_req_def sample_user_def in_i64_def)
  moreover have "''ali_a'' = meta_MikrotikName ali_a" "0 \<le> usr_SharedUsers (sample_user ''ali_a'' 2 False)"
    "\<not> usr_Disabled (sample_user ''ali_a'' 2 False)" "db_managers (w_db sample_world) = db_managers sample_db"
    by (simp_all add: ali_a_def sample_meta_def sample_user_def sample_world_def)
  ultimately show ?thesis
    using patch_respects_quota [OF sample_router sample_cache_ok answers run _ u _ _ owner] sample_slots by fastforce
qed

end
