(* ===== verification/Interleaving.thy ===== *)
theory Interleaving
  imports Change_Props
begin

text \<open>
  Two requests at once. The server runs every handler in a goroutine of its own; the clients of the
  router lock each command, but neither the service layer nor the cache takes a lock. Here two
  functions are cut where another request may run in between, with a lemma each that the parts in
  sequence are the whole function, and interleavings are written as sequences of the parts.
\<close>

section \<open>Creating users\<close>

text \<open>
  \<open>create_check\<close> is \<open>createVPNUser\<close> up to the quota check, \<open>create_rest\<close> what comes after:
  another request may run in between.
\<close>

definition create_check :: "'r app \<Rightarrow> manager \<Rightarrow> createVPNReq \<Rightarrow> ('r world, string \<times> string \<times> string) go" where
  "create_check a mgr req =
     bindE (Registry a) (\<lambda>reg.
     if int (length (cr_LocalName req)) > UsernameLocalMaxLen (Cfg a)
     then failE (ErrText ''local name too long'')
     else bindE (resolveVPNPassword (cr_Password req)) (\<lambda>pass.
     if cr_SharedUsers req < 1 \<or> cr_SharedUsers req > SharedUsersMax (Cfg a)
     then failE (ErrText ''invalid shared_users'')
     else
       bindE (managerUsedQuota a (mgr_ID mgr)) (\<lambda>used.
       if wants_profile req \<and> \<not> CheckAdd used (mgr_Quota mgr) (cr_SharedUsers req)
       then failE AppQuotaExceeded
       else returnE (fullName (mgr_Slug mgr @ UsernamePrefixSep (Cfg a)) (cr_LocalName req), pass,
                     PanelComment reg \<lparr>mi_ID = mgr_ID mgr, mi_Slug = mgr_Slug mgr\<rparr>))))"

definition create_rest ::
  "'r app \<Rightarrow> manager \<Rightarrow> createVPNReq \<Rightarrow> string \<times> string \<times> string \<Rightarrow> ('r world, json) go" where
  "create_rest a mgr req = (\<lambda>(name, pass, comment).
     bindE (add_router_user a name pass comment req) (\<lambda>_. finish_create a name (Some mgr) req))"

lemma bindE_if: "bindE (if b then m else n) f = (if b then bindE m f else bindE n f)"
  by simp

lemma createVPNUser_split: "createVPNUser a mgr req = bindE (create_check a mgr req) (create_rest a mgr req)"
  by (simp add: createVPNUser_def create_check_def create_rest_def Let_def bindE_assoc bindE_if cong: if_cong)

section \<open>The cache\<close>

text \<open>
  \<open>ListUsers\<close> of the cache when it has to ask the router: the question, and the two assignments after
  the answer. \<open>write_through\<close> is a write and then the invalidation.
\<close>

definition list_ask :: "'r client \<Rightarrow> time \<Rightarrow> ('r cached, mt_user list) go" where
  "list_ask C now = inner (cl_ListUsers C now)"

definition list_store :: "mt_user list \<Rightarrow> time \<Rightarrow> ('r cached, unit) go" where
  "list_store us now = (\<lambda>c. (Inr (), c\<lparr>cc_users := us, cc_usersAt := now\<rparr>))"

lemma Cached_ListUsers_split:
  "Cached_ListUsers C ttl now c =
     (if now - cc_usersAt c < ttl \<and> cc_users c \<noteq> [] then (Inr (cc_users c), c)
      else bindE (list_ask C now) (\<lambda>us. bindE (list_store us now) (\<lambda>_. returnE us)) c)"
  by (simp add: Cached_ListUsers_def list_ask_def list_store_def bindE_def returnE_apply split: prod.split sum.split)

context user_manager
begin

text \<open>An answer that is stored after another request has added or removed a user.\<close>

lemma stored_late:
  assumes "ok (cc_inner c)" "list_ask C now c = (Inr us, c1)" "us \<noteq> []" "t - now < ttl"
    and "list_store us now c2 = (Inr (), c3)" "users (cc_inner c2) name \<noteq> users (cc_inner c1) name"
  shows "\<not> cache_ok ok users profiles c3 \<and> Cached_ListUsers C ttl t c3 = (Inr us, c3)
    \<and> Cached_GetUser C ttl t name c3 =
        ((case users (cc_inner c1) name of None \<Rightarrow> Inl ErrNotFound | Some u \<Rightarrow> Inr u), c3)
    \<and> users (cc_inner c3) = users (cc_inner c2)"
proof -
  obtain r where r: "cl_ListUsers C now (cc_inner c) = (Inr us, r)" "c1 = c\<lparr>cc_inner := r\<rparr>"
    using assms(2) by (auto simp: list_ask_def inner_def split: prod.splits)
  have us: "users (cc_inner c1) = user_map us"
    using ListUsers_Inr [OF assms(1) r(1)] ListUsers_frame [OF assms(1) r(1)] r(2) by simp
  have c3: "c3 = c2\<lparr>cc_users := us, cc_usersAt := now\<rparr>" using assms(5) by (simp add: list_store_def)
  have hit: "Cached_ListUsers C ttl t c3 = (Inr us, c3)" using assms(3,4) by (simp add: Cached_ListUsers_def c3)
  have "\<not> cache_ok ok users profiles c3" using assms(3,6) us by (auto simp: cache_ok_def c3)
  moreover have "Cached_GetUser C ttl t name c3 =
      ((case users (cc_inner c1) name of None \<Rightarrow> Inl ErrNotFound | Some u \<Rightarrow> Inr u), c3)"
    using hit by (simp add: Cached_GetUser_def bindE_def liftE_apply us find_user_def user_map_find split: option.split)
  ultimately show ?thesis using hit c3 by simp
qed

end

section \<open>Examples\<close>

definition request_named :: "string \<Rightarrow> createVPNReq" where
  "request_named name = sample_create\<lparr>cr_LocalName := name, cr_SharedUsers := 3\<rparr>"

definition enable_req :: patchVPNReq where
  "enable_req = \<lparr>pr_Password = None, pr_SharedUsers = None, pr_Disabled = Some False, pr_ContactInfo = None,
     pr_Notes = None\<rparr>"

definition ali_c :: vpn_user_meta where
  "ali_c = sample_meta 4 ''ali_c'' (Some 1)"

definition race :: "(fake_client world, json) go" where
  "race = bindE (create_check sample_app ali (request_named ''home'')) (\<lambda>p.
          bindE (create_check sample_app ali (request_named ''work'')) (\<lambda>q.
          bindE (create_rest sample_app ali (request_named ''home'') p) (\<lambda>_.
          create_rest sample_app ali (request_named ''work'') q)))"

text \<open>A request asks for the list, another creates a user, the first stores its answer, a third creates.\<close>

definition late_store :: "(fake_client world, json) go" where
  "late_store = bindE Now (\<lambda>now.
     bindE (mt (list_ask (Router sample_app) now)) (\<lambda>us.
     bindE (createVPNUser sample_app ali (request_named ''home'')) (\<lambda>_.
     bindE (mt (list_store us now)) (\<lambda>_.
     createVPNUser sample_app ali (request_named ''work'')))))"

lemma race_run: "used_after (race sample_world) = Some 11"
  by code_simp

lemma late_run: "used_after (late_store sample_world) = Some 11"
  by code_simp

lemma enable_run: "used_after (patchVPNUser sample_app full_registry ali_c enable_req None False full_world) = Some 9"
  by code_simp

lemma full_run: "keyed full_world" "fake_slots sample_app 1 full_world = 5"
  by code_simp+

section \<open>Properties\<close>

text \<open>
  C14. The cache can be left behind the router. A request has asked the router for the users; before it
  stores the answer, another request adds a user through the cache and succeeds; then the first one
  stores the old list over the invalidation. The cache disagrees with the router, and for as long as
  the TTL lasts the list is served without the new user and looking the user up gives "not found".
\<close>

theorem stale_user_list:
  assumes "user_manager C ok users profiles" "ok (cc_inner c)" "list_ask C now c = (Inr us, c1)" "us \<noteq> []"
    and "Cached_AddUser C name pw comment shared dis c1 = (Inr (), c2)"
    and "list_store us now c2 = (Inr (), c3)" "t - now < ttl"
  shows "users (cc_inner c3) name \<noteq> None \<and> \<not> cache_ok ok users profiles c3
    \<and> Cached_ListUsers C ttl t c3 = (Inr us, c3) \<and> Cached_GetUser C ttl t name c3 = (Inl ErrNotFound, c3)"
proof -
  obtain r where r: "cl_ListUsers C now (cc_inner c) = (Inr us, r)" "c1 = c\<lparr>cc_inner := r\<rparr>"
    using assms(3) by (auto simp: list_ask_def inner_def split: prod.splits)
  then have ok1: "ok (cc_inner c1)"
    using router_reads.ListUsers_frame [OF user_manager.axioms(1) [OF assms(1)] assms(2)] by simp
  obtain r2 where r2: "cl_AddUser C name pw comment shared dis (cc_inner c1) = (Inr (), r2)"
    "cc_inner c2 = cl_InvalidateCache C r2"
    using assms(5) by (auto simp: Cached_AddUser_def write_through_Inr)
  note A = user_manager.AddUser_Inr [OF assms(1) ok1 r2(1)]
  have "users (cc_inner c2) = users r2"
    using user_manager.InvalidateCache_frame [OF assms(1), of r2] A r2(2) by simp
  then have new: "users (cc_inner c2) name \<noteq> None" "users (cc_inner c1) name = None" using A by auto
  then show ?thesis
    using user_manager.stored_late [OF assms(1-4,7,6), of name] by simp
qed

lemma stale_user_list_witness:
  "fst (Cached_GetUser FakeClient 30 10 ''ali_x'' (snd (list_store (map snd (fk_users panel_fake)) 0
     (snd (Cached_AddUser FakeClient ''ali_x'' ''secret99'' [] 1 False (NewCached panel_fake)))))) = Inl ErrNotFound"
proof -
  let ?us = "map snd (fk_users panel_fake)" and ?c = "NewCached panel_fake"
  have ask: "list_ask FakeClient 0 ?c = (Inr ?us, ?c)"
    by (simp add: list_ask_def inner_def FakeClient_def Fake_ListUsers_def NewCached_def)
  have us: "?us \<noteq> []" by code_simp
  have "fst (Cached_AddUser FakeClient ''ali_x'' ''secret99'' [] 1 False ?c) = Inr ()" by code_simp
  then have add: "Cached_AddUser FakeClient ''ali_x'' ''secret99'' [] 1 False ?c
      = (Inr (), snd (Cached_AddUser FakeClient ''ali_x'' ''secret99'' [] 1 False ?c))"
    by (simp add: prod_eq_iff)
  have ok: "fake_ok (cc_inner ?c)" using sample_cache_ok by (simp add: cache_ok_def sample_world_def)
  have put: "list_store ?us 0 c = (Inr (), snd (list_store ?us 0 c))" for c :: "fake_client cached"
    by (simp add: list_store_def)
  show ?thesis
    using stale_user_list [OF sample_router [simplified] ok ask us add put, of 10 30] by simp
qed


end
