(* ===== verification/Manager_Races.thy ===== *)
theory Manager_Races
  imports Interleaving
begin

text \<open>
  Two requests at once that change managers: the slug check of \<open>HandleCreateManager\<close> is not one step
  with the insert, and \<open>UpdateManager\<close> is not one step. Neither breaks the integrity of the database;
  what they break is stated here.
\<close>

section \<open>Creating managers\<close>

text \<open>\<open>slug_free\<close> is the slug check of \<open>HandleCreateManager\<close>, \<open>create_manager_rest\<close> what follows when it passes.\<close>

definition slug_free :: "createManagerReq \<Rightarrow> ('r world, bool) go" where
  "slug_free req = bindE (tryE (st ListManagerSlugs)) (\<lambda>slugsR.
     returnE (\<not> SlugOverlaps (cm_Slug req) (or_zero [] slugsR) 0))"

definition create_manager_rest :: "'r app \<Rightarrow> createManagerReq \<Rightarrow> 'r world handler" where
  "create_manager_rest a req =
     handle (Hash a (cm_Password req)) (\<lambda>_. respond INTERNAL) (\<lambda>hash.
     handle Now (\<lambda>_. respond INTERNAL) (\<lambda>now.
     handle (st (CreateManager now (new_manager req hash)))
       (\<lambda>_. respond (WriteError 409 ''SLUG_IN_USE'')) (\<lambda>m.
     let created = respond (WriteJSON 201 (JObj [(''id'', JInt (mgr_ID m))])) in
     case cm_CertTitle req of
       Some t \<Rightarrow>
         if trimSpace t \<noteq> []
         then handle (setupManagerCertificate a (mgr_ID m) t) (\<lambda>e. respond (cert_error e)) (\<lambda>_. created)
         else created
     | None \<Rightarrow> created)))"

lemma handle_bindE: "handle (bindE m (\<lambda>x. returnE (g x))) f k = handle m f (\<lambda>x. k (g x))"
  by (simp add: fun_eq_iff handle_def bindE_def returnE_apply split: prod.split sum.split)

lemma HandleCreateManager_split:
  "HandleCreateManager a ctx r =
     (case DecodeJSON create_manager_fields zero_createManagerReq r of
        None \<Rightarrow> respond VALIDATION
      | Some req \<Rightarrow>
        if \<not> ValidPanel (Unicode a) (cm_Password req) \<or> cm_Quota req < 1 then respond VALIDATION
        else handle (slug_free req) (\<lambda>_. respond INTERNAL) (\<lambda>free.
          if \<not> free then respond (WriteError 409 ''SLUG_OVERLAPS'') else create_manager_rest a req))"
  by (simp add: HandleCreateManager_def slug_free_def create_manager_rest_def handle_bindE cong: option.case_cong if_cong)

section \<open>Changing managers\<close>

lemma put_twice:
  "update_by mgr_ID i (put_manager later m') (update_by mgr_ID i (put_manager now m) ms)
   = update_by mgr_ID i (put_manager later m') ms"
  by (simp add: update_by_def put_manager_def)

lemma other_rows:
  "(\<exists>r \<in> set (update_by mgr_ID i (put_manager now m) ms). mgr_ID r \<noteq> i \<and> P r) \<longleftrightarrow> (\<exists>r \<in> set ms. mgr_ID r \<noteq> i \<and> P r)"
  by (auto simp: update_by_def)

lemma write_manager_over:
  assumes "write_manager now i m d = (Inr (), d1)" "write_manager later i m' d1 = (Inr (), d2)"
  shows "write_manager later i m' d = (Inr (), d2)"
proof -
  have d1: "d1 = d\<lparr>db_managers := update_by mgr_ID i (put_manager now m) (db_managers d)\<rparr>"
    by (rule write_manager_run [OF assms(1)])
  show ?thesis
  proof (cases "i \<in> set (map mgr_ID (db_managers d))")
    case True
    then show ?thesis
      using assms(2) unfolding d1
      by (auto simp: write_manager_def exec_def put_twice other_rows image_update_by split: if_splits)
  next
    case False
    then show ?thesis using assms(2) unfolding d1 by (simp add: update_by_absent)
  qed
qed

section \<open>Examples\<close>

text \<open>Two managers, one with a slug that extends the other's.\<close>

definition manager_named :: "string \<Rightarrow> createManagerReq" where
  "manager_named slug = \<lparr>cm_Username = slug, cm_Password = ''secret123'', cm_DisplayName = slug, cm_Slug = slug,
     cm_Quota = 5, cm_CertTitle = None\<rparr>"

lemma slug_free_sara: "slug_free (manager_named ''sara'') sample_world = (Inr True, sample_world)"
  "slug_free (manager_named ''sara_b'') sample_world = (Inr True, sample_world)"
  by (simp_all add: slug_free_def bindE_def tryE_apply returnE_apply or_zero_def st_def ListManagerSlugs_def query_def exec_def
      sample_world_def sample_db_def sample_manager_def manager_named_def)

definition sara_world :: "fake_client world" where
  "sara_world = snd (create_manager_rest sample_app (manager_named ''sara_b'')
     (snd (create_manager_rest sample_app (manager_named ''sara'') sample_world)))"

lemma sara_runs:
  "fst (create_manager_rest sample_app (manager_named ''sara'') sample_world) = WriteJSON 201 (JObj [(''id'', JInt 3)])"
  "fst (create_manager_rest sample_app (manager_named ''sara_b'')
     (snd (create_manager_rest sample_app (manager_named ''sara'') sample_world))) = WriteJSON 201 (JObj [(''id'', JInt 4)])"
  "map mgr_Slug (db_managers (w_db sara_world)) = [''ali'', ''reza'', ''sara'', ''sara_b'']"
  "map mgr_ID (db_managers (w_db sara_world)) = [1, 2, 3, 4]"
  by code_simp+

lemma registry_of_lists:
  "map mgr_ID ms = map mgr_ID ms' \<Longrightarrow> map mgr_Slug ms = map mgr_Slug ms' \<Longrightarrow> BuildRegistry ms sep = BuildRegistry ms' sep"
  by (induction ms ms' rule: list_induct2') (auto simp: BuildRegistry_def)

section \<open>Properties\<close>

text \<open>
  C15. Of two concurrent changes of one manager the first is lost. \<open>UpdateManager\<close> reads the row and then
  writes all its columns; when both have read before either writes, and both succeed, the database is as
  if only the second had been made, although both were answered with success. When an administrator
  disables a manager that is just changing its display name or its password, the manager stays enabled.
\<close>

theorem lost_update:
  assumes "bindE (FindManagerByID i) (\<lambda>m. bindE (FindManagerByID i) (\<lambda>m'.
      bindE (write_manager now i (merge_manager name1 display1 quota1 active1 hash1 m)) (\<lambda>_.
      write_manager later i (merge_manager name2 display2 quota2 active2 hash2 m')))) d = (Inr (), d')"
  shows "UpdateManager later i name2 display2 quota2 active2 hash2 d = (Inr (), d')"
  using assms
proof (elim bindE_InrE)
  fix m d0 m' d1 u d2
  assume read: "FindManagerByID i d = (Inr m, d0)" "FindManagerByID i d0 = (Inr m', d1)"
    and put: "write_manager now i (merge_manager name1 display1 quota1 active1 hash1 m) d1 = (Inr u, d2)"
      "write_manager later i (merge_manager name2 display2 quota2 active2 hash2 m') d2 = (Inr (), d')"
  have "d0 = d" "d1 = d" using read by (simp_all add: FindManagerByID_def query_Inr_iff)
  then show ?thesis
    using read write_manager_over [of now i _ d d2 later _ d'] put
    by (simp add: UpdateManager_def bindE_def)
qed

lemma lost_update_witness:
  "\<exists>d'. UpdateManager 7 1 None None None None (Some ''new'') sample_db = (Inr (), d')
    \<and> map mgr_IsActive (db_managers d') = [True, True]"
proof -
  let ?run = "bindE (FindManagerByID 1) (\<lambda>m. bindE (FindManagerByID 1) (\<lambda>m'.
      bindE (write_manager 5 1 (merge_manager None None None (Some False) None m)) (\<lambda>_.
      write_manager 7 1 (merge_manager None None None None (Some ''new'') m')))) sample_db"
  have "fst ?run = Inr ()" "map mgr_IsActive (db_managers (snd ?run)) = [True, True]" by code_simp+
  then have "?run = (Inr (), snd ?run)" "map mgr_IsActive (db_managers (snd ?run)) = [True, True]"
    by (simp_all add: prod_eq_iff)
  from lost_update [OF this(1)] this(2) show ?thesis by (intro exI [of _ "snd ?run"] conjI)
qed

text \<open>
  C16. Two creations of managers at once get past the slug check. Both check their slug before either is
  created; both are answered with 201; the slugs overlap, and since a name goes to the first manager
  whose prefix it has, every user of the second belongs to the first. One after the other, the second
  is refused.
\<close>

theorem slugs_race:
  "slug_free (manager_named ''sara'') sample_world = (Inr True, sample_world)
   \<and> slug_free (manager_named ''sara_b'') sample_world = (Inr True, sample_world)
   \<and> (\<exists>w. create_manager_rest sample_app (manager_named ''sara'') sample_world = (WriteJSON 201 (JObj [(''id'', JInt 3)]), w)
      \<and> slug_free (manager_named ''sara_b'') w = (Inr False, w)
      \<and> (\<exists>w'. create_manager_rest sample_app (manager_named ''sara_b'') w = (WriteJSON 201 (JObj [(''id'', JInt 4)]), w')
         \<and> \<not> slugs_apart (map mgr_Slug (db_managers (w_db w')))
         \<and> (\<forall>n comment. Resolve (world_registry sample_app w') (''sara_b_'' @ n) comment = 3)))"
proof -
  let ?w = "snd (create_manager_rest sample_app (manager_named ''sara'') sample_world)"
  have run: "create_manager_rest sample_app (manager_named ''sara'') sample_world = (WriteJSON 201 (JObj [(''id'', JInt 3)]), ?w)"
    "create_manager_rest sample_app (manager_named ''sara_b'') ?w = (WriteJSON 201 (JObj [(''id'', JInt 4)]), sara_world)"
    using sara_runs(1,2) by (simp_all add: prod_eq_iff sara_world_def)
  have again: "slug_free (manager_named ''sara_b'') ?w = (Inr False, ?w)"
  proof -
    have "map mgr_Slug (db_managers (w_db ?w)) = [''ali'', ''reza'', ''sara'']"
      "\<not> db_fault (w_db ?w) S_ListManagerSlugs" by code_simp+
    then show ?thesis
      by (auto simp: slug_free_def bindE_def tryE_apply returnE_apply or_zero_def st_def ListManagerSlugs_def query_def
          exec_def SlugOverlaps_iff comparable_def manager_named_def)
  qed
  have "world_registry sample_app sara_world
      = BuildRegistry [sample_manager 1 ''ali'', sample_manager 2 ''reza'', sample_manager 3 ''sara'', sample_manager 4 ''sara_b''] ''_''"
    unfolding world_registry_def
    using sara_runs(3,4) by (auto simp: sample_app_def default_config_def sample_manager_def intro!: registry_of_lists)
  then have "Resolve (world_registry sample_app sara_world) (''sara_b_'' @ n) comment = 3" for n comment
    by (simp add: Resolve_def BuildRegistry_def Pattern_def sample_manager_def)
  moreover have "\<not> slugs_apart (map mgr_Slug (db_managers (w_db sara_world)))"
    by (simp add: sara_runs slugs_apart_def comparable_def)
  ultimately show ?thesis using run again slug_free_sara by blast
qed

end
