(* ===== verification/Disabled_Managers.thy ===== *)
theory Disabled_Managers
  imports Manager_Races
begin

text \<open>
  What it means for a manager to be disabled. \<open>disable I w\<close> is the world in which the managers with an
  id in \<open>I\<close> are disabled and everything else is as in \<open>w\<close>. A call is \<open>blind\<close> if it answers the same in
  both worlds and changes them in the same way; \<open>blind_intro\<close> breaks this down along the code, as
  \<open>preserves_intro\<close> does for invariants. Only a call that reads a row of a manager needs an argument of
  its own: what follows must not look at \<open>mgr_IsActive\<close>.
\<close>

named_theorems blind_intro \<open>introduction rules for calls that do not see who is disabled\<close>

section \<open>The worlds\<close>

definition disabled :: "int set \<Rightarrow> manager \<Rightarrow> manager" where
  "disabled I m = (if mgr_ID m \<in> I then m\<lparr>mgr_IsActive := False\<rparr> else m)"

definition disable_db :: "int set \<Rightarrow> db \<Rightarrow> db" where
  "disable_db I d = d\<lparr>db_managers := map (disabled I) (db_managers d)\<rparr>"

definition disable :: "int set \<Rightarrow> 'r world \<Rightarrow> 'r world" where
  "disable I w = w\<lparr>w_db := disable_db I (w_db w)\<rparr>"

lemma disabled_simps [simp]:
  "mgr_ID (disabled I m) = mgr_ID m" "mgr_Username (disabled I m) = mgr_Username m"
  "mgr_PasswordHash (disabled I m) = mgr_PasswordHash m" "mgr_DisplayName (disabled I m) = mgr_DisplayName m"
  "mgr_Slug (disabled I m) = mgr_Slug m" "mgr_Quota (disabled I m) = mgr_Quota m"
  "mgr_CertTitle (disabled I m) = mgr_CertTitle m" "mgr_CertKeyPass (disabled I m) = mgr_CertKeyPass m"
  by (simp_all add: disabled_def)

lemma disable_db_simps [simp]:
  "db_managers (disable_db I d) = map (disabled I) (db_managers d)" "db_metas (disable_db I d) = db_metas d"
  "db_acts (disable_db I d) = db_acts d" "db_admins (disable_db I d) = db_admins d"
  "seq_metas (disable_db I d) = seq_metas d" "seq_acts (disable_db I d) = seq_acts d"
  "db_fault (disable_db I d) = db_fault d"
  "disable_db I (d\<lparr>db_metas := vs\<rparr>) = (disable_db I d)\<lparr>db_metas := vs\<rparr>"
  "disable_db I (d\<lparr>db_acts := as\<rparr>) = (disable_db I d)\<lparr>db_acts := as\<rparr>"
  "disable_db I (d\<lparr>db_admins := ads\<rparr>) = (disable_db I d)\<lparr>db_admins := ads\<rparr>"
  "disable_db I (d\<lparr>seq_metas := n\<rparr>) = (disable_db I d)\<lparr>seq_metas := n\<rparr>"
  "disable_db I (d\<lparr>seq_acts := n\<rparr>) = (disable_db I d)\<lparr>seq_acts := n\<rparr>"
  by (simp_all add: disable_db_def)

lemma disable_simps [simp]:
  "w_db (disable I w) = disable_db I (w_db w)" "w_router (disable I w) = w_router w"
  "w_entropy (disable I w) = w_entropy w" "w_now (disable I w) = w_now w"
  "disable I (w\<lparr>w_db := d\<rparr>) = w\<lparr>w_db := disable_db I d\<rparr>"
  "disable I (w\<lparr>w_router := c\<rparr>) = (disable I w)\<lparr>w_router := c\<rparr>"
  "disable I (w\<lparr>w_entropy := e\<rparr>) = (disable I w)\<lparr>w_entropy := e\<rparr>"
  by (simp_all add: disable_def)

lemma disable_exists [simp]:
  "manager_exists (disable_db I d) = manager_exists d" "admin_exists (disable_db I d) = admin_exists d"
  by (rule manager_exists_cong admin_exists_cong; simp)+

lemma find_disabled: "find_by mgr_ID i (map (disabled I) ms) = map_option (disabled I) (find_by mgr_ID i ms)"
  by (induction ms) (simp_all add: find_by_def)

section \<open>Blind calls\<close>

definition blind :: "('w \<Rightarrow> 'w) \<Rightarrow> ('w \<Rightarrow> 'a \<times> 'w) \<Rightarrow> bool" where
  "blind g m \<longleftrightarrow> (\<forall>w. m (g w) = (fst (m w), g (snd (m w))))"

lemma blindI: "(\<And>w. m (g w) = (fst (m w), g (snd (m w)))) \<Longrightarrow> blind g m"
  by (simp add: blind_def)

lemma blindD: "blind g m \<Longrightarrow> m w = (r, w') \<Longrightarrow> m (g w) = (r, g w')"
  by (simp add: blind_def)

lemma blind_basics [blind_intro]:
  "blind g (returnE x)" "blind g (failE e)" "blind g (liftE y)" "blind g (respond resp)"
  by (simp_all add: blind_def returnE_apply failE_apply liftE_apply respond_apply)

lemma blind_bindE [blind_intro]:
  assumes "blind g m" "\<And>x. blind g (f x)"
  shows "blind g (bindE m f)"
proof (rule blindI)
  fix w
  obtain r w' where m: "m w = (r, w')" by (cases "m w")
  show "bindE m f (g w) = (fst (bindE m f w), g (snd (bindE m f w)))"
    using assms(2) by (cases r) (simp_all add: bindE_def m blindD [OF assms(1) m] blind_def)
qed

lemma blind_handle [blind_intro]:
  assumes "blind g m" "\<And>e. blind g (f e)" "\<And>x. blind g (k x)"
  shows "blind g (handle m f k)"
proof (rule blindI)
  fix w
  obtain r w' where m: "m w = (r, w')" by (cases "m w")
  show "handle m f k (g w) = (fst (handle m f k w), g (snd (handle m f k w)))"
    using assms(2,3) by (cases r) (simp_all add: handle_def m blindD [OF assms(1) m] blind_def)
qed

lemma blind_tryE [blind_intro]: "blind g m \<Longrightarrow> blind g (tryE m)"
  by (simp add: blind_def tryE_apply)

lemma blind_cases [blind_intro]:
  "blind g m \<Longrightarrow> blind g n \<Longrightarrow> blind g (if b then m else n)"
  "(\<And>e. blind g (f e)) \<Longrightarrow> (\<And>x. blind g (h x)) \<Longrightarrow> blind g (case_sum f h s)"
  "blind g m \<Longrightarrow> (\<And>x. blind g (k x)) \<Longrightarrow> blind g (case_option m k p)"
  "(\<And>x y. blind g (q x y)) \<Longrightarrow> blind g (case_prod q pr)"
  by (simp_all split: sum.split option.split prod.split)

lemma blind_Let [blind_intro]: "blind g (f x) \<Longrightarrow> blind g (Let x f)"
  by simp

lemma blind_forE [blind_intro]: "(\<And>x s. blind g (body x s)) \<Longrightarrow> blind g (forE body xs s)"
proof (induction xs arbitrary: s)
  case Nil
  show ?case unfolding forE.simps by (rule blind_basics)
next
  case (Cons x xs)
  then show ?case unfolding forE.simps by (intro blind_bindE) blast+
qed

lemma blind_orElse [blind_intro]: "blind g m \<Longrightarrow> (\<And>e. blind g (f e)) \<Longrightarrow> blind g (orElse m f)"
  unfolding orElse_def by (intro blind_intro)

lemma blind_require_manager [blind_intro]: "(\<And>c. blind g (h c)) \<Longrightarrow> blind g (require_manager ctx h)"
  by (simp add: require_manager_def blind_basics split: option.split)

lemma blind_st [blind_intro]: "blind (disable_db I) m \<Longrightarrow> blind (disable I) (st m)"
  by (simp add: blind_def st_def split: prod.split)

lemma blind_world [blind_intro]:
  "blind (disable I) (mt mc)" "blind (disable I) (rnd me)" "blind (disable I) Now"
  by (simp_all add: blind_def mt_def rnd_def Now_run split: prod.split)

section \<open>The store\<close>

lemma blind_exec: "(\<And>d. m (disable_db I d) = (fst (m d), disable_db I (snd (m d)))) \<Longrightarrow> blind (disable_db I) (exec s m)"
  by (simp add: blind_def exec_def)

lemma blind_query: "(\<And>d. f (disable_db I d) = f d) \<Longrightarrow> blind (disable_db I) (query s f)"
  unfolding query_def by (rule blind_exec) simp

lemma blind_reads [blind_intro]:
  "blind (disable_db I) (FindAdminByUsername u)" "blind (disable_db I) (FindVPNMetaByID i)"
  "blind (disable_db I) (FindVPNMetaByName n)" "blind (disable_db I) (ListActivationsByMetaID i)"
  "blind (disable_db I) (ListRenewalSharedUsersInScope f)" "blind (disable_db I) Store_Ping"
  unfolding FindAdminByUsername_def FindVPNMetaByID_def FindVPNMetaByName_def ListActivationsByMetaID_def
    ListRenewalSharedUsersInScope_def Store_Ping_def
  by (rule blind_query; simp add: scope_entries_def joined_def)+

lemma blind_metas: "FindVPNMetasByNames ns (disable_db I d) = FindVPNMetasByNames ns d"
  by (simp add: FindVPNMetasByNames_def)

lemma blind_ListRenewals [blind_intro]: "blind (disable_db I) (ListRenewals f)"
proof -
  have "display_name_of (disable_db I d) i = display_name_of d i" for d i
    by (simp add: display_name_of_def find_disabled option.map_comp comp_def split: option.split)
  then have rows: "renewal_row_of (disable_db I d) = renewal_row_of d" for d
    by (simp add: fun_eq_iff renewal_row_of_def)
  have entries: "scope_entries f (disable_db I d) = scope_entries f d" for d
    by (simp add: scope_entries_def joined_def)
  show ?thesis
    unfolding ListRenewals_def Let_def by (intro blind_intro blind_query) (simp_all add: rows entries)
qed

lemma blind_writes [blind_intro]:
  "blind (disable_db I) (UpdateAdminPassword i h)" "blind (disable_db I) (CreateVPNMeta now v)"
  "blind (disable_db I) (UpdateVPNMetaCert now i title pass)" "blind (disable_db I) (write_meta now i v)"
  "blind (disable_db I) (DeleteVPNMeta i)" "blind (disable_db I) (CreateActivation now act)"
  "blind (disable_db I) (UpdateLatestUnsettledActivationSharedUsers i n)"
  "blind (disable_db I) (UpdateActivationSharedUsers i n)"
  unfolding UpdateAdminPassword_def CreateVPNMeta_def UpdateVPNMetaCert_def write_meta_def DeleteVPNMeta_def
    CreateActivation_def UpdateLatestUnsettledActivationSharedUsers_def UpdateActivationSharedUsers_def
  by (rule blind_exec; simp add: Let_def split: option.split)+

lemma blind_UpdateVPNMeta [blind_intro]: "blind (disable_db I) (UpdateVPNMeta now i vc vn vm)"
  unfolding UpdateVPNMeta_def by (intro blind_intro)

section \<open>Rows of managers\<close>

lemma FindManagerByID_disabled:
  "st (FindManagerByID i) (disable I w) = (map_sum id (disabled I) (fst (st (FindManagerByID i) w)), disable I w)"
  "snd (st (FindManagerByID i) w) = w"
  by (simp_all add: st_def FindManagerByID_def query_def exec_def one_row_def find_disabled disable_def split: option.split)

lemma ListManagers_disabled:
  "st ListManagers (disable I w) = (map_sum id (map (disabled I)) (fst (st ListManagers w)), disable I w)"
  "snd (st ListManagers w) = w"
  by (simp_all add: st_def ListManagers_def query_def exec_def disable_def map_sort_key [of mgr_ID mgr_ID "disabled I"])

lemma blind_find:
  assumes "\<And>m. blind (disable I) (f m)" "\<And>m. f (disabled I m) = f m"
  shows "blind (disable I) (bindE (st (FindManagerByID i)) f)"
proof (rule blindI)
  fix w
  show "bindE (st (FindManagerByID i)) f (disable I w)
      = (fst (bindE (st (FindManagerByID i)) f w), disable I (snd (bindE (st (FindManagerByID i)) f w)))"
    using assms(1) FindManagerByID_disabled(2) [of i w]
    by (cases "st (FindManagerByID i) w", cases "fst (st (FindManagerByID i) w)")
      (auto simp: bindE_def FindManagerByID_disabled(1) assms(2) blind_def)
qed

lemma blind_handle_find:
  assumes "\<And>m. blind (disable I) (k m)" "\<And>m. k (disabled I m) = k m" "\<And>e. blind (disable I) (f e)"
  shows "blind (disable I) (handle (st (FindManagerByID i)) f k)"
proof (rule blindI)
  fix w
  show "handle (st (FindManagerByID i)) f k (disable I w)
      = (fst (handle (st (FindManagerByID i)) f k w), disable I (snd (handle (st (FindManagerByID i)) f k w)))"
    using assms(1,3) FindManagerByID_disabled(2) [of i w]
    by (cases "st (FindManagerByID i) w", cases "fst (st (FindManagerByID i) w)")
      (auto simp: handle_def FindManagerByID_disabled(1) assms(2) blind_def)
qed

lemma blind_try_find:
  assumes "\<And>r. blind (disable I) (f r)" "\<And>m. f (Inr (disabled I m)) = f (Inr m)"
  shows "blind (disable I) (bindE (tryE (st (FindManagerByID i))) f)"
proof (rule blindI)
  fix w
  have "f (map_sum id (disabled I) r) = f r" for r using assms(2) by (cases r) simp_all
  then show "bindE (tryE (st (FindManagerByID i))) f (disable I w)
      = (fst (bindE (tryE (st (FindManagerByID i))) f w), disable I (snd (bindE (tryE (st (FindManagerByID i))) f w)))"
    using assms(1) by (simp add: bindE_def tryE_apply FindManagerByID_disabled blind_def)
qed

lemma blind_Registry [blind_intro]: "blind (disable I) (Registry a)"
proof (rule blindI)
  fix w
  have "BuildRegistry (map (disabled I) ms) sep = BuildRegistry ms sep" for ms sep by (simp add: BuildRegistry_def)
  then show "Registry a (disable I w) = (fst (Registry a w), disable I (snd (Registry a w)))"
    using ListManagers_disabled(2) [of w]
    by (cases "st ListManagers w", cases "fst (st ListManagers w)")
      (auto simp: Registry_def bindE_def ListManagers_disabled(1) returnE_apply)
qed

lemma merge_disabled [simp]:
  "mgr_Username (merge_manager u n q None h (disabled I m)) = mgr_Username (merge_manager u n q None h m)"
  "mgr_DisplayName (merge_manager u n q None h (disabled I m)) = mgr_DisplayName (merge_manager u n q None h m)"
  "mgr_Quota (merge_manager u n q None h (disabled I m)) = mgr_Quota (merge_manager u n q None h m)"
  "mgr_PasswordHash (merge_manager u n q None h (disabled I m)) = mgr_PasswordHash (merge_manager u n q None h m)"
  "mgr_IsActive (merge_manager u n q None h m) = mgr_IsActive m"
  by (simp_all add: merge_manager_def or_old_def)

lemma put_disabled:
  assumes "mgr_ID r = mgr_ID m"
  shows "put_manager now (merge_manager u n q None h (disabled I m)) (disabled I r)
    = disabled I (put_manager now (merge_manager u n q None h m) r)"
  using assms by (cases r) (simp add: put_manager_def merge_manager_def or_old_def disabled_def split: option.split)

lemma update_by_disabled:
  assumes "mgr_ID m = i"
  shows "map (disabled I) (update_by mgr_ID i (put_manager now (merge_manager u n q None h m)) ms)
    = update_by mgr_ID i (put_manager now (merge_manager u n q None h (disabled I m))) (map (disabled I) ms)"
  unfolding update_by_def map_map comp_def
  by (rule map_cong [OF refl]) (simp add: put_disabled assms)

lemma write_manager_disabled:
  assumes "mgr_ID m = i"
  shows "write_manager now i (merge_manager u n q None h (disabled I m)) (disable_db I d)
    = (fst (write_manager now i (merge_manager u n q None h m) d),
       disable_db I (snd (write_manager now i (merge_manager u n q None h m) d)))"
  using update_by_disabled [OF assms, of I now u n q h "db_managers d"]
  by (auto simp: write_manager_def exec_def disable_db_def image_image)

lemma blind_UpdateManager [blind_intro]: "blind (disable_db I) (UpdateManager now i u n q None h)"
proof (rule blindI)
  fix d
  show "UpdateManager now i u n q None h (disable_db I d)
      = (fst (UpdateManager now i u n q None h d), disable_db I (snd (UpdateManager now i u n q None h d)))"
  proof (cases "db_fault d S_FindManagerByID \<or> find_by mgr_ID i (db_managers d) = None")
    case True
    then show ?thesis
      by (auto simp: UpdateManager_def bindE_def FindManagerByID_def query_def exec_def one_row_def find_disabled)
  next
    case False
    then obtain m where m: "find_by mgr_ID i (db_managers d) = Some m" "\<not> db_fault d S_FindManagerByID" by blast
    have "mgr_ID m = i" using find_by_Some [OF m(1)] by simp
    then show ?thesis
      using m write_manager_disabled [of m i now u n q h I d]
      by (simp add: UpdateManager_def bindE_def FindManagerByID_def query_def exec_def [of S_FindManagerByID] one_row_def find_disabled)
  qed
qed

section \<open>The service layer\<close>

lemma blind_users [blind_intro]:
  "blind (disable I) (Registry_or_empty a)" "blind (disable I) (Hash a plain)" "blind (disable I) (listUsers a b)"
  "blind (disable I) (GetUser a name)" "blind (disable I) (ListUserProfiles a name)"
  unfolding Registry_or_empty_def Hash_def listUsers_def GetUser_def ListUserProfiles_def
  by (intro blind_intro)+

lemma blind_quota [blind_intro]: "blind (disable I) (managerUsedQuota a i)"
  unfolding managerUsedQuota_def UsedForManager_def by (intro blind_intro)

lemma blind_owner [blind_intro]: "blind (disable I) (enrichOwner reg name comment)"
  unfolding enrichOwner_def Let_def by (intro blind_cases blind_try_find blind_basics) simp_all

lemma blind_resolve [blind_intro]: "blind (disable I) (resolveOpenVPN a meta)"
  unfolding resolveOpenVPN_def Let_def by (intro blind_cases blind_find blind_basics) simp_all

lemma blind_files [blind_intro]:
  "blind (disable I) (ensureUserOvpnFile a n t)" "blind (disable I) (provisionCertificate a t p)"
  unfolding ensureUserOvpnFile_def provisionCertificate_def Let_def by (intro blind_intro)+

lemma blind_certificates [blind_intro]: "blind (disable I) (setupVPNCertificates a n mgr t)"
  unfolding setupVPNCertificates_def Let_def by (intro blind_intro)

lemma blind_bundle [blind_intro]:
  "blind (disable I) (ovpnBodyForMeta a meta u)" "blind (disable I) (connectionBundleFor a meta u)"
  unfolding ovpnBodyForMeta_def connectionBundleFor_def Let_def by (intro blind_intro)+

lemma blind_bundle_owner [blind_intro]: "blind (disable I) (connectionBundleForOwner a n i u)"
  unfolding connectionBundleForOwner_def by (intro blind_intro)

lemma blind_download [blind_intro]: "blind (disable I) (writeOvpnDownload a meta)"
  unfolding writeOvpnDownload_def by (intro blind_intro)

lemma blind_overlay [blind_intro]:
  "blind (disable I) (mikrotikSharedUsersByName a)" "blind (disable I) (syncSharedUsersToUnsettledActivation i n)"
  "blind (disable I) (live_activation m nm act s)" "blind (disable I) (live_scope_row m l r' s')"
  unfolding mikrotikSharedUsersByName_def syncSharedUsersToUnsettledActivation_def live_activation_def live_scope_row_def Let_def
  by (intro blind_intro)+

lemma blind_overlays [blind_intro]:
  "blind (disable I) (activationDTOsWithLiveShared a acts n)" "blind (disable I) (applyRenewalsLiveSharedUsers a filt items)"
  unfolding activationDTOsWithLiveShared_def applyRenewalsLiveSharedUsers_def Let_def by (intro blind_intro)+

lemma blind_detail [blind_intro]: "blind (disable I) (buildVPNDetail a reg meta b)"
  unfolding buildVPNDetail_def by (intro blind_intro)

lemma blind_detail_name [blind_intro]: "blind (disable I) (buildVPNDetailByName a reg n b)"
  unfolding buildVPNDetailByName_def by (intro blind_intro)

lemma blind_password [blind_intro]: "blind (disable I) (resolveVPNPassword pw)"
  unfolding resolveVPNPassword_def Let_def by (intro blind_intro)

lemma blind_activation [blind_intro]: "blind (disable I) (recordActivation i p n am cu no ps)"
  unfolding recordActivation_def Let_def by (intro blind_intro)

lemma blind_create_parts [blind_intro]:
  "blind (disable I) (rollback_user a n e)" "blind (disable I) (add_router_user a n p c req)"
  unfolding rollback_user_def add_router_user_def by (intro blind_intro)+

lemma blind_finish [blind_intro]: "blind (disable I) (finish_create a n mgr req)"
  unfolding finish_create_def Let_def by (intro blind_intro)

lemma blind_create [blind_intro]: "blind (disable I) (createVPNUser a mgr req)"
  unfolding createVPNUser_def Let_def by (intro blind_intro)

lemma create_disabled [simp]: "createVPNUser a (disabled I mgr) req = createVPNUser a mgr req"
  by (simp add: createVPNUser_def finish_create_def setupVPNCertificates_def Let_def cong: if_cong)

lemma blind_patch_quota [blind_intro]: "blind (disable I) (patch_quota_check a i u n)"
proof -
  have "patch_quota_check a i u n = (let rest = (\<lambda>q.
       bindE (tryE (ListUserProfiles a (usr_Name u))) (\<lambda>profsR. bindE Now (\<lambda>now.
         if list_ex (\<lambda>p. ProfileActive p now) (or_zero [] profsR) \<and> (case q of None \<Rightarrow> False
            | Some (used, quota) \<Rightarrow> \<not> CheckIncrease used quota (usr_SharedUsers u) n)
         then failE AppQuotaExceeded else returnE ())))
     in if i \<noteq> 0 then bindE (st (FindManagerByID i)) (\<lambda>mgr. bindE (managerUsedQuota a i) (\<lambda>used. rest (Some (used, mgr_Quota mgr))))
        else rest None)"
    by (auto simp: patch_quota_check_def Let_def bindE_assoc intro!: arg_cong [where f = "bindE _"] ext)
  moreover have "blind (disable I) \<dots>"
    unfolding Let_def by (rule blind_cases, rule blind_find, intro blind_intro) (simp, intro blind_intro)
  ultimately show ?thesis by simp
qed

lemma blind_patch [blind_intro]: "blind (disable I) (patchVPNUser a reg meta req k b)"
  unfolding patchVPNUser_def Let_def
  by (intro blind_bindE blind_find blind_cases; (intro blind_intro)?; simp?)

lemma blind_delete [blind_intro]: "blind (disable I) (deleteVPNUser a meta)" "blind (disable I) (removeVPNProfile a meta i)"
  unfolding deleteVPNUser_def removeVPNProfile_def by (intro blind_intro)+

lemma blind_assign [blind_intro]: "blind (disable I) (assignVPNProfile a reg meta areq b)"
  unfolding assignVPNProfile_def by (intro blind_intro)

lemma blind_names [blind_intro]:
  "blind (disable I) (ensureVPNMeta a reg n c)" "blind (disable I) (deleteVPNByName a n)"
  unfolding ensureVPNMeta_def deleteVPNByName_def Let_def by (intro blind_intro)+

section \<open>The handlers\<close>

lemma blind_list_row [blind_intro]: "blind (disable I) (list_row a reg i b q now u s)"
  unfolding list_row_def Let_def by (intro blind_intro)

lemma blind_FindVPNMetasByNames [blind_intro]: "blind (disable I) (getE (\<lambda>w. FindVPNMetasByNames ns (w_db w)))"
  by (simp add: blind_def getE_def blind_metas)

lemma blind_meta_by_id [blind_intro]: "(\<And>m. blind (disable I) (k m)) \<Longrightarrow> blind (disable I) (vpnMetaByID r k)"
  unfolding vpnMetaByID_def by (intro blind_intro)

lemma blind_guards [blind_intro]:
  "(\<And>u. blind (disable I) (k u)) \<Longrightarrow> blind (disable I) (owner_guard a reg c meta k)"
  "(\<And>u. blind (disable I) (k u)) \<Longrightarrow> blind (disable I) (owned_user a reg c name k)"
  "(\<And>m. blind (disable I) (k' m)) \<Longrightarrow> blind (disable I) (ensure_or other a reg name c k')"
  unfolding owner_guard_def owned_user_def ensure_or_def by (intro blind_intro | assumption)+

lemma blind_scope [blind_intro]: "blind (disable I) (renewal_scope filt)"
  unfolding renewal_scope_def by (intro blind_cases blind_try_find blind_basics) simp

lemma blind_renewals [blind_intro]: "blind (disable I) (writeRenewals a filt b)"
  unfolding writeRenewals_def by (intro blind_intro)

lemma blind_me [blind_intro]: "blind (disable I) (HandleMe a ctx r)"
  unfolding HandleMe_def by (intro blind_cases blind_handle_find; (intro blind_intro)?; simp?)

lemma blind_account_handlers:
  "blind (disable I) (HandleChangePassword a ctx r)" "blind (disable I) (HandleMeQuota a ctx r)"
  "blind (disable I) (HandlePatchMe a ctx r)" "blind (disable I) (HandleLogout a ctx r)"
  "blind (disable I) (HandleRefresh a ctx r)" "blind (disable I) (HandleHealth a ctx r)"
  subgoal unfolding HandleChangePassword_def by (intro blind_cases blind_handle_find blind_basics; (intro blind_intro)?; simp?)
  subgoal unfolding HandleMeQuota_def by (intro blind_require_manager blind_handle_find; (intro blind_intro)?; simp?)
  unfolding HandlePatchMe_def HandleLogout_def HandleRefresh_def HandleHealth_def new_pair_def Let_def
  by (intro blind_intro)+

lemma blind_user_handlers:
  "blind (disable I) (HandleListVPNUsers a ctx r)" "blind (disable I) (HandleGetVPNUser a ctx r)"
  "blind (disable I) (HandlePatchVPNUser a ctx r)" "blind (disable I) (HandleDeleteVPNUser a ctx r)"
  "blind (disable I) (HandleAssignProfile a ctx r)" "blind (disable I) (HandleConnectionBundle a ctx r)"
  "blind (disable I) (HandleDownloadOvpn a ctx r)" "blind (disable I) (HandleRemoveProfile a ctx r)"
  "blind (disable I) (HandleManagerRenewals a ctx r)"
  unfolding HandleListVPNUsers_def HandleGetVPNUser_def HandlePatchVPNUser_def HandleDeleteVPNUser_def
    HandleAssignProfile_def HandleConnectionBundle_def HandleDownloadOvpn_def HandleRemoveProfile_def HandleManagerRenewals_def
  by (intro blind_intro)+

lemma blind_create_handler: "blind (disable I) (HandleCreateVPNUser a ctx r)"
  unfolding HandleCreateVPNUser_def
  by (intro blind_require_manager blind_cases blind_handle_find; (intro blind_intro)?; simp?)

lemma blind_name_handlers:
  "blind (disable I) (HandleGetVPNUserByName a ctx r)" "blind (disable I) (HandlePatchVPNUserByName a ctx r)"
  "blind (disable I) (HandleDeleteVPNUserByName a ctx r)" "blind (disable I) (HandleAssignProfileByName a ctx r)"
  "blind (disable I) (HandleConnectionBundleByName a ctx r)" "blind (disable I) (HandleDownloadOvpnByName a ctx r)"
  "blind (disable I) (HandleRemoveProfileByName a ctx r)"
  unfolding HandleGetVPNUserByName_def HandlePatchVPNUserByName_def HandleDeleteVPNUserByName_def
    HandleAssignProfileByName_def HandleConnectionBundleByName_def HandleDownloadOvpnByName_def
    HandleRemoveProfileByName_def Let_def
  by (intro blind_intro)+

section \<open>The server\<close>

lemma blind_authenticated:
  assumes "\<And>ctx r. blind (disable I) (h ctx r)"
  shows "blind (disable I) (authenticated a h ctx r)"
  using assms by (auto simp: blind_def authenticated_def Middleware_def respond_apply split: option.split)

definition login_path :: "string list" where
  "login_path = [''api'', ''v1'', ''auth'', ''login'']"

definition login_route :: "'r route \<Rightarrow> bool" where
  "login_route rt \<longleftrightarrow> fst (snd rt) = map Lit login_path"

lemma match_literals: "match_path (map Lit xs) path = Some ps \<Longrightarrow> path = xs"
proof (induction xs arbitrary: path)
  case Nil
  then show ?case by (cases path) simp_all
next
  case (Cons x xs)
  then show ?case by (cases path) (auto split: if_splits)
qed

lemma blind_routes:
  "\<forall>rt \<in> set (public_routes a @ map (protect a) (user_routes a)). login_route rt \<or> (\<forall>ctx r. blind (disable I) (snd (snd rt) ctx r))"
proof -
  have "\<forall>rt \<in> set (public_routes a). login_route rt \<or> (\<forall>ctx r. blind (disable I) (snd (snd rt) ctx r))"
    by (simp add: public_routes_def login_route_def login_path_def blind_account_handlers)
  moreover have "\<forall>rt \<in> set (user_routes a). \<forall>ctx r. blind (disable I) (snd (snd rt) ctx r)"
    by (simp add: user_routes_def blind_me blind_account_handlers blind_user_handlers blind_create_handler blind_name_handlers)
  ultimately show ?thesis by (auto simp: protect_def blind_authenticated)
qed

lemma blind_dispatch:
  assumes "\<forall>rt \<in> set routes. login_route rt \<or> (\<forall>ctx r. blind (disable I) (snd (snd rt) ctx r))"
    and "path \<noteq> login_path"
  shows "blind (disable I) (dispatch routes meth path ctx r)"
proof (cases "find (\<lambda>rt. fst rt = meth \<and> path_matches path rt) routes")
  case None
  then show ?thesis by (simp add: dispatch_def blind_basics)
next
  case (Some rt)
  then have rt: "rt \<in> set routes" "path_matches path rt" by (auto simp: find_Some_iff)
  have "\<not> login_route rt"
    using rt(2) assms(2) match_literals by (auto simp: path_matches_def login_route_def)
  with assms(1) rt(1) have "blind (disable I) (snd (snd rt) ctx (with_params ps r))" for ps by blast
  then show ?thesis using Some by (simp add: dispatch_def case_prod_beta)
qed

lemma blind_serve:
  assumes "path \<noteq> login_path" "take 3 path \<noteq> [''api'', ''v1'', ''admin'']"
  shows "blind (disable I) (serve a meth path r)"
proof -
  have "serve a meth path r = dispatch (public_routes a @ map (protect a) (user_routes a)) meth path None r"
    using assms(2) by (auto simp: serve_def split: list.split)
  then show ?thesis using blind_dispatch [OF blind_routes assms(1)] by simp
qed

section \<open>The panel of a disabled manager\<close>

text \<open>
  C27. Only the login and the administrators' part of the panel look at \<open>is_active\<close>: every other request,
  the refresh of tokens among them, is answered as if no manager were disabled and has the same effect.
  A manager who is disabled while it holds a token keeps all of its access.
\<close>

theorem disabled_manager_keeps_access:
  assumes "path \<noteq> login_path" "take 3 path \<noteq> [''api'', ''v1'', ''admin'']" "serve a meth path r w = (resp, w')"
  shows "serve a meth path r (disable I w) = (resp, disable I w')"
  by (rule blindD [OF blind_serve [OF assms(1,2)] assms(3)])

definition create_user_request :: "string \<Rightarrow> request" where
  "create_user_request name = (sample_request ''Bearer t-ali'')\<lparr>rq_Body := Some (VObj
     [(''local_name'', VStr name), (''password'', VStr ''secret99''), (''shared_users'', VNum (Some 1) 1)])\<rparr>"

lemma enabled_manager_creates:
  "status (fst (serve sample_app ''POST'' [''api'', ''v1'', ''vpn-users''] (create_user_request ''home'') sample_world)) = 201"
  by code_simp

text \<open>The manager cannot log in, and creates a VPN user.\<close>

lemma disabled_manager_keeps_access_witness:
  "fst (serve sample_app ''POST'' login_path (login_request ''ali'' ''secret123'') (disable {1} sample_world))
     = WriteError 403 ''MANAGER_DISABLED''
   \<and> status (fst (serve sample_app ''POST'' [''api'', ''v1'', ''vpn-users''] (create_user_request ''home'')
       (disable {1} sample_world))) = 201"
proof
  show "fst (serve sample_app ''POST'' login_path (login_request ''ali'' ''secret123'') (disable {1} sample_world))
      = WriteError 403 ''MANAGER_DISABLED''"
    by code_simp
  have "[''api'', ''v1'', ''vpn-users''] \<noteq> login_path" "take 3 [''api'', ''v1'', ''vpn-users''] \<noteq> [''api'', ''v1'', ''admin'']"
    by (simp_all add: login_path_def)
  note same = disabled_manager_keeps_access [OF this prod.collapse [symmetric]]
  show "status (fst (serve sample_app ''POST'' [''api'', ''v1'', ''vpn-users''] (create_user_request ''home'')
      (disable {1} sample_world))) = 201"
    by (simp add: same enabled_manager_creates)
qed

end
