(* ===== verification/Sql_Tables.thy ===== *)
theory Sql_Tables
  imports Store
begin

text \<open>
  The database file below the store: tables with declared columns, rows of SQL values, and the
  statements of store/schema.sql and of the migrations in store/store.go as an interpreter. SQLite is
  not under src/; the interpreter follows its documentation for these statements, with foreign keys
  enforced, as \<open>Open\<close> asks with \<open>_pragma=foreign_keys(1)\<close>. In particular DROP TABLE first
  deletes the rows of the table, and this implicit DELETE carries out the ON DELETE actions of the
  tables that refer to it. Rows are total functions; columns that a table does not declare are
  never read. No table refers to a table that itself has a foreign key with CASCADE to it, so the
  actions of one DELETE go one level deep.

  The second part reads rows into the structs of the store: \<open>scanManager\<close>, \<open>scanVPNMeta\<close>,
  \<open>scanActivations\<close> and the values bound by \<open>nullStr\<close> and \<open>nullInt\<close>.
\<close>

section \<open>Tables\<close>

datatype sql_val = SNull | SInt int | SReal float64 | SText string

type_synonym row = "string \<Rightarrow> sql_val"

datatype col_type = T_Int | T_Real | T_Text

record column =
  co_type :: col_type
  co_notnull :: bool

datatype on_delete = Cascade | Set_Null

record reference =
  re_col :: string
  re_parent :: string
  re_action :: on_delete

record sql_table =
  tb_cols :: "(string \<times> column) list"
  tb_unique :: "string list"
  tb_refs :: "reference list"
  tb_rows :: "row list"
  tb_seq :: int

datatype ddl =
    Ping_File
  | Table_Info string
  | Create_Table bool string sql_table
  | Create_Index string string "string list"
  | Add_Column string string column
  | Insert_Select string "string list" "string list" string
  | Drop_Table string
  | Rename_Table string string
  | Begin_Tx
  | Commit_Tx

text \<open>
  A database file: its tables, its indexes (with the table of each) and the statements that the
  driver fails on.
\<close>

record sql_file =
  sf_tables :: "string \<rightharpoonup> sql_table"
  sf_indexes :: "string \<rightharpoonup> string"
  sf_fault :: "ddl \<Rightarrow> bool"

definition has_cols :: "sql_table \<Rightarrow> string list \<Rightarrow> bool" where
  "has_cols t cs = list_all (\<lambda>c. c \<in> set (map fst (tb_cols t))) cs"

definition sql_id :: "row \<Rightarrow> int" where
  "sql_id r = (case r ''id'' of SInt n \<Rightarrow> n | _ \<Rightarrow> 0)"

text \<open>The constraints that are checked when rows are inserted.\<close>

definition constraints_ok :: "(string \<rightharpoonup> sql_table) \<Rightarrow> sql_table \<Rightarrow> bool" where
  "constraints_ok T t \<longleftrightarrow>
     list_all (\<lambda>r. list_all (\<lambda>(c, s). co_notnull s \<longrightarrow> r c \<noteq> SNull) (tb_cols t)) (tb_rows t)
     \<and> list_all (\<lambda>c. distinct (filter (\<lambda>v. v \<noteq> SNull) (map (\<lambda>r. r c) (tb_rows t)))) (tb_unique t)
     \<and> list_all (\<lambda>f. list_all (\<lambda>r. r (re_col f) = SNull \<or>
         (case T (re_parent f) of None \<Rightarrow> False | Some p \<Rightarrow> r (re_col f) \<in> (\<lambda>q. q ''id'') ` set (tb_rows p))) (tb_rows t))
         (tb_refs t)"

text \<open>What deleting the rows \<open>ids\<close> of \<open>parent\<close> does to a table that refers to them.\<close>

definition parent_deleted :: "string \<Rightarrow> sql_val list \<Rightarrow> sql_table \<Rightarrow> sql_table" where
  "parent_deleted parent ids t =
     fold (\<lambda>f t.
       if re_parent f \<noteq> parent then t
       else case re_action f of
         Cascade \<Rightarrow> t\<lparr>tb_rows := filter (\<lambda>r. r (re_col f) \<notin> set ids) (tb_rows t)\<rparr>
       | Set_Null \<Rightarrow> t\<lparr>tb_rows := map (\<lambda>r. if r (re_col f) \<in> set ids then r(re_col f := SNull) else r) (tb_rows t)\<rparr>)
     (tb_refs t) t"

definition rename_refs :: "string \<Rightarrow> string \<Rightarrow> sql_table \<Rightarrow> sql_table" where
  "rename_refs old new t = t\<lparr>tb_refs := map (\<lambda>f. if re_parent f = old then f\<lparr>re_parent := new\<rparr> else f) (tb_refs t)\<rparr>"

definition copied_row :: "string list \<Rightarrow> string list \<Rightarrow> row \<Rightarrow> row" where
  "copied_row dst src r = (\<lambda>c. case map_of (zip dst src) c of None \<Rightarrow> SNull | Some c' \<Rightarrow> r c')"

text \<open>AUTOINCREMENT remembers the largest id that was ever inserted.\<close>

definition with_rows :: "row list \<Rightarrow> sql_table \<Rightarrow> sql_table" where
  "with_rows rs t = t\<lparr>tb_rows := tb_rows t @ rs, tb_seq := Max (set (tb_seq t # map sql_id rs))\<rparr>"

definition with_column :: "string \<Rightarrow> column \<Rightarrow> sql_table \<Rightarrow> sql_table" where
  "with_column c s t = t\<lparr>tb_cols := tb_cols t @ [(c, s)], tb_rows := map (\<lambda>r. r(c := SNull)) (tb_rows t)\<rparr>"

section \<open>Statements\<close>

definition with_table :: "sql_file \<Rightarrow> string \<Rightarrow> (sql_table \<Rightarrow> go_err + sql_file) \<Rightarrow> go_err + sql_file" where
  "with_table f n k = (case sf_tables f n of None \<Rightarrow> Inl (ErrText ''no such table'') | Some t \<Rightarrow> k t)"

fun apply_ddl :: "ddl \<Rightarrow> sql_file \<Rightarrow> go_err + sql_file" where
  "apply_ddl (Create_Table if_absent n t) f =
     (case sf_tables f n of
        None \<Rightarrow> Inr (f\<lparr>sf_tables := (sf_tables f)(n \<mapsto> t)\<rparr>)
      | Some _ \<Rightarrow> if if_absent then Inr f else Inl (ErrText ''table already exists''))"
| "apply_ddl (Create_Index i n cs) f =
     (if sf_indexes f i \<noteq> None then Inr f
      else with_table f n (\<lambda>t. if has_cols t cs then Inr (f\<lparr>sf_indexes := (sf_indexes f)(i \<mapsto> n)\<rparr>)
             else Inl (ErrText ''no such column'')))"
| "apply_ddl (Add_Column n c s) f =
     with_table f n (\<lambda>t.
       if has_cols t [c] then Inl (ErrText ''duplicate column name'')
       else Inr (f\<lparr>sf_tables := (sf_tables f)(n \<mapsto> with_column c s t)\<rparr>))"
| "apply_ddl (Insert_Select n dst src m) f =
     with_table f n (\<lambda>t. with_table f m (\<lambda>u.
       if \<not> (has_cols t dst \<and> has_cols u src) then Inl (ErrText ''no such column'')
       else let rows = map (copied_row dst src) (tb_rows u);
                t' = with_rows rows t
            in if constraints_ok (sf_tables f) t' then Inr (f\<lparr>sf_tables := (sf_tables f)(n \<mapsto> t')\<rparr>)
               else Inl ErrCheck))"
| "apply_ddl (Drop_Table n) f =
     with_table f n (\<lambda>t.
       Inr (f\<lparr>sf_tables := (\<lambda>m. if m = n then None
                 else map_option (parent_deleted n (map (\<lambda>r. r ''id'') (tb_rows t))) (sf_tables f m)),
              sf_indexes := (\<lambda>i. if sf_indexes f i = Some n then None else sf_indexes f i)\<rparr>))"
| "apply_ddl (Rename_Table n n') f =
     with_table f n (\<lambda>t.
       if sf_tables f n' \<noteq> None then Inl (ErrText ''there is already another table or index with this name'')
       else Inr (f\<lparr>sf_tables := (\<lambda>m. map_option (rename_refs n n')
                     (if m = n' then Some t else if m = n then None else sf_tables f m)),
                   sf_indexes := (\<lambda>i. if sf_indexes f i = Some n then Some n' else sf_indexes f i)\<rparr>))"
| "apply_ddl _ f = Inr f"

definition sql_exec :: "ddl \<Rightarrow> (sql_file, unit) go" where
  "sql_exec q f =
     (if sf_fault f q then (Inl ErrDriver, f)
      else case apply_ddl q f of Inl e \<Rightarrow> (Inl e, f) | Inr f' \<Rightarrow> (Inr (), f'))"

text \<open>\<open>for _, q := range stmts\<close>, and several statements in one \<open>Exec\<close>.\<close>

definition sql_execs :: "ddl list \<Rightarrow> (sql_file, unit) go" where
  "sql_execs qs = forE (\<lambda>q _. sql_exec q) qs ()"

text \<open>\<open>Begin\<close>, the statements, \<open>Commit\<close>, with the deferred \<open>Rollback\<close>.\<close>

definition in_tx :: "(sql_file, unit) go \<Rightarrow> (sql_file, unit) go" where
  "in_tx m f =
     (case bindE (sql_exec Begin_Tx) (\<lambda>_. bindE m (\<lambda>_. sql_exec Commit_Tx)) f of
        (Inl e, _) \<Rightarrow> (Inl e, f)
      | (Inr u, f') \<Rightarrow> (Inr u, f'))"

section \<open>Reading rows\<close>

definition bindR :: "go_err + 'a \<Rightarrow> ('a \<Rightarrow> go_err + 'b) \<Rightarrow> go_err + 'b" where
  "bindR r k = (case r of Inl e \<Rightarrow> Inl e | Inr x \<Rightarrow> k x)"

lemma bindR_simps [simp]: "bindR (Inl e) k = Inl e" "bindR (Inr x) k = k x"
  by (simp_all add: bindR_def)

text \<open>
  \<open>Scan\<close> into an \<open>int\<close>, a \<open>string\<close>, and the three nullable types. A column declared
  INTEGER holds no whole number as a real and one declared TEXT holds no number, by their affinity.
\<close>

definition scan_int :: "sql_val \<Rightarrow> go_err + int" where
  "scan_int v =
     (case v of
        SInt n \<Rightarrow> Inr n
      | SText s \<Rightarrow> (case parseInt s of (n, None) \<Rightarrow> Inr n | (_, Some e) \<Rightarrow> Inl e)
      | _ \<Rightarrow> Inl (ErrText ''converting driver.Value type''))"

definition scan_str :: "sql_val \<Rightarrow> go_err + string" where
  "scan_str v =
     (case v of
        SText s \<Rightarrow> Inr s
      | SInt n \<Rightarrow> Inr (int_str n)
      | _ \<Rightarrow> Inl (ErrText ''converting NULL to string is unsupported''))"

definition scan_float :: "sql_val \<Rightarrow> go_err + float64" where
  "scan_float v = (case v of SReal x \<Rightarrow> Inr x | _ \<Rightarrow> Inl (ErrText ''converting driver.Value type''))"

definition scan_null :: "(sql_val \<Rightarrow> go_err + 'a) \<Rightarrow> sql_val \<Rightarrow> go_err + 'a option" where
  "scan_null sc v = (if v = SNull then Inr None else bindR (sc v) (\<lambda>x. Inr (Some x)))"

definition scanAdmin :: "row \<Rightarrow> go_err + panel_admin" where
  "scanAdmin r =
     bindR (scan_int (r ''id'')) (\<lambda>i.
     bindR (scan_str (r ''username'')) (\<lambda>username.
     bindR (scan_str (r ''password_hash'')) (\<lambda>hash.
     bindR (scan_int (r ''is_active'')) (\<lambda>active.
     Inr \<lparr>adm_ID = i, adm_Username = username, adm_PasswordHash = hash, adm_IsActive = (active = 1)\<rparr>))))"

definition scanManager :: "row \<Rightarrow> go_err + manager" where
  "scanManager r =
     bindR (scan_int (r ''id'')) (\<lambda>i.
     bindR (scan_str (r ''username'')) (\<lambda>username.
     bindR (scan_str (r ''password_hash'')) (\<lambda>hash.
     bindR (scan_str (r ''display_name'')) (\<lambda>display.
     bindR (scan_str (r ''slug'')) (\<lambda>slug.
     bindR (scan_int (r ''quota'')) (\<lambda>quota.
     bindR (scan_int (r ''is_active'')) (\<lambda>active.
     bindR (scan_null scan_str (r ''cert_title'')) (\<lambda>title.
     bindR (scan_null scan_str (r ''cert_key_pass'')) (\<lambda>key.
     bindR (scan_str (r ''created_at'')) (\<lambda>created.
     bindR (scan_str (r ''updated_at'')) (\<lambda>updated.
     Inr \<lparr>mgr_ID = i, mgr_Username = username, mgr_PasswordHash = hash, mgr_DisplayName = display, mgr_Slug = slug,
          mgr_Quota = quota, mgr_IsActive = (active = 1), mgr_CertTitle = title, mgr_CertKeyPass = key,
          mgr_CreatedAt = created, mgr_UpdatedAt = updated\<rparr>)))))))))))"

definition scanVPNMeta :: "row \<Rightarrow> go_err + vpn_user_meta" where
  "scanVPNMeta r =
     bindR (scan_int (r ''id'')) (\<lambda>i.
     bindR (scan_str (r ''mikrotik_name'')) (\<lambda>name.
     bindR (scan_null scan_int (r ''manager_id'')) (\<lambda>mgr.
     bindR (scan_null scan_str (r ''contact_info'')) (\<lambda>contact.
     bindR (scan_null scan_str (r ''notes'')) (\<lambda>notes.
     bindR (scan_null scan_str (r ''cert_title'')) (\<lambda>title.
     bindR (scan_null scan_str (r ''cert_key_pass'')) (\<lambda>key.
     bindR (scan_str (r ''created_at'')) (\<lambda>created.
     bindR (scan_str (r ''updated_at'')) (\<lambda>updated.
     Inr \<lparr>meta_ID = i, meta_MikrotikName = name, meta_ManagerID = mgr, meta_ContactInfo = contact, meta_Notes = notes,
          meta_CertTitle = title, meta_CertKeyPass = key, meta_CreatedAt = created, meta_UpdatedAt = updated\<rparr>)))))))))"

definition scanActivation :: "row \<Rightarrow> go_err + profile_activation" where
  "scanActivation r =
     bindR (scan_int (r ''id'')) (\<lambda>i.
     bindR (scan_int (r ''vpn_user_meta_id'')) (\<lambda>meta.
     bindR (scan_str (r ''profile_name'')) (\<lambda>profile.
     bindR (scan_int (r ''shared_users'')) (\<lambda>shared.
     bindR (scan_null scan_float (r ''amount_paid'')) (\<lambda>amount.
     bindR (scan_str (r ''currency'')) (\<lambda>currency.
     bindR (scan_null scan_str (r ''paid_at'')) (\<lambda>paidAt.
     bindR (scan_null scan_str (r ''note'')) (\<lambda>note.
     bindR (scan_null scan_str (r ''mikrotik_end_time'')) (\<lambda>endTime.
     bindR (scan_int (r ''is_settled'')) (\<lambda>settled.
     bindR (scan_null scan_str (r ''settled_at'')) (\<lambda>settledAt.
     bindR (scan_null scan_int (r ''settled_by_admin_id'')) (\<lambda>settledBy.
     bindR (scan_str (r ''created_at'')) (\<lambda>created.
     Inr \<lparr>act_ID = i, act_VPNUserMetaID = meta, act_ProfileName = profile, act_SharedUsers = shared,
          act_AmountPaid = amount, act_Currency = currency, act_PaidAt = paidAt, act_Note = note,
          act_MikrotikEndTime = endTime, act_IsSettled = (settled = 1), act_SettledAt = settledAt,
          act_SettledByAdminID = settledBy, act_CreatedAt = created\<rparr>)))))))))))))"

text \<open>The loop \<open>for rows.Next()\<close>, which ends at the first row that cannot be read.\<close>

fun scan_rows :: "(row \<Rightarrow> go_err + 'a) \<Rightarrow> row list \<Rightarrow> go_err + 'a list" where
  "scan_rows sc [] = Inr []"
| "scan_rows sc (r # rs) = bindR (sc r) (\<lambda>x. bindR (scan_rows sc rs) (\<lambda>xs. Inr (x # xs)))"

definition scanActivations :: "row list \<Rightarrow> go_err + profile_activation list" where
  "scanActivations rs = scan_rows scanActivation rs"

section \<open>Writing rows\<close>

definition nullStr :: "string option \<Rightarrow> sql_val" where
  "nullStr ns = (case ns of None \<Rightarrow> SNull | Some s \<Rightarrow> SText s)"

definition nullInt :: "int option \<Rightarrow> sql_val" where
  "nullInt ni = (case ni of None \<Rightarrow> SNull | Some n \<Rightarrow> SInt n)"

definition sql_bool :: "bool \<Rightarrow> sql_val" where
  "sql_bool b = SInt (if b then 1 else 0)"

text \<open>The rows that the records of the model stand for.\<close>

definition row_of :: "(string \<times> sql_val) list \<Rightarrow> row" where
  "row_of vs = (\<lambda>c. case map_of vs c of None \<Rightarrow> SNull | Some v \<Rightarrow> v)"

definition stored_admin_row :: "panel_admin \<Rightarrow> string \<Rightarrow> row" where
  "stored_admin_row a created = row_of [(''id'', SInt (adm_ID a)), (''username'', SText (adm_Username a)),
     (''password_hash'', SText (adm_PasswordHash a)), (''is_active'', sql_bool (adm_IsActive a)),
     (''created_at'', SText created)]"

definition manager_row :: "manager \<Rightarrow> row" where
  "manager_row m = row_of [(''id'', SInt (mgr_ID m)), (''username'', SText (mgr_Username m)),
     (''password_hash'', SText (mgr_PasswordHash m)), (''display_name'', SText (mgr_DisplayName m)),
     (''slug'', SText (mgr_Slug m)), (''quota'', SInt (mgr_Quota m)), (''is_active'', sql_bool (mgr_IsActive m)),
     (''cert_title'', nullStr (mgr_CertTitle m)), (''cert_key_pass'', nullStr (mgr_CertKeyPass m)),
     (''created_at'', SText (mgr_CreatedAt m)), (''updated_at'', SText (mgr_UpdatedAt m))]"

definition meta_row :: "vpn_user_meta \<Rightarrow> row" where
  "meta_row v = row_of [(''id'', SInt (meta_ID v)), (''mikrotik_name'', SText (meta_MikrotikName v)),
     (''manager_id'', nullInt (meta_ManagerID v)), (''contact_info'', nullStr (meta_ContactInfo v)),
     (''notes'', nullStr (meta_Notes v)), (''cert_title'', nullStr (meta_CertTitle v)),
     (''cert_key_pass'', nullStr (meta_CertKeyPass v)),
     (''created_at'', SText (meta_CreatedAt v)), (''updated_at'', SText (meta_UpdatedAt v))]"

definition activation_row :: "profile_activation \<Rightarrow> row" where
  "activation_row a = row_of [(''id'', SInt (act_ID a)), (''vpn_user_meta_id'', SInt (act_VPNUserMetaID a)),
     (''profile_name'', SText (act_ProfileName a)), (''shared_users'', SInt (act_SharedUsers a)),
     (''amount_paid'', (case act_AmountPaid a of None \<Rightarrow> SNull | Some x \<Rightarrow> SReal x)),
     (''currency'', SText (act_Currency a)), (''paid_at'', nullStr (act_PaidAt a)), (''note'', nullStr (act_Note a)),
     (''mikrotik_end_time'', nullStr (act_MikrotikEndTime a)), (''is_settled'', sql_bool (act_IsSettled a)),
     (''settled_at'', nullStr (act_SettledAt a)), (''settled_by_admin_id'', nullInt (act_SettledByAdminID a)),
     (''created_at'', SText (act_CreatedAt a))]"

lemma scan_simps [simp]:
  "scan_int (SInt n) = Inr n" "scan_str (SText s) = Inr s" "scan_float (SReal x) = Inr x"
  "scan_null sc SNull = Inr None" "scan_null scan_str (nullStr ns) = Inr ns" "scan_null scan_int (nullInt ni) = Inr ni"
  by (simp_all add: scan_int_def scan_str_def scan_float_def scan_null_def nullStr_def nullInt_def split: option.split)

lemma row_of_simps [simp]:
  "row_of [] c = SNull" "row_of ((k, v) # vs) c = (if c = k then v else row_of vs c)"
  by (simp_all add: row_of_def)

text \<open>What is written is what is read.\<close>

lemma scan_stored_admin_row [simp]: "scanAdmin (stored_admin_row a created) = Inr a"
  by (simp add: scanAdmin_def stored_admin_row_def sql_bool_def)

lemma scan_manager_row [simp]: "scanManager (manager_row m) = Inr m"
  by (simp add: scanManager_def manager_row_def sql_bool_def)

lemma scan_meta_row [simp]: "scanVPNMeta (meta_row v) = Inr v"
  by (simp add: scanVPNMeta_def meta_row_def)

lemma scan_activation_row [simp]: "scanActivation (activation_row a) = Inr a"
  by (cases "act_AmountPaid a") (simp_all add: scanActivation_def activation_row_def sql_bool_def scan_null_def [of scan_float])

lemma scan_rows_map: "(\<And>x. x \<in> set xs \<Longrightarrow> sc (f x) = Inr x) \<Longrightarrow> scan_rows sc (map f xs) = Inr xs"
  by (induction xs) auto

lemma scan_activations_rows: "scanActivations (map activation_row xs) = Inr xs"
  unfolding scanActivations_def by (rule scan_rows_map) simp

end
