(* ===== verification/Store_Open.thy ===== *)
theory Store_Open
  imports Sql_Tables
begin

text \<open>
  Opening the database (store/schema.sql; store/store.go: \<open>Open\<close>, \<open>migrate\<close>,
  \<open>migrateVPNMetaContactInfo\<close>, \<open>migrateCertificateColumns\<close>, \<open>tableHasColumn\<close>), as statements
  over the file model of \<open>Sql_Tables\<close>. The schema keeps of each table its columns, UNIQUE columns
  and foreign keys; defaults, CHECKs and collations are part of the operations in \<open>Store\<close>.

  The theorems: opening a file twice is opening it once; whatever earlier version a file has, once
  opened it declares every column the store reads, and its rows read into the records of
  \<open>Store\<close> without an error; and what an upgrade of the oldest version does to users and ledger.
\<close>

section \<open>The schema\<close>

definition required :: "col_type \<Rightarrow> column" where "required t = \<lparr>co_type = t, co_notnull = True\<rparr>"
definition nullable :: "col_type \<Rightarrow> column" where "nullable t = \<lparr>co_type = t, co_notnull = False\<rparr>"

definition new_table :: "(string \<times> column) list \<Rightarrow> string list \<Rightarrow> reference list \<Rightarrow> sql_table" where
  "new_table cs us fs = \<lparr>tb_cols = cs, tb_unique = us, tb_refs = fs, tb_rows = [], tb_seq = 0\<rparr>"

definition managers_table :: sql_table where
  "managers_table = new_table
     [(''id'', required T_Int), (''username'', required T_Text), (''password_hash'', required T_Text),
      (''display_name'', required T_Text), (''slug'', required T_Text), (''quota'', required T_Int),
      (''is_active'', required T_Int), (''cert_title'', nullable T_Text), (''cert_key_pass'', nullable T_Text),
      (''created_at'', required T_Text), (''updated_at'', required T_Text)]
     [''id'', ''username'', ''slug''] []"

definition panel_admins_table :: sql_table where
  "panel_admins_table = new_table
     [(''id'', required T_Int), (''username'', required T_Text), (''password_hash'', required T_Text),
      (''is_active'', required T_Int), (''created_at'', required T_Text)]
     [''id'', ''username''] []"

definition meta_refs :: "reference list" where
  "meta_refs = [\<lparr>re_col = ''manager_id'', re_parent = ''managers'', re_action = Set_Null\<rparr>]"

definition vpn_user_meta_table :: sql_table where
  "vpn_user_meta_table = new_table
     [(''id'', required T_Int), (''mikrotik_name'', required T_Text), (''manager_id'', nullable T_Int),
      (''contact_info'', nullable T_Text), (''notes'', nullable T_Text), (''cert_title'', nullable T_Text),
      (''cert_key_pass'', nullable T_Text), (''created_at'', required T_Text), (''updated_at'', required T_Text)]
     [''id'', ''mikrotik_name''] meta_refs"

definition activation_refs :: "reference list" where
  "activation_refs = [\<lparr>re_col = ''vpn_user_meta_id'', re_parent = ''vpn_user_meta'', re_action = Cascade\<rparr>,
     \<lparr>re_col = ''settled_by_admin_id'', re_parent = ''panel_admins'', re_action = Set_Null\<rparr>]"

definition profile_activations_table :: sql_table where
  "profile_activations_table = new_table
     [(''id'', required T_Int), (''vpn_user_meta_id'', required T_Int), (''profile_name'', required T_Text),
      (''shared_users'', required T_Int), (''amount_paid'', nullable T_Real), (''currency'', required T_Text),
      (''paid_at'', nullable T_Text), (''note'', nullable T_Text), (''mikrotik_end_time'', nullable T_Text),
      (''is_settled'', required T_Int), (''settled_at'', nullable T_Text), (''settled_by_admin_id'', nullable T_Int),
      (''created_at'', required T_Text)]
     [''id''] activation_refs"

definition schema_tables :: "(string \<times> sql_table) list" where
  "schema_tables = [(''managers'', managers_table), (''panel_admins'', panel_admins_table),
     (''vpn_user_meta'', vpn_user_meta_table), (''profile_activations'', profile_activations_table)]"

definition schema_indexes :: "(string \<times> string \<times> string list) list" where
  "schema_indexes =
     [(''idx_vpn_user_meta_manager'', ''vpn_user_meta'', [''manager_id'']),
      (''idx_profile_activations_user'', ''profile_activations'', [''vpn_user_meta_id'']),
      (''idx_profile_activations_created'', ''profile_activations'', [''created_at'']),
      (''idx_profile_activations_settled'', ''profile_activations'', [''is_settled'', ''created_at''])]"

definition schema_sql :: "ddl list" where
  "schema_sql = map (\<lambda>(n, t). Create_Table True n t) schema_tables
     @ map (\<lambda>(i, n, cs). Create_Index i n cs) schema_indexes"

section \<open>Migrations\<close>

definition tableHasColumn :: "string \<Rightarrow> string \<Rightarrow> (sql_file, bool) go" where
  "tableHasColumn n c f =
     (if sf_fault f (Table_Info n) then (Inl ErrDriver, f)
      else (Inr (case sf_tables f n of None \<Rightarrow> False | Some t \<Rightarrow> c \<in> set (map fst (tb_cols t))), f))"

definition add_text_column :: "string \<times> string \<Rightarrow> (sql_file, unit) go" where
  "add_text_column = (\<lambda>(n, c).
     bindE (tableHasColumn n c) (\<lambda>has.
     if has then returnE () else sql_exec (Add_Column n c (nullable T_Text))))"

definition cert_columns :: "(string \<times> string) list" where
  "cert_columns = [(''managers'', ''cert_title''), (''managers'', ''cert_key_pass''),
     (''vpn_user_meta'', ''cert_title''), (''vpn_user_meta'', ''cert_key_pass'')]"

definition migrateCertificateColumns :: "(sql_file, unit) go" where
  "migrateCertificateColumns = forE (\<lambda>spec _. add_text_column spec) cert_columns ()"

definition vpn_user_meta_new :: sql_table where
  "vpn_user_meta_new = new_table
     [(''id'', required T_Int), (''mikrotik_name'', required T_Text), (''manager_id'', nullable T_Int),
      (''contact_info'', nullable T_Text), (''notes'', nullable T_Text), (''created_at'', required T_Text),
      (''updated_at'', required T_Text)]
     [''id'', ''mikrotik_name''] meta_refs"

definition contact_info_dst :: "string list" where
  "contact_info_dst = [''id'', ''mikrotik_name'', ''manager_id'', ''contact_info'', ''notes'', ''created_at'', ''updated_at'']"

definition contact_info_src :: "string list" where
  "contact_info_src = [''id'', ''mikrotik_name'', ''manager_id'', ''contact_note'', ''notes'', ''created_at'', ''updated_at'']"

definition contact_info_stmts :: "ddl list" where
  "contact_info_stmts =
     [Create_Table False ''vpn_user_meta_new'' vpn_user_meta_new,
      Insert_Select ''vpn_user_meta_new'' contact_info_dst contact_info_src ''vpn_user_meta'',
      Drop_Table ''vpn_user_meta'',
      Rename_Table ''vpn_user_meta_new'' ''vpn_user_meta'',
      Create_Index ''idx_vpn_user_meta_manager'' ''vpn_user_meta'' [''manager_id'']]"

definition migrateVPNMetaContactInfo :: "(sql_file, unit) go" where
  "migrateVPNMetaContactInfo =
     bindE (tableHasColumn ''vpn_user_meta'' ''local_name'') (\<lambda>has.
     if \<not> has then returnE () else in_tx (sql_execs contact_info_stmts))"

definition migrate :: "(sql_file, unit) go" where
  "migrate =
     bindE (sql_execs schema_sql) (\<lambda>_.
     bindE migrateVPNMetaContactInfo (\<lambda>_.
     migrateCertificateColumns))"

text \<open>
  \<open>Open\<close> on the file at \<open>path\<close>, an absent file being an empty one; \<open>mkdirFor\<close> is the error of
  \<open>os.MkdirAll(filepath.Dir(path))\<close>.
\<close>

definition Open :: "(string \<Rightarrow> go_err option) \<Rightarrow> string \<Rightarrow> (sql_file, unit) go" where
  "Open mkdirFor path =
     (case mkdirFor path of
        Some e \<Rightarrow> failE e
      | None \<Rightarrow> bindE (sql_exec Ping_File) (\<lambda>_. migrate))"

section \<open>Statements that succeeded\<close>

lemma sql_exec_Inr: "sql_exec q f = (Inr u, f') \<longleftrightarrow> \<not> sf_fault f q \<and> apply_ddl q f = Inr f'"
  by (auto simp: sql_exec_def split: sum.splits)

lemma apply_ddl_fault [simp]: "apply_ddl q f = Inr f' \<Longrightarrow> sf_fault f' = sf_fault f"
  by (induction q f rule: apply_ddl.induct) (auto simp: with_table_def Let_def split: option.splits if_splits)

lemma sql_execs_simps [simp]:
  "sql_execs [] = returnE ()" "sql_execs (q # qs) = bindE (sql_exec q) (\<lambda>_. sql_execs qs)"
  by (simp_all add: sql_execs_def fun_eq_iff)

lemma sql_execs_append: "sql_execs (qs @ rs) = bindE (sql_execs qs) (\<lambda>_. sql_execs rs)"
  by (induction qs) (simp_all add: bindE_assoc)

lemma sql_execs_fault: "sql_execs qs f = (Inr u, f') \<Longrightarrow> sf_fault f' = sf_fault f \<and> (\<forall>q \<in> set qs. \<not> sf_fault f q)"
proof (induction qs arbitrary: f)
  case (Cons q qs)
  then obtain f1 where "sql_exec q f = (Inr (), f1)" "sql_execs qs f1 = (Inr u, f')"
    by (auto elim: bindE_InrE)
  then show ?case using Cons.IH [of f1] by (auto simp: sql_exec_Inr dest: apply_ddl_fault)
qed (simp add: returnE_apply)

lemma create_if_absent: "apply_ddl (Create_Table True n t) f = Inr f' \<Longrightarrow>
    sf_tables f' = (\<lambda>m. case sf_tables f m of Some t' \<Rightarrow> Some t' | None \<Rightarrow> if m = n then Some t else None)
    \<and> sf_indexes f' = sf_indexes f"
  by (auto simp: fun_eq_iff split: option.splits)

lemma create_index: "apply_ddl (Create_Index i n cs) f = Inr f' \<Longrightarrow> sf_tables f' = sf_tables f
    \<and> sf_indexes f' = (\<lambda>j. case sf_indexes f j of Some m \<Rightarrow> Some m | None \<Rightarrow> if j = i then Some n else None)"
  by (auto simp: with_table_def fun_eq_iff split: option.splits if_splits)

lemma create_tables:
  "sql_execs (map (\<lambda>(n, t). Create_Table True n t) ts) f = (Inr u, f') \<Longrightarrow>
     sf_tables f' = (\<lambda>m. case sf_tables f m of Some t \<Rightarrow> Some t | None \<Rightarrow> map_of ts m)"
proof (induction ts arbitrary: f)
  case (Cons p ts)
  obtain n t where p: "p = (n, t)" by (cases p)
  obtain f1 where "apply_ddl (Create_Table True n t) f = Inr f1"
    "sql_execs (map (\<lambda>(n, t). Create_Table True n t) ts) f1 = (Inr u, f')"
    using Cons.prems by (auto elim!: bindE_InrE simp: p sql_exec_Inr simp del: apply_ddl.simps)
  then show ?case
    using Cons.IH [of f1] create_if_absent [of n t f f1] by (auto simp: p fun_eq_iff split: option.split)
qed (auto simp: returnE_apply fun_eq_iff split: option.split)

lemma create_indexes:
  "sql_execs (map (\<lambda>(i, n, cs). Create_Index i n cs) xs) f = (Inr u, f') \<Longrightarrow>
     sf_tables f' = sf_tables f
     \<and> sf_indexes f' = (\<lambda>j. case sf_indexes f j of Some m \<Rightarrow> Some m | None \<Rightarrow> map_of (map (\<lambda>(i, n, cs). (i, n)) xs) j)"
proof (induction xs arbitrary: f)
  case (Cons x xs)
  obtain i n cs where x: "x = (i, n, cs)" by (cases x)
  obtain f1 where "apply_ddl (Create_Index i n cs) f = Inr f1"
    "sql_execs (map (\<lambda>(i, n, cs). Create_Index i n cs) xs) f1 = (Inr u, f')"
    using Cons.prems by (auto elim!: bindE_InrE simp: x sql_exec_Inr simp del: apply_ddl.simps)
  then show ?case
    using Cons.IH [of f1] create_index [of i n cs f f1] by (auto simp: x fun_eq_iff split: option.split)
qed (auto simp: returnE_apply fun_eq_iff split: option.split)

text \<open>The schema adds the tables and the indexes that are missing, and nothing else.\<close>

lemma schema_run:
  assumes "sql_execs schema_sql f = (Inr u, f')"
  shows "sf_tables f' = (\<lambda>m. case sf_tables f m of Some t \<Rightarrow> Some t | None \<Rightarrow> map_of schema_tables m)"
    "sf_indexes f' = (\<lambda>j. case sf_indexes f j of Some m \<Rightarrow> Some m
      | None \<Rightarrow> map_of (map (\<lambda>(i, n, cs). (i, n)) schema_indexes) j)"
proof -
  from assms [unfolded schema_sql_def sql_execs_append]
  obtain f1 where t: "sql_execs (map (\<lambda>(n, t). Create_Table True n t) schema_tables) f = (Inr (), f1)"
    and i: "sql_execs (map (\<lambda>(i, n, cs). Create_Index i n cs) schema_indexes) f1 = (Inr u, f')"
    by (auto elim: bindE_InrE)
  have "sf_indexes f1 = sf_indexes f"
  proof -
    have "sql_execs (map (\<lambda>(n, t). Create_Table True n t) ts) g = (Inr v, g') \<Longrightarrow> sf_indexes g' = sf_indexes g" for ts g g' v
    proof (induction ts arbitrary: g)
      case (Cons p ts)
      then show ?case
        by (cases p) (auto simp: sql_exec_Inr simp del: apply_ddl.simps elim!: bindE_InrE dest!: create_if_absent)
    qed (simp add: returnE_apply)
    then show ?thesis using t by blast
  qed
  then show "sf_tables f' = (\<lambda>m. case sf_tables f m of Some t \<Rightarrow> Some t | None \<Rightarrow> map_of schema_tables m)"
    "sf_indexes f' = (\<lambda>j. case sf_indexes f j of Some m \<Rightarrow> Some m
      | None \<Rightarrow> map_of (map (\<lambda>(i, n, cs). (i, n)) schema_indexes) j)"
    using create_tables [OF t] create_indexes [OF i] by simp_all
qed

text \<open>The upgrade of the oldest version.\<close>

definition upgraded_meta :: "sql_table \<Rightarrow> sql_table" where
  "upgraded_meta old =
     rename_refs ''vpn_user_meta_new'' ''vpn_user_meta''
       (with_rows (map (copied_row contact_info_dst contact_info_src) (tb_rows old)) vpn_user_meta_new)"

lemma in_tx_Inr: "in_tx m f = (Inr u, f') \<longleftrightarrow> \<not> sf_fault f Begin_Tx \<and> m f = (Inr (), f') \<and> \<not> sf_fault f' Commit_Tx"
  by (auto simp: in_tx_def bindE_def sql_exec_def split: prod.splits sum.splits if_splits)

lemma in_tx_Inl: "in_tx m f = (Inl e, f') \<Longrightarrow> f' = f"
  by (auto simp: in_tx_def split: prod.splits sum.splits)

lemma has_cols_one [simp]: "has_cols t [c] \<longleftrightarrow> c \<in> fst ` set (tb_cols t)"
  by (simp add: has_cols_def)

lemma vpn_user_meta_new_simps [simp]:
  "tb_rows vpn_user_meta_new = []" "tb_seq vpn_user_meta_new = 0" "tb_refs vpn_user_meta_new = meta_refs"
  by (simp_all add: vpn_user_meta_new_def new_table_def)

lemma contact_info_run:
  assumes "sf_tables f ''vpn_user_meta'' = Some old" "sql_execs contact_info_stmts f = (Inr u, f')"
  shows "sf_tables f' = (\<lambda>m. if m = ''vpn_user_meta'' then Some (upgraded_meta old)
      else if m = ''vpn_user_meta_new'' then None
      else map_option (rename_refs ''vpn_user_meta_new'' ''vpn_user_meta''
        \<circ> parent_deleted ''vpn_user_meta'' (map (\<lambda>r. r ''id'') (tb_rows old))) (sf_tables f m))"
    "has_cols old contact_info_src" "sf_indexes f' ''idx_vpn_user_meta_manager'' \<noteq> None"
    "\<And>i. sf_indexes f i \<noteq> None \<Longrightarrow> sf_indexes f i \<noteq> Some ''vpn_user_meta'' \<Longrightarrow> sf_indexes f' i \<noteq> None"
proof -
  let ?new = "''vpn_user_meta_new''" and ?old = "''vpn_user_meta''"
  obtain f1 f2 f3 f4 where
    1: "apply_ddl (Create_Table False ?new vpn_user_meta_new) f = Inr f1" and
    2: "apply_ddl (Insert_Select ?new contact_info_dst contact_info_src ?old) f1 = Inr f2" and
    3: "apply_ddl (Drop_Table ?old) f2 = Inr f3" and
    4: "apply_ddl (Rename_Table ?new ?old) f3 = Inr f4" and
    5: "apply_ddl (Create_Index ''idx_vpn_user_meta_manager'' ?old [''manager_id'']) f4 = Inr f'"
    using assms(2) by (auto simp: contact_info_stmts_def sql_exec_Inr returnE_apply simp del: apply_ddl.simps elim!: bindE_InrE)
  let ?rows = "map (copied_row contact_info_dst contact_info_src) (tb_rows old)"
  let ?t = "with_rows ?rows vpn_user_meta_new"
  have f1: "sf_tables f1 = (sf_tables f)(?new \<mapsto> vpn_user_meta_new)" "sf_indexes f1 = sf_indexes f"
    using 1 by (auto split: option.splits)
  have f2: "has_cols old contact_info_src" "constraints_ok (sf_tables f1) ?t"
    "sf_tables f2 = (sf_tables f)(?new \<mapsto> ?t)" "sf_indexes f2 = sf_indexes f"
    using 2 assms(1) by (auto simp: with_table_def f1 Let_def split: if_splits)
  have kept: "parent_deleted ?old ids ?t = ?t" for ids
    by (simp add: parent_deleted_def meta_refs_def with_rows_def)
  have f3: "sf_tables f3 = (\<lambda>m. if m = ?old then None else if m = ?new then Some ?t else
      map_option (parent_deleted ?old (map (\<lambda>r. r ''id'') (tb_rows old))) (sf_tables f m))"
    "sf_indexes f3 = (\<lambda>i. if sf_indexes f i = Some ?old then None else sf_indexes f i)"
    using 3 assms(1) by (auto simp: with_table_def f2 kept fun_eq_iff)
  have f4: "sf_tables f4 = (\<lambda>m. if m = ?old then Some (upgraded_meta old) else if m = ?new then None
      else map_option (rename_refs ?new ?old \<circ> parent_deleted ?old (map (\<lambda>r. r ''id'') (tb_rows old))) (sf_tables f m))"
    "\<And>i. sf_indexes f3 i \<noteq> None \<Longrightarrow> sf_indexes f4 i \<noteq> None"
    using 4 by (auto simp: with_table_def f3(1) fun_eq_iff upgraded_meta_def Let_def option.map_comp)
  note f' = create_index [OF 5]
  show "sf_tables f' = (\<lambda>m. if m = ?old then Some (upgraded_meta old) else if m = ?new then None
      else map_option (rename_refs ?new ?old \<circ> parent_deleted ?old (map (\<lambda>r. r ''id'') (tb_rows old))) (sf_tables f m))"
    "sf_indexes f' ''idx_vpn_user_meta_manager'' \<noteq> None" "has_cols old contact_info_src"
    using f' f4(1) f2(1) by (simp_all split: option.split)
  show "sf_indexes f' i \<noteq> None" if "sf_indexes f i \<noteq> None" "sf_indexes f i \<noteq> Some ?old" for i
    using f' f4(2) [of i] that by (auto simp: f3(2) split: option.split)
qed

section \<open>Opening twice\<close>

definition has_col :: "sql_file \<Rightarrow> string \<Rightarrow> string \<Rightarrow> bool" where
  "has_col f n c = (case sf_tables f n of None \<Rightarrow> False | Some t \<Rightarrow> has_cols t [c])"

lemma tableHasColumn_Inr: "tableHasColumn n c f = (Inr b, f') \<longleftrightarrow> f' = f \<and> \<not> sf_fault f (Table_Info n)
    \<and> b = (case sf_tables f n of None \<Rightarrow> False | Some t \<Rightarrow> has_cols t [c])"
  by (auto simp: tableHasColumn_def split: option.splits)

text \<open>A file that \<open>Open\<close> has nothing to do to: its tables, indexes and columns are there.\<close>

definition migrated :: "sql_file \<Rightarrow> bool" where
  "migrated f \<longleftrightarrow> list_all (\<lambda>n. sf_tables f n \<noteq> None) (map fst schema_tables)
     \<and> list_all (\<lambda>i. sf_indexes f i \<noteq> None) (map fst schema_indexes)
     \<and> list_all (\<lambda>(n, c). has_col f n c) cert_columns \<and> \<not> has_col f ''vpn_user_meta'' ''local_name''"

text \<open>The statements that \<open>Open\<close> always runs.\<close>

definition always_run :: "ddl list" where
  "always_run = Ping_File # schema_sql @ map (\<lambda>(n, c). Table_Info n) cert_columns"

lemma nothing_to_create:
  assumes "list_all (\<lambda>n. sf_tables f n \<noteq> None) (map fst ts)" "\<forall>q \<in> set (map (\<lambda>(n, t). Create_Table True n t) ts). \<not> sf_fault f q"
  shows "sql_execs (map (\<lambda>(n, t). Create_Table True n t) ts) f = (Inr (), f)"
  using assms by (induction ts) (auto simp: returnE_apply bindE_def sql_exec_def split: option.splits)

lemma nothing_to_index:
  assumes "list_all (\<lambda>i. sf_indexes f i \<noteq> None) (map fst xs)" "\<forall>q \<in> set (map (\<lambda>(i, n, cs). Create_Index i n cs) xs). \<not> sf_fault f q"
  shows "sql_execs (map (\<lambda>(i, n, cs). Create_Index i n cs) xs) f = (Inr (), f)"
  using assms by (induction xs) (auto simp: returnE_apply bindE_def sql_exec_def)

lemma nothing_to_add:
  assumes "list_all (\<lambda>(n, c). has_col f n c) xs"
    "\<forall>(n, c) \<in> set xs. \<not> sf_fault f (Table_Info n)"
  shows "forE (\<lambda>spec _. add_text_column spec) xs () f = (Inr (), f)"
  using assms
  by (induction xs) (auto simp: returnE_apply bindE_def add_text_column_def tableHasColumn_def has_col_def split: option.splits)

lemma Open_migrated:
  assumes "migrated f" "mkdirFor path = None" "\<forall>q \<in> set always_run. \<not> sf_fault f q"
  shows "Open mkdirFor path f = (Inr (), f)"
proof -
  have "sql_execs schema_sql f = (Inr (), f)"
    using assms(1,3) nothing_to_create [of f schema_tables] nothing_to_index [of f schema_indexes]
    by (auto simp: schema_sql_def sql_execs_append bindE_def migrated_def always_run_def)
  moreover have "migrateVPNMetaContactInfo f = (Inr (), f)"
    using assms(1,3) by (auto simp: migrateVPNMetaContactInfo_def bindE_def tableHasColumn_def migrated_def
        always_run_def cert_columns_def returnE_apply has_col_def split: option.splits)
  moreover have "migrateCertificateColumns f = (Inr (), f)"
    unfolding migrateCertificateColumns_def
    by (rule nothing_to_add) (use assms(1,3) in \<open>auto simp: migrated_def always_run_def\<close>)
  moreover have "sql_exec Ping_File f = (Inr (), f)"
    using assms(3) by (simp add: sql_exec_def always_run_def)
  ultimately show ?thesis using assms(2) by (simp add: Open_def migrate_def bindE_def)
qed

lemma Open_run:
  assumes "Open mkdirFor path f = (Inr u, f')"
  obtains f1 f2 where "mkdirFor path = None" "\<not> sf_fault f Ping_File" "sql_execs schema_sql f = (Inr (), f1)"
    "migrateVPNMetaContactInfo f1 = (Inr (), f2)" "migrateCertificateColumns f2 = (Inr (), f')"
  using assms by (auto simp: Open_def migrate_def failE_apply sql_exec_Inr elim!: bindE_InrE split: option.splits)

lemma contact_info_cases:
  assumes "migrateVPNMetaContactInfo f = (Inr u, f')"
  obtains (current) "\<not> sf_fault f (Table_Info ''vpn_user_meta'')" "f' = f"
      "\<And>t. sf_tables f ''vpn_user_meta'' = Some t \<Longrightarrow> \<not> has_cols t [''local_name'']"
  | (oldest) old where "\<not> sf_fault f (Table_Info ''vpn_user_meta'')" "sf_tables f ''vpn_user_meta'' = Some old"
      "has_cols old [''local_name'']" "sql_execs contact_info_stmts f = (Inr (), f')"
proof -
  from assms obtain b where b: "tableHasColumn ''vpn_user_meta'' ''local_name'' f = (Inr b, f)"
    and run: "(if \<not> b then returnE () else in_tx (sql_execs contact_info_stmts)) f = (Inr u, f')"
    by (auto simp: migrateVPNMetaContactInfo_def tableHasColumn_Inr elim!: bindE_InrE)
  from b have fault: "\<not> sf_fault f (Table_Info ''vpn_user_meta'')" by (simp add: tableHasColumn_Inr)
  show thesis
  proof (cases b)
    case True
    with b obtain old where "sf_tables f ''vpn_user_meta'' = Some old" "has_cols old [''local_name'']"
      by (auto simp: tableHasColumn_Inr split: option.splits)
    moreover have "sql_execs contact_info_stmts f = (Inr (), f')" using run True by (simp add: in_tx_Inr)
    ultimately show thesis by (rule oldest [OF fault])
  next
    case False
    then have "f' = f" using run by (simp add: returnE_apply)
    moreover have "\<not> has_cols t [''local_name'']" if "sf_tables f ''vpn_user_meta'' = Some t" for t
      using b False that by (simp add: tableHasColumn_Inr)
    ultimately show thesis by (rule current [OF fault])
  qed
qed

lemma add_column_run:
  assumes "add_text_column (n, c) f = (Inr u, f')"
  obtains (there) t where "\<not> sf_fault f (Table_Info n)" "sf_tables f n = Some t" "has_cols t [c]" "f' = f"
  | (added) t where "\<not> sf_fault f (Table_Info n)" "sf_tables f n = Some t" "\<not> has_cols t [c]"
      "f' = f\<lparr>sf_tables := (sf_tables f)(n \<mapsto> with_column c (nullable T_Text) t)\<rparr>"
proof -
  from assms obtain b where b: "tableHasColumn n c f = (Inr b, f)"
    and run: "(if b then returnE () else sql_exec (Add_Column n c (nullable T_Text))) f = (Inr u, f')"
    by (auto simp: add_text_column_def tableHasColumn_Inr elim!: bindE_InrE)
  from b have fault: "\<not> sf_fault f (Table_Info n)" by (simp add: tableHasColumn_Inr)
  show thesis
  proof (cases b)
    case True
    with b obtain t where "sf_tables f n = Some t" "has_cols t [c]"
      by (auto simp: tableHasColumn_Inr split: option.splits)
    moreover have "f' = f" using run True by (simp add: returnE_apply)
    ultimately show thesis by (rule there [OF fault])
  next
    case False
    then obtain t where "sf_tables f n = Some t" "\<not> has_cols t [c]"
      "f' = f\<lparr>sf_tables := (sf_tables f)(n \<mapsto> with_column c (nullable T_Text) t)\<rparr>"
      using run by (auto simp: sql_exec_Inr with_table_def split: option.splits if_splits)
    then show thesis by (rule added [OF fault])
  qed
qed

text \<open>Files that differ in added columns only.\<close>

definition extends :: "sql_file \<Rightarrow> sql_file \<Rightarrow> bool" where
  "extends f f' \<longleftrightarrow> sf_indexes f' = sf_indexes f \<and> sf_fault f' = sf_fault f
     \<and> (\<forall>n. sf_tables f' n = None \<longleftrightarrow> sf_tables f n = None) \<and> (\<forall>n c. has_col f n c \<longrightarrow> has_col f' n c)"

lemma extends_refl: "extends f f"
  by (simp add: extends_def)

lemma extends_trans: "extends f g \<Longrightarrow> extends g h \<Longrightarrow> extends f h"
  by (simp add: extends_def)

lemma add_column_extends:
  assumes "add_text_column (n, c) f = (Inr u, f')"
  shows "extends f f' \<and> has_col f' n c \<and> \<not> sf_fault f (Table_Info n)"
  using assms
proof (cases rule: add_column_run)
  case (added t)
  then show ?thesis by (auto simp: extends_def has_col_def with_column_def)
qed (simp add: extends_refl has_col_def)

lemma cert_columns_extend:
  "forE (\<lambda>spec _. add_text_column spec) xs () f = (Inr u, f') \<Longrightarrow>
     extends f f' \<and> list_all (\<lambda>(n, c). has_col f' n c \<and> \<not> sf_fault f (Table_Info n)) xs"
proof (induction xs arbitrary: f)
  case (Cons x xs)
  obtain n c where x: "x = (n, c)" by (cases x)
  from Cons.prems obtain f1 where step: "add_text_column (n, c) f = (Inr (), f1)"
    and rest: "forE (\<lambda>spec _. add_text_column spec) xs () f1 = (Inr u, f')"
    by (auto simp: x elim!: bindE_InrE)
  have 1: "extends f f1" "has_col f1 n c" "\<not> sf_fault f (Table_Info n)"
    using add_column_extends [OF step] by simp_all
  have 2: "extends f1 f'" "list_all (\<lambda>(n, c). has_col f' n c \<and> \<not> sf_fault f1 (Table_Info n)) xs"
    using Cons.IH [OF rest] by simp_all
  have "has_col f' n c" "sf_fault f1 = sf_fault f" using 1(1,2) 2(1) by (simp_all add: extends_def)
  then show ?case using extends_trans [OF 1(1) 2(1)] 1(3) 2(2) by (simp add: x)
qed (simp add: returnE_apply extends_refl)

lemma cert_columns_keep:
  "forE (\<lambda>spec _. add_text_column spec) xs () f = (Inr u, f') \<Longrightarrow>
   (\<And>n t. sf_tables f n = Some t \<Longrightarrow> P n t) \<Longrightarrow>
   (\<And>n t c. P n t \<Longrightarrow> (n, c) \<in> set xs \<Longrightarrow> \<not> has_cols t [c] \<Longrightarrow> P n (with_column c (nullable T_Text) t)) \<Longrightarrow>
   sf_tables f' m = Some t' \<Longrightarrow> P m t'"
proof (induction xs arbitrary: f)
  case (Cons x xs)
  obtain n c where x: "x = (n, c)" by (cases x)
  from Cons.prems(1) obtain f1 where step: "add_text_column (n, c) f = (Inr (), f1)"
    and rest: "forE (\<lambda>spec _. add_text_column spec) xs () f1 = (Inr u, f')"
    by (auto simp: x elim!: bindE_InrE)
  have keep: "P k t" if "sf_tables f1 k = Some t" for k t
    using step
  proof (cases rule: add_column_run)
    case (added t0)
    then show ?thesis using that Cons.prems(2) Cons.prems(3) [of n t0 c] by (auto simp: x split: if_splits)
  qed (use that Cons.prems(2) in auto)
  show ?case by (rule Cons.IH [OF rest keep _ Cons.prems(4)]) (simp_all add: Cons.prems(3))
qed (simp add: returnE_apply)

text \<open>An index of the schema that is there already is on its table.\<close>

definition indexes_own :: "sql_file \<Rightarrow> bool" where
  "indexes_own f = list_all (\<lambda>(i, n, cs). sf_indexes f i \<in> {None, Some n}) schema_indexes"

text \<open>
  C22. Opening is idempotent: a database that was opened once is opened again, at the next start of
  the panel, without any change to its tables, columns and rows.
\<close>

theorem open_twice:
  assumes "Open mkdirFor path f = (Inr (), f')" "indexes_own f"
  shows "Open mkdirFor path f' = (Inr (), f')"
proof -
  from assms(1) obtain f1 f2 where dir: "mkdirFor path = None" and ping: "\<not> sf_fault f Ping_File"
    and schema: "sql_execs schema_sql f = (Inr (), f1)" and contact: "migrateVPNMetaContactInfo f1 = (Inr (), f2)"
    and cert: "migrateCertificateColumns f2 = (Inr (), f')" by (rule Open_run)
  note s = schema_run [OF schema] and faults1 = sql_execs_fault [OF schema]
  have tabs: "list_all (\<lambda>n. sf_tables f1 n \<noteq> None) (map fst schema_tables)"
    by (auto simp: s(1) schema_tables_def split: option.split)
  have idx: "list_all (\<lambda>(i, n, cs). sf_indexes f1 i = Some n) schema_indexes"
    using assms(2) by (auto simp: s(2) indexes_own_def schema_indexes_def)
  have 2: "sf_fault f2 = sf_fault f1 \<and> \<not> sf_fault f1 (Table_Info ''vpn_user_meta'')
      \<and> list_all (\<lambda>n. sf_tables f2 n \<noteq> None) (map fst schema_tables) \<and> \<not> has_col f2 ''vpn_user_meta'' ''local_name''
      \<and> list_all (\<lambda>i. sf_indexes f2 i \<noteq> None) (map fst schema_indexes)"
    using contact
  proof (cases rule: contact_info_cases)
    case current
    have "\<not> has_col f1 ''vpn_user_meta'' ''local_name''"
      using current(3) by (auto simp: has_col_def split: option.splits)
    then show ?thesis using current(1,2) tabs idx by (auto simp: schema_indexes_def)
  next
    case (oldest old)
    note r = contact_info_run [OF oldest(2,4)] and fault = sql_execs_fault [OF oldest(4)]
    have "list_all (\<lambda>n. sf_tables f2 n \<noteq> None) (map fst schema_tables)"
      using tabs by (simp add: r(1) schema_tables_def)
    moreover have "\<not> has_col f2 ''vpn_user_meta'' ''local_name''"
      by (simp add: r(1) has_col_def upgraded_meta_def rename_refs_def with_rows_def vpn_user_meta_new_def new_table_def image_iff)
    moreover have "list_all (\<lambda>i. sf_indexes f2 i \<noteq> None) (map fst schema_indexes)"
      using idx r(3) r(4) by (simp add: schema_indexes_def)
    ultimately show ?thesis using oldest(1) fault by simp
  qed
  note c = cert_columns_extend [OF cert [unfolded migrateCertificateColumns_def]]
  have "\<not> has_cols t [''local_name'']" if t: "sf_tables f' ''vpn_user_meta'' = Some t" for t
  proof -
    have "''vpn_user_meta'' = ''vpn_user_meta'' \<longrightarrow> \<not> has_cols t [''local_name'']"
    proof (rule cert_columns_keep [OF cert [unfolded migrateCertificateColumns_def] _ _ t, where
          P = "\<lambda>n t. n = ''vpn_user_meta'' \<longrightarrow> \<not> has_cols t [''local_name'']"])
      fix n t assume "sf_tables f2 n = Some t"
      then show "n = ''vpn_user_meta'' \<longrightarrow> \<not> has_cols t [''local_name'']"
        using 2 by (auto simp: has_col_def split: option.splits)
    qed (auto simp: with_column_def cert_columns_def)
    then show ?thesis by simp
  qed
  then have "\<not> has_col f' ''vpn_user_meta'' ''local_name''" by (auto simp: has_col_def split: option.split)
  then have "migrated f'"
    using c 2 by (auto simp: migrated_def extends_def list_all_iff)
  moreover have "\<forall>q \<in> set always_run. \<not> sf_fault f' q"
    using c 2 faults1 ping by (auto simp: always_run_def extends_def list_all_iff)
  ultimately show ?thesis using dir by (intro Open_migrated)
qed

section \<open>Rows that can be read\<close>

definition val_ok :: "column \<Rightarrow> sql_val \<Rightarrow> bool" where
  "val_ok s v =
     (case v of
        SNull \<Rightarrow> \<not> co_notnull s
      | SInt _ \<Rightarrow> co_type s = T_Int
      | SReal _ \<Rightarrow> co_type s = T_Real
      | SText _ \<Rightarrow> co_type s = T_Text)"

text \<open>
  A table whose rows have the declared types, whose columns have one declaration each, and whose
  references with SET NULL can be set to NULL.
\<close>

definition table_ok :: "sql_table \<Rightarrow> bool" where
  "table_ok t \<longleftrightarrow> list_all (\<lambda>r. list_all (\<lambda>(c, s). val_ok s (r c)) (tb_cols t)) (tb_rows t)
     \<and> distinct (map fst (tb_cols t))
     \<and> list_all (\<lambda>f. re_action f = Set_Null \<longrightarrow>
         (case map_of (tb_cols t) (re_col f) of None \<Rightarrow> True | Some s \<Rightarrow> \<not> co_notnull s)) (tb_refs t)"

definition declares :: "sql_table \<Rightarrow> (string \<times> column) list \<Rightarrow> bool" where
  "declares t cs = list_all (\<lambda>(c, s). map_of (tb_cols t) c = Some s) cs"

text \<open>The columns that a version of the schema may lack, and those that the oldest one had.\<close>

definition cert_cols :: "(string \<times> column) list" where
  "cert_cols = [(''cert_title'', nullable T_Text), (''cert_key_pass'', nullable T_Text)]"

definition base_cols :: "sql_table \<Rightarrow> (string \<times> column) list" where
  "base_cols s = filter (\<lambda>(c, _). c \<notin> set (map fst cert_cols)) (tb_cols s)"

definition oldest_meta_cols :: "(string \<times> column) list" where
  "oldest_meta_cols = [(''id'', required T_Int), (''mikrotik_name'', required T_Text), (''manager_id'', nullable T_Int),
     (''contact_note'', nullable T_Text), (''notes'', nullable T_Text), (''created_at'', required T_Text),
     (''updated_at'', required T_Text)]"

definition known_table :: "string \<Rightarrow> sql_table \<Rightarrow> sql_table \<Rightarrow> bool" where
  "known_table n s t \<longleftrightarrow> table_ok t
     \<and> list_all (\<lambda>(c, s). map_of (tb_cols t) c \<in> {None, Some s}) cert_cols
     \<and> declares t (if n = ''vpn_user_meta'' \<and> has_cols t [''local_name''] then oldest_meta_cols else base_cols s)"

text \<open>A file of this panel, of whatever version: a table of the schema that it has is of a known version.\<close>

definition known_version :: "sql_file \<Rightarrow> bool" where
  "known_version f = list_all (\<lambda>(n, s). case sf_tables f n of None \<Rightarrow> True | Some t \<Rightarrow> known_table n s t) schema_tables"

definition up_to_date :: "sql_file \<Rightarrow> bool" where
  "up_to_date f = list_all (\<lambda>(n, s). case sf_tables f n of None \<Rightarrow> False
     | Some t \<Rightarrow> table_ok t \<and> declares t (tb_cols s)) schema_tables"

text \<open>The database that a file stores.\<close>

definition rows_of :: "sql_file \<Rightarrow> string \<Rightarrow> row list" where
  "rows_of f n = (case sf_tables f n of None \<Rightarrow> [] | Some t \<Rightarrow> tb_rows t)"

definition seq_of :: "sql_file \<Rightarrow> string \<Rightarrow> int" where
  "seq_of f n = (case sf_tables f n of None \<Rightarrow> 0 | Some t \<Rightarrow> tb_seq t)"

definition stored :: "sql_file \<Rightarrow> go_err + db" where
  "stored f =
     bindR (scan_rows scanAdmin (rows_of f ''panel_admins'')) (\<lambda>admins.
     bindR (scan_rows scanManager (rows_of f ''managers'')) (\<lambda>managers.
     bindR (scan_rows scanVPNMeta (rows_of f ''vpn_user_meta'')) (\<lambda>metas.
     bindR (scanActivations (rows_of f ''profile_activations'')) (\<lambda>acts.
     Inr \<lparr>db_admins = admins, db_managers = managers, db_metas = metas, db_acts = acts,
          seq_admins = seq_of f ''panel_admins'', seq_managers = seq_of f ''managers'',
          seq_metas = seq_of f ''vpn_user_meta'', seq_acts = seq_of f ''profile_activations'', db_fault = (\<lambda>_. False)\<rparr>))))"

text \<open>Values of a declared column can be read.\<close>

lemma val_ok_scan:
  "val_ok (required T_Int) v \<Longrightarrow> \<exists>n. scan_int v = Inr n"
  "val_ok (required T_Text) v \<Longrightarrow> \<exists>s. scan_str v = Inr s"
  "val_ok (nullable T_Int) v \<Longrightarrow> \<exists>n. scan_null scan_int v = Inr n"
  "val_ok (nullable T_Text) v \<Longrightarrow> \<exists>s. scan_null scan_str v = Inr s"
  "val_ok (nullable T_Real) v \<Longrightarrow> \<exists>x. scan_null scan_float v = Inr x"
  by (cases v; simp add: val_ok_def required_def nullable_def scan_null_def)+

lemma bindR_total: "\<exists>x. r = Inr x \<Longrightarrow> (\<And>x. \<exists>y. k x = Inr y) \<Longrightarrow> \<exists>y. bindR r k = Inr y"
  by (auto simp: bindR_def)

lemma declared_val: "table_ok t \<Longrightarrow> declares t cs \<Longrightarrow> r \<in> set (tb_rows t) \<Longrightarrow> list_all (\<lambda>(c, s). val_ok s (r c)) cs"
  by (auto simp: table_ok_def declares_def list_all_iff dest!: map_of_SomeD)

lemma scans_total:
  "list_all (\<lambda>(c, s). val_ok s (r c)) (tb_cols panel_admins_table) \<Longrightarrow> \<exists>x. scanAdmin r = Inr x"
  "list_all (\<lambda>(c, s). val_ok s (r c)) (tb_cols managers_table) \<Longrightarrow> \<exists>x. scanManager r = Inr x"
  "list_all (\<lambda>(c, s). val_ok s (r c)) (tb_cols vpn_user_meta_table) \<Longrightarrow> \<exists>x. scanVPNMeta r = Inr x"
  "list_all (\<lambda>(c, s). val_ok s (r c)) (tb_cols profile_activations_table) \<Longrightarrow> \<exists>x. scanActivation r = Inr x"
  unfolding scanAdmin_def scanManager_def scanVPNMeta_def scanActivation_def
  by (rule val_ok_scan bindR_total exI refl
      | simp add: panel_admins_table_def managers_table_def vpn_user_meta_table_def profile_activations_table_def new_table_def)+

lemma scan_rows_total: "(\<And>r. r \<in> set rs \<Longrightarrow> \<exists>x. sc r = Inr x) \<Longrightarrow> \<exists>xs. scan_rows sc rs = Inr xs"
  by (induction rs) (fastforce intro: bindR_total)+

lemma up_to_date_stored:
  assumes "up_to_date f"
  shows "\<exists>d. stored f = Inr d"
proof -
  have rows: "list_all (\<lambda>(c, s). val_ok s (r c)) (tb_cols s)" if "(n, s) \<in> set schema_tables" "r \<in> set (rows_of f n)" for n s r
    using assms that declared_val by (force simp: up_to_date_def list_all_iff rows_of_def split: option.splits)
  have "\<exists>xs. scan_rows scanAdmin (rows_of f ''panel_admins'') = Inr xs"
    by (intro scan_rows_total scans_total rows) (simp_all add: schema_tables_def)
  moreover have "\<exists>xs. scan_rows scanManager (rows_of f ''managers'') = Inr xs"
    by (intro scan_rows_total scans_total rows) (simp_all add: schema_tables_def)
  moreover have "\<exists>xs. scan_rows scanVPNMeta (rows_of f ''vpn_user_meta'') = Inr xs"
    by (intro scan_rows_total scans_total rows) (simp_all add: schema_tables_def)
  moreover have "\<exists>xs. scan_rows scanActivation (rows_of f ''profile_activations'') = Inr xs"
    by (intro scan_rows_total scans_total rows) (simp_all add: schema_tables_def)
  ultimately show ?thesis by (auto simp: stored_def scanActivations_def)
qed

section \<open>Bringing a file up to date\<close>

definition near_table :: "sql_table \<Rightarrow> sql_table \<Rightarrow> bool" where
  "near_table s t \<longleftrightarrow> table_ok t
     \<and> list_all (\<lambda>(c, s). map_of (tb_cols t) c \<in> {None, Some s}) cert_cols \<and> declares t (base_cols s)"

lemma table_ok_cong: "tb_cols t' = tb_cols t \<Longrightarrow> tb_rows t' = tb_rows t \<Longrightarrow>
    map (\<lambda>f. (re_col f, re_action f)) (tb_refs t') = map (\<lambda>f. (re_col f, re_action f)) (tb_refs t) \<Longrightarrow> table_ok t' = table_ok t"
proof -
  assume cols: "tb_cols t' = tb_cols t" "tb_rows t' = tb_rows t"
    and refs: "map (\<lambda>f. (re_col f, re_action f)) (tb_refs t') = map (\<lambda>f. (re_col f, re_action f)) (tb_refs t)"
  let ?P = "\<lambda>(c, a). a = Set_Null \<longrightarrow> (case map_of (tb_cols t) c of None \<Rightarrow> True | Some s \<Rightarrow> \<not> co_notnull s)"
  have "list_all ?P (map (\<lambda>f. (re_col f, re_action f)) (tb_refs t')) =
    list_all ?P (map (\<lambda>f. (re_col f, re_action f)) (tb_refs t))" by (simp only: refs)
  then show ?thesis by (simp add: table_ok_def cols list.pred_map comp_def)
qed

lemma rename_refs_ok [simp]: "table_ok (rename_refs a b t) = table_ok t" "tb_cols (rename_refs a b t) = tb_cols t"
  "tb_rows (rename_refs a b t) = tb_rows t"
proof -
  show "table_ok (rename_refs a b t) = table_ok t"
    by (rule table_ok_cong) (auto simp: rename_refs_def)
qed (simp_all add: rename_refs_def)

lemma parent_deleted_ok:
  assumes "table_ok t"
  shows "table_ok (parent_deleted n ids t) \<and> tb_cols (parent_deleted n ids t) = tb_cols t"
proof -
  let ?step = "\<lambda>f t. if re_parent f \<noteq> n then t else case re_action f of
      Cascade \<Rightarrow> t\<lparr>tb_rows := filter (\<lambda>r. r (re_col f) \<notin> set ids) (tb_rows t)\<rparr>
    | Set_Null \<Rightarrow> t\<lparr>tb_rows := map (\<lambda>r. if r (re_col f) \<in> set ids then r(re_col f := SNull) else r) (tb_rows t)\<rparr>"
  have "table_ok (fold ?step fs u) \<and> tb_cols (fold ?step fs u) = tb_cols u"
    if "set fs \<subseteq> set (tb_refs u)" "table_ok u" for fs u
    using that
  proof (induction fs arbitrary: u)
    case (Cons f fs)
    have null: "val_ok s SNull" if "(re_col f, s) \<in> set (tb_cols u)" "re_action f = Set_Null" for s
      using Cons.prems that by (auto simp: table_ok_def list_all_iff val_ok_def map_of_eq_Some_iff)
    have vals: "val_ok s (r c)" if "r \<in> set (tb_rows u)" "(c, s) \<in> set (tb_cols u)" for r c s
      using Cons.prems(2) that by (auto simp: table_ok_def list_all_iff)
    have "list_all (\<lambda>r. list_all (\<lambda>(c, s). val_ok s (r c)) (tb_cols u)) (tb_rows (?step f u))"
      using null vals by (auto simp: list_all_iff split: on_delete.split)
    then have "table_ok (?step f u)"
      using Cons.prems(2) by (auto simp: table_ok_def split: on_delete.splits)
    moreover have "tb_refs (?step f u) = tb_refs u" "tb_cols (?step f u) = tb_cols u" by (auto split: on_delete.split)
    ultimately show ?case using Cons.IH [of "?step f u"] Cons.prems by auto
  qed simp
  then show ?thesis using assms by (simp add: parent_deleted_def)
qed

lemma near_table_cong: "tb_cols t' = tb_cols t \<Longrightarrow> table_ok t' \<Longrightarrow> near_table s t \<Longrightarrow> near_table s t'"
  by (simp add: near_table_def declares_def)

lemma upgraded_meta_near:
  assumes "known_table ''vpn_user_meta'' s old" "has_cols old [''local_name'']"
  shows "near_table vpn_user_meta_table (upgraded_meta old)"
proof -
  have "list_all (\<lambda>(c, s). val_ok s (r c)) oldest_meta_cols" if "r \<in> set (tb_rows old)" for r
    using assms that by (intro declared_val [of old]) (auto simp: known_table_def)
  then have "list_all (\<lambda>(c, s). val_ok s (copied_row contact_info_dst contact_info_src r c)) (tb_cols vpn_user_meta_new)"
    if "r \<in> set (tb_rows old)" for r
    using that by (simp add: oldest_meta_cols_def copied_row_def contact_info_dst_def contact_info_src_def
        vpn_user_meta_new_def new_table_def)
  then have "table_ok (upgraded_meta old)"
    unfolding upgraded_meta_def rename_refs_ok
    by (simp add: with_rows_def table_ok_def list_all_iff)
       (simp add: meta_refs_def vpn_user_meta_new_def new_table_def nullable_def)
  then show ?thesis
    by (simp add: near_table_def upgraded_meta_def with_rows_def vpn_user_meta_new_def new_table_def cert_cols_def
        declares_def base_cols_def vpn_user_meta_table_def)
qed

lemma with_column_near:
  assumes "near_table s t" "c \<in> set (map fst cert_cols)" "\<not> has_cols t [c]"
  shows "near_table s (with_column c (nullable T_Text) t)"
proof -
  have c: "map_of (tb_cols t) c = None" using assms(3) by (simp add: map_of_eq_None_iff)
  have ok: "table_ok t" using assms(1) by (simp add: near_table_def)
  have vals: "val_ok s (r d)" if "r \<in> set (tb_rows t)" "(d, s) \<in> set (tb_cols t)" for r d s
    using ok that by (auto simp: table_ok_def list_all_iff)
  have null: "val_ok (nullable T_Text) SNull" by (simp add: val_ok_def nullable_def)
  have "list_all (\<lambda>r. list_all (\<lambda>(c, s). val_ok s (r c)) (tb_cols (with_column c (nullable T_Text) t)))
      (tb_rows (with_column c (nullable T_Text) t))"
    using vals null assms(3) by (force simp: with_column_def list_all_iff)
  then have "table_ok (with_column c (nullable T_Text) t)"
    using ok assms(3) c
    by (auto simp: table_ok_def with_column_def list_all_iff map_add_def nullable_def split: option.splits)
  moreover have "declares (with_column c (nullable T_Text) t) (base_cols s)"
  proof -
    have "map_of (tb_cols t) d = Some sp" if "(d, sp) \<in> set (base_cols s)" for d sp
      using assms(1) that by (auto simp: near_table_def declares_def list_all_iff)
    then show ?thesis using c by (auto simp: declares_def list_all_iff with_column_def map_add_def)
  qed
  moreover have "list_all (\<lambda>(d, s). map_of (tb_cols (with_column c (nullable T_Text) t)) d \<in> {None, Some s}) cert_cols"
    using assms(1) c by (auto simp: near_table_def with_column_def cert_cols_def map_add_def split: option.splits)
  ultimately show ?thesis by (simp add: near_table_def)
qed

lemma Open_up_to_date:
  assumes "Open mkdirFor path f = (Inr u, f')" "known_version f"
  shows "up_to_date f'"
proof -
  from assms(1) obtain f1 f2 where schema: "sql_execs schema_sql f = (Inr (), f1)"
    and contact: "migrateVPNMetaContactInfo f1 = (Inr (), f2)" and cert: "migrateCertificateColumns f2 = (Inr (), f')"
    by (rule Open_run)
  have fresh: "known_table n s s" if "(n, s) \<in> set schema_tables" for n s
  proof -
    have "list_all (\<lambda>(n, s). known_table n s s) schema_tables" by code_simp
    then show ?thesis using that by (auto simp: list_all_iff)
  qed
  have 1: "\<exists>t. sf_tables f1 n = Some t \<and> known_table n s t" if "(n, s) \<in> set schema_tables" for n s
  proof -
    have "map_of schema_tables n = Some s" using that by (auto simp: schema_tables_def)
    then show ?thesis
      using assms(2) fresh that schema_run(1) [OF schema]
      by (auto simp: known_version_def list_all_iff split: option.splits)
  qed
  have 2: "\<exists>t. sf_tables f2 n = Some t \<and> near_table s t" if ns: "(n, s) \<in> set schema_tables" for n s
    using contact
  proof (cases rule: contact_info_cases)
    case current
    then show ?thesis using 1 [OF ns] by (auto simp: known_table_def near_table_def split: if_splits)
  next
    case (oldest old)
    obtain t where t: "sf_tables f1 n = Some t" "known_table n s t" using 1 [OF ns] by blast
    note r = contact_info_run(1) [OF oldest(2,4)]
    show ?thesis
    proof (cases "n = ''vpn_user_meta''")
      case True
      then have "s = vpn_user_meta_table" using ns by (auto simp: schema_tables_def)
      then show ?thesis using upgraded_meta_near [of s old] t oldest(2,3) True by (simp add: r)
    next
      case False
      then have "near_table s t" using t by (simp add: known_table_def near_table_def)
      moreover have "n \<noteq> ''vpn_user_meta_new''" using ns by (auto simp: schema_tables_def)
      ultimately show ?thesis
        using t False by (auto simp: r near_table_def declares_def parent_deleted_ok)
    qed
  qed
  note c = cert_columns_extend [OF cert [unfolded migrateCertificateColumns_def]]
  have 3: "\<exists>t. sf_tables f' n = Some t \<and> near_table s t" if ns: "(n, s) \<in> set schema_tables" for n s
  proof -
    obtain t where t: "sf_tables f' n = Some t" using c 2 [OF ns] by (auto simp: extends_def) (metis option.exhaust)
    have "\<forall>s. (n, s) \<in> set schema_tables \<longrightarrow> near_table s t"
      by (rule cert_columns_keep [OF cert [unfolded migrateCertificateColumns_def] _ _ t, where
            P = "\<lambda>n t. \<forall>s. (n, s) \<in> set schema_tables \<longrightarrow> near_table s t"])
        (use 2 with_column_near in \<open>force simp: cert_columns_def cert_cols_def\<close>)+
    then show ?thesis using t ns by blast
  qed
  have "declares t (tb_cols s)" if ns: "(n, s) \<in> set schema_tables" and t: "sf_tables f' n = Some t" "near_table s t" for n s t
  proof -
    have "\<forall>(n, s) \<in> set schema_tables. \<forall>(d, sp) \<in> set (tb_cols s).
        d \<notin> set (map fst cert_cols) \<or> (d, sp) \<in> set cert_cols \<and> (n, d) \<in> set cert_columns" by code_simp
    then have split: "d \<notin> set (map fst cert_cols) \<or> (d, sp) \<in> set cert_cols \<and> (n, d) \<in> set cert_columns"
      if "(d, sp) \<in> set (tb_cols s)" for d sp using ns that by fast
    have cert: "map_of (tb_cols t) d \<noteq> None" if "(n, d) \<in> set cert_columns" for d
      using c that t(1) by (auto simp: list_all_iff has_col_def map_of_eq_None_iff)
    have "map_of (tb_cols t) d = Some sp" if d: "(d, sp) \<in> set (tb_cols s)" for d sp
      using split [OF d] cert [of d] t(2) d by (auto simp: near_table_def declares_def base_cols_def list_all_iff)
    then show ?thesis by (auto simp: declares_def list_all_iff)
  qed
  then show ?thesis using 3 by (fastforce simp: up_to_date_def list_all_iff near_table_def)
qed

text \<open>
  C21. Whatever earlier version of the panel wrote a database, once \<open>Open\<close> succeeded on it every
  column that the statements of the store name is there, with the type they expect, and every row
  reads into the structs without an error.
\<close>

theorem open_well_typed:
  assumes "Open mkdirFor path f = (Inr (), f')" "known_version f"
  shows "up_to_date f' \<and> (\<exists>d. stored f' = Inr d)"
  using Open_up_to_date [OF assms] up_to_date_stored by blast

section \<open>The oldest version\<close>

lemma copied_row_simps:
  "copied_row contact_info_dst contact_info_src r ''id'' = r ''id''"
  "copied_row contact_info_dst contact_info_src r ''mikrotik_name'' = r ''mikrotik_name''"
  "copied_row contact_info_dst contact_info_src r ''manager_id'' = r ''manager_id''"
  "copied_row contact_info_dst contact_info_src r ''contact_info'' = r ''contact_note''"
  "copied_row contact_info_dst contact_info_src r ''notes'' = r ''notes''"
  by (simp_all add: copied_row_def contact_info_dst_def contact_info_src_def)

definition user_columns :: "string \<Rightarrow> row \<Rightarrow> sql_val list" where
  "user_columns contact r = map r [''id'', ''mikrotik_name'', ''manager_id'', contact, ''notes'']"

text \<open>Adding columns changes the rows in the new columns only.\<close>

lemma cert_columns_rows:
  assumes "migrateCertificateColumns f = (Inr u, f')" "sf_tables f n = Some t" "sf_tables f' n = Some t'"
  shows "length (tb_rows t') = length (tb_rows t) \<and>
    (\<forall>i < length (tb_rows t). \<forall>c. c \<notin> set (map fst cert_cols) \<longrightarrow> (tb_rows t' ! i) c = (tb_rows t ! i) c)"
proof -
  let ?P = "\<lambda>m u. m = n \<longrightarrow> length (tb_rows u) = length (tb_rows t) \<and>
    (\<forall>i < length (tb_rows t). \<forall>c. c \<notin> set (map fst cert_cols) \<longrightarrow> (tb_rows u ! i) c = (tb_rows t ! i) c)"
  have "?P n t'"
    by (rule cert_columns_keep [OF assms(1) [unfolded migrateCertificateColumns_def] _ _ assms(3), where P = ?P])
      (use assms(2) in \<open>auto simp: with_column_def cert_columns_def cert_cols_def\<close>)
  then show ?thesis by simp
qed

text \<open>
  C20. Upgrading a database of the oldest version keeps every VPN user, with its owner, contact and
  notes, and erases the whole renewal ledger: the migration drops the old user table while foreign
  keys are enforced, and the activations of its users are deleted with it.
\<close>

theorem upgrade_erases_ledger:
  assumes "Open mkdirFor path f = (Inr (), f')"
    and "sf_tables f ''vpn_user_meta'' = Some old" "has_cols old [''local_name'']"
    and "sf_tables f ''profile_activations'' = Some acts" "tb_refs acts = activation_refs"
    and "\<forall>r \<in> set (tb_rows acts). r ''vpn_user_meta_id'' \<in> (\<lambda>q. q ''id'') ` set (tb_rows old)"
  shows "map (user_columns ''contact_info'') (rows_of f' ''vpn_user_meta'') = map (user_columns ''contact_note'') (tb_rows old)
    \<and> rows_of f' ''profile_activations'' = []"
proof -
  from assms(1) obtain f1 f2 where schema: "sql_execs schema_sql f = (Inr (), f1)"
    and contact: "migrateVPNMetaContactInfo f1 = (Inr (), f2)" and cert: "migrateCertificateColumns f2 = (Inr (), f')"
    by (rule Open_run)
  have 1: "sf_tables f1 ''vpn_user_meta'' = Some old" "sf_tables f1 ''profile_activations'' = Some acts"
    using assms(2,4) by (simp_all add: schema_run(1) [OF schema])
  have "sql_execs contact_info_stmts f1 = (Inr (), f2)"
    using contact assms(3) 1(1) by (cases rule: contact_info_cases) auto
  note r = contact_info_run(1) [OF 1(1) this]
  let ?acts = "rename_refs ''vpn_user_meta_new'' ''vpn_user_meta'' (parent_deleted ''vpn_user_meta'' (map (\<lambda>r. r ''id'') (tb_rows old)) acts)"
  have 2: "sf_tables f2 ''vpn_user_meta'' = Some (upgraded_meta old)" "sf_tables f2 ''profile_activations'' = Some ?acts"
    by (simp_all add: r 1(2))
  have none: "tb_rows ?acts = []"
    using assms(6) by (auto simp: parent_deleted_def assms(5) activation_refs_def filter_empty_conv)
  note c = cert_columns_extend [OF cert [unfolded migrateCertificateColumns_def]]
  have there: "\<exists>t'. sf_tables f' n = Some t'" if "sf_tables f2 n = Some t" for n t
    using c that by (cases "sf_tables f' n") (simp_all add: extends_def)
  obtain metas' where m: "sf_tables f' ''vpn_user_meta'' = Some metas'" using there [OF 2(1)] by blast
  obtain acts' where a: "sf_tables f' ''profile_activations'' = Some acts'" using there [OF 2(2)] by blast
  have "rows_of f' ''profile_activations'' = []"
    using cert_columns_rows [OF cert 2(2) a] none by (simp add: rows_of_def a)
  moreover have "map (user_columns ''contact_info'') (tb_rows metas') = map (user_columns ''contact_note'') (tb_rows old)"
  proof (rule nth_equalityI)
    have rows: "tb_rows (upgraded_meta old) = map (copied_row contact_info_dst contact_info_src) (tb_rows old)"
      by (simp add: upgraded_meta_def with_rows_def)
    note keep = cert_columns_rows [OF cert 2(1) m, unfolded rows]
    then show "length (map (user_columns ''contact_info'') (tb_rows metas')) = length (map (user_columns ''contact_note'') (tb_rows old))"
      by simp
    fix i assume "i < length (map (user_columns ''contact_info'') (tb_rows metas'))"
    then have i: "i < length (tb_rows metas')" "i < length (tb_rows old)" using keep by simp_all
    have "(tb_rows metas' ! i) c = copied_row contact_info_dst contact_info_src (tb_rows old ! i) c"
      if "c \<notin> set (map fst cert_cols)" for c using keep i that by simp
    then show "map (user_columns ''contact_info'') (tb_rows metas') ! i = map (user_columns ''contact_note'') (tb_rows old) ! i"
      using i by (simp add: user_columns_def copied_row_simps cert_cols_def)
  qed
  ultimately show ?thesis by (simp add: rows_of_def m)
qed

text \<open>A database of the oldest version with one manager, one VPN user and one activation of it.\<close>

definition oldest_file :: sql_file where
  "oldest_file = \<lparr>
     sf_tables = map_of
       [(''managers'', managers_table\<lparr>tb_cols := base_cols managers_table, tb_rows := [manager_row (sample_manager 1 ''ali'')], tb_seq := 1\<rparr>),
        (''panel_admins'', panel_admins_table),
        (''vpn_user_meta'', (new_table (oldest_meta_cols @ [(''local_name'', nullable T_Text), (''contact_phone'', nullable T_Text)])
            [''id'', ''mikrotik_name''] meta_refs)\<lparr>tb_rows := [row_of [(''id'', SInt 4), (''mikrotik_name'', SText ''ali_a''),
              (''manager_id'', SInt 1), (''contact_note'', SText ''tel''), (''created_at'', SText []), (''updated_at'', SText [])]], tb_seq := 9\<rparr>),
        (''profile_activations'', profile_activations_table\<lparr>tb_rows := [row_of [(''id'', SInt 1), (''vpn_user_meta_id'', SInt 4),
            (''profile_name'', SText ''p''), (''shared_users'', SInt 2), (''currency'', SText ''IRR''), (''is_settled'', SInt 0),
            (''created_at'', SText [])]], tb_seq := 1\<rparr>)],
     sf_indexes = Map.empty, sf_fault = (\<lambda>_. False)\<rparr>"

definition mkdir_ok :: "string \<Rightarrow> go_err option" where
  "mkdir_ok p = None"

lemma oldest_file_opens: "Open mkdir_ok ''panel.db'' oldest_file = (Inr (), snd (Open mkdir_ok ''panel.db'' oldest_file))"
proof -
  have "fst (Open mkdir_ok ''panel.db'' oldest_file) = Inr ()" by code_simp
  then show ?thesis by (simp add: prod_eq_iff)
qed

lemma open_twice_witness:
  "Open mkdir_ok ''panel.db'' (snd (Open mkdir_ok ''panel.db'' oldest_file)) = (Inr (), snd (Open mkdir_ok ''panel.db'' oldest_file))"
  by (rule open_twice [OF oldest_file_opens]) code_simp

lemma open_well_typed_witness: "up_to_date (snd (Open mkdir_ok ''panel.db'' oldest_file))"
proof -
  have "known_version oldest_file" by code_simp
  with open_well_typed [OF oldest_file_opens] show ?thesis by simp
qed

lemma upgrade_erases_ledger_witness:
  "rows_of oldest_file ''profile_activations'' \<noteq> [] \<and> rows_of (snd (Open mkdir_ok ''panel.db'' oldest_file)) ''profile_activations'' = []"
proof
  show "rows_of oldest_file ''profile_activations'' \<noteq> []" by code_simp
  have "\<exists>old. sf_tables oldest_file ''vpn_user_meta'' = Some old \<and> has_cols old [''local_name'']
      \<and> (\<forall>r \<in> set (rows_of oldest_file ''profile_activations''). r ''vpn_user_meta_id'' \<in> (\<lambda>q. q ''id'') ` set (tb_rows old))"
    by (simp add: oldest_file_def rows_of_def oldest_meta_cols_def new_table_def)
  then obtain old where old: "sf_tables oldest_file ''vpn_user_meta'' = Some old" "has_cols old [''local_name'']"
    "\<forall>r \<in> set (rows_of oldest_file ''profile_activations''). r ''vpn_user_meta_id'' \<in> (\<lambda>q. q ''id'') ` set (tb_rows old)" by blast
  obtain acts where acts: "sf_tables oldest_file ''profile_activations'' = Some acts" "tb_refs acts = activation_refs"
    by (simp add: oldest_file_def profile_activations_table_def new_table_def)
  from upgrade_erases_ledger [OF oldest_file_opens old(1,2) acts] old(3)
  show "rows_of (snd (Open mkdir_ok ''panel.db'' oldest_file)) ''profile_activations'' = []"
    by (simp add: rows_of_def acts(1))
qed

section \<open>The database of the model as a file\<close>

definition file_of :: "db \<Rightarrow> sql_file" where
  "file_of d = \<lparr>
     sf_tables = map_of
       [(''managers'', managers_table\<lparr>tb_rows := map manager_row (db_managers d), tb_seq := seq_managers d\<rparr>),
        (''panel_admins'', panel_admins_table\<lparr>tb_rows := map (\<lambda>a. stored_admin_row a []) (db_admins d), tb_seq := seq_admins d\<rparr>),
        (''vpn_user_meta'', vpn_user_meta_table\<lparr>tb_rows := map meta_row (db_metas d), tb_seq := seq_metas d\<rparr>),
        (''profile_activations'', profile_activations_table\<lparr>tb_rows := map activation_row (db_acts d), tb_seq := seq_acts d\<rparr>)],
     sf_indexes = map_of (map (\<lambda>(i, n, cs). (i, n)) schema_indexes), sf_fault = (\<lambda>_. False)\<rparr>"

text \<open>Every state of the store's model is stored by a file that needs no migration.\<close>

lemma stored_file_of: "stored (file_of d) = Inr (d\<lparr>db_fault := (\<lambda>_. False)\<rparr>)"
  by (simp add: stored_def rows_of_def seq_of_def file_of_def scan_rows_map scan_activations_rows)

lemma migrated_file_of: "migrated (file_of d)"
  unfolding migrated_def
  by (simp add: file_of_def has_col_def schema_tables_def schema_indexes_def cert_columns_def managers_table_def
      vpn_user_meta_table_def new_table_def)

text \<open>A migration that fails leaves the old user table as it was.\<close>

lemma contact_info_atomic: "migrateVPNMetaContactInfo f = (Inl e, f') \<Longrightarrow> f' = f"
  by (auto simp: migrateVPNMetaContactInfo_def bindE_def tableHasColumn_def returnE_apply
      split: prod.splits sum.splits if_splits dest: in_tx_Inl)

end
