(* ===== verification/Mikrotik_RouterOS.thy ===== *)
theory Mikrotik_RouterOS
  imports Mikrotik_Fake Config
begin

text \<open>
  The client of the real router (mikrotik/routeros.go, mikrotik/files.go) and the choice between it
  and the fake (mikrotik/client.go). The RouterOS library is a parameter: a record of the calls the
  code makes (dial, run a sentence, close) over a state \<open>'d\<close> of the device and the network, with
  \<open>'c\<close> for the library's connections. Its errors are \<open>ErrDevice\<close> (a \<open>*routeros.DeviceError\<close>)
  and \<open>ErrTransport\<close>, each with the text that \<open>Error()\<close> gives. The mutex of the client makes
  one call of \<open>run\<close> one step; it has no other counterpart here.
\<close>

section \<open>The library\<close>

text \<open>\<open>proto.Sentence.Map\<close>; a nil sentence or a nil map has no entry.\<close>

type_synonym sentence = "string \<rightharpoonup> string"

record ('c, 'd) routeros_lib =
  DialTLSContext :: "int \<Rightarrow> string \<Rightarrow> string \<Rightarrow> string \<Rightarrow> bool option \<Rightarrow> ('d, 'c) go"
  DialContext :: "int \<Rightarrow> string \<Rightarrow> string \<Rightarrow> string \<Rightarrow> ('d, 'c) go"
  RunContext :: "int \<Rightarrow> 'c \<Rightarrow> string list \<Rightarrow> ('d, sentence list) go"
  CloseClient :: "'c \<Rightarrow> 'd \<Rightarrow> 'd"

text \<open>
  The struct \<open>RouterOS\<close>; of the TLS configuration the code sets only \<open>InsecureSkipVerify\<close>, and
  \<open>None\<close> is the nil configuration. A state of the client is the struct and the device.
\<close>

record 'c router_os =
  ros_addr :: string
  ros_user :: string
  ros_pass :: string
  ros_useTLS :: bool
  ros_tls :: "bool option"
  ros_timeout :: int
  ros_cli :: "'c option"

record ('c, 'd) ros =
  ros_self :: "'c router_os"
  ros_dev :: 'd

definition NewRouterOS :: "string \<Rightarrow> string \<Rightarrow> string \<Rightarrow> bool \<Rightarrow> bool option \<Rightarrow> int \<Rightarrow> 'c router_os" where
  "NewRouterOS addr user pass useTLS tlsCfg timeout =
     \<lparr>ros_addr = addr, ros_user = user, ros_pass = pass, ros_useTLS = useTLS,
      ros_tls = (if useTLS \<and> tlsCfg = None then Some False else tlsCfg),
      ros_timeout = (if timeout \<le> 0 then seconds 10 else timeout), ros_cli = None\<rparr>"

text \<open>\<open>NewFromConfig\<close>: the fake (whose clock is in the zone given) or the real client.\<close>

definition NewFromConfig :: "int \<Rightarrow> config \<Rightarrow> fake_client + 'c router_os" where
  "NewFromConfig zone cfg =
     (if MikrotikFake cfg then Inl (NewFake zone)
      else
        let addr = MikrotikHost cfg @ '':'' @ int_str (MikrotikPort cfg);
            tlsCfg = (if MikrotikUseTLS cfg then Some (MikrotikTLSInsec cfg) else None)
        in Inr (NewRouterOS addr (MikrotikUser cfg) (MikrotikPass cfg) (MikrotikUseTLS cfg) tlsCfg (MikrotikTimeout cfg)))"

section \<open>Errors\<close>

text \<open>\<open>err.Error()\<close> for the errors of this package and of the library.\<close>

definition Error :: "go_err \<Rightarrow> string" where
  "Error e = (case e of
       ErrDevice s \<Rightarrow> s
     | ErrTransport s \<Rightarrow> s
     | ErrText s \<Rightarrow> s
     | ErrNotFound \<Rightarrow> ''mikrotik: not found''
     | ErrNameTaken \<Rightarrow> ''mikrotik: name taken''
     | ErrUnavailable s \<Rightarrow> ''mikrotik: unavailable: '' @ s
     | ErrProfileMissing \<Rightarrow> ''mikrotik: profile not found''
     | _ \<Rightarrow> [])"

definition isConnErr :: "go_err \<Rightarrow> bool" where
  "isConnErr e =
     (let s = Error e in
      sublist ''connection'' s \<or> sublist ''handshake'' s \<or> sublist ''EOF'' s \<or>
      sublist ''reset'' s \<or> sublist ''timeout'' s \<or> sublist ''closed'' s)"

definition mapDeviceErr :: "go_err \<Rightarrow> go_err" where
  "mapDeviceErr err =
     (case err of
        ErrDevice text \<Rightarrow>
          (let msg = toLower text in
           if sublist ''already'' msg \<or> sublist ''exists'' msg then ErrNameTaken
           else if sublist ''not found'' msg \<or> sublist ''no such'' msg then ErrNotFound
           else if sublist ''profile'' msg \<and> (sublist ''not'' msg \<or> sublist ''missing'' msg) then ErrProfileMissing
           else err)
      | _ \<Rightarrow> err)"

definition mapRunErr :: "go_err \<Rightarrow> go_err" where
  "mapRunErr err =
     (case err of
        ErrDevice _ \<Rightarrow> mapDeviceErr err
      | _ \<Rightarrow> if isConnErr err then ErrUnavailable (Error err) else err)"

section \<open>Running a command\<close>

text \<open>\<open>if r.cli == nil { dial }\<close>\<close>

definition connect :: "('c, 'd) routeros_lib \<Rightarrow> (('c, 'd) ros, 'c) go" where
  "connect L s =
     (let r = ros_self s in
      case ros_cli r of
        Some c \<Rightarrow> (Inr c, s)
      | None \<Rightarrow>
          (case (if ros_useTLS r
                 then DialTLSContext L (ros_timeout r) (ros_addr r) (ros_user r) (ros_pass r) (ros_tls r) (ros_dev s)
                 else DialContext L (ros_timeout r) (ros_addr r) (ros_user r) (ros_pass r) (ros_dev s)) of
             (Inl e, d) \<Rightarrow> (Inl (ErrUnavailable (Error e)), s\<lparr>ros_dev := d\<rparr>)
           | (Inr c, d) \<Rightarrow> (Inr c, s\<lparr>ros_self := r\<lparr>ros_cli := Some c\<rparr>, ros_dev := d\<rparr>)))"

definition run_on :: "('c, 'd) routeros_lib \<Rightarrow> string list \<Rightarrow> 'c \<Rightarrow> (('c, 'd) ros, sentence list) go" where
  "run_on L sentences c s =
     (case RunContext L (ros_timeout (ros_self s)) c sentences (ros_dev s) of
        (Inl e, d) \<Rightarrow>
          (Inl (mapRunErr e),
           if isConnErr e
           then s\<lparr>ros_self := (ros_self s)\<lparr>ros_cli := None\<rparr>, ros_dev := CloseClient L c d\<rparr>
           else s\<lparr>ros_dev := d\<rparr>)
      | (Inr re, d) \<Rightarrow> (Inr re, s\<lparr>ros_dev := d\<rparr>))"

definition run :: "('c, 'd) routeros_lib \<Rightarrow> string list \<Rightarrow> (('c, 'd) ros, sentence list) go" where
  "run L sentences = bindE (connect L) (run_on L sentences)"

text \<open>\<open>_, err := r.run(args); return mapDeviceErr(err)\<close>\<close>

definition run_cmd :: "('c, 'd) routeros_lib \<Rightarrow> string list \<Rightarrow> (('c, 'd) ros, unit) go" where
  "run_cmd L args =
     bindE (tryE (run L args)) (\<lambda>r. case r of Inl e \<Rightarrow> failE (mapDeviceErr e) | Inr _ \<Rightarrow> returnE ())"

section \<open>Reading sentences\<close>

definition map_get :: "sentence \<Rightarrow> string \<Rightarrow> string" where
  "map_get s k = (case s k of None \<Rightarrow> [] | Some v \<Rightarrow> v)"

definition field :: "sentence \<Rightarrow> string \<Rightarrow> string" where
  "field s key = (let v = map_get s key in if v \<noteq> [] then v else map_get s (''='' @ key))"

definition intField :: "sentence \<Rightarrow> string \<Rightarrow> int" where
  "intField s key = fst (parseInt (field s key))"

definition fieldYes :: "string \<Rightarrow> bool" where
  "fieldYes v = (toLower (trimSpace v) \<in> {''yes'', ''true'', ''1''})"

definition disabledYesNo :: "bool \<Rightarrow> string" where
  "disabledYesNo disabled = (if disabled then ''yes'' else ''no'')"

definition userFromSentence :: "sentence \<Rightarrow> mt_user" where
  "userFromSentence s =
     \<lparr>usr_ID = field s ''.id'', usr_Name = field s ''name'', usr_Password = field s ''password'',
      usr_SharedUsers = intField s ''shared-users'', usr_Comment = field s ''comment'',
      usr_Disabled = fieldYes (field s ''disabled'')\<rparr>"

definition profileFromSentence :: "sentence \<Rightarrow> user_profile" where
  "profileFromSentence s =
     \<lparr>prof_ID = field s ''.id'', prof_User = field s ''user'', prof_Profile = field s ''profile'',
      prof_State = field s ''state'', prof_EndTime = field s ''end-time''\<rparr>"

text \<open>The test helper \<open>fileFromSentence\<close> of files.go.\<close>

definition fileFromSentence :: "sentence \<Rightarrow> string \<times> string" where
  "fileFromSentence s = (field s ''name'', field s ''contents'')"

section \<open>Methods\<close>

definition RouterOS_Ping :: "('c, 'd) routeros_lib \<Rightarrow> (('c, 'd) ros, unit) go" where
  "RouterOS_Ping L = bindE (run L [''/system/identity/print'']) (\<lambda>_. returnE ())"

definition RouterOS_ListUsers :: "('c, 'd) routeros_lib \<Rightarrow> (('c, 'd) ros, mt_user list) go" where
  "RouterOS_ListUsers L =
     bindE (run L [''/user-manager/user/print'']) (\<lambda>re.
     returnE (filter (\<lambda>u. usr_Name u \<noteq> []) (map userFromSentence re)))"

definition RouterOS_GetUser :: "('c, 'd) routeros_lib \<Rightarrow> string \<Rightarrow> (('c, 'd) ros, mt_user) go" where
  "RouterOS_GetUser L name =
     bindE (RouterOS_ListUsers L) (\<lambda>users.
     case find (\<lambda>u. usr_Name u = name) users of None \<Rightarrow> failE ErrNotFound | Some u \<Rightarrow> returnE u)"

definition addUser_args :: "string \<Rightarrow> string \<Rightarrow> string \<Rightarrow> int \<Rightarrow> bool \<Rightarrow> string list" where
  "addUser_args name password comment sharedUsers disabled =
     [''/user-manager/user/add'', ''=name='' @ name, ''=password='' @ password,
      ''=shared-users='' @ int_str sharedUsers, ''=disabled='' @ disabledYesNo disabled]
     @ (if comment \<noteq> [] then [''=comment='' @ comment] else [])"

definition RouterOS_AddUser ::
  "('c, 'd) routeros_lib \<Rightarrow> string \<Rightarrow> string \<Rightarrow> string \<Rightarrow> int \<Rightarrow> bool \<Rightarrow> (('c, 'd) ros, unit) go" where
  "RouterOS_AddUser L name password comment sharedUsers disabled =
     run_cmd L (addUser_args name password comment sharedUsers disabled)"

definition setUser_args :: "string \<Rightarrow> string option \<Rightarrow> int option \<Rightarrow> string \<Rightarrow> bool option \<Rightarrow> string list" where
  "setUser_args i password sharedUsers comment disabled =
     [''/user-manager/user/set'', ''=numbers='' @ i]
     @ (case password of None \<Rightarrow> [] | Some p \<Rightarrow> [''=password='' @ p])
     @ (case sharedUsers of None \<Rightarrow> [] | Some n \<Rightarrow> [''=shared-users='' @ int_str n])
     @ (if comment \<noteq> [] then [''=comment='' @ comment] else [])
     @ (case disabled of None \<Rightarrow> [] | Some b \<Rightarrow> [''=disabled='' @ disabledYesNo b])"

definition RouterOS_SetUser ::
  "('c, 'd) routeros_lib \<Rightarrow> string \<Rightarrow> string option \<Rightarrow> int option \<Rightarrow> string \<Rightarrow> bool option \<Rightarrow> (('c, 'd) ros, unit) go" where
  "RouterOS_SetUser L name password sharedUsers comment disabled =
     bindE (RouterOS_GetUser L name) (\<lambda>u.
     run_cmd L (setUser_args (usr_ID u) password sharedUsers comment disabled))"

definition RouterOS_RemoveUser :: "('c, 'd) routeros_lib \<Rightarrow> string \<Rightarrow> (('c, 'd) ros, unit) go" where
  "RouterOS_RemoveUser L name =
     bindE (RouterOS_GetUser L name) (\<lambda>u.
     run_cmd L [''/user-manager/user/remove'', ''=numbers='' @ usr_ID u])"

definition RouterOS_ListUserProfiles :: "('c, 'd) routeros_lib \<Rightarrow> string \<Rightarrow> (('c, 'd) ros, user_profile list) go" where
  "RouterOS_ListUserProfiles L user =
     bindE (run L [''/user-manager/user-profile/print'', ''?user='' @ user]) (\<lambda>re.
     returnE (map (\<lambda>p. if prof_User p = [] then p\<lparr>prof_User := user\<rparr> else p)
       (filter (\<lambda>p. prof_User p \<noteq> [] \<or> prof_ID p \<noteq> []) (map profileFromSentence re))))"

definition RouterOS_AddUserProfile :: "('c, 'd) routeros_lib \<Rightarrow> string \<Rightarrow> string \<Rightarrow> (('c, 'd) ros, unit) go" where
  "RouterOS_AddUserProfile L user profile =
     run_cmd L [''/user-manager/user-profile/add'', ''=user='' @ user, ''=profile='' @ profile]"

definition RouterOS_RemoveUserProfile :: "('c, 'd) routeros_lib \<Rightarrow> string \<Rightarrow> (('c, 'd) ros, unit) go" where
  "RouterOS_RemoveUserProfile L i =
     run_cmd L [''/user-manager/user-profile/remove'', ''=numbers='' @ i]"

section \<open>Files and certificates\<close>

definition RouterOS_ReadFileContents :: "('c, 'd) routeros_lib \<Rightarrow> string \<Rightarrow> (('c, 'd) ros, string) go" where
  "RouterOS_ReadFileContents L name =
     bindE (run L [''/file/print'', ''?name='' @ name]) (\<lambda>re.
     case find (\<lambda>s. field s ''name'' = name) re of
       None \<Rightarrow> failE ErrNotFound
     | Some s \<Rightarrow>
         let c = field s ''contents'' in if c = [] then failE ErrNotFound else returnE c)"

definition fileID :: "('c, 'd) routeros_lib \<Rightarrow> string \<Rightarrow> (('c, 'd) ros, string) go" where
  "fileID L name =
     bindE (run L [''/file/print'', ''?name='' @ name]) (\<lambda>re.
     case find (\<lambda>s. field s ''name'' = name \<and> field s ''.id'' \<noteq> []) re of
       None \<Rightarrow> failE ErrNotFound
     | Some s \<Rightarrow> returnE (field s ''.id''))"

text \<open>An error of \<open>fileID\<close>, also one other than "not found", leads to \<open>/file/add\<close>.\<close>

definition RouterOS_WriteFileContents :: "('c, 'd) routeros_lib \<Rightarrow> string \<Rightarrow> string \<Rightarrow> (('c, 'd) ros, unit) go" where
  "RouterOS_WriteFileContents L name contents =
     bindE (tryE (fileID L name)) (\<lambda>r.
     bindE (run L (case r of
              Inr i \<Rightarrow> [''/file/set'', ''=numbers='' @ i, ''=contents='' @ contents]
            | Inl _ \<Rightarrow> [''/file/add'', ''=name='' @ name, ''=type=file'', ''=contents='' @ contents])) (\<lambda>_.
     returnE ()))"

definition removeFile :: "('c, 'd) routeros_lib \<Rightarrow> string \<Rightarrow> (('c, 'd) ros, unit) go" where
  "removeFile L name =
     bindE (tryE (fileID L name)) (\<lambda>r.
     case r of
       Inl e \<Rightarrow> if e = ErrNotFound then returnE () else failE e
     | Inr i \<Rightarrow> bindE (run L [''/file/remove'', ''=numbers='' @ i]) (\<lambda>_. returnE ()))"

definition rosQuote :: "string \<Rightarrow> string" where
  "rosQuote s0 =
     (let s1 = replaceAll [CHR 0x5C] [CHR 0x5C, CHR 0x5C] s0;
          s2 = replaceAll [CHR 0x22] [CHR 0x5C, CHR 0x22] s1
      in [CHR 0x22] @ s2 @ [CHR 0x22])"

definition cert_source :: "string \<Rightarrow> string \<Rightarrow> string \<Rightarrow> string" where
  "cert_source scriptName title passphrase =
     '':global TITLE '' @ rosQuote title @ ''; :global PASSPHRASE '' @ rosQuote passphrase
     @ ''; /system script run [find name='' @ scriptName @ '']''"

definition RouterOS_GenerateCertificate ::
  "('c, 'd) routeros_lib \<Rightarrow> string \<Rightarrow> string \<Rightarrow> string \<Rightarrow> (('c, 'd) ros, unit) go" where
  "RouterOS_GenerateCertificate L scriptName title passphrase =
     (let script = (if scriptName = [] then ''generate-certificate'' else scriptName);
          source = cert_source script title passphrase;
          temp = ''panel-cert-'' @ replaceAll ''/'' ''-'' title @ ''.rsc''
      in bindE (RouterOS_WriteFileContents L temp source) (\<lambda>_.
         bindE (tryE (run L [''/import'', ''=file-name='' @ temp])) (\<lambda>r.
         bindE (tryE (removeFile L temp)) (\<lambda>_.
         case r of Inl e \<Rightarrow> failE e | Inr _ \<Rightarrow> returnE ()))))"

definition RouterOS_FileExists :: "('c, 'd) routeros_lib \<Rightarrow> string \<Rightarrow> (('c, 'd) ros, bool) go" where
  "RouterOS_FileExists L name =
     bindE (tryE (fileID L name)) (\<lambda>r.
     case r of
       Inl e \<Rightarrow> if e = ErrNotFound then returnE False else failE e
     | Inr _ \<Rightarrow> returnE True)"

definition RouterOSClient :: "('c, 'd) routeros_lib \<Rightarrow> (('c, 'd) ros) client" where
  "RouterOSClient L = \<lparr>cl_Ping = RouterOS_Ping L, cl_ListUsers = (\<lambda>_. RouterOS_ListUsers L),
     cl_GetUser = (\<lambda>_. RouterOS_GetUser L), cl_AddUser = RouterOS_AddUser L, cl_SetUser = RouterOS_SetUser L,
     cl_RemoveUser = RouterOS_RemoveUser L, cl_ListUserProfiles = (\<lambda>_. RouterOS_ListUserProfiles L),
     cl_AddUserProfile = (\<lambda>_. RouterOS_AddUserProfile L), cl_RemoveUserProfile = RouterOS_RemoveUserProfile L,
     cl_GenerateCertificate = RouterOS_GenerateCertificate L, cl_ReadFileContents = RouterOS_ReadFileContents L,
     cl_WriteFileContents = RouterOS_WriteFileContents L, cl_FileExists = RouterOS_FileExists L,
     cl_InvalidateCache = (\<lambda>s. s)\<rparr>"

section \<open>Errors and the connection\<close>

lemma mapDeviceErr_idem: "mapDeviceErr (mapDeviceErr e) = mapDeviceErr e"
  by (cases e) (auto simp: mapDeviceErr_def Let_def)

lemma mapDeviceErr_run [simp]: "mapDeviceErr (mapRunErr e) = mapRunErr e"
proof (cases "\<exists>t. e = ErrDevice t")
  case True
  then show ?thesis by (auto simp: mapRunErr_def mapDeviceErr_idem)
next
  case False
  then show ?thesis by (cases e) (simp_all add: mapRunErr_def mapDeviceErr_def)
qed

lemma mapRunErr_unavailable:
  assumes "\<exists>t. e = ErrDevice t \<or> e = ErrTransport t"
  shows "(\<exists>t. mapRunErr e = ErrUnavailable t) \<longleftrightarrow> isConnErr e \<and> (\<exists>t. e = ErrTransport t)"
  using assms by (auto simp: mapRunErr_def mapDeviceErr_def Let_def split: if_splits)

lemma run_cmd_eq: "run_cmd L args = bindE (run L args) (\<lambda>_. returnE ())"
proof -
  have "mapDeviceErr e = e" if "run L args s = (Inl e, s')" for e s s'
    using that
    by (auto simp: run_def bindE_def connect_def run_on_def Let_def mapDeviceErr_def
        split: prod.splits sum.splits if_splits option.splits)
       (use mapDeviceErr_run in \<open>auto simp: mapDeviceErr_def\<close>)
  then show ?thesis
    by (auto simp: fun_eq_iff run_cmd_def bindE_def tryE_apply failE_apply returnE_apply split: prod.splits sum.splits)
qed

lemma connect_Inr: "connect L s = (Inr c, s') \<Longrightarrow> ros_cli (ros_self s') = Some c
    \<and> ros_self s' = (ros_self s)\<lparr>ros_cli := Some c\<rparr>"
  by (auto simp: connect_def Let_def split: option.splits prod.splits sum.splits if_splits)

lemma connect_Inl: "connect L s = (Inl e, s') \<Longrightarrow> ros_cli (ros_self s) = None
    \<and> (\<exists>d. s' = s\<lparr>ros_dev := d\<rparr>) \<and> (\<exists>t. e = ErrUnavailable t)"
  by (auto simp: connect_def Let_def split: option.splits prod.splits sum.splits if_splits)

text \<open>
  C32. The connection is there exactly when it can be used: after a command that was answered the
  client holds one; after "unavailable" it holds none, so the next command dials again; and a command
  never touches the address, the account, the TLS settings or the timeout.
\<close>

theorem run_connection:
  assumes "\<And>t c ws d e d'. RunContext L t c ws d = (Inl e, d') \<Longrightarrow> \<exists>x. e = ErrDevice x \<or> e = ErrTransport x"
    and "run L ws s = (r, s')"
  shows "(\<forall>re. r = Inr re \<longrightarrow> ros_cli (ros_self s') \<noteq> None)
    \<and> (\<forall>t. r = Inl (ErrUnavailable t) \<longrightarrow> ros_cli (ros_self s') = None)
    \<and> (\<exists>c. ros_self s' = (ros_self s)\<lparr>ros_cli := c\<rparr>)"
proof -
  obtain q s1 where con: "connect L s = (q, s1)" by (cases "connect L s")
  show ?thesis
  proof (cases q)
    case (Inl e)
    then have "r = Inl e" "s' = s1" using assms(2) con by (auto simp: run_def bindE_def)
    then show ?thesis using connect_Inl [of L s e s1] con Inl by (auto intro: exI [of _ None])
  next
    case (Inr c)
    then have run: "run_on L ws c s1 = (r, s')" using assms(2) con by (simp add: run_def bindE_def)
    have s1: "ros_self s1 = (ros_self s)\<lparr>ros_cli := Some c\<rparr>"
      using connect_Inr [of L s c s1] con Inr by auto
    obtain x d1 where lib: "RunContext L (ros_timeout (ros_self s1)) c ws (ros_dev s1) = (x, d1)"
      by (cases "RunContext L (ros_timeout (ros_self s1)) c ws (ros_dev s1)")
    show ?thesis
    proof (cases x)
      case (Inl e)
      then show ?thesis
        using run lib s1 mapRunErr_unavailable [OF assms(1), of _ _ _ _ e d1] by (auto simp: run_on_def)
    next
      case (Inr re)
      then show ?thesis using run lib s1 by (auto simp: run_on_def)
    qed
  qed
qed

text \<open>A library whose device answers nothing but "no such command", for the examples.\<close>

definition deaf_lib :: "(nat, nat) routeros_lib" where
  "deaf_lib = \<lparr>DialTLSContext = (\<lambda>t addr user pass cfg d. (Inr d, d + 1)),
     DialContext = (\<lambda>t addr user pass d. (Inr d, d + 1)),
     RunContext = (\<lambda>t c ws d. if ws = [''/quit''] then (Inl (ErrTransport ''connection reset''), d)
       else (Inl (ErrDevice ''from RouterOS device: no such command''), d)),
     CloseClient = (\<lambda>c d. d)\<rparr>"

definition deaf_state :: "(nat, nat) ros" where
  "deaf_state = \<lparr>ros_self = NewRouterOS ''10.0.0.1:8729'' ''admin'' [] True None 0, ros_dev = 7\<rparr>"

lemma run_connection_witness:
  "ros_cli (ros_self (snd (run deaf_lib [''/quit''] (snd (run deaf_lib [''/system/identity/print''] deaf_state))))) = None"
proof -
  let ?s = "snd (run deaf_lib [''/system/identity/print''] deaf_state)"
  have lib: "\<exists>x. e = ErrDevice x \<or> e = ErrTransport x" if "RunContext deaf_lib t c ws d = (Inl e, d')" for t c ws d e d'
    using that by (auto simp: deaf_lib_def split: if_splits)
  have "case fst (run deaf_lib [''/quit''] ?s) of Inl (ErrUnavailable t) \<Rightarrow> True | _ \<Rightarrow> False" by code_simp
  then obtain t where "run deaf_lib [''/quit''] ?s = (Inl (ErrUnavailable t), snd (run deaf_lib [''/quit''] ?s))"
    by (auto simp: prod_eq_iff split: sum.splits go_err.splits)
  from run_connection [OF lib this] show ?thesis by simp
qed

section \<open>What the sentences say\<close>

text \<open>
  The words of the RouterOS protocol: \<open>=key=value\<close> gives the attribute \<open>key\<close> the value
  \<open>value\<close>, which may contain further equality signs. An attribute list as the library returns it.
\<close>

definition parse_word :: "string \<Rightarrow> (string \<times> string) option" where
  "parse_word word =
     (case word of
        CHR ''='' # rest \<Rightarrow>
          let k = takeWhile (\<lambda>c. c \<noteq> CHR ''='') rest in Some (k, drop (length k + 1) rest)
      | _ \<Rightarrow> None)"

definition words_sentence :: "string list \<Rightarrow> sentence" where
  "words_sentence ws = map_of (List.map_filter parse_word ws)"

lemma parse_word_attribute:
  assumes "CHR ''='' \<notin> set k"
  shows "parse_word (CHR ''='' # k @ CHR ''='' # v) = Some (k, v)"
proof -
  have "takeWhile (\<lambda>c. c \<noteq> CHR ''='') (k @ CHR ''='' # v) = k"
    using assms by (subst takeWhile_append2) auto
  then show ?thesis by (simp add: parse_word_def)
qed

lemma fieldYes_yesNo [simp]: "fieldYes (disabledYesNo b) = b"
  by (cases b) (simp_all add: disabledYesNo_def, code_simp+)

text \<open>
  What \<open>AddUser\<close> writes is what \<open>ListUsers\<close> reads back: an attribute list made of the
  words of the command is the user with the given name, password, slots,
  comment and state, whatever characters they contain.
\<close>

lemma add_user_read_back:
  assumes "in_i64 shared"
  shows "userFromSentence (words_sentence (addUser_args name password comment shared disabled)) =
    \<lparr>usr_ID = [], usr_Name = name, usr_Password = password, usr_SharedUsers = shared,
     usr_Comment = comment, usr_Disabled = disabled\<rparr>"
proof -
  have w: "parse_word (''=name='' @ v) = Some (''name'', v)" "parse_word (''=password='' @ v) = Some (''password'', v)"
    "parse_word (''=shared-users='' @ v) = Some (''shared-users'', v)"
    "parse_word (''=disabled='' @ v) = Some (''disabled'', v)"
    "parse_word (''=comment='' @ v) = Some (''comment'', v)"
    "parse_word ''/user-manager/user/add'' = None" for v
    using parse_word_attribute [of "''name''" v] parse_word_attribute [of "''password''" v]
      parse_word_attribute [of "''shared-users''" v] parse_word_attribute [of "''disabled''" v]
      parse_word_attribute [of "''comment''" v] by (simp_all add: parse_word_def)
  have "words_sentence (addUser_args name password comment shared disabled) =
    map_of ([(''name'', name), (''password'', password), (''shared-users'', int_str shared),
      (''disabled'', disabledYesNo disabled)] @ (if comment \<noteq> [] then [(''comment'', comment)] else []))"
    by (simp add: words_sentence_def addUser_args_def map_filter_simps w [simplified])
  moreover have "int_str shared \<noteq> []" using parseInt_int_str [OF assms] by (auto simp: parseInt_def)
  moreover have "disabledYesNo disabled \<noteq> []" by (simp add: disabledYesNo_def)
  ultimately show ?thesis
    using parseInt_int_str [OF assms]
    by (simp add: userFromSentence_def field_def map_get_def intField_def Let_def)
qed

text \<open>
  The two routers differ: changing a user with the empty comment clears the comment on the fake,
  but the command for the real router says nothing about the comment, so it keeps the old one.
\<close>

lemma set_user_comment_differs:
  "\<not> list_ex (prefix ''=comment='') (setUser_args i password shared [] disabled)
   \<and> (map_of (fk_users f) name = Some u \<longrightarrow>
        map_option usr_Comment (map_of (fk_users (snd (Fake_SetUser name password shared [] disabled f))) name) = Some [])"
  by (auto simp: setUser_args_def Fake_SetUser_def set_fields_def update_conv' split: option.splits)

text \<open>
  A command that runs into its deadline is not taken for a connection error: when the library
  answers with the error of the context, the caller sees this error and not "unavailable", and the
  client keeps the connection.
\<close>

lemma deadline_keeps_connection:
  assumes "ros_cli (ros_self s) = Some c"
    and "RunContext L (ros_timeout (ros_self s)) c ws (ros_dev s) = (Inl (ErrTransport ''context deadline exceeded''), d)"
  shows "run L ws s = (Inl (ErrTransport ''context deadline exceeded''), s\<lparr>ros_dev := d\<rparr>)"
proof -
  have "\<not> isConnErr (ErrTransport ''context deadline exceeded'')" by code_simp
  then show ?thesis
    using assms by (simp add: run_def bindE_def connect_def run_on_def mapRunErr_def)
qed

section \<open>The script that makes a certificate\<close>

text \<open>
  A string literal of the RouterOS language, as far as \<open>rosQuote\<close> uses it: it begins with a
  quotation mark, a backslash quotes the next character, and an unquoted mark ends it. The reader
  returns the text and what follows the literal.
\<close>

fun literal_body :: "string \<Rightarrow> (string \<times> string) option" where
  "literal_body [] = None"
| "literal_body (c # cs) =
     (if c = CHR 0x22 then Some ([], cs)
      else if c = CHR 0x5C then
        (case cs of
           [] \<Rightarrow> None
         | d # ds \<Rightarrow>
             if d = CHR 0x22 \<or> d = CHR 0x5C
             then (case literal_body ds of None \<Rightarrow> None | Some (t, rest) \<Rightarrow> Some (d # t, rest)) else None)
      else (case literal_body cs of None \<Rightarrow> None | Some (t, rest) \<Rightarrow> Some (c # t, rest)))"

definition read_literal :: "string \<Rightarrow> (string \<times> string) option" where
  "read_literal s = (case s of [] \<Rightarrow> None | c # cs \<Rightarrow> if c = CHR 0x22 then literal_body cs else None)"

definition after :: "string \<Rightarrow> string \<Rightarrow> string option" where
  "after p s = (if prefix p s then Some (drop (length p) s) else None)"

text \<open>The script \<open>:global TITLE t; :global PASSPHRASE p; \<dots>\<close>, read back.\<close>

definition read_source :: "string \<Rightarrow> (string \<times> string \<times> string) option" where
  "read_source s =
     (case after '':global TITLE '' s of None \<Rightarrow> None
      | Some s1 \<Rightarrow> (case read_literal s1 of None \<Rightarrow> None
      | Some (t, s2) \<Rightarrow> (case after ''; :global PASSPHRASE '' s2 of None \<Rightarrow> None
      | Some s3 \<Rightarrow> (case read_literal s3 of None \<Rightarrow> None
      | Some (p, s4) \<Rightarrow> Some (t, p, s4)))))"

lemma replaceAll_char: "replaceAll [c] new s = concat (map (\<lambda>x. if x = c then new else [x]) s)"
  by (induction s) (auto simp: prefix_def)

lemma rosQuote_eq:
  "rosQuote s = CHR 0x22 # concat (map (\<lambda>c. if c = CHR 0x22 \<or> c = CHR 0x5C then [CHR 0x5C, c] else [c]) s) @ [CHR 0x22]"
  unfolding rosQuote_def Let_def replaceAll_char by (induction s) auto

lemma read_rosQuote: "read_literal (rosQuote s @ rest) = Some (s, rest)"
proof -
  let ?q = "\<lambda>c. if c = CHR 0x22 \<or> c = CHR 0x5C then [CHR 0x5C, c] else [c :: char]"
  have "literal_body (concat (map ?q s) @ CHR 0x22 # rest) = Some (s, rest)"
    by (induction s) auto
  then show ?thesis by (simp add: read_literal_def rosQuote_eq)
qed

lemma after_append [simp]: "after p (p @ s) = Some s"
  by (simp add: after_def)


end
