(* ===== verification/Mikrotik_Device.thy ===== *)
theory Mikrotik_Device
  imports Mikrotik_RouterOS
begin

text \<open>
  The real client keeps the contract that the panel relies on. The locale \<open>user_manager_device\<close>
  states what is documented of a RouterOS device with the User Manager package, seen through the
  library while the connection holds: a command that is refused (a trap) has not been carried out,
  \<open>print\<close> lists the rows that match, \<open>add\<close> appends a row made of its words, \<open>set\<close>
  and \<open>remove\<close> change the row with the given number, names and numbers are unique. From these laws
  \<open>RouterOSClient\<close> is a \<open>user_manager\<close>. A small device that checks every change before it
  commits shows that the laws can hold.
\<close>

section \<open>The device\<close>

text \<open>The attributes that the client reads are stored under their plain names.\<close>

definition plain :: "sentence \<Rightarrow> bool" where
  "plain s \<longleftrightarrow> list_all (\<lambda>k. s (''='' @ k) = None)
     [''.id'', ''name'', ''password'', ''shared-users'', ''comment'', ''disabled'', ''user'', ''profile'', ''state'', ''end-time'']"

definition rows_ok :: "sentence list \<Rightarrow> sentence list \<Rightarrow> bool" where
  "rows_ok us ps \<longleftrightarrow> distinct (map (\<lambda>s. field s ''name'') us) \<and> distinct (map (\<lambda>s. field s ''.id'') us)
     \<and> list_all (\<lambda>s. field s ''name'' \<noteq> [] \<and> plain s) us
     \<and> list_all (\<lambda>p. plain p \<and> field p ''user'' \<in> set (map (\<lambda>s. field s ''name'') us)) ps"

definition changing :: "string set" where
  "changing = {''/user-manager/user/add'', ''/user-manager/user/set'', ''/user-manager/user/remove'',
     ''/user-manager/user-profile/add'', ''/user-manager/user-profile/remove''}"

locale user_manager_device =
  fixes L :: "('c, 'd) routeros_lib" and good :: "'d \<Rightarrow> bool" and urows prows :: "'d \<Rightarrow> sentence list"
  assumes rows: "good d \<Longrightarrow> rows_ok (urows d) (prows d)"
    and dial_tls: "good d \<Longrightarrow> DialTLSContext L t addr user pass cfg d = (r, d') \<Longrightarrow>
      good d' \<and> urows d' = urows d \<and> prows d' = prows d"
    and dial_plain: "good d \<Longrightarrow> DialContext L t addr user pass d = (r, d') \<Longrightarrow>
      good d' \<and> urows d' = urows d \<and> prows d' = prows d"
    and close: "good d \<Longrightarrow> good (CloseClient L c d) \<and> urows (CloseClient L c d) = urows d \<and> prows (CloseClient L c d) = prows d"
    and refused: "good d \<Longrightarrow> RunContext L t c ws d = (Inl e, d') \<Longrightarrow>
      good d' \<and> urows d' = urows d \<and> prows d' = prows d \<and> (\<exists>x. e = ErrDevice x \<or> e = ErrTransport x)"
    and listing_known: "good d \<Longrightarrow> RunContext L t c [''/user-manager/user/print''] d = (Inl e, d') \<Longrightarrow>
      mapDeviceErr e \<noteq> ErrNotFound"
    and reading: "good d \<Longrightarrow> RunContext L t c ws d = (Inr re, d') \<Longrightarrow> hd ws \<notin> changing \<Longrightarrow>
      good d' \<and> urows d' = urows d \<and> prows d' = prows d"
    and users_listed: "good d \<Longrightarrow> RunContext L t c [''/user-manager/user/print''] d = (Inr re, d') \<Longrightarrow> re = urows d"
    and profiles_listed: "good d \<Longrightarrow> RunContext L t c [''/user-manager/user-profile/print'', ''?user='' @ name] d = (Inr re, d') \<Longrightarrow>
      re = filter (\<lambda>s. field s ''user'' = name) (prows d)"
    and numbers: "good d \<Longrightarrow> RunContext L t c ws d = (Inr re, d') \<Longrightarrow> ''=shared-users='' @ v \<in> set ws \<Longrightarrow>
      snd (parseInt v) = None"
    and user_added: "good d \<Longrightarrow> RunContext L t c (''/user-manager/user/add'' # ws) d = (Inr re, d') \<Longrightarrow>
      good d' \<and> prows d' = prows d \<and> (\<exists>i. urows d' = urows d @ [(words_sentence ws)(''.id'' \<mapsto> i)])"
    and user_set: "good d \<Longrightarrow> RunContext L t c (''/user-manager/user/set'' # (''=numbers='' @ i) # ws) d = (Inr re, d') \<Longrightarrow>
      good d' \<and> prows d' = prows d \<and>
      urows d' = map (\<lambda>s. if field s ''.id'' = i then s ++ words_sentence ws else s) (urows d)"
    and user_removed: "good d \<Longrightarrow> RunContext L t c [''/user-manager/user/remove'', ''=numbers='' @ i] d = (Inr re, d') \<Longrightarrow>
      good d' \<and> urows d' = filter (\<lambda>s. field s ''.id'' \<noteq> i) (urows d) \<and>
      prows d' = filter (\<lambda>p. field p ''user'' \<in> set (map (\<lambda>s. field s ''name'') (urows d'))) (prows d)"
    and profile_added: "good d \<Longrightarrow> RunContext L t c (''/user-manager/user-profile/add'' # ws) d = (Inr re, d') \<Longrightarrow>
      good d' \<and> urows d' = urows d \<and>
      filter (\<lambda>p. field p ''user'' \<noteq> map_get (words_sentence ws) ''user'') (prows d') =
        filter (\<lambda>p. field p ''user'' \<noteq> map_get (words_sentence ws) ''user'') (prows d) \<and>
      (\<exists>p \<in> set (prows d'). words_sentence ws \<subseteq>\<^sub>m p)"
    and profile_removed: "good d \<Longrightarrow> RunContext L t c [''/user-manager/user-profile/remove'', ''=numbers='' @ i] d = (Inr re, d') \<Longrightarrow>
      good d' \<and> urows d' = urows d \<and> prows d' = filter (\<lambda>p. field p ''.id'' \<noteq> i) (prows d)"

text \<open>The tables that the client shows of a device.\<close>

definition ros_users :: "('d \<Rightarrow> sentence list) \<Rightarrow> ('c, 'd) ros \<Rightarrow> string \<rightharpoonup> mt_user" where
  "ros_users urows s = user_map (map userFromSentence (urows (ros_dev s)))"

definition ros_profiles :: "('d \<Rightarrow> sentence list) \<Rightarrow> ('c, 'd) ros \<Rightarrow> string \<Rightarrow> user_profile list" where
  "ros_profiles prows s name = map profileFromSentence (filter (\<lambda>p. field p ''user'' = name) (prows (ros_dev s)))"

section \<open>Sentences\<close>

lemma plain_field: "plain s \<Longrightarrow> k \<in> {''.id'', ''name'', ''password'', ''shared-users'', ''comment'', ''disabled'', ''user'',
    ''profile'', ''state'', ''end-time''} \<Longrightarrow> field s k = map_get s k"
  by (auto simp: plain_def field_def map_get_def Let_def)

lemma words_sentence_Nil [simp]: "words_sentence [] = Map.empty"
  by (simp add: words_sentence_def map_filter_simps)

lemma words_sentence_word [simp]:
  "CHR ''='' \<notin> set k \<Longrightarrow> words_sentence ((CHR ''='' # k @ CHR ''='' # v) # ws) = (words_sentence ws)(k \<mapsto> v)"
  by (simp add: words_sentence_def map_filter_simps parse_word_attribute)

lemmas words_simps =
  words_sentence_word [of "''name''", simplified] words_sentence_word [of "''password''", simplified]
  words_sentence_word [of "''shared-users''", simplified] words_sentence_word [of "''disabled''", simplified]
  words_sentence_word [of "''comment''", simplified] words_sentence_word [of "''user''", simplified]
  words_sentence_word [of "''profile''", simplified]

lemma number_round:
  assumes "snd (parseInt (int_str n)) = None"
  shows "fst (parseInt (int_str n)) = n"
proof (cases "n < 0")
  case True
  then show ?thesis using assms nat_str_digits [of "nat (- n)"]
    by (auto simp: parseInt_def int_str_def Let_def split: if_splits)
next
  case False
  then show ?thesis using assms nat_str_digits [of "nat n"] nat_str_no_sign [of "nat n"]
    by (auto simp: parseInt_def int_str_def Let_def split: if_splits)
qed

text \<open>The words of the two commands that write users, as the client reads them.\<close>

lemma addUser_read:
  assumes "plain ((words_sentence (tl (addUser_args name password comment shared disabled)))(''.id'' \<mapsto> i))"
    and "snd (parseInt (int_str shared)) = None"
  shows "userFromSentence ((words_sentence (tl (addUser_args name password comment shared disabled)))(''.id'' \<mapsto> i)) =
    \<lparr>usr_ID = i, usr_Name = name, usr_Password = password, usr_SharedUsers = shared,
     usr_Comment = comment, usr_Disabled = disabled\<rparr>"
  using assms(1) number_round [OF assms(2)]
  by (cases "comment = []")
     (simp_all add: userFromSentence_def intField_def plain_field addUser_args_def words_simps map_get_def)

lemma setUser_keys:
  "words_sentence (drop 2 (setUser_args i password shared comment disabled)) k \<noteq> None \<Longrightarrow>
     k \<in> {''password'', ''shared-users'', ''comment'', ''disabled''}"
  by (cases password; cases shared; cases disabled; cases "comment = []")
     (auto simp: setUser_args_def words_simps split: if_splits)

lemma setUser_read:
  assumes "plain s" "plain (s ++ words_sentence (drop 2 (setUser_args i password shared comment disabled)))"
    and "case shared of None \<Rightarrow> True | Some n \<Rightarrow> snd (parseInt (int_str n)) = None"
  shows "userFromSentence (s ++ words_sentence (drop 2 (setUser_args i password shared comment disabled))) =
    set_fields password shared (if comment \<noteq> [] then comment else usr_Comment (userFromSentence s)) disabled (userFromSentence s)"
  using assms number_round
  by (cases password; cases shared; cases disabled; cases "comment = []")
     (simp_all add: userFromSentence_def intField_def plain_field setUser_args_def words_simps map_get_def map_add_def
       set_fields_def)

section \<open>Tables\<close>

lemma user_map_SomeI: "distinct (map usr_Name us) \<Longrightarrow> u \<in> set us \<Longrightarrow> user_map us (usr_Name u) = Some u"
  by (simp add: user_map_Some)

lemma map_eqI: "(\<And>k v. m k = Some v \<longleftrightarrow> m' k = Some v) \<Longrightarrow> m = m'"
  by (rule ext) (metis not_None_eq)

lemma user_map_snoc: "distinct (map usr_Name (us @ [u])) \<Longrightarrow> user_map (us @ [u]) = (user_map us)(usr_Name u \<mapsto> u)"
  using user_map_Some [of us] user_map_Some [of "us @ [u]"]
  by (intro map_eqI) (auto split: if_splits, metis image_eqI)

lemma user_map_change:
  assumes "distinct (map usr_Name us)" "distinct (map usr_ID us)" "u \<in> set us" "usr_Name v = usr_Name u"
  shows "user_map (map (\<lambda>x. if usr_ID x = usr_ID u then v else x) us) = (user_map us)(usr_Name u \<mapsto> v)"
proof -
  have one: "x = u" if "x \<in> set us" "usr_ID x = usr_ID u" for x
    using assms(2,3) that by (simp add: distinct_map inj_on_def)
  have names: "map usr_Name (map (\<lambda>x. if usr_ID x = usr_ID u then v else x) us) = map usr_Name us"
    using one assms(4) by auto
  have "x = u" if "x \<in> set us" "usr_Name x = usr_Name u" for x
    using assms(1,3) that by (simp add: distinct_map inj_on_def)
  moreover note user_map_Some [of "map (\<lambda>x. if usr_ID x = usr_ID u then v else x) us", unfolded names, OF assms(1)]
    user_map_Some [OF assms(1)]
  ultimately show ?thesis
    using one assms(3,4) by (intro map_eqI) (auto split: if_splits dest: one)
qed

lemma user_map_drop:
  assumes "distinct (map usr_Name us)" "distinct (map usr_ID us)" "u \<in> set us"
  shows "user_map (filter (\<lambda>x. usr_ID x \<noteq> usr_ID u) us) = (user_map us)(usr_Name u := None)"
proof -
  have id: "x = u" if "x \<in> set us" "usr_ID x = usr_ID u" for x
    using assms(2,3) that by (simp add: distinct_map inj_on_def)
  have name: "x = u" if "x \<in> set us" "usr_Name x = usr_Name u" for x
    using assms(1,3) that by (simp add: distinct_map inj_on_def)
  have "distinct (map usr_Name (filter (\<lambda>x. usr_ID x \<noteq> usr_ID u) us))" using assms(1) by (rule distinct_map_filter)
  note user_map_Some [OF this] user_map_Some [OF assms(1)]
  then show ?thesis
    using assms(3) by (intro map_eqI) (auto split: if_splits dest: id name)
qed

context user_manager_device
begin

abbreviation (input) users :: "('c, 'd) ros \<Rightarrow> string \<rightharpoonup> mt_user" where "users \<equiv> ros_users urows"
abbreviation (input) profiles :: "('c, 'd) ros \<Rightarrow> string \<Rightarrow> user_profile list" where "profiles \<equiv> ros_profiles prows"
abbreviation (input) ok :: "('c, 'd) ros \<Rightarrow> bool" where "ok \<equiv> \<lambda>s. good (ros_dev s)"

text \<open>\<open>kept s s'\<close>: the device is good and its tables are as before.\<close>

definition kept :: "('c, 'd) ros \<Rightarrow> ('c, 'd) ros \<Rightarrow> bool" where
  "kept s s' \<longleftrightarrow> good (ros_dev s') \<and> urows (ros_dev s') = urows (ros_dev s) \<and> prows (ros_dev s') = prows (ros_dev s)"

lemma kept_tables: "kept s s' \<Longrightarrow> users s' = users s \<and> profiles s' = profiles s"
  by (simp add: kept_def ros_users_def ros_profiles_def fun_eq_iff)

lemma connect_kept:
  assumes "ok s" "connect L s = (r, s')"
  shows "kept s s'"
proof (cases "ros_cli (ros_self s)")
  case None
  let ?r = "ros_self s"
  obtain q d where dial: "(if ros_useTLS ?r
      then DialTLSContext L (ros_timeout ?r) (ros_addr ?r) (ros_user ?r) (ros_pass ?r) (ros_tls ?r) (ros_dev s)
      else DialContext L (ros_timeout ?r) (ros_addr ?r) (ros_user ?r) (ros_pass ?r) (ros_dev s)) = (q, d)"
    by (rule prod.exhaust)
  have "good d \<and> urows d = urows (ros_dev s) \<and> prows d = prows (ros_dev s)"
    using dial dial_tls [OF assms(1)] dial_plain [OF assms(1)] by (simp split: if_splits)
  moreover have "ros_dev s' = d"
    using assms(2) dial None by (auto simp: connect_def Let_def split: sum.splits)
  ultimately show ?thesis by (simp add: kept_def)
qed (use assms in \<open>auto simp: connect_def kept_def\<close>)

lemma run_Inr:
  assumes "ok s" "run L ws s = (Inr re, s')"
  obtains t c d where "good d" "urows d = urows (ros_dev s)" "prows d = prows (ros_dev s)"
    "RunContext L t c ws d = (Inr re, ros_dev s')"
proof -
  obtain c s1 where c: "connect L s = (Inr c, s1)" and r: "run_on L ws c s1 = (Inr re, s')"
    by (rule bindE_InrE [OF assms(2) [unfolded run_def]])
  have "kept s s1" by (rule connect_kept [OF assms(1) c])
  moreover have "RunContext L (ros_timeout (ros_self s1)) c ws (ros_dev s1) = (Inr re, ros_dev s')"
    using r by (auto simp: run_on_def split: prod.splits sum.splits if_splits)
  ultimately show thesis by (intro that [of "ros_dev s1"]) (simp_all add: kept_def)
qed

lemma run_Inl:
  assumes "ok s" "run L ws s = (Inl e, s')"
  shows "kept s s' \<and> (e = ErrNotFound \<longrightarrow> (\<exists>t c d e' d'. good d \<and> RunContext L t c ws d = (Inl e', d') \<and> mapDeviceErr e' = ErrNotFound))"
proof -
  obtain q s1 where c: "connect L s = (q, s1)" by (cases "connect L s")
  note k = connect_kept [OF assms(1) c]
  show ?thesis
  proof (cases q)
    case (Inl e')
    then show ?thesis using assms(2) c k connect_Inl [of L s e' s1] by (auto simp: run_def bindE_def)
  next
    case (Inr x)
    then have r: "run_on L ws x s1 = (Inl e, s')" using assms(2) c by (simp add: run_def bindE_def)
    then obtain e' d' where run: "RunContext L (ros_timeout (ros_self s1)) x ws (ros_dev s1) = (Inl e', d')"
      and e: "e = mapRunErr e'" and s': "ros_dev s' = (if isConnErr e' then CloseClient L x d' else d')"
      by (auto simp: run_on_def split: prod.splits sum.splits if_splits)
    have g: "good (ros_dev s1)" using k by (simp add: kept_def)
    from refused [OF g run] have t: "\<exists>x. e' = ErrDevice x \<or> e' = ErrTransport x"
      and d: "good d'" "urows d' = urows (ros_dev s1)" "prows d' = prows (ros_dev s1)" by blast+
    have "kept s s'" using k d close [OF d(1), of x] s' by (simp add: kept_def)
    moreover have "e = ErrNotFound \<longrightarrow> mapDeviceErr e' = ErrNotFound"
      using e t by (auto simp: mapRunErr_def split: if_splits)
    ultimately show ?thesis using run g by (intro conjI impI exI [of _ "ros_dev s1"] exI) auto
  qed
qed

lemma run_reading [preserves_intro]: "hd ws \<notin> changing \<Longrightarrow> preserves (kept s0) (run L ws)"
proof (rule preservesI)
  fix s assume ws: "hd ws \<notin> changing" and s: "kept s0 s"
  obtain r s' where r: "run L ws s = (r, s')" by (cases "run L ws s")
  have g: "ok s" using s by (simp add: kept_def)
  have "kept s s'"
  proof (cases r)
    case (Inl e)
    then show ?thesis using run_Inl [OF g] r by blast
  next
    case (Inr re)
    show ?thesis
      by (rule run_Inr [OF g r [unfolded Inr]]) (use reading ws in \<open>auto simp: kept_def\<close>)
  qed
  then show "kept s0 (snd (run L ws s))" using s r by (simp add: kept_def)
qed

lemma not_changing [simp]:
  "''/system/identity/print'' \<notin> changing" "''/user-manager/user/print'' \<notin> changing"
  "''/user-manager/user-profile/print'' \<notin> changing" "''/file/print'' \<notin> changing" "''/file/set'' \<notin> changing"
  "''/file/add'' \<notin> changing" "''/file/remove'' \<notin> changing" "''/import'' \<notin> changing"
  by (simp_all add: changing_def)

text \<open>Reading the tables.\<close>

lemma tables_distinct:
  assumes "ok s"
  shows "distinct (map usr_Name (map userFromSentence (urows (ros_dev s))))"
    "distinct (map usr_ID (map userFromSentence (urows (ros_dev s))))"
    "r \<in> set (urows (ros_dev s)) \<Longrightarrow> plain r \<and> field r ''name'' \<noteq> []"
  using rows [OF assms] by (auto simp: rows_ok_def comp_def userFromSentence_def list_all_iff)

lemma ListUsers_dev:
  assumes "ok s" "RouterOS_ListUsers L s = (r, s')"
  shows "kept s s' \<and> (\<forall>us. r = Inr us \<longrightarrow> us = map userFromSentence (urows (ros_dev s))) \<and> r \<noteq> Inl ErrNotFound"
proof (cases "run L [''/user-manager/user/print''] s")
  case (Pair q s1)
  have keep: "kept s s1"
    using preservesD' [OF run_reading [of _ s] _ Pair] assms(1) by (simp add: kept_def)
  show ?thesis
  proof (cases q)
    case (Inl e)
    have "e \<noteq> ErrNotFound"
      using run_Inl [OF assms(1) Pair [unfolded Inl]] listing_known by blast
    then show ?thesis using assms(2) Pair Inl keep by (auto simp: RouterOS_ListUsers_def bindE_def)
  next
    case (Inr re)
    have "re = urows (ros_dev s)"
      by (rule run_Inr [OF assms(1) Pair [unfolded Inr]]) (use users_listed in force)
    moreover have "filter (\<lambda>u. usr_Name u \<noteq> []) (map userFromSentence (urows (ros_dev s))) = map userFromSentence (urows (ros_dev s))"
      using tables_distinct(3) [OF assms(1)] by (auto simp: filter_id_conv userFromSentence_def)
    ultimately show ?thesis
      using assms(2) Pair Inr keep by (auto simp: RouterOS_ListUsers_def bindE_def returnE_apply)
  qed
qed

lemma GetUser_dev:
  assumes "ok s" "RouterOS_GetUser L name s = (r, s')"
  shows "kept s s' \<and> (\<forall>u. r = Inr u \<longrightarrow> users s name = Some u) \<and> (r = Inl ErrNotFound \<longrightarrow> users s name = None)"
proof (cases "RouterOS_ListUsers L s")
  case (Pair q s1)
  then show ?thesis
    using ListUsers_dev [OF assms(1) Pair] assms(2)
    by (auto simp: RouterOS_GetUser_def bindE_def ros_users_def user_map_find failE_apply returnE_apply
        split: sum.splits option.splits)
qed

lemma ListUserProfiles_dev:
  assumes "ok s" "RouterOS_ListUserProfiles L name s = (r, s')"
  shows "kept s s' \<and> (\<forall>ps. r = Inr ps \<longrightarrow> profiles s name = ps)"
proof (cases "run L [''/user-manager/user-profile/print'', ''?user='' @ name] s")
  case (Pair q s1)
  have keep: "kept s s1"
    using preservesD' [OF run_reading [of _ s] _ Pair] assms(1) by (simp add: kept_def)
  show ?thesis
  proof (cases q)
    case (Inl e)
    then show ?thesis using assms(2) Pair keep by (auto simp: RouterOS_ListUserProfiles_def bindE_def)
  next
    case (Inr re)
    have re: "re = filter (\<lambda>p. field p ''user'' = name) (prows (ros_dev s))"
      by (rule run_Inr [OF assms(1) Pair [unfolded Inr]]) (use profiles_listed in force)
    have users: "field p ''user'' \<noteq> []" if "p \<in> set (prows (ros_dev s))" for p
      using rows [OF assms(1)] that by (force simp: rows_ok_def list_all_iff)
    let ?ps = "map profileFromSentence re"
    have "filter (\<lambda>p. prof_User p \<noteq> [] \<or> prof_ID p \<noteq> []) ?ps = ?ps"
      "map (\<lambda>p. if prof_User p = [] then p\<lparr>prof_User := name\<rparr> else p) ?ps = ?ps"
      using users by (auto simp: re filter_id_conv profileFromSentence_def)
    then show ?thesis
      using assms(2) Pair Inr keep re
      by (auto simp: RouterOS_ListUserProfiles_def bindE_def returnE_apply ros_profiles_def)
  qed
qed

text \<open>A command: refused it leaves the tables, else the library ran it.\<close>

lemma run_cmd_dev:
  assumes "ok s" "run_cmd L ws s = (r, s')"
  obtains (refused) e where "r = Inl e" "kept s s'"
  | (ran) t c d re where "r = Inr ()" "good d" "urows d = urows (ros_dev s)" "prows d = prows (ros_dev s)"
      "RunContext L t c ws d = (Inr re, ros_dev s')"
proof -
  obtain q s1 where run: "run L ws s = (q, s1)" by (cases "run L ws s")
  show thesis
  proof (cases q)
    case (Inl e)
    then have "r = Inl e" "s' = s1" using assms(2) run by (auto simp: run_cmd_eq bindE_def)
    then show thesis using refused run_Inl [OF assms(1) run [unfolded Inl]] by blast
  next
    case (Inr re)
    then have r: "r = Inr ()" "s' = s1" using assms(2) run by (auto simp: run_cmd_eq bindE_def returnE_apply)
    show thesis by (rule run_Inr [OF assms(1) run [unfolded Inr]]) (rule ran [OF r(1)], simp_all add: r(2))
  qed
qed

text \<open>The writing methods.\<close>

lemma AddUser_dev:
  assumes "ok s" "RouterOS_AddUser L name pw comment shared dis s = (Inr (), s')"
  shows "ok s' \<and> users s name = None \<and> profiles s' = profiles s \<and>
    (\<exists>i. users s' = (users s)(name \<mapsto> \<lparr>usr_ID = i, usr_Name = name, usr_Password = pw,
          usr_SharedUsers = shared, usr_Comment = comment, usr_Disabled = dis\<rparr>))"
  using assms(1) assms(2) [unfolded RouterOS_AddUser_def]
proof (cases rule: run_cmd_dev)
  case (ran t c d re)
  define ws where "ws = tl (addUser_args name pw comment shared dis)"
  let ?w = "words_sentence ws" and ?us = "urows (ros_dev s)"
  have args: "addUser_args name pw comment shared dis = ''/user-manager/user/add'' # ws"
    by (simp add: addUser_args_def ws_def)
  note add = user_added [OF ran(2) ran(5) [unfolded args]]
  then obtain i where g: "ok s'" and us: "urows (ros_dev s') = ?us @ [?w(''.id'' \<mapsto> i)]"
    and ps: "prows (ros_dev s') = prows (ros_dev s)" using ran(3,4) by auto
  have num: "snd (parseInt (int_str shared)) = None"
    using numbers [OF ran(2,5)] by (simp add: addUser_args_def)
  let ?u = "\<lparr>usr_ID = i, usr_Name = name, usr_Password = pw, usr_SharedUsers = shared, usr_Comment = comment, usr_Disabled = dis\<rparr>"
  have u: "userFromSentence (?w(''.id'' \<mapsto> i)) = ?u"
    using tables_distinct(3) [OF g] us num unfolding ws_def by (intro addUser_read) auto
  have d: "distinct (map usr_Name (map userFromSentence ?us @ [?u]))"
    using tables_distinct(1) [OF g] unfolding us map_append list.map u by simp
  have "users s' = (users s)(name \<mapsto> ?u)"
    using user_map_snoc [OF d] by (simp add: ros_users_def us u)
  moreover have "users s name = None"
    using d by (auto simp: ros_users_def user_map_find find_None_iff)
  moreover have "profiles s' = profiles s" by (simp add: ros_profiles_def ps fun_eq_iff)
  ultimately show ?thesis using g by blast
qed simp

lemma user_row:
  assumes "ok s" "users s name = Some u"
  obtains r where "r \<in> set (urows (ros_dev s))" "userFromSentence r = u" "usr_Name u = name"
  using assms(2) user_map_Some [OF tables_distinct(1) [OF assms(1)]] by (auto simp: ros_users_def)

lemma SetUser_dev:
  assumes "ok s" "RouterOS_SetUser L name pwo so comment diso s = (Inr (), s')"
  shows "ok s' \<and> profiles s' = profiles s \<and> (\<exists>u c. users s name = Some u \<and> (comment \<noteq> [] \<longrightarrow> c = comment) \<and>
    users s' = (users s)(name \<mapsto> set_fields pwo so c diso u))"
proof -
  obtain u s1 where get: "RouterOS_GetUser L name s = (Inr u, s1)"
    and cmd: "run_cmd L (setUser_args (usr_ID u) pwo so comment diso) s1 = (Inr (), s')"
    by (rule bindE_InrE [OF assms(2) [unfolded RouterOS_SetUser_def]])
  have k: "kept s s1" and u: "users s name = Some u" using GetUser_dev [OF assms(1) get] by auto
  have "ok s1" using k by (simp add: kept_def)
  from this cmd show ?thesis
  proof (cases rule: run_cmd_dev)
    case (ran t c d re)
    define ws where "ws = drop 2 (setUser_args (usr_ID u) pwo so comment diso)"
    let ?w = "words_sentence ws" and ?us = "urows (ros_dev s)"
    define v where "v = set_fields pwo so (if comment \<noteq> [] then comment else usr_Comment u) diso u"
    have args: "setUser_args (usr_ID u) pwo so comment diso = ''/user-manager/user/set'' # (''=numbers='' @ usr_ID u) # ws"
      by (simp add: setUser_args_def ws_def)
    have tabs: "urows d = ?us" "prows d = prows (ros_dev s)" using ran(3,4) k by (simp_all add: kept_def)
    from user_set [OF ran(2) ran(5) [unfolded args]] have g: "ok s'"
      and us: "urows (ros_dev s') = map (\<lambda>r. if field r ''.id'' = usr_ID u then r ++ ?w else r) ?us"
      and ps: "prows (ros_dev s') = prows (ros_dev s)" by (simp_all add: tabs)
    have num: "case so of None \<Rightarrow> True | Some n \<Rightarrow> snd (parseInt (int_str n)) = None"
      using numbers [OF ran(2,5)] by (simp add: setUser_args_def split: option.split)
    have read: "userFromSentence (r ++ ?w) = v"
      if r: "r \<in> set ?us" "userFromSentence r = u" for r
    proof -
      have "r ++ ?w \<in> set (urows (ros_dev s'))" using r by (force simp: us userFromSentence_def)
      then show ?thesis
        using setUser_read [of r "usr_ID u" pwo so comment diso] r tables_distinct(3) [OF g] tables_distinct(3) [OF assms(1)] num
        by (simp add: ws_def v_def)
    qed
    obtain r0 where r0: "r0 \<in> set ?us" "userFromSentence r0 = u" "usr_Name u = name" by (rule user_row [OF assms(1) u])
    have one: "userFromSentence r = u" if "r \<in> set ?us" "field r ''.id'' = usr_ID u" for r
      using tables_distinct(2) [OF assms(1)] r0 that
      by (auto simp: distinct_map inj_on_def userFromSentence_def)
    have "map userFromSentence (urows (ros_dev s')) =
      map (\<lambda>x. if usr_ID x = usr_ID u then v else x) (map userFromSentence ?us)"
      using read one by (auto simp: us) (auto simp: userFromSentence_def)
    moreover have "u \<in> set (map userFromSentence ?us)" "usr_Name v = usr_Name u" using r0 by (auto simp: v_def)
    ultimately have "users s' = (users s)(name \<mapsto> v)"
      using user_map_change [OF tables_distinct(1,2) [OF assms(1)], of u v] r0(3)
      by (simp add: ros_users_def)
    moreover have "profiles s' = profiles s" by (simp add: ros_profiles_def ps fun_eq_iff)
    ultimately show ?thesis using g u unfolding v_def by (intro conjI exI) auto
  qed simp
qed

lemma user_names: "users s n \<noteq> None \<longleftrightarrow> n \<in> set (map (\<lambda>r. field r ''name'') (urows (ros_dev s)))"
  by (auto simp: ros_users_def user_map_find find_None_iff userFromSentence_def)

lemma RemoveUser_dev:
  assumes "ok s" "RouterOS_RemoveUser L name s = (Inr (), s')"
  shows "ok s' \<and> users s' = (users s)(name := None) \<and> profiles s' = (profiles s)(name := [])"
proof -
  obtain u s1 where get: "RouterOS_GetUser L name s = (Inr u, s1)"
    and cmd: "run_cmd L [''/user-manager/user/remove'', ''=numbers='' @ usr_ID u] s1 = (Inr (), s')"
    by (rule bindE_InrE [OF assms(2) [unfolded RouterOS_RemoveUser_def]])
  have k: "kept s s1" and u: "users s name = Some u" using GetUser_dev [OF assms(1) get] by auto
  have "ok s1" using k by (simp add: kept_def)
  from this cmd show ?thesis
  proof (cases rule: run_cmd_dev)
    case (ran t c d re)
    let ?us = "urows (ros_dev s)"
    have tabs: "urows d = ?us" "prows d = prows (ros_dev s)" using ran(3,4) k by (simp_all add: kept_def)
    from user_removed [OF ran(2,5)] have g: "ok s'"
      and us: "urows (ros_dev s') = filter (\<lambda>r. field r ''.id'' \<noteq> usr_ID u) ?us"
      and ps: "prows (ros_dev s') =
        filter (\<lambda>p. field p ''user'' \<in> set (map (\<lambda>r. field r ''name'') (urows (ros_dev s')))) (prows (ros_dev s))"
      by (simp_all add: tabs)
    obtain r0 where r0: "r0 \<in> set ?us" "userFromSentence r0 = u" "usr_Name u = name" by (rule user_row [OF assms(1) u])
    have "map userFromSentence (urows (ros_dev s')) = filter (\<lambda>x. usr_ID x \<noteq> usr_ID u) (map userFromSentence ?us)"
      by (simp add: us filter_map comp_def) (simp add: userFromSentence_def)
    moreover have "u \<in> set (map userFromSentence ?us)" using r0 by auto
    ultimately have users: "users s' = (users s)(name := None)"
      using user_map_drop [OF tables_distinct(1,2) [OF assms(1)], of u] r0(3) by (simp add: ros_users_def)
    have "profiles s' n = ((profiles s)(name := [])) n" for n
    proof -
      have "n \<in> set (map (\<lambda>r. field r ''name'') (urows (ros_dev s'))) \<longleftrightarrow> n \<noteq> name \<and> users s n \<noteq> None"
        unfolding user_names [symmetric] users by simp
      moreover have "field p ''user'' = n \<Longrightarrow> p \<in> set (prows (ros_dev s)) \<Longrightarrow> users s n \<noteq> None" for p
        using rows [OF assms(1)] unfolding user_names by (auto simp: rows_ok_def list_all_iff)
      ultimately show ?thesis
        by (auto simp: ros_profiles_def ps filter_empty_conv intro!: filter_cong arg_cong [where f = "map profileFromSentence"])
    qed
    then show ?thesis using g users by (simp add: fun_eq_iff)
  qed simp
qed

lemma AddUserProfile_dev:
  assumes "ok s" "RouterOS_AddUserProfile L name profile s = (Inr (), s')"
  shows "ok s' \<and> users s' = users s \<and> (\<forall>n. n \<noteq> name \<longrightarrow> profiles s' n = profiles s n) \<and>
    (\<exists>p \<in> set (profiles s' name). prof_User p = name \<and> prof_Profile p = profile)"
  using assms(1) assms(2) [unfolded RouterOS_AddUserProfile_def]
proof (cases rule: run_cmd_dev)
  case (ran t c d re)
  let ?w = "words_sentence [''=user='' @ name, ''=profile='' @ profile]"
  have w: "?w = [''profile'' \<mapsto> profile, ''user'' \<mapsto> name]" by (simp add: words_simps)
  from profile_added [OF ran(2,5)] have g: "ok s'" and us: "urows (ros_dev s') = urows (ros_dev s)"
    and others: "filter (\<lambda>p. field p ''user'' \<noteq> name) (prows (ros_dev s')) = filter (\<lambda>p. field p ''user'' \<noteq> name) (prows (ros_dev s))"
    and new: "\<exists>p \<in> set (prows (ros_dev s')). ?w \<subseteq>\<^sub>m p"
    using ran(3,4) by (simp_all add: words_simps map_get_def)
  have "filter (\<lambda>p. field p ''user'' = n) ps = filter (\<lambda>p. field p ''user'' = n) (filter (\<lambda>p. field p ''user'' \<noteq> name) ps)"
    if "n \<noteq> name" for n ps using that by (auto intro: filter_cong)
  then have "profiles s' n = profiles s n" if "n \<noteq> name" for n
    unfolding ros_profiles_def using others that by metis
  moreover obtain p where p: "p \<in> set (prows (ros_dev s'))" "?w \<subseteq>\<^sub>m p" using new by blast
  then have "plain p" "p ''user'' = Some name" "p ''profile'' = Some profile"
    using rows [OF g] unfolding w by (auto simp: rows_ok_def list_all_iff map_le_def)
  then have "p \<in> set (filter (\<lambda>p. field p ''user'' = name) (prows (ros_dev s')))" "prof_User (profileFromSentence p) = name"
    "prof_Profile (profileFromSentence p) = profile"
    using p(1) by (simp_all add: plain_field map_get_def profileFromSentence_def)
  then have "\<exists>p \<in> set (profiles s' name). prof_User p = name \<and> prof_Profile p = profile"
    by (auto simp: ros_profiles_def)
  ultimately show ?thesis using g us by (simp add: ros_users_def)
qed simp

lemma RemoveUserProfile_dev:
  assumes "ok s" "RouterOS_RemoveUserProfile L i s = (Inr (), s')"
  shows "ok s' \<and> users s' = users s \<and> (\<forall>n. set (profiles s' n) \<subseteq> set (profiles s n)
    \<and> (\<forall>p \<in> set (profiles s n). prof_ID p \<noteq> i \<longrightarrow> p \<in> set (profiles s' n)))"
  using assms(1) assms(2) [unfolded RouterOS_RemoveUserProfile_def]
proof (cases rule: run_cmd_dev)
  case (ran t c d re)
  from profile_removed [OF ran(2,5)] ran(3,4) show ?thesis
    by (auto simp: ros_users_def ros_profiles_def profileFromSentence_def)
qed simp

lemma write_failed:
  assumes "ok s"
  shows "RouterOS_AddUser L name pw comment shared dis s = (Inl e, s') \<Longrightarrow> kept s s'"
    "RouterOS_SetUser L name pwo so comment diso s = (Inl e, s') \<Longrightarrow> kept s s'"
    "RouterOS_RemoveUser L name s = (Inl e, s') \<Longrightarrow> kept s s'"
    "RouterOS_AddUserProfile L name profile s = (Inl e, s') \<Longrightarrow> kept s s'"
    "RouterOS_RemoveUserProfile L i s = (Inl e, s') \<Longrightarrow> kept s s'"
proof -
  have cmd: "kept s1 s2" if "ok s1" "run_cmd L ws s1 = (Inl e, s2)" for ws s1 s2
    using that by (cases rule: run_cmd_dev) simp_all
  have get: "kept s s'" if "bindE (RouterOS_GetUser L name) (\<lambda>u. run_cmd L (f u)) s = (Inl e, s')" for f
  proof (cases "RouterOS_GetUser L name s")
    case (Pair q s1)
    note k = GetUser_dev [OF assms Pair]
    show ?thesis using that k cmd [of s1] by (cases q) (auto simp: Pair bindE_def kept_def)
  qed
  show "RouterOS_AddUser L name pw comment shared dis s = (Inl e, s') \<Longrightarrow> kept s s'"
    "RouterOS_AddUserProfile L name profile s = (Inl e, s') \<Longrightarrow> kept s s'"
    "RouterOS_RemoveUserProfile L i s = (Inl e, s') \<Longrightarrow> kept s s'"
    unfolding RouterOS_AddUser_def RouterOS_AddUserProfile_def RouterOS_RemoveUserProfile_def by (erule cmd [OF assms])+
  show "RouterOS_SetUser L name pwo so comment diso s = (Inl e, s') \<Longrightarrow> kept s s'"
    "RouterOS_RemoveUser L name s = (Inl e, s') \<Longrightarrow> kept s s'"
    unfolding RouterOS_SetUser_def RouterOS_RemoveUser_def by (erule get)+
qed

text \<open>The methods that touch no table.\<close>

lemma others_keep:
  "preserves (kept s) (RouterOS_Ping L)" "preserves (kept s) (RouterOS_ReadFileContents L name)"
  "preserves (kept s) (RouterOS_WriteFileContents L name body)" "preserves (kept s) (RouterOS_FileExists L name)"
  "preserves (kept s) (RouterOS_GenerateCertificate L script title pass)"
proof -
  have fileID [preserves_intro]: "preserves (kept s) (fileID L n)" for n
    unfolding fileID_def by (intro preserves_intro) simp_all
  have remove [preserves_intro]: "preserves (kept s) (removeFile L n)" for n
    unfolding removeFile_def by (intro preserves_intro) simp_all
  show put [preserves_intro]: "preserves (kept s) (RouterOS_WriteFileContents L n body)" for n body
    unfolding RouterOS_WriteFileContents_def by (intro preserves_intro) (simp_all split: sum.split)
  show "preserves (kept s) (RouterOS_Ping L)" unfolding RouterOS_Ping_def by (intro preserves_intro) simp_all
  show "preserves (kept s) (RouterOS_ReadFileContents L name)"
    unfolding RouterOS_ReadFileContents_def by (intro preserves_intro) simp_all
  show "preserves (kept s) (RouterOS_FileExists L name)"
    unfolding RouterOS_FileExists_def by (intro preserves_intro)
  show "preserves (kept s) (RouterOS_GenerateCertificate L script title pass)"
    unfolding RouterOS_GenerateCertificate_def Let_def by (intro preserves_intro) simp_all
qed

lemma kept_frame: "kept s s' \<Longrightarrow> ok s' \<and> users s' = users s \<and> profiles s' = profiles s"
  using kept_tables by (simp add: kept_def)

lemma other_kept: "preserves (kept s) m \<Longrightarrow> ok s \<Longrightarrow> m s = (r, s') \<Longrightarrow> ok s' \<and> users s' = users s \<and> profiles s' = profiles s"
  by (rule kept_frame, erule preservesD') (simp_all add: kept_def)

lemma GetUser_found: "ok s \<Longrightarrow> RouterOS_GetUser L name s = (Inr u, s') \<Longrightarrow> users s name = Some u"
  and GetUser_missing: "ok s \<Longrightarrow> RouterOS_GetUser L name s = (Inl ErrNotFound, s') \<Longrightarrow> users s name = None"
  and ListUserProfiles_found: "ok s \<Longrightarrow> RouterOS_ListUserProfiles L name s = (Inr ps, s') \<Longrightarrow> profiles s name = ps"
  using GetUser_dev ListUserProfiles_dev by simp_all

lemma orphans: "ok s \<Longrightarrow> users s name = None \<Longrightarrow> profiles s name = []"
  using rows [of "ros_dev s"] user_names [of s name]
  by (auto simp: rows_ok_def list_all_iff ros_profiles_def filter_empty_conv)

text \<open>The contract of the router interface.\<close>

lemma client_contract: "user_manager (RouterOSClient L) ok users profiles"
proof (unfold_locales, unfold RouterOSClient_def client.simps)
  fix s s' us e assume ok: "ok s"
  { fix r assume "RouterOS_ListUsers L s = (r, s')"
    then show "ok s' \<and> users s' = users s \<and> profiles s' = profiles s"
      using ListUsers_dev [OF ok] kept_frame by blast }
  { assume "RouterOS_ListUsers L s = (Inr us, s')"
    then show "distinct (map usr_Name us) \<and> users s = user_map us"
      using ListUsers_dev [OF ok, of "Inr us"] tables_distinct(1) [OF ok] by (auto simp: ros_users_def) }
  { assume "RouterOS_ListUsers L s = (Inl e, s')"
    then show "e \<noteq> ErrNotFound" using ListUsers_dev [OF ok, of "Inl e"] by blast }
next
  fix s s' name r assume "ok s" "RouterOS_GetUser L name s = (r, s')"
  then show "ok s' \<and> users s' = users s \<and> profiles s' = profiles s"
    using GetUser_dev kept_frame by blast
next
  fix s s' name r assume "ok s" "RouterOS_ListUserProfiles L name s = (r, s')"
  then show "ok s' \<and> users s' = users s \<and> profiles s' = profiles s"
    using ListUserProfiles_dev kept_frame by blast
qed ((erule (1) AddUser_dev SetUser_dev RemoveUser_dev AddUserProfile_dev RemoveUserProfile_dev orphans GetUser_found
        GetUser_missing ListUserProfiles_found
      | rule kept_frame, erule (1) write_failed
      | (intro conjI refl; assumption)
      | rule other_kept [OF others_keep(1)] other_kept [OF others_keep(2)] other_kept [OF others_keep(3)]
          other_kept [OF others_keep(4)] other_kept [OF others_keep(5)], assumption+)+)

end

text \<open>Over such a device the real client is a router of the panel.\<close>

sublocale user_manager_device \<subseteq> ros: user_manager "RouterOSClient L" "\<lambda>s. good (ros_dev s)"
  "ros_users urows" "ros_profiles prows"
  by (rule client_contract)

section \<open>A device\<close>

text \<open>
  A User Manager with the tables of users and of profiles that carries out a command only when the
  words are well formed and the tables stay consistent, and refuses it otherwise.
\<close>

record ref_device =
  rd_users :: "sentence list"
  rd_profiles :: "sentence list"
  rd_next :: nat

definition ref_good :: "ref_device \<Rightarrow> bool" where
  "ref_good d = rows_ok (rd_users d) (rd_profiles d)"

definition numbers_ok :: "string list \<Rightarrow> bool" where
  "numbers_ok ws = list_all (\<lambda>w. prefix ''=shared-users='' w \<longrightarrow> snd (parseInt (drop 14 w)) = None) ws"

definition commit :: "ref_device \<Rightarrow> ref_device \<Rightarrow> (go_err + sentence list) \<times> ref_device" where
  "commit d d' = (if ref_good d' then (Inr [], d') else (Inl (ErrDevice ''failure: already have such item''), d))"

definition number :: "string list \<Rightarrow> string" where
  "number args = (case args of [] \<Rightarrow> [] | w # _ \<Rightarrow> drop 9 w)"

definition new_id :: "ref_device \<Rightarrow> string" where
  "new_id d = ''*'' @ nat_str (rd_next d)"

definition ref_run :: "string \<Rightarrow> string list \<Rightarrow> ref_device \<Rightarrow> (go_err + sentence list) \<times> ref_device" where
  "ref_run cmd args d =
     (if cmd = ''/user-manager/user/print'' then (Inr (rd_users d), d)
      else if cmd = ''/user-manager/user-profile/print''
      then (Inr (filter (\<lambda>p. field p ''user'' = drop 6 (hd (args @ [[]]))) (rd_profiles d)), d)
      else if cmd = ''/user-manager/user/add''
      then commit d (d\<lparr>rd_users := rd_users d @ [(words_sentence args)(''.id'' \<mapsto> new_id d)], rd_next := rd_next d + 1\<rparr>)
      else if cmd = ''/user-manager/user/set''
      then commit d (d\<lparr>rd_users := map (\<lambda>s. if field s ''.id'' = number args then s ++ words_sentence (tl args) else s) (rd_users d)\<rparr>)
      else if cmd = ''/user-manager/user/remove''
      then let us = filter (\<lambda>s. field s ''.id'' \<noteq> number args) (rd_users d)
           in commit d (d\<lparr>rd_users := us,
                rd_profiles := filter (\<lambda>p. field p ''user'' \<in> set (map (\<lambda>s. field s ''name'') us)) (rd_profiles d)\<rparr>)
      else if cmd = ''/user-manager/user-profile/add''
      then commit d (d\<lparr>rd_profiles := rd_profiles d @ [[''.id'' \<mapsto> new_id d, ''state'' \<mapsto> ''waiting''] ++ words_sentence args],
             rd_next := rd_next d + 1\<rparr>)
      else if cmd = ''/user-manager/user-profile/remove''
      then commit d (d\<lparr>rd_profiles := filter (\<lambda>p. field p ''.id'' \<noteq> number args) (rd_profiles d)\<rparr>)
      else (Inl (ErrDevice ''no such command''), d))"

definition ref_lib :: "(unit, ref_device) routeros_lib" where
  "ref_lib = \<lparr>DialTLSContext = (\<lambda>t addr user pass cfg d. (Inr (), d)), DialContext = (\<lambda>t addr user pass d. (Inr (), d)),
     RunContext = (\<lambda>t c ws d. if ws \<noteq> [] \<and> numbers_ok ws then ref_run (hd ws) (tl ws) d
       else (Inl (ErrDevice ''invalid value''), d)),
     CloseClient = (\<lambda>c d. d)\<rparr>"

lemma commit_Inl: "commit d d1 = (Inl e, d') \<Longrightarrow> d' = d \<and> (\<exists>x. e = ErrDevice x)"
  by (auto simp: commit_def split: if_splits)

lemma commit_Inr: "commit d d1 = (Inr re, d') \<Longrightarrow> ref_good d1 \<and> d' = d1"
  by (auto simp: commit_def split: if_splits)

lemma ref_run_Inl: "ref_run cmd args d = (Inl e, d') \<Longrightarrow> d' = d \<and> (\<exists>x. e = ErrDevice x)"
  by (auto simp: ref_run_def Let_def dest!: commit_Inl split: if_splits)

lemma ref_run_reading: "ref_run cmd args d = (Inr re, d') \<Longrightarrow> cmd \<notin> changing \<Longrightarrow> d' = d"
  by (simp add: ref_run_def changing_def split: if_splits)

lemma ref_lib_Inr: "RunContext ref_lib t c (cmd # args) d = (Inr re, d') \<longleftrightarrow>
    numbers_ok (cmd # args) \<and> ref_run cmd args d = (Inr re, d')"
  by (simp add: ref_lib_def)

lemma ref_run_add:
  assumes "ref_run ''/user-manager/user-profile/add'' ws d = (Inr re, d')"
  shows "ref_good d' \<and> rd_users d' = rd_users d \<and>
    filter (\<lambda>p. field p ''user'' \<noteq> map_get (words_sentence ws) ''user'') (rd_profiles d') =
      filter (\<lambda>p. field p ''user'' \<noteq> map_get (words_sentence ws) ''user'') (rd_profiles d) \<and>
    (\<exists>p \<in> set (rd_profiles d'). words_sentence ws \<subseteq>\<^sub>m p)"
proof -
  let ?p = "[''.id'' \<mapsto> new_id d, ''state'' \<mapsto> ''waiting''] ++ words_sentence ws"
  let ?d = "d\<lparr>rd_profiles := rd_profiles d @ [?p], rd_next := rd_next d + 1\<rparr>"
  have c: "commit d ?d = (Inr re, d')" using assms by (simp add: ref_run_def)
  have g: "ref_good ?d" and d': "d' = ?d" using commit_Inr [OF c] by simp_all
  have "plain ?p" using g by (auto simp: ref_good_def rows_ok_def)
  then have "field ?p ''user'' = map_get (words_sentence ws) ''user''"
    by (simp add: plain_field) (simp add: map_get_def map_add_def split: option.split)
  then show ?thesis using g by (auto simp: d')
qed

interpretation reference: user_manager_device ref_lib ref_good rd_users rd_profiles
proof unfold_locales
  fix d d' t c e ws assume run: "RunContext ref_lib t c ws d = (Inl e, d')"
  have "d' = d \<and> (\<exists>x. e = ErrDevice x)"
    using run by (auto simp: ref_lib_def dest: ref_run_Inl split: if_splits)
  then show "ref_good d \<Longrightarrow> ref_good d' \<and> rd_users d' = rd_users d \<and> rd_profiles d' = rd_profiles d
      \<and> (\<exists>x. e = ErrDevice x \<or> e = ErrTransport x)" by blast
next
  fix d d' t c re ws assume "ref_good d" "RunContext ref_lib t c ws d = (Inr re, d')" "hd ws \<notin> changing"
  then show "ref_good d' \<and> rd_users d' = rd_users d \<and> rd_profiles d' = rd_profiles d"
    by (auto simp: ref_lib_def dest: ref_run_reading split: if_splits)
next
  fix d d' t c re ws v assume "RunContext ref_lib t c ws d = (Inr re, d')" "''=shared-users='' @ v \<in> set ws"
  then show "snd (parseInt v) = None"
    by (auto simp: ref_lib_def numbers_ok_def list_all_iff split: if_splits dest!: bspec)
next
  fix d d' t c re ws assume "RunContext ref_lib t c (''/user-manager/user-profile/add'' # ws) d = (Inr re, d')"
  then show "ref_good d' \<and> rd_users d' = rd_users d \<and>
      filter (\<lambda>p. field p ''user'' \<noteq> map_get (words_sentence ws) ''user'') (rd_profiles d') =
        filter (\<lambda>p. field p ''user'' \<noteq> map_get (words_sentence ws) ''user'') (rd_profiles d) \<and>
      (\<exists>p \<in> set (rd_profiles d'). words_sentence ws \<subseteq>\<^sub>m p)"
    unfolding ref_lib_Inr by (blast dest: ref_run_add)
next
  fix d d' t c re ws assume "RunContext ref_lib t c (''/user-manager/user/add'' # ws) d = (Inr re, d')"
  then show "ref_good d' \<and> rd_profiles d' = rd_profiles d \<and>
      (\<exists>i. rd_users d' = rd_users d @ [(words_sentence ws)(''.id'' \<mapsto> i)])"
    unfolding ref_lib_Inr by (auto simp: ref_run_def dest!: commit_Inr)
next
  fix d d' t c re ws i assume "RunContext ref_lib t c (''/user-manager/user/set'' # (''=numbers='' @ i) # ws) d = (Inr re, d')"
  then show "ref_good d' \<and> rd_profiles d' = rd_profiles d \<and>
      rd_users d' = map (\<lambda>s. if field s ''.id'' = i then s ++ words_sentence ws else s) (rd_users d)"
    unfolding ref_lib_Inr by (auto simp: ref_run_def number_def dest!: commit_Inr)
next
  fix d d' t c re i assume "RunContext ref_lib t c [''/user-manager/user/remove'', ''=numbers='' @ i] d = (Inr re, d')"
  then show "ref_good d' \<and> rd_users d' = filter (\<lambda>s. field s ''.id'' \<noteq> i) (rd_users d) \<and>
      rd_profiles d' = filter (\<lambda>p. field p ''user'' \<in> set (map (\<lambda>s. field s ''name'') (rd_users d'))) (rd_profiles d)"
    unfolding ref_lib_Inr by (auto simp: ref_run_def number_def Let_def dest!: commit_Inr)
next
  fix d d' t c re i assume "RunContext ref_lib t c [''/user-manager/user-profile/remove'', ''=numbers='' @ i] d = (Inr re, d')"
  then show "ref_good d' \<and> rd_users d' = rd_users d \<and> rd_profiles d' = filter (\<lambda>p. field p ''.id'' \<noteq> i) (rd_profiles d)"
    unfolding ref_lib_Inr by (auto simp: ref_run_def number_def dest!: commit_Inr)
qed (simp_all add: ref_lib_def ref_good_def numbers_ok_def ref_run_def)

end
