(* ===== verification/Startup.thy ===== *)
theory Startup
  imports Access Store_Open Mikrotik_Device
begin

text \<open>
  The start of the process (cmd/server/main.go, app/app.go): the configuration is loaded, the
  database opened and migrated, the application built with the fake or the real router behind the
  cache, the first administrator created, and the server listens; each failure ends the process with
  exit code 1. What the program finds outside itself is a \<open>host\<close>. The log, the HTTP time-outs, the
  signals and the shutdown change no state of the panel and are left out, as is the location read
  from TZ, which \<open>Now\<close> applies to an instant without changing it.

  The theorems: the first login after a start works, and the panel that a start builds has a router
  with the contract that the theorems of the other theories ask for.
\<close>

section \<open>A router behind an interface\<close>

text \<open>
  \<open>NewFromConfig\<close> returns an interface value that holds one of two clients; a call of the interface
  is a call of the client it holds.
\<close>

definition dyn :: "('f, 'a) go \<Rightarrow> ('g, 'a) go \<Rightarrow> ('f + 'g, 'a) go" where
  "dyn m n s =
     (case s of
        Inl f \<Rightarrow> (case m f of (r, f') \<Rightarrow> (r, Inl f'))
      | Inr g \<Rightarrow> (case n g of (r, g') \<Rightarrow> (r, Inr g')))"

definition dyn_client :: "'f client \<Rightarrow> 'g client \<Rightarrow> ('f + 'g) client" where
  "dyn_client F G = \<lparr>cl_Ping = dyn (cl_Ping F) (cl_Ping G),
     cl_ListUsers = (\<lambda>now. dyn (cl_ListUsers F now) (cl_ListUsers G now)),
     cl_GetUser = (\<lambda>now n. dyn (cl_GetUser F now n) (cl_GetUser G now n)),
     cl_AddUser = (\<lambda>n p c s b. dyn (cl_AddUser F n p c s b) (cl_AddUser G n p c s b)),
     cl_SetUser = (\<lambda>n p s c b. dyn (cl_SetUser F n p s c b) (cl_SetUser G n p s c b)),
     cl_RemoveUser = (\<lambda>n. dyn (cl_RemoveUser F n) (cl_RemoveUser G n)),
     cl_ListUserProfiles = (\<lambda>now n. dyn (cl_ListUserProfiles F now n) (cl_ListUserProfiles G now n)),
     cl_AddUserProfile = (\<lambda>now n p. dyn (cl_AddUserProfile F now n p) (cl_AddUserProfile G now n p)),
     cl_RemoveUserProfile = (\<lambda>i. dyn (cl_RemoveUserProfile F i) (cl_RemoveUserProfile G i)),
     cl_GenerateCertificate = (\<lambda>s t p. dyn (cl_GenerateCertificate F s t p) (cl_GenerateCertificate G s t p)),
     cl_ReadFileContents = (\<lambda>n. dyn (cl_ReadFileContents F n) (cl_ReadFileContents G n)),
     cl_WriteFileContents = (\<lambda>n c. dyn (cl_WriteFileContents F n c) (cl_WriteFileContents G n c)),
     cl_FileExists = (\<lambda>n. dyn (cl_FileExists F n) (cl_FileExists G n)),
     cl_InvalidateCache = map_sum (cl_InvalidateCache F) (cl_InvalidateCache G)\<rparr>"

lemma dyn_Inl: "dyn m n (Inl f) = (r, s') \<longleftrightarrow> (\<exists>f'. s' = Inl f' \<and> m f = (r, f'))"
  and dyn_Inr: "dyn m n (Inr g) = (r, s') \<longleftrightarrow> (\<exists>g'. s' = Inr g' \<and> n g = (r, g'))"
  by (auto simp: dyn_def split: prod.splits)

lemma case_sumE:
  assumes "case_sum P Q s"
  obtains f where "s = Inl f" "P f" | g where "s = Inr g" "Q g"
  using assms by (cases s) auto

locale two_routers =
  f: user_manager F okF usersF profilesF + g: user_manager G okG usersG profilesG
  for F :: "'f client" and okF usersF profilesF and G :: "'g client" and okG usersG profilesG
begin

lemmas first_laws = f.ListUsers_frame f.ListUsers_Inr f.ListUsers_Inl f.GetUser_frame f.GetUser_Inr f.GetUser_NotFound
  f.ListUserProfiles_frame f.ListUserProfiles_Inr f.orphan_profiles f.AddUser_Inr f.AddUser_Inl f.SetUser_Inr f.SetUser_Inl
  f.RemoveUser_Inr f.RemoveUser_Inl f.AddUserProfile_Inr f.AddUserProfile_Inl f.RemoveUserProfile_Inr f.RemoveUserProfile_Inl
  f.InvalidateCache_frame f.Ping_keeps f.Generate_keeps f.Read_keeps f.Write_keeps f.Exists_keeps

lemmas second_laws = g.ListUsers_frame g.ListUsers_Inr g.ListUsers_Inl g.GetUser_frame g.GetUser_Inr g.GetUser_NotFound
  g.ListUserProfiles_frame g.ListUserProfiles_Inr g.orphan_profiles g.AddUser_Inr g.AddUser_Inl g.SetUser_Inr g.SetUser_Inl
  g.RemoveUser_Inr g.RemoveUser_Inl g.AddUserProfile_Inr g.AddUserProfile_Inl g.RemoveUserProfile_Inr g.RemoveUserProfile_Inl
  g.InvalidateCache_frame g.Ping_keeps g.Generate_keeps g.Read_keeps g.Write_keeps g.Exists_keeps

text \<open>An interface value that holds one of two clients with the contract has the contract.\<close>

lemma dyn_contract: "user_manager (dyn_client F G) (case_sum okF okG) (case_sum usersF usersG) (case_sum profilesF profilesG)"
  by (unfold_locales, unfold dyn_client_def client.simps)
    (erule case_sumE; hypsubst?; (simp only: dyn_Inl dyn_Inr sum.case map_sum.simps)?; (elim exE conjE)?; hypsubst?;
      (simp only: sum.case)?; ((rule first_laws second_laws); assumption))+

end

section \<open>The application\<close>

text \<open>What the process is started with.\<close>

record ('c, 'd) host =
  ho_Getenv :: environment
  ho_Stat :: "string \<Rightarrow> bool"
  ho_Dotenv :: "string \<Rightarrow> environment \<Rightarrow> environment"
  ho_ParseDuration :: "string \<Rightarrow> int option"
  ho_MkdirFor :: "string \<Rightarrow> go_err option"
  ho_File :: "string \<Rightarrow> sql_file"
  ho_Fault :: "stmt \<Rightarrow> bool"
  ho_Listen :: "string \<Rightarrow> bool"
  ho_RouterOS :: "('c, 'd) routeros_lib"
  ho_Device :: 'd
  ho_Zone :: int
  ho_JWT :: jwt_lib
  ho_BcryptGenerate :: "nat \<Rightarrow> string \<Rightarrow> go_err + string"
  ho_BcryptCompare :: "string \<Rightarrow> string \<Rightarrow> bool"
  ho_Unicode :: unicode_tables
  ho_ReadFile :: "string \<Rightarrow> string option"
  ho_Entropy :: entropy
  ho_Now :: time

type_synonym ('c, 'd) any_router = "fake_client + ('c, 'd) ros"

definition any_client :: "('c, 'd) routeros_lib \<Rightarrow> ('c, 'd) any_router client" where
  "any_client L = dyn_client FakeClient (RouterOSClient L)"

definition first_router :: "('c, 'd) host \<Rightarrow> config \<Rightarrow> ('c, 'd) any_router" where
  "first_router h cfg =
     (case NewFromConfig (ho_Zone h) cfg of
        Inl f \<Rightarrow> Inl f
      | Inr r \<Rightarrow> Inr \<lparr>ros_self = r, ros_dev = ho_Device h\<rparr>)"

definition New :: "('c, 'd) host \<Rightarrow> config \<Rightarrow> ('c, 'd) any_router app \<times> ('c, 'd) any_router cached" where
  "New h cfg =
     (\<lparr>Cfg = cfg, Router = any_client (ho_RouterOS h), JWT = ho_JWT h, Bcrypt_Generate = ho_BcryptGenerate h,
       Bcrypt_Compare = ho_BcryptCompare h, Unicode = ho_Unicode h, OS_ReadFile = ho_ReadFile h\<rparr>,
      NewCached (first_router h cfg))"

text \<open>Tests put a client of their own in place of the router, behind a new cache.\<close>

definition UseMikrotikClient :: "'s client \<Rightarrow> 's \<Rightarrow> 's app \<Rightarrow> 's app \<times> 's cached" where
  "UseMikrotikClient c s a = (a\<lparr>Router := c\<rparr>, NewCached s)"

section \<open>The process\<close>

text \<open>
  The store over an opened file. Rows that do not read into the structs would make the statements
  that read them fail; no file of a known version has such a row, and here every statement fails.
\<close>

definition opened_db :: "('c, 'd) host \<Rightarrow> sql_file \<Rightarrow> db" where
  "opened_db h f =
     (case stored f of
        Inr d \<Rightarrow> d\<lparr>db_fault := ho_Fault h\<rparr>
      | Inl _ \<Rightarrow> \<lparr>db_admins = [], db_managers = [], db_metas = [], db_acts = [], seq_admins = 0, seq_managers = 0,
                 seq_metas = 0, seq_acts = 0, db_fault = (\<lambda>_. True)\<rparr>)"

datatype ('c, 'd) process =
    Exit int
  | Serving "('c, 'd) any_router app" "('c, 'd) any_router world"

definition configuration :: "('c, 'd) host \<Rightarrow> config" where
  "configuration h = Load (ho_ParseDuration h) (godotenvLoad (ho_Stat h) (ho_Dotenv h) (ho_Getenv h))"

definition main :: "('c, 'd) host \<Rightarrow> ('c, 'd) process" where
  "main h =
     (let cfg = configuration h in
      case Open (ho_MkdirFor h) (SQLitePath cfg) (ho_File h (SQLitePath cfg)) of
        (Inl _, _) \<Rightarrow> Exit 1
      | (Inr _, f) \<Rightarrow>
          let (a, rt) = New h cfg in
          (case BootstrapAdmin a \<lparr>w_db = opened_db h f, w_router = rt, w_entropy = ho_Entropy h, w_now = ho_Now h\<rparr> of
             (Inl _, _) \<Rightarrow> Exit 1
           | (Inr _, w) \<Rightarrow> if ho_Listen h (HTTPAddr cfg) then Serving a w else Exit 1))"

section \<open>The first login\<close>

lemma bootstrap_run:
  assumes "db_admins (w_db w) = []" "\<not> db_fault (w_db w) S_AdminCount" "\<not> db_fault (w_db w) S_CreateAdmin"
    and "AdminPassword (Cfg a) \<notin> {[], ''change-me''}"
    and "w_entropy w = Some salt # es" "Bcrypt_Generate a salt (AdminPassword (Cfg a)) = Inr hash"
  shows "BootstrapAdmin a w = (Inr (), w\<lparr>w_entropy := es, w_db := (w_db w)\<lparr>
    db_admins := [\<lparr>adm_ID = seq_admins (w_db w) + 1, adm_Username = AdminUsername (Cfg a), adm_PasswordHash = hash, adm_IsActive = True\<rparr>],
    seq_admins := seq_admins (w_db w) + 1\<rparr>\<rparr>)"
  using assms
  by (simp add: BootstrapAdmin_def bindE_def st_def AdminCount_def query_def exec_def Hash_def rnd_def CreateAdmin_def Let_def)

lemma login_route:
  "serve a ''POST'' [''api'', ''v1'', ''auth'', ''login''] r = HandleLogin a None (with_params [] r)"
  by (simp add: serve_def dispatch_def public_routes_def path_matches_def)

lemma login_admin:
  assumes "rq_Body r = Some (VObj [(''username'', VStr user), (''password'', VStr pw)])"
    and "db_admins (w_db w) = [adm]" "adm_Username adm = user" "adm_IsActive adm" "Check a (adm_PasswordHash adm) pw"
    and "\<not> db_fault (w_db w) S_FindAdminByUsername" "\<And>c. \<exists>t. SignedString (JWT a) (JWTSecret (Cfg a)) c = Inr t"
  shows "\<exists>pair. HandleLogin a None r w = (WriteJSON 200 (login_json pair ''admin'' []), w)"
proof -
  have req: "DecodeJSON login_fields \<lparr>lr_Username = [], lr_Password = []\<rparr> r = Some \<lparr>lr_Username = user, lr_Password = pw\<rparr>"
    by (simp add: DecodeJSON_def assms(1) login_fields_def find_field_def string_field_def)
  have find: "st (FindAdminByUsername user) w = (Inr adm, w)"
    using assms(2,3,6) by (simp add: st_def FindAdminByUsername_def query_def exec_def one_row_def)
  have "\<exists>pair. NewPair (JWT a) (Auth_Issuer a) now c = Inr pair" for now c
    using assms(7) [of "sign_claims c now (JWTAccessTTL (Cfg a)) ''access''"]
      assms(7) [of "sign_claims (c\<lparr>c_TokenType := ''refresh''\<rparr>) now (JWTRefreshTTL (Cfg a)) ''refresh''"]
    by (auto simp: NewPair_def sign_def Auth_Issuer_def)
  then have "\<exists>pair. new_pair a c w = (Inr pair, w)" for c
    by (simp add: new_pair_def bindE_Now liftE_apply)
  then obtain pair where "new_pair a (zero_claims\<lparr>c_Role := RoleAdmin, c_Username := adm_Username adm\<rparr>) w = (Inr pair, w)"
    by blast
  then show ?thesis
    using assms(4,5) find by (auto simp: HandleLogin_def req handle_def respond_apply)
qed

lemma main_starts:
  assumes "Open (ho_MkdirFor h) (SQLitePath (configuration h)) (ho_File h (SQLitePath (configuration h))) = (Inr (), f)"
    and "stored f = Inr d" "db_admins d = []" "\<forall>s. \<not> ho_Fault h s"
    and "AdminPassword (configuration h) \<notin> {[], ''change-me''}"
    and "ho_Entropy h = Some salt # es" "ho_BcryptGenerate h salt (AdminPassword (configuration h)) = Inr hash"
    and "ho_Listen h (HTTPAddr (configuration h))"
  obtains a rt w where "New h (configuration h) = (a, rt)" "main h = Serving a w"
    "db_admins (w_db w) = [\<lparr>adm_ID = seq_admins d + 1, adm_Username = AdminUsername (configuration h), adm_PasswordHash = hash, adm_IsActive = True\<rparr>]"
    "db_fault (w_db w) = ho_Fault h"
proof -
  let ?cfg = "configuration h"
  obtain a rt where new: "New h ?cfg = (a, rt)" by (cases "New h ?cfg")
  then have a: "Cfg a = ?cfg" "Bcrypt_Generate a = ho_BcryptGenerate h" by (auto simp: New_def)
  let ?w0 = "\<lparr>w_db = opened_db h f, w_router = rt, w_entropy = ho_Entropy h, w_now = ho_Now h\<rparr>"
  have db: "opened_db h f = d\<lparr>db_fault := ho_Fault h\<rparr>" by (simp add: opened_db_def assms(2))
  obtain w where boot: "BootstrapAdmin a ?w0 = (Inr (), w)"
    and w: "db_admins (w_db w) = [\<lparr>adm_ID = seq_admins d + 1, adm_Username = AdminUsername ?cfg, adm_PasswordHash = hash, adm_IsActive = True\<rparr>]"
      "db_fault (w_db w) = ho_Fault h"
    using bootstrap_run [of ?w0 a salt es hash] assms(3-7) by (simp add: a db)
  have "main h = Serving a w"
    using boot assms(1,8) by (simp add: main_def Let_def new)
  then show thesis by (rule that [OF new _ w])
qed

text \<open>
  C17. After a start the panel can be used: on a database without an administrator, with a password
  configured that is not the default one, the process comes up, and the first login with the
  configured name and password is answered with the tokens of an administrator.
\<close>

theorem first_login:
  assumes "Open (ho_MkdirFor h) (SQLitePath (configuration h)) (ho_File h (SQLitePath (configuration h))) = (Inr (), f)"
    and "stored f = Inr d" "db_admins d = []" "\<forall>s. \<not> ho_Fault h s"
    and "AdminPassword (configuration h) \<notin> {[], ''change-me''}"
    and "ho_Entropy h = Some salt # es" "ho_BcryptGenerate h salt (AdminPassword (configuration h)) = Inr hash"
    and "ho_BcryptCompare h hash (AdminPassword (configuration h))"
    and "\<forall>s c. \<exists>t. SignedString (ho_JWT h) s c = Inr t" "ho_Listen h (HTTPAddr (configuration h))"
    and "rq_Body r = Some (VObj [(''username'', VStr (AdminUsername (configuration h))),
      (''password'', VStr (AdminPassword (configuration h)))])"
  shows "\<exists>a w pair. main h = Serving a w \<and>
    serve a ''POST'' [''api'', ''v1'', ''auth'', ''login''] r w = (WriteJSON 200 (login_json pair ''admin'' []), w)"
proof -
  from main_starts [OF assms(1-7,10)] obtain a rt w where new: "New h (configuration h) = (a, rt)"
    and run: "main h = Serving a w"
    and w: "db_admins (w_db w) = [\<lparr>adm_ID = seq_admins d + 1, adm_Username = AdminUsername (configuration h), adm_PasswordHash = hash, adm_IsActive = True\<rparr>]"
      "db_fault (w_db w) = ho_Fault h" .
  have a: "Bcrypt_Compare a = ho_BcryptCompare h" "JWT a = ho_JWT h" using new by (auto simp: New_def)
  have "\<exists>pair. HandleLogin a None (with_params [] r) w = (WriteJSON 200 (login_json pair ''admin'' []), w)"
    using assms(4,8,9,11) by (intro login_admin [OF _ w(1)]) (auto simp: with_params_def w(2) a Check_def)
  then show ?thesis using run by (auto simp: login_route)
qed

section \<open>The router of a started panel\<close>

lemma New_router:
  "New h cfg = (a, rt) \<Longrightarrow> Router a = any_client (ho_RouterOS h) \<and> rt = NewCached (first_router h cfg)"
  by (auto simp: New_def)

lemma main_Serving:
  assumes "main h = Serving a w"
  shows "Router a = any_client (ho_RouterOS h) \<and> w_router w = NewCached (first_router h (configuration h))"
  using assms
  by (auto simp: main_def Let_def st_eq BootstrapAdmin_def bindE_def st_def Hash_def rnd_def returnE_apply
      split: prod.splits sum.splits if_splits dest!: New_router)

definition any_ok :: "('d \<Rightarrow> bool) \<Rightarrow> ('c, 'd) any_router \<Rightarrow> bool" where
  "any_ok good = case_sum fake_ok (\<lambda>s. good (ros_dev s))"

definition any_users :: "('d \<Rightarrow> sentence list) \<Rightarrow> ('c, 'd) any_router \<Rightarrow> string \<rightharpoonup> mt_user" where
  "any_users urows = case_sum fake_users (ros_users urows)"

definition any_profiles :: "('d \<Rightarrow> sentence list) \<Rightarrow> ('c, 'd) any_router \<Rightarrow> string \<Rightarrow> user_profile list" where
  "any_profiles prows = case_sum fake_profiles (ros_profiles prows)"

sublocale user_manager_device \<subseteq> either: two_routers FakeClient fake_ok fake_users fake_profiles
  "RouterOSClient L" "\<lambda>s. good (ros_dev s)" "ros_users urows" "ros_profiles prows"
  by (intro two_routers.intro) (simp_all add: fake.user_manager_axioms ros.user_manager_axioms)

context user_manager_device
begin

lemma either_contract: "user_manager (dyn_client FakeClient (RouterOSClient L)) (case_sum fake_ok (\<lambda>s. good (ros_dev s)))
    (case_sum fake_users (ros_users urows)) (case_sum fake_profiles (ros_profiles prows))"
  by (rule either.dyn_contract)

end

context managed_panel
begin

lemma MT_contract: "user_manager (MT a) (cache_ok ok users profiles) (users \<circ> cc_inner) (profiles \<circ> cc_inner)"
  by (rule client.user_manager_axioms)

end

lemma any_managed:
  assumes "user_manager_device L good urows prows" "Router a = any_client L"
  shows "managed_panel a (any_ok good) (any_users urows) (any_profiles prows)"
  using user_manager_device.either_contract [OF assms(1)]
  by (simp add: managed_panel_def assms(2) any_client_def any_ok_def any_users_def any_profiles_def)


section \<open>Two hosts\<close>

text \<open>
  A host with an empty disk and a password for the administrator in its environment, and one with a
  router.
\<close>

definition empty_file :: sql_file where
  "empty_file = \<lparr>sf_tables = Map.empty, sf_indexes = Map.empty, sf_fault = (\<lambda>_. False)\<rparr>"

definition sample_host :: "(unit, ref_device) host" where
  "sample_host = \<lparr>ho_Getenv = (\<lambda>k. if k = ''ADMIN_PASSWORD'' then ''secret123'' else []),
     ho_Stat = (\<lambda>_. False), ho_Dotenv = (\<lambda>_ e. e), ho_ParseDuration = (\<lambda>_. None), ho_MkdirFor = mkdir_ok,
     ho_File = (\<lambda>_. empty_file), ho_Fault = (\<lambda>_. False), ho_Listen = (\<lambda>_. True), ho_RouterOS = ref_lib,
     ho_Device = \<lparr>rd_users = [], rd_profiles = [], rd_next = 1\<rparr>, ho_Zone = 0, ho_JWT = sample_jwt,
     ho_BcryptGenerate = (\<lambda>salt p. Inr (CHR ''#'' # p)), ho_BcryptCompare = (\<lambda>h p. h = CHR ''#'' # p),
     ho_Unicode = \<lparr>high_letter = (\<lambda>_. False), high_digit = (\<lambda>_. False)\<rparr>, ho_ReadFile = (\<lambda>_. None),
     ho_Entropy = replicate 20 (Some 53), ho_Now = 0\<rparr>"

definition router_host :: "(unit, ref_device) host" where
  "router_host = sample_host\<lparr>ho_Stat := (\<lambda>p. p = ''../.env''),
     ho_Dotenv := (\<lambda>_ e k. if k = ''MIKROTIK_FAKE'' then ''0'' else e k)\<rparr>"

definition opened_file :: sql_file where
  "opened_file = snd (Open mkdir_ok [] empty_file)"

lemma sample_host_simps:
  "ho_Fault sample_host = (\<lambda>_. False)" "ho_Listen sample_host = (\<lambda>_. True)" "ho_JWT sample_host = sample_jwt"
  "ho_BcryptGenerate sample_host salt p = Inr (CHR ''#'' # p)" "ho_BcryptCompare sample_host k p \<longleftrightarrow> k = CHR ''#'' # p"
  "ho_Entropy sample_host = Some 53 # replicate 19 (Some 53)"
  by (simp_all add: sample_host_def numeral_nat)

lemma sample_host_opens: "Open (ho_MkdirFor sample_host) p (ho_File sample_host p) = (Inr (), opened_file)"
proof -
  have "fst (Open mkdir_ok [] empty_file) = Inr ()" by code_simp
  then show ?thesis by (simp add: sample_host_def prod_eq_iff Open_def mkdir_ok_def opened_file_def)
qed

lemma opened_file_stored: "\<exists>d. stored opened_file = Inr d \<and> db_admins d = []"
proof -
  have "case stored opened_file of Inl _ \<Rightarrow> False | Inr d \<Rightarrow> db_admins d = []" by code_simp
  then show ?thesis by (auto split: sum.splits)
qed

lemma first_login_witness:
  "\<exists>a w pair. main sample_host = Serving a w \<and> serve a ''POST'' [''api'', ''v1'', ''auth'', ''login'']
    (login_request ''admin'' ''secret123'') w = (WriteJSON 200 (login_json pair ''admin'' []), w)"
proof -
  obtain d where d: "stored opened_file = Inr d" "db_admins d = []" using opened_file_stored by blast
  have cfg: "AdminPassword (configuration sample_host) = ''secret123''" "AdminUsername (configuration sample_host) = ''admin''"
    by code_simp+
  show ?thesis
    by (rule first_login [OF sample_host_opens d, of 53 "replicate 19 (Some 53)" "''#secret123''"])
      (simp add: sample_host_simps cfg sample_jwt_def | simp add: login_request_def cfg)+
qed


end
