(* ===== verification/Test_Support.thy ===== *)
theory Test_Support
  imports Startup Manager_Races
begin

text \<open>
  The support code of the integration tests (testutil/app.go, testutil/http.go): a panel over a fresh
  database with the fake router, requests built from a body and a token, the two helpers that log in
  and that create a manager. \<open>t.Fatal\<close> ends a test, here as an error. A body is the value its JSON text
  denotes; \<open>json.Marshal\<close> puts the members of a map in the order of their keys.

  The theorem runs through the whole panel: an administrator creates a manager, who logs in with the
  password it was given, and the token that is answered authenticates it.
\<close>

section \<open>The panel of a test\<close>

definition TestConfig :: "string \<Rightarrow> config" where
  "TestConfig dbPath = \<lparr>HTTPAddr = [], CORSOrigins = [''http://localhost:4200''],
     SQLitePath = dbPath, TZ = ''UTC'', MikrotikCacheTTL = 1000000000, MikrotikFake = True,
     MikrotikHost = [], MikrotikPort = 0, MikrotikUser = [], MikrotikPass = [],
     MikrotikAPI = [], MikrotikUseTLS = False, MikrotikTLSInsec = False, MikrotikTimeout = 0,
     MikrotikCertScript = [], JWTSecret = ''integration-test-secret'', JWTAccessTTL = 3600000000000,
     JWTRefreshTTL = 86400000000000, AdminUsername = ''admin'', AdminPassword = ''AdminPass1'',
     DefaultProfile = ''profile-open-2M-30d'', UsernamePrefixSep = ''-'', UsernameLocalMaxLen = 24,
     SharedUsersMax = 20, OpenVPNDownloadURL = ''http://example.test/dl/'', OpenVPNKeyPassword = ''EnvKeyPass123'',
     L2TPIPsecSecret = [], L2TPServer = [], OpenVPNTemplatePath = ''../config/client-template.ovpn''\<rparr>"

text \<open>The directory is an empty one of the test's own, with a path that \<open>filepath.Join\<close> need not clean.\<close>

definition NewTestApp ::
  "('c, 'd) host \<Rightarrow> string \<Rightarrow> go_err + ('c, 'd) any_router app \<times> ('c, 'd) any_router world" where
  "NewTestApp h dir =
     (let dbPath = dir @ ''/panel.db'' in
      case Open (ho_MkdirFor h) dbPath (ho_File h dbPath) of
        (Inl e, _) \<Rightarrow> Inl e
      | (Inr _, f) \<Rightarrow>
          let (application, _) = New h (TestConfig dbPath);
              (a, rt) = UseMikrotikClient (any_client (ho_RouterOS h)) (Inl (NewFake (ho_Zone h))) application in
          (case BootstrapAdmin a \<lparr>w_db = opened_db h f, w_router = rt, w_entropy = ho_Entropy h, w_now = ho_Now h\<rparr> of
             (Inl e, _) \<Rightarrow> Inl e
           | (Inr _, w) \<Rightarrow> Inr (a, w)))"

section \<open>Requests\<close>

definition DoJSON :: "'r app \<Rightarrow> string \<Rightarrow> string list \<Rightarrow> jval option \<Rightarrow> string \<Rightarrow> 'r world handler" where
  "DoJSON a meth path body bearer = serve a meth path
     \<lparr>rq_Authorization = (if bearer \<noteq> [] then ''Bearer '' @ bearer else []), rq_Query = (\<lambda>_. []),
      rq_Param = (\<lambda>_. []), rq_Body = body, rq_Trailing = False\<rparr>"

text \<open>
  \<open>DecodeJSON(t, w, &dst)\<close> for a struct with one field: other members are ignored, null leaves the
  field alone, a value of another type is fatal, as is a body that is no JSON object.
\<close>

definition decode_step :: "string \<Rightarrow> (json \<Rightarrow> 'a option) \<Rightarrow> go_err + 'a \<Rightarrow> string \<times> json \<Rightarrow> go_err + 'a" where
  "decode_step key val cur kv =
     (case cur of
        Inl e \<Rightarrow> Inl e
      | Inr x \<Rightarrow>
          if \<not> equalFold key (fst kv) \<or> snd kv = JNull then Inr x
          else case val (snd kv) of None \<Rightarrow> Inl (ErrText ''decode response'') | Some y \<Rightarrow> Inr y)"

definition DecodeResponse :: "string \<Rightarrow> (json \<Rightarrow> 'a option) \<Rightarrow> 'a \<Rightarrow> response \<Rightarrow> go_err + 'a" where
  "DecodeResponse key val zero resp =
     (case resp of
        WriteJSON _ (JObj ms) \<Rightarrow> foldl (decode_step key val) (Inr zero) ms
      | WriteJSON _ JNull \<Rightarrow> Inr zero
      | WriteError _ _ \<Rightarrow> Inr zero
      | _ \<Rightarrow> Inl (ErrText ''decode response''))"

definition string_value :: "json \<Rightarrow> string option" where
  "string_value j = (case j of JStr s \<Rightarrow> Some s | _ \<Rightarrow> None)"

definition int_value :: "json \<Rightarrow> int option" where
  "int_value j = (case j of JInt i \<Rightarrow> Some i | _ \<Rightarrow> None)"

definition LoginToken :: "'r app \<Rightarrow> string \<Rightarrow> string \<Rightarrow> ('r world, string) go" where
  "LoginToken a username pw w =
     (let (resp, w') = DoJSON a ''POST'' [''api'', ''v1'', ''auth'', ''login'']
            (Some (VObj [(''password'', VStr pw), (''username'', VStr username)])) [] w in
      (if status resp \<noteq> 200 then Inl (ErrText ''login'')
       else DecodeResponse ''access_token'' string_value [] resp, w'))"

text \<open>\<open>bits\<close> is the value of the quota's literal as a float64, which no field of the request reads.\<close>

definition seed_body :: "string \<Rightarrow> string \<Rightarrow> int \<Rightarrow> float64 \<Rightarrow> jval" where
  "seed_body username slug quota bits = VObj
     [(''display_name'', VStr username), (''password'', VStr ''ManagerPass1''),
      (''quota'', VNum (Some quota) bits), (''slug'', VStr slug), (''username'', VStr username)]"

definition SeedManager ::
  "'r app \<Rightarrow> string \<Rightarrow> string \<Rightarrow> string \<Rightarrow> int \<Rightarrow> float64 \<Rightarrow> ('r world, int \<times> string) go" where
  "SeedManager a adminToken username slug quota bits w =
     (let (resp, w') = DoJSON a ''POST'' [''api'', ''v1'', ''admin'', ''managers'']
            (Some (seed_body username slug quota bits)) adminToken w in
      if status resp \<noteq> 201 then (Inl (ErrText ''create manager''), w')
      else case DecodeResponse ''id'' int_value 0 resp of
        Inl e \<Rightarrow> (Inl e, w')
      | Inr i \<Rightarrow> bindE (LoginToken a username ''ManagerPass1'') (\<lambda>mgrToken. returnE (i, mgrToken)) w')"

section \<open>A created manager logs in\<close>

lemma create_route:
  assumes "authenticate (JWT a) (Auth_Issuer a) (w_now w) (rq_Authorization r) = Some adm" "c_Role adm = RoleAdmin"
  shows "serve a ''POST'' [''api'', ''v1'', ''admin'', ''managers''] r w = HandleCreateManager a (Some adm) (with_params [] r) w"
  using assms
  by (simp add: serve_def authenticated_def Middleware_def RequireAdmin_def dispatch_def admin_routes_def path_matches_def)

lemma slugs_run: "\<not> db_fault (w_db w) S_ListManagerSlugs \<Longrightarrow> slug_free req w =
  (Inr (\<not> SlugOverlaps (cm_Slug req) (map (\<lambda>m. \<lparr>ms_ID = mgr_ID m, ms_Slug = mgr_Slug m\<rparr>) (db_managers (w_db w))) 0), w)"
  by (simp add: slug_free_def bindE_def tryE_apply returnE_apply or_zero_def st_def ListManagerSlugs_def query_def exec_def)

text \<open>The row of a created manager.\<close>

definition created_row :: "createManagerReq \<Rightarrow> string \<Rightarrow> 'r world \<Rightarrow> manager" where
  "created_row req hash w = (new_manager req hash)\<lparr>mgr_ID := seq_managers (w_db w) + 1, mgr_IsActive := True,
     mgr_CreatedAt := sqlite_datetime (w_now w), mgr_UpdatedAt := sqlite_datetime (w_now w)\<rparr>"

definition created_world :: "createManagerReq \<Rightarrow> string \<Rightarrow> entropy \<Rightarrow> 'r world \<Rightarrow> 'r world" where
  "created_world req hash es w = w\<lparr>w_entropy := es, w_db := (w_db w)\<lparr>
     db_managers := db_managers (w_db w) @ [created_row req hash w], seq_managers := seq_managers (w_db w) + 1\<rparr>\<rparr>"

lemma create_run:
  fixes a :: "'r app"
  assumes "w_entropy w = Some salt # es" "Bcrypt_Generate a salt (cm_Password req) = Inr hash"
    and "\<not> db_fault (w_db w) S_CreateManager" "1 \<le> cm_Quota req" "cm_CertTitle req = None"
    and "\<forall>m \<in> set (db_managers (w_db w)). \<not> equalFold (mgr_Username m) (cm_Username req) \<and> \<not> equalFold (mgr_Slug m) (cm_Slug req)"
  shows "create_manager_rest a req w = (WriteJSON 201 (JObj [(''id'', JInt (seq_managers (w_db w) + 1))]), created_world req hash es w)"
proof -
  have hash: "Hash a (cm_Password req) w = (Inr hash, w\<lparr>w_entropy := es\<rparr>)"
    using assms(1,2) by (simp add: Hash_def rnd_def)
  have "st (CreateManager (w_now w) (new_manager req hash)) (w\<lparr>w_entropy := es\<rparr>)
      = (Inr ((new_manager req hash)\<lparr>mgr_ID := seq_managers (w_db w) + 1\<rparr>), created_world req hash es w)"
    using assms(3,4,6)
    by (auto simp: st_def CreateManager_def exec_def Let_def new_manager_def created_world_def created_row_def)
  then show ?thesis
    by (simp add: create_manager_rest_def handle_def hash Now_run assms(5) respond_apply new_manager_def)
qed

lemma equalFold_same [simp]: "equalFold s s"
  by (simp add: equalFold_def)

lemma login_run:
  fixes a :: "'r app"
  assumes "rq_Body r = Some (VObj [(''password'', VStr pw), (''username'', VStr user)])"
    and "\<forall>adm \<in> set (db_admins (w_db w)). \<not> equalFold (adm_Username adm) user"
    and "find (\<lambda>m. equalFold (mgr_Username m) user) (db_managers (w_db w)) = Some m"
    and "mgr_IsActive m" "Check a (mgr_PasswordHash m) pw" "\<forall>s. \<not> db_fault (w_db w) s"
    and "NewPair (JWT a) (Auth_Issuer a) (w_now w) (zero_claims\<lparr>c_Role := RoleManager, c_ManagerID := mgr_ID m,
      c_Slug := mgr_Slug m, c_Username := mgr_Username m\<rparr>) = Inr pair"
  shows "HandleLogin a None r w = (WriteJSON 200 (login_json pair ''manager''
    [(''manager_id'', JInt (mgr_ID m)), (''slug'', JStr (mgr_Slug m)),
     (''name_prefix'', JStr (mgr_Slug m @ UsernamePrefixSep (Cfg a)))]), w)"
proof -
  have req: "DecodeJSON login_fields \<lparr>lr_Username = [], lr_Password = []\<rparr> r = Some \<lparr>lr_Username = user, lr_Password = pw\<rparr>"
    by (simp add: DecodeJSON_def assms(1) login_fields_def find_field_def string_field_def)
  have "find (\<lambda>x. equalFold (adm_Username x) user) (db_admins (w_db w)) = None"
    using assms(2) by (simp add: find_None_iff)
  then have "st (FindAdminByUsername user) w = (Inl ErrNoRows, w)"
    using assms(6) by (simp add: st_def FindAdminByUsername_def query_def exec_def one_row_def)
  moreover have "st (FindManagerByUsername user) w = (Inr m, w)"
    using assms(3,6) by (simp add: st_def FindManagerByUsername_def query_def exec_def one_row_def)
  ultimately show ?thesis
    using assms(4,5,7)
    by (simp add: HandleLogin_def req login_manager_def handle_def new_pair_def bindE_Now liftE_apply respond_apply)
qed

lemma access_token_read: "DecodeResponse ''access_token'' string_value [] (WriteJSON 200 (login_json pair ''manager''
    [(''manager_id'', JInt i), (''slug'', JStr s), (''name_prefix'', JStr p)])) = Inr (AccessToken pair)"
  by (simp add: DecodeResponse_def login_json_def decode_step_def string_value_def equalFold_def toLower_def lower_char_def is_upper_def)

lemma id_read: "DecodeResponse ''id'' int_value 0 (WriteJSON 201 (JObj [(''id'', JInt i)])) = Inr i"
  by (simp add: DecodeResponse_def decode_step_def int_value_def)

definition manager_identity :: "int \<Rightarrow> string \<Rightarrow> string \<Rightarrow> claims" where
  "manager_identity i slug username = zero_claims\<lparr>c_Role := RoleManager, c_ManagerID := i, c_Slug := slug, c_Username := username\<rparr>"

lemma seed_decoded: "rq_Body r = Some (seed_body username slug quota bits) \<Longrightarrow>
  DecodeJSON create_manager_fields zero_createManagerReq r = Some \<lparr>cm_Username = username, cm_Password = ''ManagerPass1'',
    cm_DisplayName = username, cm_Slug = slug, cm_Quota = quota, cm_CertTitle = None\<rparr>"
  by (simp add: DecodeJSON_def seed_body_def create_manager_fields_def zero_createManagerReq_def find_field_def string_field_def
      int_field_def string_ptr_def)

lemma seed_password: "ValidPanel ut ''ManagerPass1''"
proof -
  have "runes ''ManagerPass1'' = [77, 97, 110, 97, 103, 101, 114, 80, 97, 115, 115, 49]" by code_simp
  moreover have "is_upper (char_of (77 :: nat))" "is_digit (char_of (49 :: nat))" by code_simp+
  ultimately show ?thesis by (simp add: ValidPanel_def IsLetter_def IsDigit_def is_alpha_def)
qed

lemma access_token_authenticates:
  assumes lib: "\<And>c t. SignedString (JWT a) (JWTSecret (Cfg a)) c = Inr t \<Longrightarrow>
      ParseWithClaims (JWT a) (JWTSecret (Cfg a)) now t = (if now < c_ExpiresAt c then Inr (c, True) else Inl ErrToken)"
    and "NewPair (JWT a) (Auth_Issuer a) now c = Inr pair" "1000000000 \<le> JWTAccessTTL (Cfg a)"
  shows "authenticate (JWT a) (Auth_Issuer a) now (''Bearer '' @ AccessToken pair)
    = Some (sign_claims c now (JWTAccessTTL (Cfg a)) ''access'')"
proof -
  have "SignedString (JWT a) (JWTSecret (Cfg a)) (sign_claims c now (JWTAccessTTL (Cfg a)) ''access'') = Inr (AccessToken pair)"
    using assms(2) by (auto simp: NewPair_def sign_def Auth_Issuer_def split: sum.splits)
  moreover have "now < NewNumericDate (now + JWTAccessTTL (Cfg a))"
    using assms(3) by (simp add: NewNumericDate_def)
  ultimately show ?thesis
    using lib by (simp add: authenticate_def Parse_def Auth_Issuer_def) (simp add: sign_claims_def)
qed

text \<open>
  C18. A manager that an administrator creates can use the panel at once: in a panel whose database,
  entropy source and token library work, \<open>SeedManager\<close> (the request that creates the manager, then its
  login) returns the id of the new row and a token that authenticates the manager with this id and its
  slug. The name must be free among the managers, the slug must not overlap with theirs, and no
  administrator may have the name: the login tries administrators first.
\<close>

theorem created_manager_logs_in:
  fixes a :: "'r app" and w :: "'r world"
  assumes "adminToken \<noteq> []" "authenticate (JWT a) (Auth_Issuer a) (w_now w) (''Bearer '' @ adminToken) = Some adm"
    and "c_Role adm = RoleAdmin" "1 \<le> quota" "\<forall>s. \<not> db_fault (w_db w) s"
    and "\<not> SlugOverlaps slug (map (\<lambda>m. \<lparr>ms_ID = mgr_ID m, ms_Slug = mgr_Slug m\<rparr>) (db_managers (w_db w))) 0"
    and "\<forall>m \<in> set (db_managers (w_db w)). \<not> equalFold (mgr_Username m) username \<and> \<not> equalFold (mgr_Slug m) slug"
    and "\<forall>x \<in> set (db_admins (w_db w)). \<not> equalFold (adm_Username x) username"
    and "w_entropy w = Some salt # es" "Bcrypt_Generate a salt ''ManagerPass1'' = Inr hash"
    and "Bcrypt_Compare a hash ''ManagerPass1''" "1000000000 \<le> JWTAccessTTL (Cfg a)"
    and "\<And>c t. SignedString (JWT a) (JWTSecret (Cfg a)) c = Inr t \<Longrightarrow>
      ParseWithClaims (JWT a) (JWTSecret (Cfg a)) (w_now w) t = (if w_now w < c_ExpiresAt c then Inr (c, True) else Inl ErrToken)"
    and "NewPair (JWT a) (Auth_Issuer a) (w_now w) (manager_identity (seq_managers (w_db w) + 1) slug username) = Inr pair"
  shows "\<exists>w' c. SeedManager a adminToken username slug quota bits w = (Inr (seq_managers (w_db w) + 1, AccessToken pair), w')
    \<and> authenticate (JWT a) (Auth_Issuer a) (w_now w') (''Bearer '' @ AccessToken pair) = Some c
    \<and> c_Role c = RoleManager \<and> c_ManagerID c = seq_managers (w_db w) + 1 \<and> c_Slug c = slug"
proof -
  let ?req = "\<lparr>cm_Username = username, cm_Password = ''ManagerPass1'', cm_DisplayName = username, cm_Slug = slug,
    cm_Quota = quota, cm_CertTitle = None\<rparr>"
  let ?i = "seq_managers (w_db w) + 1" and ?w = "created_world ?req hash es w" and ?row = "created_row ?req hash w"
  have row: "mgr_ID ?row = ?i" "mgr_Slug ?row = slug" "mgr_Username ?row = username" "mgr_IsActive ?row" "mgr_PasswordHash ?row = hash"
    by (simp_all add: created_row_def new_manager_def)
  have "create_manager_rest a ?req w = (WriteJSON 201 (JObj [(''id'', JInt ?i)]), ?w)"
    by (rule create_run [OF assms(9)]) (use assms(4,5,7,10) in simp_all)
  then have create: "DoJSON a ''POST'' [''api'', ''v1'', ''admin'', ''managers''] (Some (seed_body username slug quota bits)) adminToken w
      = (WriteJSON 201 (JObj [(''id'', JInt ?i)]), ?w)"
    unfolding DoJSON_def using assms(1-6)
    by (subst create_route) (simp_all add: HandleCreateManager_split with_params_def seed_decoded [of _ username slug quota bits]
        seed_password handle_def slugs_run)
  have "find (\<lambda>m. equalFold (mgr_Username m) username) (db_managers (w_db w)) = None"
    using assms(7) by (simp add: find_None_iff)
  then have find: "find (\<lambda>m. equalFold (mgr_Username m) username) (db_managers (w_db ?w)) = Some ?row"
    by (simp add: created_world_def find_append row)
  have run: "HandleLogin a None r ?w = (WriteJSON 200 (login_json pair ''manager'' [(''manager_id'', JInt (mgr_ID ?row)),
      (''slug'', JStr (mgr_Slug ?row)), (''name_prefix'', JStr (mgr_Slug ?row @ UsernamePrefixSep (Cfg a)))]), ?w)"
    if "rq_Body r = Some (VObj [(''password'', VStr ''ManagerPass1''), (''username'', VStr username)])" for r
    by (rule login_run [OF that _ find]) (use assms(5,8,11,14) row in \<open>simp_all add: created_world_def Check_def manager_identity_def\<close>)
  have "DoJSON a ''POST'' [''api'', ''v1'', ''auth'', ''login'']
      (Some (VObj [(''password'', VStr ''ManagerPass1''), (''username'', VStr username)])) [] ?w
      = (WriteJSON 200 (login_json pair ''manager'' [(''manager_id'', JInt ?i), (''slug'', JStr slug),
          (''name_prefix'', JStr (slug @ UsernamePrefixSep (Cfg a)))]), ?w)"
    unfolding DoJSON_def login_route by (simp add: run with_params_def row)
  then have login: "LoginToken a username ''ManagerPass1'' ?w = (Inr (AccessToken pair), ?w)"
    by (simp add: LoginToken_def access_token_read)
  have "SeedManager a adminToken username slug quota bits w = (Inr (?i, AccessToken pair), ?w)"
    by (simp add: SeedManager_def create id_read bindE_def login returnE_apply)
  moreover have "w_now ?w = w_now w" by (simp add: created_world_def)
  ultimately show ?thesis
    using access_token_authenticates [OF assms(13,14,12)] by (auto simp: sign_claims_def manager_identity_def)
qed

section \<open>Examples\<close>

text \<open>A token library that signs what the example needs and keeps the contract.\<close>

definition sara_token :: "int \<Rightarrow> string \<Rightarrow> claims" where
  "sara_token ttl typ = sign_claims (manager_identity 3 ''sara'' ''sara'') 0 ttl typ"

definition seed_jwt :: jwt_lib where
  "seed_jwt = \<lparr>SignedString = (\<lambda>s c. if c = sara_token 900000000000 ''access'' then Inr ''a''
       else if c = sara_token 604800000000000 ''refresh'' then Inr ''r'' else Inl ErrToken),
     ParseWithClaims = (\<lambda>s now t. if t = ''t-admin'' then Inr (admin_claims, True)
       else let c = (if t = ''a'' then sara_token 900000000000 ''access'' else sara_token 604800000000000 ''refresh'')
         in if now < c_ExpiresAt c then Inr (c, True) else Inl ErrToken)\<rparr>"

definition seed_app :: "fake_client app" where
  "seed_app = sample_app\<lparr>JWT := seed_jwt\<rparr>"

lemma seed_pair: "NewPair seed_jwt (Auth_Issuer sample_app) 0 (manager_identity 3 ''sara'' ''sara'')
  = Inr \<lparr>AccessToken = ''a'', RefreshToken = ''r''\<rparr>"
proof -
  have "c_TokenType (sara_token m ''refresh'') \<noteq> c_TokenType (sara_token n ''access'')" for m n
    by (simp add: sara_token_def sign_claims_def)
  then have other: "sara_token m ''refresh'' \<noteq> sara_token n ''access''" for m n by metis
  have "sign_claims ((manager_identity 3 ''sara'' ''sara'')\<lparr>c_TokenType := ''refresh''\<rparr>) 0 n ''refresh'' = sara_token n ''refresh''"
    "sign_claims (manager_identity 3 ''sara'' ''sara'') 0 n ''access'' = sara_token n ''access''" for n
    by (simp_all add: sara_token_def sign_claims_def)
  then show ?thesis
    using other by (simp add: NewPair_def sign_def seed_jwt_def Auth_Issuer_def sample_app_def default_config_def)
qed

lemma seed_app_simps:
  "JWT seed_app = seed_jwt" "Auth_Issuer seed_app = Auth_Issuer sample_app" "JWTAccessTTL (Cfg seed_app) = 900000000000"
  "Bcrypt_Generate seed_app salt p = Inr (CHR ''#'' # p)" "Bcrypt_Compare seed_app k p \<longleftrightarrow> k = CHR ''#'' # p"
  by (simp_all add: seed_app_def sample_app_def default_config_def Auth_Issuer_def)

lemma created_manager_logs_in_witness:
  "\<exists>w' c. SeedManager seed_app ''t-admin'' ''sara'' ''sara'' 5 0 sample_world = (Inr (3, ''a''), w')
    \<and> authenticate seed_jwt (Auth_Issuer sample_app) (w_now w') ''Bearer a'' = Some c
    \<and> c_Role c = RoleManager \<and> c_ManagerID c = 3 \<and> c_Slug c = ''sara''"
proof -
  have w: "w_now sample_world = 0" "seq_managers sample_db = 2" "w_db sample_world = sample_db"
    "w_entropy sample_world = Some 53 # replicate 19 (Some 53)"
    by (simp_all add: sample_world_def sample_db_def numeral_nat)
  have lib: "ParseWithClaims seed_jwt s (w_now sample_world) t = (if w_now sample_world < c_ExpiresAt c then Inr (c, True) else Inl ErrToken)"
    if "SignedString seed_jwt s c = Inr t" for s c t
    using that by (auto simp: seed_jwt_def Let_def split: if_splits)
  have "authenticate seed_jwt (Auth_Issuer sample_app) 0 ''Bearer t-admin'' = Some admin_claims"
    by (simp add: authenticate_def Parse_def seed_jwt_def admin_claims_def)
  moreover have "\<not> SlugOverlaps ''sara'' (map (\<lambda>m. \<lparr>ms_ID = mgr_ID m, ms_Slug = mgr_Slug m\<rparr>) (db_managers sample_db)) 0"
    "\<forall>m \<in> set (db_managers sample_db). \<not> equalFold (mgr_Username m) ''sara'' \<and> \<not> equalFold (mgr_Slug m) ''sara''"
    "\<forall>x \<in> set (db_admins sample_db). \<not> equalFold (adm_Username x) ''sara''" "\<forall>s. \<not> db_fault sample_db s"
    by (simp_all add: sample_db_def sample_manager_def equalFold_def toLower_def lower_char_def is_upper_def)
  ultimately show ?thesis
    using created_manager_logs_in [of "''t-admin''" seed_app sample_world admin_claims 5 "''sara''" "''sara''" 53
        "replicate 19 (Some 53)" "''#ManagerPass1''" "\<lparr>AccessToken = ''a'', RefreshToken = ''r''\<rparr>" 0] lib seed_pair
    by (simp add: seed_app_simps w) (simp add: admin_claims_def)
qed

text \<open>The panel of a test comes up, with the fake router behind a cache that agrees with it.\<close>

lemma test_app_starts:
  assumes "Open (ho_MkdirFor h) (dir @ ''/panel.db'') (ho_File h (dir @ ''/panel.db'')) = (Inr (), f)"
    and "stored f = Inr d" "db_admins d = []" "\<forall>s. \<not> ho_Fault h s"
    and "ho_Entropy h = Some salt # es" "ho_BcryptGenerate h salt ''AdminPass1'' = Inr hash"
  shows "\<exists>a w. NewTestApp h dir = Inr (a, w) \<and> Router a = any_client (ho_RouterOS h)
    \<and> map adm_Username (db_admins (w_db w)) = [''admin''] \<and> db_managers (w_db w) = db_managers d
    \<and> cache_ok (any_ok good) (any_users urows) (any_profiles prows) (w_router w)"
proof -
  let ?a = "fst (UseMikrotikClient (any_client (ho_RouterOS h)) (Inl (NewFake (ho_Zone h)) :: ('a, 'b) any_router)
    (fst (New h (TestConfig (dir @ ''/panel.db'')))))"
  let ?w0 = "\<lparr>w_db = opened_db h f, w_router = NewCached (Inl (NewFake (ho_Zone h)) :: ('a, 'b) any_router),
    w_entropy = ho_Entropy h, w_now = ho_Now h\<rparr>"
  have db: "opened_db h f = d\<lparr>db_fault := ho_Fault h\<rparr>" by (simp add: opened_db_def assms(2))
  have cfg: "Cfg ?a = TestConfig (dir @ ''/panel.db'')" "Bcrypt_Generate ?a = ho_BcryptGenerate h" "Router ?a = any_client (ho_RouterOS h)"
    by (simp_all add: UseMikrotikClient_def New_def)
  note boot = bootstrap_run [of ?w0 ?a salt es hash]
  have "\<exists>w. NewTestApp h dir = Inr (?a, w) \<and> w_router w = w_router ?w0 \<and> map adm_Username (db_admins (w_db w)) = [''admin'']
      \<and> db_managers (w_db w) = db_managers d"
    using boot assms by (simp add: NewTestApp_def cfg db TestConfig_def UseMikrotikClient_def New_def)
  moreover have "cache_ok (any_ok good) (any_users urows) (any_profiles prows) (w_router ?w0)"
    by (simp add: cache_ok_def NewCached_def any_ok_def fake_ok_def NewFake_def)
  ultimately show ?thesis using cfg(3) by auto
qed

end
