(* ===== verification/Spec2Isabelle.thy ===== *)
theory Spec2Isabelle
  imports Disabled_Managers Test_Support
begin

text \<open>
  Fast-Bypass: verification library of the panel's backend (Go, src/backend).

  The program. A web panel in front of the User Manager of a MikroTik router. Managers create and
  renew VPN users within a quota of connection slots; an administrator sees everything, owns the
  users of no manager (orphans) and settles the renewal ledger. The users themselves live on the
  router; SQLite holds the accounts, the panel's notes about users and the ledger. A user belongs to
  the manager whose slug begins its name, or else whose token is in its router comment. An HTTP
  request runs through the router of server.go and two middlewares into a handler, which calls the
  service layer, which calls the store and the router client; the client is a cache around the real
  RouterOS client or around a fake one for tests and demos.

  How it is modelled. A Go function that may fail and changes a state is a value of
  \<open>('w, 'a) go\<close> (Prelude): from a state to an error or a result, and the state it leaves, so that
  what was changed before an early return stays changed. The state of a request is a \<open>world\<close>
  (App_State): database, router behind its cache, entropy source, clock. Libraries outside the
  repository (bcrypt, JWT, the RouterOS library, \<open>time.ParseDuration\<close>, godotenv, the Unicode tables)
  are parameters, with what the code relies on as hypotheses; SQLite is the list model of Store and,
  for the migrations, an interpreter of statements. Go's 64-bit integers wrap by \<open>i64\<close> where the code
  adds or multiplies. Strings are lists of bytes. A driver that fails, a router that refuses and an
  exhausted entropy source are part of the states, so the error branches of every handler are
  reachable.

  Theories, each with the code it models.
  \<^item> Prelude, Go_Strings, Go_Time, Models: Go's errors and effects, its string, number and time
    functions, the records of store/models.go and mikrotik/types.go.
  \<^item> Config (config/config.go), Password (password/password.go, cert.go), Owner (owner/owner.go),
    Quota (quota/quota.go).
  \<^item> Sql_Tables, Store_Open (store/schema.sql, the migrations of store/store.go): the database file.
    Store, Store_Ledger (store/store.go): every method over the tables as lists of records.
    Store_Inv, Store_Props: their invariant and behaviour. Store_Statements: the single statements
    that requests are made of, and the contract of a predicate that they keep.
  \<^item> Mikrotik_Client (the interface of mikrotik/types.go, with the contracts \<open>router_reads\<close>,
    \<open>user_manager\<close> and \<open>router_files\<close>), Mikrotik_Fake (fake.go, cert_fake.go), Mikrotik_Cached
    (\<open>CachedClient\<close>), Router_Steps (the single steps on the router and on the cache), Mikrotik_RouterOS (routeros.go, files.go, client.go, errors.go),
    Mikrotik_Device (the contract of the real client over a documented device).
  \<^item> Http (httpx/errors.go), Auth (auth/jwt.go, middleware.go), App_State (app/app.go, bootstrap.go),
    Cert (app/cert.go, ovpn_template.go), Shared_Users_Sync, Vpn_Service, Vpn_Handlers, Vpn_By_Name,
    Admin_Handlers, Renewals_Handlers, Auth_Handlers (the files of app/ with these names), Server
    (server/server.go), Startup (cmd/server/main.go), Test_Support (testutil/app.go, testutil/http.go).
  \<^item> Panel_Inv: invariants of the store and of the router lifted through every handler to every
    request. Panel_Samples: a small panel for the examples. Access, Create_Props, Ledger_Props,
    Change_Props, Interleaving, Manager_Races, Disabled_Managers (two runs from worlds that differ in
    who is disabled) and this theory: the properties of the panel.

  What the theorems show.
  \<^item> Over every run of the panel, also when requests interleave statement by statement: the database
    keeps ids, uniqueness, checks and foreign keys, the router keeps its contract, a settlement is
    final, a manager keeps its slug. A request is made of such steps; alone, it leaves the cache true
    and the slugs of managers apart.
  \<^item> Start: an old database is migrated to one that every statement and every struct fits, a second
    start changes nothing, the first login works, and so does that of a manager who was just created;
    upgrading the oldest version erases the ledger.
  \<^item> Access: no effect without a token, the administrator's routes only for administrators, a manager
    reaches by id, and by name where the code looks, its own users only; login needs the password;
    tokens read back. Where the code does not look at the owner, a theorem says so; outside the login
    and the administrator's routes no answer depends on who is disabled.
  \<^item> Creating or patching a user respects the quota and changes one user only; a failed creation leaves
    nothing; a deletion removes the row, its activations and the router user; an assignment adds one
    profile and one row of the ledger. Where the quota is not looked at (enabling, assigning), a
    theorem says so.
  \<^item> What requests that interleave break: the quota, the cache, the slug check, and one of two updates
    of a manager.
  \<^item> Quota and dashboard are sums over the user list and agree; the ledger of a manager depends on its
    own activations only; settlement settles exactly the rows up to the chosen one.
  \<^item> The cache refines the client, the fake and the real client keep the contract, the real client's
    connection and scripts are right.

  Bounds and fuel. Loops over slices are structural recursion. The only loop with fuel is the
  password generator, with the 64 attempts of the code; its theorem says that it always returns. The
  matcher of LIKE and the scanners of Go_Strings terminate by a measure. Integers are unbounded where
  the code only stores or compares them and wrap where it computes.

  Not modelled: message texts (Persian), logs, CORS, request ids and HTTP time-outs, none of which
  changes state or status; goroutines and mutexes as such: a request run by itself is one function,
  requests that interleave are sequences of statements and client calls (\<open>panel_step\<close>), a call of the
  store or of the client below the cache being one step, and data races on the fields of the cache are
  not given a meaning; shutdown and signals. The Angular frontend and the router
  script are other programs; the package of the virtual-machine tests (vmtest) does not type-check
  (\<open>unwrapRouter\<close> returns an interface value as a \<open>*RouterOS\<close>). \<open>stringsJoin\<close> and the texts of SQL queries appear as the predicates they denote.
\<close>

section \<open>Runs of the panel\<close>

text \<open>
  One step of the running panel: it bootstraps the first administrator or answers a request with
  nothing in between; or a request that others interleave with makes one step of its own, a statement
  of the database or a step of the router; or the surroundings move (the clock, the entropy source, a
  database driver that begins or ceases to fail).
\<close>

inductive panel_step :: "'r app \<Rightarrow> 'r world \<Rightarrow> 'r world \<Rightarrow> bool" for a :: "'r app" where
  boot: "BootstrapAdmin a w = (r, w') \<Longrightarrow> panel_step a w w'"
| request: "serve a meth path rq w = (resp, w') \<Longrightarrow> panel_step a w w'"
| statement: "db_statement (w_db w) d \<Longrightarrow> panel_step a w (w\<lparr>w_db := d\<rparr>)"
| command: "router_step (Router a) (w_router w) c \<Longrightarrow> panel_step a w (w\<lparr>w_router := c\<rparr>)"
| clock: "w_now w \<le> t \<Longrightarrow> panel_step a w (w\<lparr>w_now := t\<rparr>)"
| entropy: "panel_step a w (w\<lparr>w_entropy := es\<rparr>)"
| faults: "panel_step a w (w\<lparr>w_db := (w_db w)\<lparr>db_fault := f\<rparr>\<rparr>)"

text \<open>What the statements keep and what the router's steps keep, every request keeps.\<close>

lemma serve_keeps:
  assumes "statement_invariant D" "router_invariant a R" "serve a meth path rq w = (resp, w')" "D (w_db w)" "R (w_router w)"
  shows "D (w_db w') \<and> R (w_router w')"
proof -
  have P: "panel_invariant D a R" by (intro panel_invariant.intro statement_invariant.axioms(1) assms(1,2))
  show ?thesis
    using preservesD' [OF panel_invariant.serve_inv [OF P panel_invariant.HandleCreateManager_inv [OF P
        statement_invariant.CreateManager_keeps [OF assms(1)]]] _ assms(3)] assms(4,5)
    by (simp add: panel_inv_def)
qed

text \<open>An invariant of the steps that ignores the driver's faults is one of every run.\<close>

lemma panel_run:
  assumes D: "statement_invariant D" and R: "command_invariant (Router a) R"
    and faults: "\<And>d f. D d \<Longrightarrow> D (d\<lparr>db_fault := f\<rparr>)"
    and "(panel_step a)\<^sup>*\<^sup>* w w'" "D (w_db w)" "R (w_router w)"
  shows "D (w_db w') \<and> R (w_router w')"
  using assms(4)
proof (induction rule: rtranclp_induct)
  case (step w1 w2)
  have P: "panel_invariant D a R"
    by (intro panel_invariant.intro statement_invariant.axioms(1) D command_router R)
  from step(2) show ?case
  proof cases
    case (boot r)
    then show ?thesis
      using preservesD' [OF panel_invariant.BootstrapAdmin_inv [OF P] _ boot] step.IH by (simp add: panel_inv_def)
  next
    case (request meth path rq resp)
    then show ?thesis using serve_keeps [OF D command_router [OF R] request] step.IH by blast
  next
    case (statement d)
    then show ?thesis using statement_invariant.statement_keeps [OF D] step.IH by simp
  next
    case (command c)
    then show ?thesis using command_invariant.step_keeps [OF R] step.IH by simp
  qed (use step.IH faults in auto)
qed (use assms(5,6) in simp)

lemma no_command_part: "command_invariant C (\<lambda>_. True)"
  by unfold_locales (simp_all add: preserves_def)

lemma no_router_part: "router_invariant a (\<lambda>_. True)"
  by (rule command_router [OF no_command_part])

lemma settled_run:
  assumes "(panel_step a)\<^sup>*\<^sup>* w w'" "settled_as i at adm (w_db w)"
  shows "settled_as i at adm (w_db w')"
  using panel_run [OF settled.statement_invariant_axioms no_command_part _ assms] by (simp add: settled_as_def)

lemma slug_run:
  assumes "(panel_step a)\<^sup>*\<^sup>* w w'" "slug_is i s (w_db w)"
  shows "slug_is i s (w_db w')"
  using panel_run [OF slug.statement_invariant_axioms no_command_part _ assms] by (simp add: slug_is_def)

section \<open>Properties of runs\<close>

text \<open>
  C1. Whatever requests the panel answers, one after the other or interleaved statement by statement
  and command by command, with the clock, the entropy source and the failures of the database driver
  moving as they like: the database keeps its integrity (ids, UNIQUE columns, foreign keys, positive
  quotas and slots), and a router that keeps its contract in single calls keeps it over the run.
\<close>

theorem panel_integrity:
  assumes "user_manager (Router a) ok users profiles" and "(panel_step a)\<^sup>*\<^sup>* w w'"
    and "db_ok (w_db w)" "ok (cc_inner (w_router w))"
  shows "db_ok (w_db w') \<and> ok (cc_inner (w_router w'))"
  by (rule panel_run [OF db_integrity.statement_invariant_axioms user_manager.contract_command [OF assms(1)] _ assms(2-4)])
    simp

lemma panel_integrity_witness:
  "db_ok (w_db (snd (serve sample_app ''DELETE'' [''api'', ''v1'', ''vpn-users'', ''1'']
     (sample_request ''Bearer t-ali'') sample_world)))"
proof -
  have step: "(panel_step sample_app)\<^sup>*\<^sup>* sample_world (snd (serve sample_app ''DELETE''
      [''api'', ''v1'', ''vpn-users'', ''1''] (sample_request ''Bearer t-ali'') sample_world))"
    by (rule r_into_rtranclp, rule panel_step.request) (rule prod.collapse [symmetric])
  have "db_ok (w_db sample_world)" "fake_ok (cc_inner (w_router sample_world))"
    using sample_cache_ok by (simp_all add: sample_world_def sample_db_ok cache_ok_def)
  then show ?thesis using panel_integrity [OF sample_router step] by simp
qed

text \<open>
  C6. A request is made of the steps above: what it does to the database is a sequence of statements, and
  what it does to the router a sequence of client calls and assignments to the cache, whatever it is
  answered. When nothing happens in between, it leaves a cache that agrees with the router.
\<close>

theorem request_is_steps:
  assumes "user_manager (Router a) ok users profiles" "cache_ok ok users profiles (w_router w)"
    and "serve a meth path r w = (resp, w')"
  shows "db_statement\<^sup>*\<^sup>* (w_db w) (w_db w') \<and> (router_step (Router a))\<^sup>*\<^sup>* (w_router w) (w_router w')
    \<and> cache_ok ok users profiles (w_router w')"
  using serve_keeps [OF reached.statement_invariant_axioms command_router [OF router_reached.command_invariant_axioms]
      assms(3) rtranclp.rtrancl_refl rtranclp.rtrancl_refl]
    serve_keeps [OF reached.statement_invariant_axioms panel_router [OF assms(1)] assms(3) rtranclp.rtrancl_refl assms(2)]
  by simp

lemma request_is_steps_witness:
  "db_statement\<^sup>*\<^sup>* sample_db (w_db (snd (serve sample_app ''DELETE'' [''api'', ''v1'', ''vpn-users'', ''1'']
     (sample_request ''Bearer t-ali'') sample_world)))"
  using request_is_steps [OF sample_router sample_cache_ok prod.collapse [symmetric]]
  by (simp add: sample_world_def)

text \<open>
  C2. A settlement is final: in every later state of the panel the activation, if it still exists,
  is settled at the same time by the same administrator.
\<close>

theorem settlement_is_final:
  assumes "(panel_step a)\<^sup>*\<^sup>* w w'" "db_ok (w_db w)"
    and "act \<in> set (db_acts (w_db w))" "act_IsSettled act"
    and "act' \<in> set (db_acts (w_db w'))" "act_ID act' = act_ID act"
  shows "act_IsSettled act' \<and> act_SettledAt act' = act_SettledAt act
    \<and> act_SettledByAdminID act' = act_SettledByAdminID act"
proof -
  have "settled_as (act_ID act) (act_SettledAt act) (act_SettledByAdminID act) (w_db w)"
    using assms(2-4) unfolding settled_as_def by (metis db_ok_ids(4) ids_ok_seq ids_ok_unique)
  from settled_run [OF assms(1) this] show ?thesis using assms(5,6) by (simp add: settled_as_def)
qed

lemma settlement_is_final_witness:
  "act_SettledByAdminID (hd (db_acts (w_db (settled_world\<lparr>w_now := 5\<rparr>)))) = Some 1"
proof -
  have run: "(panel_step sample_app)\<^sup>*\<^sup>* settled_world (settled_world\<lparr>w_now := 5\<rparr>)"
    by (rule r_into_rtranclp, rule panel_step.clock) (simp add: settled_world_def sample_world_def)
  have ok: "db_ok (w_db settled_world)" using sample_settled_ok by (simp add: settled_world_def)
  let ?act = "settle_row 0 1 (sample_act 1 1 2 ''2025-01-01 00:00:00'' False)"
  have "db_acts (w_db settled_world) = [?act, sample_act 2 2 1 ''2025-01-02 00:00:00'' False]"
    by (simp add: settled_world_def settled_db_def)
  then show ?thesis using settlement_is_final [OF run ok, of ?act ?act] by simp
qed

text \<open>
  C4. A manager keeps its slug for ever, and no manager disappears: whatever name a user was created
  with for a manager, its prefix resolves to this manager in every later state with slugs apart.
\<close>

theorem names_keep_their_owner:
  assumes "(panel_step a)\<^sup>*\<^sup>* w w'" "db_ok (w_db w)" "m \<in> set (db_managers (w_db w))"
    and "slugs_apart (map mgr_Slug (db_managers (w_db w')))"
  shows "Resolve (BuildRegistry (db_managers (w_db w')) sep) (mgr_Slug m @ sep @ local_name) comment = mgr_ID m"
proof -
  have "slug_is (mgr_ID m) (mgr_Slug m) (w_db w)"
    using assms(2,3) unfolding slug_is_def by (auto dest: ids_ok_seq [OF db_ok_ids(2)] ids_ok_unique [OF db_ok_ids(2)])
  from slug_run [OF assms(1) this] obtain m' where m': "m' \<in> set (db_managers (w_db w'))"
    "mgr_ID m' = mgr_ID m" "mgr_Slug m' = mgr_Slug m"
    by (auto simp: slug_is_def)
  show ?thesis using Resolve_created [OF assms(4) m'(1), of sep local_name comment] m'(2,3) by simp
qed

lemma names_keep_their_owner_witness:
  "Resolve (BuildRegistry (db_managers (w_db (sample_world\<lparr>w_now := 5\<rparr>))) ''_'') (''ali'' @ ''_'' @ ''home'') ''panel=reza'' = 1"
proof -
  have run: "(panel_step sample_app)\<^sup>*\<^sup>* sample_world (sample_world\<lparr>w_now := 5\<rparr>)"
    by (rule r_into_rtranclp, rule panel_step.clock) (simp add: sample_world_def)
  have "db_ok (w_db sample_world)" by (simp add: sample_world_def sample_db_ok)
  from names_keep_their_owner [OF run this, of "sample_manager 1 ''ali''" "''_''" "''home''" "''panel=reza''"]
  show ?thesis
    by (simp add: sample_world_def sample_db_def sample_manager_def slugs_apart_def comparable_def)
qed

text \<open>
  C5. No request makes two managers' slugs overlap, as long as the query for the slugs does not fail.
\<close>

theorem slugs_stay_apart:
  assumes "serve a meth path r w = (resp, w')" "\<not> db_fault (w_db w) S_ListManagerSlugs"
    and "slugs_apart (map mgr_Slug (db_managers (w_db w)))"
  shows "slugs_apart (map mgr_Slug (db_managers (w_db w')))"
proof -
  have "panel_inv slugs_ok (\<lambda>_. True) w" using assms(2,3) by (simp add: panel_inv_def slugs_ok_def)
  from preservesD' [OF panel_invariant.serve_inv [OF router_invariant.slugs_panel [OF no_router_part]
        router_invariant.HandleCreateManager_slugs [OF no_router_part]] this assms(1)]
  show ?thesis by (simp add: panel_inv_def slugs_ok_def)
qed

lemma slugs_stay_apart_witness:
  "slugs_apart (map mgr_Slug (db_managers (w_db (snd (serve sample_app ''POST'' [''api'', ''v1'', ''admin'', ''managers'']
     (create_manager_request ''alireza'') sample_world)))))"
proof (rule slugs_stay_apart)
  show "serve sample_app ''POST'' [''api'', ''v1'', ''admin'', ''managers''] (create_manager_request ''alireza'') sample_world
    = (fst (serve sample_app ''POST'' [''api'', ''v1'', ''admin'', ''managers''] (create_manager_request ''alireza'') sample_world),
       snd (serve sample_app ''POST'' [''api'', ''v1'', ''admin'', ''managers''] (create_manager_request ''alireza'') sample_world))"
    by simp
qed (simp_all add: sample_world_def sample_db_def sample_manager_def slugs_apart_def comparable_def)

end
